(* ===== verification/Prelude.thy ===== *)
theory Prelude
  imports Complex_Main "HOL-Library.AList" "HOL-Library.Word"
begin

text \<open>
  Shared ground of the development: the collection of invariant preservation rules, the types that
  stand for Python values (JSON data, HTTP headers and responses, insertion-ordered dicts),
  and the generic lemmas on lists and association lists that the components use.

  Conventions. A Python \<^verbatim>\<open>str\<close> is a \<^typ>\<open>string\<close>, one \<^typ>\<open>char\<close> per code point below 256
  (HTTP header values are decoded as Latin-1 by the server). A Python float is the rational
  it denotes, without rounding. A Python dict is an association list with distinct keys in
  insertion order: \<^const>\<open>map_of\<close> looks up, \<^const>\<open>AList.update\<close> overwrites in place or
  appends, \<^const>\<open>AList.delete\<close> removes.
\<close>

named_theorems wf_intros \<open>preservation of the components' invariants\<close>

type_synonym pyfloat = rat
type_synonym ('k, 'v) dict = "('k \<times> 'v) list"

section \<open>JSON values\<close>

datatype json =
    JNull
  | JBool bool
  | JInt int
  | JFloat rat
  | JStr string
  | JArr "json list"
  | JObj "(string \<times> json) list"

section \<open>HTTP requests and responses\<close>

type_synonym headers = "(string \<times> string) list"

datatype content = JSONBody json | Bytes string | EventStream

record response =
  resp_status :: nat
  resp_headers :: headers
  resp_body :: content

text \<open>
  What a handler of the web framework ends with: a response, an \<^verbatim>\<open>HTTPException\<close> that the
  framework turns into one (status, detail, extra headers), or any other exception.
\<close>

datatype http_error =
    HTTPException nat string headers
  | ServerError string

definition detail_body :: "string \<Rightarrow> json" where
  "detail_body d = JObj [(''detail'', JStr d)]"

definition JSONResponse :: "nat \<Rightarrow> json \<Rightarrow> headers \<Rightarrow> response" where
  "JSONResponse st b hs = \<lparr>resp_status = st, resp_headers = hs, resp_body = JSONBody b\<rparr>"

lemma JSONResponse_sel [simp]:
  "resp_status (JSONResponse st b hs) = st"
  "resp_headers (JSONResponse st b hs) = hs"
  "resp_body (JSONResponse st b hs) = JSONBody b"
  by (simp_all add: JSONResponse_def)

section \<open>Lists\<close>

lemma takeWhile_all: "\<forall>x\<in>set xs. P x \<Longrightarrow> takeWhile P xs = xs"
  by (induction xs) auto

lemma dropWhile_none: "\<forall>x\<in>set xs. \<not> P x \<Longrightarrow> dropWhile P xs = xs"
  by (cases xs) auto

lemma dropWhile_hd_not: "xs \<noteq> [] \<Longrightarrow> \<not> P (hd xs) \<Longrightarrow> dropWhile P xs = xs"
  by (cases xs) auto

lemma list_all_rev: "(\<forall>x\<in>set (rev xs). P x) \<longleftrightarrow> (\<forall>x\<in>set xs. P x)"
  by simp

lemma append_eq_sep:
  assumes "xs @ c # ys = xs' @ c # ys'" "c \<notin> set xs" "c \<notin> set xs'"
  shows "xs = xs' \<and> ys = ys'"
  using assms
proof (induction xs arbitrary: xs')
  case Nil
  then show ?case by (cases xs') auto
next
  case (Cons a xs)
  then show ?case by (cases xs') auto
qed

lemma filter_single: "distinct (map f xs) \<Longrightarrow> u \<in> set xs \<Longrightarrow> filter (\<lambda>x. f x = f u) xs = [u]"
proof (induction xs)
  case (Cons x xs)
  then show ?case
  proof (cases "f x = f u")
    case True
    then have "f u \<notin> f ` set xs" using Cons.prems(1) by auto
    moreover have "x = u" using Cons.prems True by force
    ultimately show ?thesis by (simp add: filter_empty_conv) (metis imageI)
  next
    case False
    with Cons show ?thesis by auto
  qed
qed simp

lemma filter_key_single: "distinct (map f xs) \<Longrightarrow> length (filter (\<lambda>x. f x = v) xs) \<le> 1"
proof (cases "filter (\<lambda>x. f x = v) xs")
  case (Cons u us)
  then have "u \<in> set xs" "f u = v" by (auto simp: filter_eq_Cons_iff)
  moreover assume "distinct (map f xs)"
  ultimately show ?thesis using filter_single [of f xs u] by simp
qed simp

section \<open>Association lists as dicts\<close>

lemma map_of_update [simp]: "map_of (AList.update k v d) = (map_of d)(k \<mapsto> v)"
  by (simp add: update_conv')

lemma map_of_delete [simp]: "map_of (AList.delete k d) = (map_of d)(k := None)"
  by (simp add: delete_conv')

lemma length_update:
  "length (AList.update k v d) = (if k \<in> fst ` set d then length d else Suc (length d))"
  by (induction d) auto

lemma map_of_None_notin: "map_of d k = None \<longleftrightarrow> k \<notin> fst ` set d"
  by (rule map_of_eq_None_iff)

lemma update_new: "k \<notin> fst ` set d \<Longrightarrow> AList.update k v d = d @ [(k, v)]"
  by (induction d) auto

lemma set_update_subset: "set (AList.update k v d) \<subseteq> insert (k, v) (set d)"
  by (induction d) auto

lemma set_delete_subset: "set (AList.delete k d) \<subseteq> set d"
  by (induction d) auto

lemma distinct_delete_keys: "distinct (map fst d) \<Longrightarrow> distinct (map fst (AList.delete k d))"
  by (rule distinct_delete)

lemma delete_not_in: "k \<notin> fst ` set d \<Longrightarrow> AList.delete k d = d"
  by (induction d) auto

lemma length_delete_in:
  "distinct (map fst d) \<Longrightarrow> k \<in> fst ` set d \<Longrightarrow> Suc (length (AList.delete k d)) = length d"
proof (induction d)
  case Nil
  then show ?case by simp
next
  case (Cons p d)
  show ?case
  proof (cases "fst p = k")
    case True
    with Cons.prems have "k \<notin> fst ` set d" by auto
    with True show ?thesis by (simp add: delete_not_in)
  next
    case False
    with Cons show ?thesis by auto
  qed
qed

end
