(* ===== verification/PyText.thy ===== *)
theory PyText
  imports Prelude
begin

text \<open>
  The Python text operations the services use: \<^verbatim>\<open>str.strip\<close>, \<^verbatim>\<open>str.lower\<close>, \<^verbatim>\<open>str.split\<close>,
  \<^verbatim>\<open>str.join\<close>, \<^verbatim>\<open>str.replace\<close>, \<^verbatim>\<open>int()\<close> on text, \<^verbatim>\<open>str()\<close> on integers, \<^verbatim>\<open>uuid.UUID\<close> and its
  printed form, \<^verbatim>\<open>base64\<close> and UTF-8 encoding, each as CPython 3.12 computes it on code points
  below 256. The lemmas are the round trips the services rely on.
\<close>

section \<open>Characters\<close>

definition py_isspace :: "char \<Rightarrow> bool" where
  "py_isspace c \<longleftrightarrow> (of_char c :: nat) \<in> set [9,10,11,12,13,28,29,30,31,32,133,160]"

text \<open>The blanks \<^verbatim>\<open>int()\<close> skips are fewer: the separators 28 to 31 are not among them.\<close>

definition int_isspace :: "char \<Rightarrow> bool" where
  "int_isspace c \<longleftrightarrow> (of_char c :: nat) \<in> set [9,10,11,12,13,32,133,160]"

definition py_lower_char :: "char \<Rightarrow> char" where
  "py_lower_char c =
     (let n = (of_char c :: nat) in
      if (65 \<le> n \<and> n \<le> 90) \<or> (192 \<le> n \<and> n \<le> 222 \<and> n \<noteq> 215) then char_of (n + 32) else c)"

definition py_lower :: "string \<Rightarrow> string" where
  "py_lower s = map py_lower_char s"

definition py_isupper_char :: "char \<Rightarrow> bool" where
  "py_isupper_char c =
     (let n = (of_char c :: nat) in (65 \<le> n \<and> n \<le> 90) \<or> (192 \<le> n \<and> n \<le> 222 \<and> n \<noteq> 215))"

text \<open>\<^verbatim>\<open>str.isdigit\<close> also holds of the superscripts two, three and one.\<close>

definition py_isdigit_char :: "char \<Rightarrow> bool" where
  "py_isdigit_char c = (let n = (of_char c :: nat) in (48 \<le> n \<and> n \<le> 57) \<or> n \<in> set [178, 179, 185])"

section \<open>strip, split, join, replace\<close>

definition strip_by :: "(char \<Rightarrow> bool) \<Rightarrow> string \<Rightarrow> string" where
  "strip_by p s = rev (dropWhile p (rev (dropWhile p s)))"

abbreviation py_strip :: "string \<Rightarrow> string" where
  "py_strip \<equiv> strip_by py_isspace"

fun py_split :: "char \<Rightarrow> string \<Rightarrow> string list" where
  "py_split d [] = [[]]"
| "py_split d (c # s) =
     (if c = d then [] # py_split d s
      else (case py_split d s of [] \<Rightarrow> [[c]] | w # ws \<Rightarrow> (c # w) # ws))"

fun py_join :: "string \<Rightarrow> string list \<Rightarrow> string" where
  "py_join d [] = []"
| "py_join d [w] = w"
| "py_join d (w # v # ws) = w @ d @ py_join d (v # ws)"

definition starts_with :: "string \<Rightarrow> string \<Rightarrow> bool" where
  "starts_with p s \<longleftrightarrow> take (length p) s = p"

function py_replace :: "string \<Rightarrow> string \<Rightarrow> string \<Rightarrow> string" where
  "py_replace p r s =
     (if p = [] \<or> s = [] then s
      else if starts_with p s then r @ py_replace p r (drop (length p) s)
      else hd s # py_replace p r (tl s))"
  by pat_completeness auto
termination
  by (relation "measure (\<lambda>(p, r, s). length s)") auto

declare py_replace.simps [simp del]

lemma strip_by_none: "\<forall>c\<in>set s. \<not> p c \<Longrightarrow> strip_by p s = s"
  by (simp add: strip_by_def dropWhile_none)

lemma strip_by_set: "set (strip_by p s) \<subseteq> set s"
  unfolding strip_by_def by (metis set_dropWhileD set_rev subsetI)

lemma strip_by_ends:
  assumes "strip_by p s \<noteq> []"
  shows "\<not> p (hd (strip_by p s))" and "\<not> p (last (strip_by p s))"
proof -
  let ?a = "dropWhile p s" and ?b = "dropWhile p (rev (dropWhile p s))"
  from assms have b: "?b \<noteq> []" by (simp add: strip_by_def)
  then have hb: "\<not> p (hd ?b)" by (rule hd_dropWhile)
  have a: "?a \<noteq> []" using b by (cases ?a) auto
  then have ha: "\<not> p (hd ?a)" by (rule hd_dropWhile)
  have "last (takeWhile p (rev ?a) @ ?b) = last ?b"
    using b by (rule last_appendR)
  then have "last ?b = last (rev ?a)" by (simp only: takeWhile_dropWhile_id)
  also have "\<dots> = hd ?a" using a by (simp add: last_rev)
  finally have l: "last ?b = hd ?a" .
  show "\<not> p (hd (strip_by p s))" using ha l b by (simp add: strip_by_def hd_rev)
  show "\<not> p (last (strip_by p s))" using hb b by (simp add: strip_by_def last_rev)
qed

lemma strip_by_eq_Nil: "strip_by p s = [] \<longleftrightarrow> (\<forall>c\<in>set s. p c)"
proof (cases "dropWhile p s = []")
  case True
  then have "\<forall>c\<in>set s. p c" by simp
  then show ?thesis by (simp only: strip_by_def True) simp
next
  case False
  then have h: "\<not> p (hd (dropWhile p s))" by (rule hd_dropWhile)
  from False have i: "hd (dropWhile p s) \<in> set (dropWhile p s)" by simp
  then have "hd (dropWhile p s) \<in> set s" by (rule set_dropWhileD)
  with h i show ?thesis by (auto simp: strip_by_def)
qed

lemma strip_by_idem: "strip_by p (strip_by p s) = strip_by p s"
proof (cases "strip_by p s = []")
  case True
  show ?thesis unfolding True by (simp add: strip_by_def)
next
  case False
  let ?t = "strip_by p s"
  have 1: "dropWhile p ?t = ?t"
    using strip_by_ends(1) [OF False] False by (simp add: dropWhile_hd_not)
  have 2: "dropWhile p (rev ?t) = rev ?t"
    using strip_by_ends(2) [OF False] False by (simp add: dropWhile_hd_not hd_rev)
  show ?thesis by (subst strip_by_def) (simp add: 1 2)
qed

lemma py_split_nonempty [simp]: "py_split d s \<noteq> []"
  by (induction s) (auto split: list.splits)

lemma py_split_single: "d \<notin> set s \<Longrightarrow> py_split d s = [s]"
  by (induction s) auto

lemma py_split_append: "d \<notin> set w \<Longrightarrow> py_split d (w @ d # s) = w # py_split d s"
  by (induction w) auto

lemma py_split_join:
  "ws \<noteq> [] \<Longrightarrow> \<forall>w\<in>set ws. d \<notin> set w \<Longrightarrow> py_split d (py_join [d] ws) = ws"
  by (induction "[d]" ws rule: py_join.induct) (auto simp: py_split_single py_split_append)

lemma py_join_split: "py_join [d] (py_split d s) = s"
proof (induction s)
  case (Cons c s)
  obtain w ws where "py_split d s = w # ws" by (cases "py_split d s") auto
  with Cons show ?case by (cases ws) auto
qed simp

lemma py_split_no_sep: "w \<in> set (py_split d s) \<Longrightarrow> d \<notin> set w"
proof (induction s arbitrary: w)
  case (Cons c s)
  obtain v vs where "py_split d s = v # vs" by (cases "py_split d s") auto
  with Cons show ?case by (auto split: if_splits)
qed simp

lemma starts_with_nth: "starts_with p s \<Longrightarrow> p = c # q \<Longrightarrow> c \<in> set s"
  by (cases s) (auto simp: starts_with_def)

lemma starts_with_append: "starts_with p (p @ s)"
  by (simp add: starts_with_def)

lemma py_replace_absent: "\<exists>c\<in>set p. c \<notin> set s \<Longrightarrow> py_replace p r s = s"
proof (induction p r s rule: py_replace.induct)
  case (1 p r s)
  have "\<not> starts_with p s \<or> p = []"
    using "1.prems" unfolding starts_with_def by (metis in_set_takeD)
  moreover have "\<exists>c\<in>set p. c \<notin> set (tl s)" if "s \<noteq> []"
    using "1.prems" by (meson list.set_sel(2) that)
  ultimately show ?case
    using "1.IH" by (subst py_replace.simps) auto
qed

lemma py_replace_char: "py_replace [d] [] s = filter (\<lambda>c. c \<noteq> d) s"
  by (induction s) (subst py_replace.simps; simp add: starts_with_def)+

section \<open>Numbers as text\<close>

definition dec_val :: "char \<Rightarrow> nat option" where
  "dec_val c = (let n = (of_char c :: nat) in if 48 \<le> n \<and> n \<le> 57 then Some (n - 48) else None)"

definition hex_val :: "char \<Rightarrow> nat option" where
  "hex_val c =
     (let n = (of_char c :: nat) in
      if 48 \<le> n \<and> n \<le> 57 then Some (n - 48)
      else if 97 \<le> n \<and> n \<le> 102 then Some (n - 87)
      else if 65 \<le> n \<and> n \<le> 70 then Some (n - 55)
      else None)"

definition digit_char :: "nat \<Rightarrow> char" where
  "digit_char n = char_of (if n < 10 then 48 + n else 87 + n)"

text \<open>Digits with single underscores between them, as the number parser of CPython reads them.\<close>

fun num_tail :: "(char \<Rightarrow> nat option) \<Rightarrow> nat \<Rightarrow> nat \<Rightarrow> string \<Rightarrow> nat option" where
  "num_tail dv b acc [] = Some acc"
| "num_tail dv b acc (c # cs) =
     (case dv c of
        Some d \<Rightarrow> num_tail dv b (b * acc + d) cs
      | None \<Rightarrow>
          if c = CHR ''_'' then
            (case cs of
               [] \<Rightarrow> None
             | e # es \<Rightarrow> (case dv e of Some d \<Rightarrow> num_tail dv b (b * acc + d) es | None \<Rightarrow> None))
          else None)"

definition num_body :: "(char \<Rightarrow> nat option) \<Rightarrow> nat \<Rightarrow> string \<Rightarrow> nat option" where
  "num_body dv b s =
     (case s of
        [] \<Rightarrow> None
      | c # cs \<Rightarrow> (case dv c of Some d \<Rightarrow> num_tail dv b d cs | None \<Rightarrow> None))"

definition split_sign :: "string \<Rightarrow> bool \<times> string" where
  "split_sign s =
     (case s of
        [] \<Rightarrow> (False, [])
      | c # cs \<Rightarrow> if c = CHR ''-'' then (True, cs)
                  else if c = CHR ''+'' then (False, cs) else (False, s))"

definition signed :: "bool \<Rightarrow> nat \<Rightarrow> int" where
  "signed neg n = (if neg then - int n else int n)"

text \<open>\<^verbatim>\<open>int(s)\<close>: \<^const>\<open>None\<close> is \<^verbatim>\<open>ValueError\<close>, which more than 4300 digits also raise.\<close>

definition py_int :: "string \<Rightarrow> int option" where
  "py_int s =
     (let (neg, u) = split_sign (strip_by int_isspace s) in
      if length (filter (\<lambda>c. dec_val c \<noteq> None) u) > 4300 then None
      else map_option (signed neg) (num_body dec_val 10 u))"

text \<open>\<^verbatim>\<open>int(s, 16)\<close>, with the optional prefix \<^verbatim>\<open>0x\<close> and one underscore after it.\<close>

definition drop_0x :: "string \<Rightarrow> string" where
  "drop_0x u =
     (if take 2 u = ''0x'' \<or> take 2 u = ''0X'' then
        (if take 1 (drop 2 u) = ''_'' then drop 3 u else drop 2 u)
      else u)"

definition py_int16 :: "string \<Rightarrow> int option" where
  "py_int16 s =
     (let (neg, u) = split_sign (strip_by int_isspace s) in
      map_option (signed neg) (num_body hex_val 16 (drop_0x u)))"

fun str_nat :: "nat \<Rightarrow> string" where
  "str_nat n = (if n < 10 then [digit_char n] else str_nat (n div 10) @ [digit_char (n mod 10)])"

declare str_nat.simps [simp del]

definition str_int :: "int \<Rightarrow> string" where
  "str_int i = (if i < 0 then CHR ''-'' # str_nat (nat (- i)) else str_nat (nat i))"

fun hex_pad :: "nat \<Rightarrow> nat \<Rightarrow> string" where
  "hex_pad 0 n = []"
| "hex_pad (Suc k) n = hex_pad k (n div 16) @ [digit_char (n mod 16)]"

lemma of_char_digit: "n < 16 \<Longrightarrow> (of_char (digit_char n) :: nat) = (if n < 10 then 48 + n else 87 + n)"
  by (simp add: digit_char_def)

lemma hex_val_digit [simp]: "n < 16 \<Longrightarrow> hex_val (digit_char n) = Some n"
  by (auto simp: hex_val_def of_char_digit Let_def)

lemma dec_val_digit [simp]: "n < 10 \<Longrightarrow> dec_val (digit_char n) = Some n"
  by (auto simp: dec_val_def of_char_digit Let_def)

lemma num_tail_append:
  "\<forall>c\<in>set s. dv c \<noteq> None \<Longrightarrow>
   num_tail dv b acc (s @ t) = num_tail dv b (the (num_tail dv b acc s)) t \<and>
   num_tail dv b acc s \<noteq> None"
  by (induction s arbitrary: acc) auto

lemma hex_pad_length [simp]: "length (hex_pad k n) = k"
  by (induction k arbitrary: n) auto

lemma hex_pad_digits: "c \<in> set (hex_pad k n) \<Longrightarrow> \<exists>d<16. c = digit_char d"
proof (induction k arbitrary: n)
  case (Suc k)
  have "n mod 16 < 16" by simp
  with Suc show ?case by fastforce
qed simp

lemma str_nat_digits: "c \<in> set (str_nat n) \<Longrightarrow> \<exists>d<10. c = digit_char d"
proof (induction n rule: str_nat.induct)
  case (1 n)
  from "1.prems" have "n < 10 \<and> c = digit_char n \<or>
      \<not> n < 10 \<and> (c \<in> set (str_nat (n div 10)) \<or> c = digit_char (n mod 10))"
    by (subst (asm) str_nat.simps) (auto split: if_splits)
  moreover have "n mod 10 < 10" by simp
  ultimately show ?case using "1.IH" by blast
qed

lemma str_nat_nonempty [simp]: "str_nat n \<noteq> []"
  by (subst str_nat.simps) simp

lemma hex_pad_value: "num_tail hex_val 16 acc (hex_pad k n) = Some (acc * 16 ^ k + n mod 16 ^ k)"
proof (induction k arbitrary: n)
  case 0
  then show ?case by simp
next
  case (Suc k)
  have "\<forall>c\<in>set (hex_pad k (n div 16)). hex_val c \<noteq> None"
    using hex_pad_digits by fastforce
  then have "num_tail hex_val 16 acc (hex_pad (Suc k) n) =
      Some (16 * (acc * 16 ^ k + n div 16 mod 16 ^ k) + n mod 16)"
    by (simp add: num_tail_append Suc)
  also have "16 * (n div 16 mod 16 ^ k) + n mod 16 = n mod 16 ^ Suc k"
    by (simp add: mod_mult2_eq)
  then have "16 * (acc * 16 ^ k + n div 16 mod 16 ^ k) + n mod 16 = acc * 16 ^ Suc k + n mod 16 ^ Suc k"
    by (simp add: algebra_simps)
  finally show ?case .
qed

lemma str_nat_value: "num_body dec_val 10 (str_nat n) = Some n"
proof (induction n rule: str_nat.induct)
  case (1 n)
  show ?case
  proof (cases "n < 10")
    case True
    then show ?thesis by (subst str_nat.simps) (simp add: num_body_def)
  next
    case False
    obtain c s where cs: "str_nat (n div 10) = c # s" by (cases "str_nat (n div 10)") auto
    have d: "\<forall>e\<in>set (c # s). dec_val e \<noteq> None"
      using str_nat_digits [of _ "n div 10"] cs by fastforce
    from "1.IH" False cs have IH: "num_tail dec_val 10 (the (dec_val c)) s = Some (n div 10)"
      using d by (auto simp: num_body_def split: option.splits)
    have "num_body dec_val 10 (c # s @ [digit_char (n mod 10)]) = Some n"
      using d IH by (auto simp: num_body_def num_tail_append)
    with False cs show ?thesis by (subst str_nat.simps) simp
  qed
qed

lemma digit_char_plain:
  assumes "d < 16"
  shows "\<not> int_isspace (digit_char d)" "digit_char d \<noteq> CHR ''-''" "digit_char d \<noteq> CHR ''+''"
    "digit_char d \<noteq> CHR ''x''" "digit_char d \<noteq> CHR ''X''" "digit_char d \<noteq> CHR ''u''"
    "digit_char d \<noteq> CHR ''{''" "digit_char d \<noteq> CHR ''}''" "\<not> py_isspace (digit_char d)"
    "digit_char d \<noteq> CHR '':''" "digit_char d \<noteq> CHR ''|''"
proof -
  have *: "of_char (digit_char d) \<in> {48..57} \<union> {97..(102::nat)}"
    using assms by (auto simp: of_char_digit)
  show "\<not> int_isspace (digit_char d)" "\<not> py_isspace (digit_char d)"
    using * by (auto simp: int_isspace_def py_isspace_def)
  show "digit_char d \<noteq> CHR ''-''" "digit_char d \<noteq> CHR ''+''"
    "digit_char d \<noteq> CHR ''x''" "digit_char d \<noteq> CHR ''X''" "digit_char d \<noteq> CHR ''u''"
    "digit_char d \<noteq> CHR ''{''" "digit_char d \<noteq> CHR ''}''"
    "digit_char d \<noteq> CHR '':''" "digit_char d \<noteq> CHR ''|''"
    using * by auto
qed

lemma str_nat_hd: "dec_val (hd (str_nat n)) \<noteq> None"
  using str_nat_digits [of "hd (str_nat n)" n] by (auto simp: dec_val_digit)

lemma str_int_no_space: "\<forall>c\<in>set (str_int i). \<not> int_isspace c"
  using str_nat_digits digit_char_plain(1)
  by (fastforce simp: str_int_def int_isspace_def split: if_splits)

lemma str_int_bar: "CHR ''|'' \<notin> set (str_int i)"
proof
  assume "CHR ''|'' \<in> set (str_int i)"
  then obtain d where "d < 10" "CHR ''|'' = digit_char d"
    using str_nat_digits by (auto simp: str_int_def split: if_splits)
  then show False using digit_char_plain(11) [of d] by simp
qed

lemma str_nat_length: "n < 10 ^ k \<Longrightarrow> 0 < k \<Longrightarrow> length (str_nat n) \<le> k"
proof (induction n arbitrary: k rule: str_nat.induct)
  case (1 n)
  show ?case
  proof (cases "n < 10")
    case True
    with 1 show ?thesis by (subst str_nat.simps) simp
  next
    case False
    with "1.prems" obtain j where k: "k = Suc j" "0 < j"
      by (cases k; cases "k - 1") auto
    with "1.prems" have "n div 10 < 10 ^ j" by (simp add: div_less_iff_less_mult mult.commute)
    with "1.IH" False k(2) have "length (str_nat (n div 10)) \<le> j" by blast
    with False k show ?thesis by (subst str_nat.simps) simp
  qed
qed

lemma split_sign_str_int:
  "split_sign (str_int i) = (i < 0, str_nat (nat \<bar>i\<bar>))"
proof (cases "i < 0")
  case True
  then show ?thesis by (simp add: str_int_def split_sign_def)
next
  case False
  obtain c s where cs: "str_nat (nat i) = c # s" by (cases "str_nat (nat i)") auto
  then obtain d where "d < 10" "c = digit_char d"
    using str_nat_digits [of c "nat i"] by auto
  then have "c \<noteq> CHR ''-''" "c \<noteq> CHR ''+''" using digit_char_plain by auto
  with False cs show ?thesis by (simp add: str_int_def split_sign_def)
qed

lemma py_int_str_int:
  assumes "\<bar>i\<bar> < 10 ^ k" "k \<le> 4300"
  shows "py_int (str_int i) = Some i"
proof -
  have "nat \<bar>i\<bar> < 10 ^ Suc k"
    using assms(1) by (simp add: nat_less_iff)
  then have "length (str_nat (nat \<bar>i\<bar>)) \<le> 4300"
  proof (cases "k = 0")
    case True
    with assms(1) show ?thesis by (subst str_nat.simps) simp
  next
    case False
    from assms(1) have "nat \<bar>i\<bar> < 10 ^ k" by (simp add: nat_less_iff)
    with False assms(2) show ?thesis using str_nat_length [of "nat \<bar>i\<bar>" k] by simp
  qed
  then have "\<not> length (filter (\<lambda>c. dec_val c \<noteq> None) (str_nat (nat \<bar>i\<bar>))) > 4300"
    using length_filter_le [of "\<lambda>c. dec_val c \<noteq> None" "str_nat (nat \<bar>i\<bar>)"] by linarith
  then show ?thesis
    by (simp add: py_int_def strip_by_none str_int_no_space split_sign_str_int str_nat_value
        signed_def)
qed

end
