(* ===== verification/TokenStore.thy ===== *)
theory TokenStore
  imports PyText
begin

text \<open>
  The Redis client of the user service (\<^verbatim>\<open>redis_client.py\<close>): refresh, verification and reset
  tokens, and the per-account lockout counter.

  The server is the record of operations \<open>'r redis\<close> over a state \<open>'r\<close>: every operation takes the
  clock of the server, and may fail (an exception of the client library). What the code relies on
  is the predicate \<open>redis_laws\<close>, which states the documented behaviour of the commands through
  \<open>live now r k\<close>, the value under a key at a time. The three token spaces share the locale
  \<open>token_space\<close>.
\<close>

section \<open>The server\<close>

record 'r redis =
  rd_ping :: "pyfloat \<Rightarrow> 'r \<Rightarrow> bool \<times> 'r"
  rd_setex :: "pyfloat \<Rightarrow> string \<Rightarrow> int \<Rightarrow> string \<Rightarrow> 'r \<Rightarrow> bool \<times> 'r"
  rd_getdel :: "pyfloat \<Rightarrow> string \<Rightarrow> 'r \<Rightarrow> string option option \<times> 'r"
  rd_delete :: "pyfloat \<Rightarrow> string \<Rightarrow> 'r \<Rightarrow> bool \<times> 'r"
  rd_get :: "pyfloat \<Rightarrow> string \<Rightarrow> 'r \<Rightarrow> string option option \<times> 'r"
  rd_incr_expire_nx :: "pyfloat \<Rightarrow> string \<Rightarrow> int \<Rightarrow> 'r \<Rightarrow> int option \<times> 'r"

type_synonym 'r live = "pyfloat \<Rightarrow> 'r \<Rightarrow> string \<Rightarrow> string option"

text \<open>
  \<open>same_but now ks live r r'\<close>: from \<open>now\<close> on, the two states agree outside the keys \<open>ks\<close>. An
  operation that fails may or may not have been executed; reads and pings change nothing.
\<close>

definition same_but :: "pyfloat \<Rightarrow> string set \<Rightarrow> 'r live \<Rightarrow> 'r \<Rightarrow> 'r \<Rightarrow> bool" where
  "same_but now ks live r r' \<longleftrightarrow> (\<forall>t\<ge>now. \<forall>k. k \<notin> ks \<longrightarrow> live t r' k = live t r k)"

definition gone :: "pyfloat \<Rightarrow> string \<Rightarrow> 'r live \<Rightarrow> 'r \<Rightarrow> bool" where
  "gone now k live r \<longleftrightarrow> (\<forall>t\<ge>now. live t r k = None)"

definition has_deadline :: "pyfloat \<Rightarrow> string \<Rightarrow> 'r live \<Rightarrow> 'r \<Rightarrow> bool" where
  "has_deadline now k live r \<longleftrightarrow> (\<exists>t\<ge>now. live t r k = None)"

definition only_removes :: "pyfloat \<Rightarrow> 'r live \<Rightarrow> 'r \<Rightarrow> 'r \<Rightarrow> bool" where
  "only_removes now live r r' \<longleftrightarrow> (\<forall>t\<ge>now. \<forall>k. live t r' k = None \<or> live t r' k = live t r k)"

definition expires :: "'r live \<Rightarrow> bool" where
  "expires live \<longleftrightarrow> (\<forall>r k t t'. t \<le> t' \<longrightarrow> live t' r k = None \<or> live t' r k = live t r k)"

definition count_of :: "string option \<Rightarrow> int" where
  "count_of raw = (case raw of None \<Rightarrow> 0 | Some s \<Rightarrow> (case py_int s of Some n \<Rightarrow> n | None \<Rightarrow> 0))"

definition redis_laws :: "'r redis \<Rightarrow> 'r live \<Rightarrow> bool" where
  "redis_laws rd live \<longleftrightarrow>
     expires live \<and>
     (\<forall>now r. same_but now {} live r (snd (rd_ping rd now r))) \<and>
     (\<forall>now k r. same_but now {} live r (snd (rd_get rd now k r)) \<and>
        (\<forall>x. fst (rd_get rd now k r) = Some x \<longrightarrow> x = live now r k)) \<and>
     (\<forall>now k ttl v r. 0 < ttl \<longrightarrow>
        same_but now {k} live r (snd (rd_setex rd now k ttl v r)) \<and>
        (fst (rd_setex rd now k ttl v r) \<longrightarrow>
           (\<forall>t\<ge>now. live t (snd (rd_setex rd now k ttl v r)) k =
              (if t < now + of_int ttl then Some v else None)))) \<and>
     (\<forall>now k r. same_but now {k} live r (snd (rd_getdel rd now k r)) \<and>
        only_removes now live r (snd (rd_getdel rd now k r)) \<and>
        (\<forall>x. fst (rd_getdel rd now k r) = Some x \<longrightarrow>
           x = live now r k \<and> gone now k live (snd (rd_getdel rd now k r)))) \<and>
     (\<forall>now k r. same_but now {k} live r (snd (rd_delete rd now k r)) \<and>
        only_removes now live r (snd (rd_delete rd now k r)) \<and>
        (fst (rd_delete rd now k r) \<longrightarrow> gone now k live (snd (rd_delete rd now k r)))) \<and>
     (\<forall>now k ttl r. 0 < ttl \<longrightarrow>
        same_but now {k} live r (snd (rd_incr_expire_nx rd now k ttl r)) \<and>
        (\<forall>n. fst (rd_incr_expire_nx rd now k ttl r) = Some n \<longrightarrow>
           n = count_of (live now r k) + 1 \<and>
           (\<forall>t\<ge>now. live t (snd (rd_incr_expire_nx rd now k ttl r)) k =
              (if (if live now r k \<noteq> None \<and> has_deadline now k live r
                   then live t r k \<noteq> None else t < now + of_int ttl)
               then Some (str_int n) else None))))"

section \<open>The client\<close>

record 'r redis_client =
  rc_connected :: bool
  rc_server :: 'r

text \<open>\<open>Inl\<close> is an exception of the client library.\<close>

type_synonym ('r, 'a) redis_call = "'r redis_client \<Rightarrow> (string + 'a) \<times> 'r redis_client"

definition REFRESH_TOKEN_TTL :: int where
  "REFRESH_TOKEN_TTL = 60 * 60 * 24 * 30"

definition LOCKOUT_THRESHOLD :: int where
  "LOCKOUT_THRESHOLD = 10"

definition LOCKOUT_WINDOW_SECONDS :: int where
  "LOCKOUT_WINDOW_SECONDS = 900"

definition REFRESH_KEY_PREFIX :: string where
  "REFRESH_KEY_PREFIX = ''refresh:''"

definition LOGIN_FAIL_PREFIX :: string where
  "LOGIN_FAIL_PREFIX = ''login_fail:''"

definition VERIFY_KEY_PREFIX :: string where
  "VERIFY_KEY_PREFIX = ''verify:''"

definition RESET_KEY_PREFIX :: string where
  "RESET_KEY_PREFIX = ''reset:''"

definition get_redis :: "'r redis \<Rightarrow> pyfloat \<Rightarrow> 'r redis_client \<Rightarrow> bool \<times> 'r redis_client" where
  "get_redis rd now c =
     (if rc_connected c then (True, c)
      else (case rd_ping rd now (rc_server c) of
              (ok, r) \<Rightarrow> (ok, \<lparr>rc_connected = ok, rc_server = r\<rparr>)))"

definition close_redis :: "'r redis_client \<Rightarrow> 'r redis_client" where
  "close_redis c = c\<lparr>rc_connected := False\<rparr>"

text \<open>The bodies that \<^verbatim>\<open>store_*\<close> and \<^verbatim>\<open>consume_*\<close> share.\<close>

definition setex_token ::
  "'r redis \<Rightarrow> pyfloat \<Rightarrow> string \<Rightarrow> int \<Rightarrow> string \<Rightarrow> ('r, bool) redis_call" where
  "setex_token rd now key ttl user_id c =
     (case get_redis rd now c of
        (False, c1) \<Rightarrow> (Inr False, c1)
      | (True, c1) \<Rightarrow>
          (case rd_setex rd now key ttl user_id (rc_server c1) of
             (ok, r) \<Rightarrow> (if ok then Inr True else Inl ''RedisError'', c1\<lparr>rc_server := r\<rparr>)))"

definition getdel_token :: "'r redis \<Rightarrow> pyfloat \<Rightarrow> string \<Rightarrow> ('r, string option) redis_call" where
  "getdel_token rd now key c =
     (case get_redis rd now c of
        (False, c1) \<Rightarrow> (Inr None, c1)
      | (True, c1) \<Rightarrow>
          (case rd_getdel rd now key (rc_server c1) of
             (x, r) \<Rightarrow> (case x of Some v \<Rightarrow> Inr v | None \<Rightarrow> Inl ''RedisError'', c1\<lparr>rc_server := r\<rparr>)))"

definition store_refresh_token :: "'r redis \<Rightarrow> pyfloat \<Rightarrow> string \<Rightarrow> string \<Rightarrow> ('r, bool) redis_call" where
  "store_refresh_token rd now token user_id =
     setex_token rd now (REFRESH_KEY_PREFIX @ token) REFRESH_TOKEN_TTL user_id"

definition consume_refresh_token :: "'r redis \<Rightarrow> pyfloat \<Rightarrow> string \<Rightarrow> ('r, string option) redis_call" where
  "consume_refresh_token rd now token = getdel_token rd now (REFRESH_KEY_PREFIX @ token)"

definition revoke_refresh_token :: "'r redis \<Rightarrow> pyfloat \<Rightarrow> string \<Rightarrow> ('r, unit) redis_call" where
  "revoke_refresh_token rd now token c =
     (case get_redis rd now c of
        (False, c1) \<Rightarrow> (Inr (), c1)
      | (True, c1) \<Rightarrow>
          (case rd_delete rd now (REFRESH_KEY_PREFIX @ token) (rc_server c1) of
             (ok, r) \<Rightarrow> (if ok then Inr () else Inl ''RedisError'', c1\<lparr>rc_server := r\<rparr>)))"

text \<open>The lockout functions catch every exception and fail open.\<close>

definition is_account_locked :: "'r redis \<Rightarrow> pyfloat \<Rightarrow> string \<Rightarrow> 'r redis_client \<Rightarrow> bool \<times> 'r redis_client" where
  "is_account_locked rd now email c =
     (case get_redis rd now c of
        (False, c1) \<Rightarrow> (False, c1)
      | (True, c1) \<Rightarrow>
          (case rd_get rd now (LOGIN_FAIL_PREFIX @ email) (rc_server c1) of
             (x, r) \<Rightarrow>
               (case x of
                  Some (Some raw) \<Rightarrow> (case py_int raw of Some n \<Rightarrow> n \<ge> LOCKOUT_THRESHOLD | None \<Rightarrow> False)
                | _ \<Rightarrow> False, c1\<lparr>rc_server := r\<rparr>)))"

definition record_login_failure :: "'r redis \<Rightarrow> pyfloat \<Rightarrow> string \<Rightarrow> 'r redis_client \<Rightarrow> int \<times> 'r redis_client" where
  "record_login_failure rd now email c =
     (case get_redis rd now c of
        (False, c1) \<Rightarrow> (0, c1)
      | (True, c1) \<Rightarrow>
          (case rd_incr_expire_nx rd now (LOGIN_FAIL_PREFIX @ email) LOCKOUT_WINDOW_SECONDS (rc_server c1) of
             (x, r) \<Rightarrow> (case x of Some n \<Rightarrow> n | None \<Rightarrow> 0, c1\<lparr>rc_server := r\<rparr>)))"

definition reset_login_failures :: "'r redis \<Rightarrow> pyfloat \<Rightarrow> string \<Rightarrow> 'r redis_client \<Rightarrow> 'r redis_client" where
  "reset_login_failures rd now email c =
     (case get_redis rd now c of
        (False, c1) \<Rightarrow> c1
      | (True, c1) \<Rightarrow>
          (case rd_delete rd now (LOGIN_FAIL_PREFIX @ email) (rc_server c1) of
             (_, r) \<Rightarrow> c1\<lparr>rc_server := r\<rparr>))"

definition store_email_verification_token ::
  "'r redis \<Rightarrow> pyfloat \<Rightarrow> int \<Rightarrow> string \<Rightarrow> string \<Rightarrow> ('r, bool) redis_call" where
  "store_email_verification_token rd now ttl token user_id =
     setex_token rd now (VERIFY_KEY_PREFIX @ token) ttl user_id"

definition consume_email_verification_token ::
  "'r redis \<Rightarrow> pyfloat \<Rightarrow> string \<Rightarrow> ('r, string option) redis_call" where
  "consume_email_verification_token rd now token = getdel_token rd now (VERIFY_KEY_PREFIX @ token)"

definition store_password_reset_token ::
  "'r redis \<Rightarrow> pyfloat \<Rightarrow> int \<Rightarrow> string \<Rightarrow> string \<Rightarrow> ('r, bool) redis_call" where
  "store_password_reset_token rd now ttl token user_id =
     setex_token rd now (RESET_KEY_PREFIX @ token) ttl user_id"

definition consume_password_reset_token ::
  "'r redis \<Rightarrow> pyfloat \<Rightarrow> string \<Rightarrow> ('r, string option) redis_call" where
  "consume_password_reset_token rd now token = getdel_token rd now (RESET_KEY_PREFIX @ token)"

section \<open>What one call does to the keys\<close>

lemma same_but_refl [simp]: "same_but now ks live r r"
  by (simp add: same_but_def)

lemma same_but_trans:
  "same_but now {} live r r1 \<Longrightarrow> same_but now ks live r1 r2 \<Longrightarrow> same_but now ks live r r2"
  by (simp add: same_but_def)

lemma same_but_gone:
  "same_but now ks live r r' \<Longrightarrow> k \<notin> ks \<Longrightarrow> gone t k live r \<Longrightarrow> t \<le> now \<Longrightarrow> gone now k live r'"
  by (simp add: same_but_def gone_def)

lemma gone_later: "gone t k live r \<Longrightarrow> t \<le> t' \<Longrightarrow> gone t' k live r"
  by (simp add: gone_def)

lemma get_redis_same:
  assumes "redis_laws rd live" "get_redis rd now c = (ok, c1)"
  shows "same_but now {} live (rc_server c) (rc_server c1)"
  using assms by (auto simp: get_redis_def redis_laws_def split: if_splits prod.splits) (metis snd_conv)

lemma setex_token_keys:
  assumes "redis_laws rd live" "0 < ttl" "setex_token rd now key ttl u c = (x, c')"
  shows "same_but now {key} live (rc_server c) (rc_server c') \<and>
    (x = Inr True \<longrightarrow>
       (\<forall>t\<ge>now. live t (rc_server c') key = (if t < now + of_int ttl then Some u else None)))"
proof -
  obtain ok c1 where g: "get_redis rd now c = (ok, c1)" by fastforce
  obtain b r where s: "rd_setex rd now key ttl u (rc_server c1) = (b, r)" by fastforce
  note e = get_redis_same [OF assms(1) g]
  have l: "same_but now {key} live (rc_server c1) r \<and>
      (b \<longrightarrow> (\<forall>t\<ge>now. live t r key = (if t < now + of_int ttl then Some u else None)))"
    using assms(1,2) s unfolding redis_laws_def by (metis fst_conv snd_conv)
  have weak: "same_but now {key} live (rc_server c) (rc_server c1)"
    using e by (simp add: same_but_def)
  show ?thesis
    using assms(3) g s l weak same_but_trans [OF e, of "{key}" r]
    by (cases ok) (auto simp: setex_token_def split: if_splits)
qed

lemma getdel_token_keys:
  assumes "redis_laws rd live" "getdel_token rd now key c = (x, c')"
  shows "same_but now {key} live (rc_server c) (rc_server c') \<and>
    (\<forall>v. x = Inr (Some v) \<longrightarrow>
       live now (rc_server c) key = Some v \<and> gone now key live (rc_server c'))"
proof -
  obtain ok c1 where g: "get_redis rd now c = (ok, c1)" by fastforce
  obtain y r where s: "rd_getdel rd now key (rc_server c1) = (y, r)" by fastforce
  note e = get_redis_same [OF assms(1) g]
  have l: "same_but now {key} live (rc_server c1) r \<and>
      (\<forall>z. y = Some z \<longrightarrow> z = live now (rc_server c1) key \<and> gone now key live r)"
    using assms(1) s unfolding redis_laws_def by (metis fst_conv snd_conv)
  have k: "live now (rc_server c1) key = live now (rc_server c) key"
    using e by (simp add: same_but_def)
  have weak: "same_but now {key} live (rc_server c) (rc_server c1)"
    using e by (simp add: same_but_def)
  show ?thesis
    using assms(2) g s l k weak same_but_trans [OF e, of "{key}" r]
    by (cases ok) (auto simp: getdel_token_def split: option.splits)
qed

section \<open>Token spaces\<close>

text \<open>
  What the routes rely on from a pair of \<^verbatim>\<open>store_*\<close> and \<^verbatim>\<open>consume_*\<close>: each touches the token's own
  key only; a stored token is live until its time is over; a token that was handed out is gone.
\<close>

locale token_space =
  fixes key :: "string \<Rightarrow> string"
    and ttl :: int
    and store :: "'r redis \<Rightarrow> pyfloat \<Rightarrow> string \<Rightarrow> string \<Rightarrow> ('r, bool) redis_call"
    and consume :: "'r redis \<Rightarrow> pyfloat \<Rightarrow> string \<Rightarrow> ('r, string option) redis_call"
  assumes key_inj: "key a = key b \<Longrightarrow> a = b"
    and store_keys: "redis_laws rd live \<Longrightarrow> 0 < ttl \<Longrightarrow> store rd now tok u c = (x, c') \<Longrightarrow>
      same_but now {key tok} live (rc_server c) (rc_server c') \<and>
      (x = Inr True \<longrightarrow> (\<forall>t\<ge>now. live t (rc_server c') (key tok) =
         (if t < now + of_int ttl then Some u else None)))"
    and consume_keys: "redis_laws rd live \<Longrightarrow> consume rd now tok c = (y, c') \<Longrightarrow>
      same_but now {key tok} live (rc_server c) (rc_server c') \<and>
      (\<forall>v. y = Inr (Some v) \<longrightarrow>
         live now (rc_server c) (key tok) = Some v \<and> gone now (key tok) live (rc_server c'))"
begin

lemma consume_gone:
  assumes "redis_laws rd live" "gone t (key tok) live (rc_server c)" "t \<le> now"
  shows "fst (consume rd now tok c) \<noteq> Inr (Some v)"
proof
  assume "fst (consume rd now tok c) = Inr (Some v)"
  then obtain c' where "consume rd now tok c = (Inr (Some v), c')" by (metis prod.collapse)
  with consume_keys [OF assms(1)] have "live now (rc_server c) (key tok) = Some v" by blast
  with assms(2,3) show False by (simp add: gone_def)
qed

lemma consume_keeps_gone:
  assumes "redis_laws rd live" "gone t (key tok) live (rc_server c)" "t \<le> now" "tok' \<noteq> tok"
    "consume rd now tok' c = (y, c')"
  shows "gone now (key tok) live (rc_server c')"
proof -
  have "key tok \<notin> {key tok'}" using assms(4) key_inj by auto
  with consume_keys [OF assms(1,5)] assms(2,3) show ?thesis
    by (auto intro: same_but_gone)
qed

lemma store_keeps_gone:
  assumes "redis_laws rd live" "0 < ttl" "gone t (key tok) live (rc_server c)" "t \<le> now" "tok' \<noteq> tok"
    "store rd now tok' u c = (x, c')"
  shows "gone now (key tok) live (rc_server c')"
proof -
  have "key tok \<notin> {key tok'}" using assms(5) key_inj by auto
  with store_keys [OF assms(1,2,6)] assms(3,4) show ?thesis
    by (auto intro: same_but_gone)
qed

end

interpretation refresh: token_space "(@) REFRESH_KEY_PREFIX" REFRESH_TOKEN_TTL
    store_refresh_token consume_refresh_token
  by (unfold_locales, simp, unfold store_refresh_token_def, erule (2) setex_token_keys,
      unfold consume_refresh_token_def, erule (1) getdel_token_keys)

interpretation verification: token_space "(@) VERIFY_KEY_PREFIX" ttl
    "\<lambda>rd now. store_email_verification_token rd now ttl" consume_email_verification_token
  for ttl
  by (unfold_locales, simp, unfold store_email_verification_token_def, erule (2) setex_token_keys,
      unfold consume_email_verification_token_def, erule (1) getdel_token_keys)

interpretation reset: token_space "(@) RESET_KEY_PREFIX" ttl
    "\<lambda>rd now. store_password_reset_token rd now ttl" consume_password_reset_token
  for ttl
  by (unfold_locales, simp, unfold store_password_reset_token_def, erule (2) setex_token_keys,
      unfold consume_password_reset_token_def, erule (1) getdel_token_keys)

section \<open>A server in memory\<close>

text \<open>
  A server that keeps every key with its deadline and never fails: it obeys \<open>redis_laws\<close>, so the
  theorems below are not vacuous, and their concrete instances run on it.
\<close>

type_synonym mem_redis = "(string, string \<times> pyfloat) dict"

definition mem_live :: "mem_redis live" where
  "mem_live now m k =
     (case map_of m k of Some (v, d) \<Rightarrow> if now < d then Some v else None | None \<Rightarrow> None)"

definition mem_ops :: "mem_redis redis" where
  "mem_ops =
     \<lparr>rd_ping = \<lambda>now m. (True, m),
      rd_setex = \<lambda>now k ttl v m. (True, AList.update k (v, now + of_int ttl) m),
      rd_getdel = \<lambda>now k m. (Some (mem_live now m k), AList.delete k m),
      rd_delete = \<lambda>now k m. (True, AList.delete k m),
      rd_get = \<lambda>now k m. (Some (mem_live now m k), m),
      rd_incr_expire_nx = \<lambda>now k ttl m.
        (let n = count_of (mem_live now m k) + 1;
             d = (case map_of m k of
                    Some (v, d) \<Rightarrow> if now < d then d else now + of_int ttl
                  | None \<Rightarrow> now + of_int ttl)
         in (Some n, AList.update k (str_int n, d) m))\<rparr>"

lemma mem_live_ends [simp]: "has_deadline now k mem_live m"
proof (cases "map_of m k")
  case None
  then show ?thesis by (auto simp: has_deadline_def mem_live_def)
next
  case (Some p)
  then show ?thesis
    unfolding has_deadline_def
    by (intro exI [of _ "max now (snd p)"]) (auto simp: mem_live_def split: prod.splits)
qed

lemma mem_live_expires: "expires mem_live"
  by (auto simp: expires_def mem_live_def split: option.splits)

lemma mem_incr:
  assumes "rd_incr_expire_nx mem_ops now k ttl m = (x, m')"
  shows "x = Some (count_of (mem_live now m k) + 1)"
    and "k' \<noteq> k \<Longrightarrow> mem_live t m' k' = mem_live t m k'"
    and "now \<le> t \<Longrightarrow> mem_live t m' k =
      (if (if mem_live now m k \<noteq> None then mem_live t m k \<noteq> None else t < now + of_int ttl)
       then Some (str_int (count_of (mem_live now m k) + 1)) else None)"
  using assms
  by (auto simp: mem_ops_def mem_live_def Let_def split: option.splits prod.splits if_splits)

lemma mem_redis_laws: "redis_laws mem_ops mem_live"
proof -
  have i: "same_but now {k} mem_live r (snd (rd_incr_expire_nx mem_ops now k ttl r)) \<and>
      (\<forall>n. fst (rd_incr_expire_nx mem_ops now k ttl r) = Some n \<longrightarrow>
         n = count_of (mem_live now r k) + 1 \<and>
         (\<forall>t\<ge>now. mem_live t (snd (rd_incr_expire_nx mem_ops now k ttl r)) k =
            (if (if mem_live now r k \<noteq> None \<and> has_deadline now k mem_live r
                 then mem_live t r k \<noteq> None else t < now + of_int ttl)
             then Some (str_int n) else None)))" for now k ttl r
  proof -
    obtain x m' where e: "rd_incr_expire_nx mem_ops now k ttl r = (x, m')" by fastforce
    show ?thesis using mem_incr [OF e] by (simp add: e same_but_def)
  qed
  show ?thesis
    unfolding redis_laws_def
    by (intro conjI allI impI i [THEN conjunct1] i [THEN conjunct2, rule_format] mem_live_expires)
       (auto simp: same_but_def only_removes_def gone_def mem_ops_def mem_live_def i)
qed

section \<open>The lockout window\<close>

text \<open>The calls of \<^verbatim>\<open>record_login_failure\<close> for one account at the given times, and their results.\<close>

fun fail_run :: "'r redis \<Rightarrow> string \<Rightarrow> pyfloat list \<Rightarrow> 'r redis_client \<Rightarrow> int list \<times> 'r redis_client" where
  "fail_run rd email [] c = ([], c)"
| "fail_run rd email (t # ts) c =
     (case record_login_failure rd t email c of
        (n, c1) \<Rightarrow> (case fail_run rd email ts c1 of (ns, c2) \<Rightarrow> (n # ns, c2)))"

lemma redis_incr:
  assumes "redis_laws rd live" "0 < ttl" "rd_incr_expire_nx rd now k ttl r = (Some n, r')"
  shows "n = count_of (live now r k) + 1 \<and>
    (\<forall>t\<ge>now. live t r' k =
       (if (if live now r k \<noteq> None \<and> has_deadline now k live r
            then live t r k \<noteq> None else t < now + of_int ttl)
        then Some (str_int n) else None))"
proof -
  have "\<forall>now k ttl r. 0 < ttl \<longrightarrow>
        same_but now {k} live r (snd (rd_incr_expire_nx rd now k ttl r)) \<and>
        (\<forall>n. fst (rd_incr_expire_nx rd now k ttl r) = Some n \<longrightarrow>
           n = count_of (live now r k) + 1 \<and>
           (\<forall>t\<ge>now. live t (snd (rd_incr_expire_nx rd now k ttl r)) k =
              (if (if live now r k \<noteq> None \<and> has_deadline now k live r
                   then live t r k \<noteq> None else t < now + of_int ttl)
               then Some (str_int n) else None)))"
    using assms(1) unfolding redis_laws_def by (elim conjE) assumption
  from this [rule_format, OF assms(2), of now k r] assms(3) show ?thesis by simp
qed

lemma redis_get:
  assumes "redis_laws rd live" "rd_get rd now k r = (x, r')"
  shows "same_but now {} live r r' \<and> (\<forall>y. x = Some y \<longrightarrow> y = live now r k)"
proof -
  have "\<forall>now k r. same_but now {} live r (snd (rd_get rd now k r)) \<and>
        (\<forall>x. fst (rd_get rd now k r) = Some x \<longrightarrow> x = live now r k)"
    using assms(1) unfolding redis_laws_def by (elim conjE) assumption
  from this [rule_format, of now r k] assms(2) show ?thesis by simp
qed

lemma has_deadline_cong: "same_but now {} live r r' \<Longrightarrow> has_deadline now k live r' = has_deadline now k live r"
  by (auto simp: has_deadline_def same_but_def)

lemma record_failure_counts:
  assumes "redis_laws rd live" "record_login_failure rd now email c = (n, c')" "n \<noteq> 0"
  defines "k \<equiv> LOGIN_FAIL_PREFIX @ email"
  shows "n = count_of (live now (rc_server c) k) + 1 \<and>
    (\<forall>t\<ge>now. live t (rc_server c') k =
       (if (if live now (rc_server c) k \<noteq> None \<and> has_deadline now k live (rc_server c)
            then live t (rc_server c) k \<noteq> None else t < now + of_int LOCKOUT_WINDOW_SECONDS)
        then Some (str_int n) else None))"
proof -
  obtain ok c1 where g: "get_redis rd now c = (ok, c1)" by fastforce
  obtain x r where s: "rd_incr_expire_nx rd now k LOCKOUT_WINDOW_SECONDS (rc_server c1) = (x, r)" by fastforce
  have e: "same_but now {} live (rc_server c) (rc_server c1)" by (rule get_redis_same [OF assms(1) g])
  have x: "x = Some n" "rc_server c' = r"
    using assms(2,3) g s by (auto simp: record_login_failure_def k_def split: if_splits option.splits bool.splits)
  have "0 < LOCKOUT_WINDOW_SECONDS" by (simp add: LOCKOUT_WINDOW_SECONDS_def)
  from redis_incr [OF assms(1) this s [unfolded x]] e show ?thesis
    unfolding x(2) has_deadline_cong [OF e] by (simp add: same_but_def)
qed

text \<open>A run of recorded failures that starts fresh counts them, with the deadline of the first.\<close>

lemma fail_run_state:
  assumes "redis_laws rd live" "fail_run rd email ts c = (ns, c')" "0 \<notin> set ns"
    and "sorted (t # ts)" "\<forall>u\<in>set ts. u < d" "0 < n" "n + int (length ts) < 10 ^ 20"
    and "\<forall>u\<ge>t. live u (rc_server c) (LOGIN_FAIL_PREFIX @ email) = (if u < d then Some (str_int n) else None)"
  shows "\<forall>u\<ge>last (t # ts). live u (rc_server c') (LOGIN_FAIL_PREFIX @ email) =
    (if u < d then Some (str_int (n + int (length ts))) else None)"
  using assms(2-)
proof (induction ts arbitrary: c ns n t)
  case (Cons u us)
  let ?k = "LOGIN_FAIL_PREFIX @ email"
  obtain m c1 ms where r: "record_login_failure rd u email c = (m, c1)"
    and f: "fail_run rd email us c1 = (ms, c')" and ns: "ns = m # ms"
    using Cons.prems(1) by (auto split: prod.splits)
  have "m \<noteq> 0" using Cons.prems(2) ns by auto
  note step = record_failure_counts [OF assms(1) r this]
  have tu: "t \<le> u" "u < d" using Cons.prems(3,4) by auto
  have "\<bar>n\<bar> < 10 ^ 20" using Cons.prems(5,6) by simp
  then have cnt: "count_of (Some (str_int n)) = n"
    using py_int_str_int [of n 20] by (simp add: count_of_def)
  have dl: "has_deadline u ?k live (rc_server c)"
    unfolding has_deadline_def
    using Cons.prems(7) tu by (intro exI [of _ "max u d"]) auto
  have now: "live u (rc_server c) ?k = Some (str_int n)" using Cons.prems(7) tu by auto
  have m: "m = n + 1" using step now cnt by simp
  have "\<forall>v\<ge>u. live v (rc_server c1) ?k = (if v < d then Some (str_int (n + 1)) else None)"
  proof (intro allI impI)
    fix v assume "u \<le> v"
    with step dl now m have "live v (rc_server c1) ?k =
        (if live v (rc_server c) ?k \<noteq> None then Some (str_int (n + 1)) else None)" by auto
    then show "live v (rc_server c1) ?k = (if v < d then Some (str_int (n + 1)) else None)"
      using Cons.prems(7) tu \<open>u \<le> v\<close> by auto
  qed
  from Cons.IH [OF f _ _ _ _ _ this] show ?case
    using Cons.prems ns by (auto simp: add.assoc)
qed simp

lemma locked_live:
  assumes "redis_laws rd live" "get_redis rd now c = (True, c1)"
    and "fst (rd_get rd now (LOGIN_FAIL_PREFIX @ email) (rc_server c1)) \<noteq> None"
  shows "fst (is_account_locked rd now email c) \<longleftrightarrow>
    (case live now (rc_server c) (LOGIN_FAIL_PREFIX @ email) of
       Some raw \<Rightarrow> (case py_int raw of Some n \<Rightarrow> n \<ge> LOCKOUT_THRESHOLD | None \<Rightarrow> False)
     | None \<Rightarrow> False)"
proof -
  let ?k = "LOGIN_FAIL_PREFIX @ email"
  obtain x r where g: "rd_get rd now ?k (rc_server c1) = (x, r)" by fastforce
  with assms(3) obtain y where x: "x = Some y" by auto
  have "y = live now (rc_server c1) ?k" using redis_get [OF assms(1) g] x by simp
  also have "\<dots> = live now (rc_server c) ?k"
    using get_redis_same [OF assms(1,2)] by (simp add: same_but_def)
  finally show ?thesis
    using g x assms(2) by (auto simp: is_account_locked_def split: option.splits)
qed

text \<open>
  The lockout window is anchored to the first failure. Let an account have no counter, and let
  failures be recorded at times that all lie within 900 seconds of the first. Then, as long as Redis
  answers, the account is locked exactly if ten or more were recorded, and exactly until 900 seconds
  after the first of them: later failures do not extend the window.
\<close>
theorem lockout_window:
  assumes "redis_laws rd live" "gone t (LOGIN_FAIL_PREFIX @ email) live (rc_server c)"
    and "fail_run rd email (t # ts) c = (ns, c')" "0 \<notin> set ns"
    and "sorted (t # ts)" "\<forall>u\<in>set ts. u < t + 900" "int (length ts) < 10 ^ 19"
    and "last (t # ts) \<le> now" "get_redis rd now c' = (True, c1)"
    and "fst (rd_get rd now (LOGIN_FAIL_PREFIX @ email) (rc_server c1)) \<noteq> None"
  shows "fst (is_account_locked rd now email c') \<longleftrightarrow> 10 \<le> length (t # ts) \<and> now < t + 900"
proof -
  let ?k = "LOGIN_FAIL_PREFIX @ email"
  obtain m c2 ms where r: "record_login_failure rd t email c = (m, c2)"
    and f: "fail_run rd email ts c2 = (ms, c')" and ns: "ns = m # ms"
    using assms(3) by (auto split: prod.splits)
  have "m \<noteq> 0" "0 \<notin> set ms" using assms(4) ns by auto
  have none: "live t (rc_server c) ?k = None" using assms(2) by (simp add: gone_def)
  from record_failure_counts [OF assms(1) r \<open>m \<noteq> 0\<close>] none
  have "\<forall>u\<ge>t. live u (rc_server c2) ?k = (if u < t + 900 then Some (str_int 1) else None)"
    by (simp add: count_of_def LOCKOUT_WINDOW_SECONDS_def)
  from fail_run_state [OF assms(1) f \<open>0 \<notin> set ms\<close> assms(5,6) _ _ this] assms(7,8)
  have l: "live now (rc_server c') ?k =
      (if now < t + 900 then Some (str_int (1 + int (length ts))) else None)" by simp
  have "py_int (str_int (1 + int (length ts))) = Some (1 + int (length ts))"
    using assms(7) by (intro py_int_str_int [of _ 20]) auto
  then show ?thesis
    unfolding locked_live [OF assms(1,9,10)] l by (auto simp: LOCKOUT_THRESHOLD_def)
qed

definition demo_times :: "pyfloat list" where
  "demo_times = [1, 2, 3, 4, 5, 6, 7, 8, 9]"

definition demo_client :: "mem_redis redis_client" where
  "demo_client = \<lparr>rc_connected = True, rc_server = []\<rparr>"

definition demo_failed :: "int list \<times> mem_redis redis_client" where
  "demo_failed = fail_run mem_ops ''a'' (0 # demo_times) demo_client"

lemma mem_failure:
  assumes "u < d" "0 < n" "n < 1000"
  shows "record_login_failure mem_ops u e \<lparr>rc_connected = True, rc_server = [(LOGIN_FAIL_PREFIX @ e, (str_int n, d))]\<rparr> =
    (n + 1, \<lparr>rc_connected = True, rc_server = [(LOGIN_FAIL_PREFIX @ e, (str_int (n + 1), d))]\<rparr>)"
  using assms py_int_str_int [of n 20]
  by (simp add: record_login_failure_def get_redis_def mem_ops_def mem_live_def count_of_def Let_def)

lemma mem_first_failure:
  "record_login_failure mem_ops u e \<lparr>rc_connected = True, rc_server = []\<rparr> =
    (1, \<lparr>rc_connected = True, rc_server = [(LOGIN_FAIL_PREFIX @ e, (str_int 1, u + 900))]\<rparr>)"
  by (simp add: record_login_failure_def get_redis_def mem_ops_def mem_live_def count_of_def
      LOCKOUT_WINDOW_SECONDS_def Let_def)

lemma demo_failed: "0 \<notin> set (fst demo_failed)" "rc_connected (snd demo_failed)"
  by (simp_all add: demo_failed_def demo_times_def demo_client_def mem_first_failure mem_failure)

lemma mem_get_ok [simp]: "fst (rd_get mem_ops now k m) = Some (mem_live now m k)"
  by (simp add: mem_ops_def)

theorem lockout_window_witness: "fst (is_account_locked mem_ops 899 ''a'' (snd demo_failed))"
proof -
  have g: "gone 0 (LOGIN_FAIL_PREFIX @ ''a'') mem_live (rc_server demo_client)"
    by (simp add: gone_def mem_live_def demo_client_def)
  have f: "fail_run mem_ops ''a'' (0 # demo_times) demo_client = (fst demo_failed, snd demo_failed)"
    by (simp add: demo_failed_def)
  have c: "get_redis mem_ops 899 (snd demo_failed) = (True, snd demo_failed)"
    using demo_failed(2) by (simp add: get_redis_def)
  have "sorted (0 # demo_times)" "\<forall>u\<in>set demo_times. u < 0 + 900" "last (0 # demo_times) \<le> 899"
      "length (0 # demo_times) = 10" "int (length demo_times) < 10 ^ 19"
    by (simp_all add: demo_times_def)
  with lockout_window [OF mem_redis_laws g f demo_failed(1) _ _ _ _ c] show ?thesis by simp
qed

section \<open>Dead keys stay dead\<close>

text \<open>Every call leaves a key that is gone as it is, unless it stores under this very key.\<close>

lemma gone_same: "gone now k live r \<Longrightarrow> same_but now ks live r r' \<Longrightarrow> k \<notin> ks \<Longrightarrow> gone now k live r'"
  by (simp add: gone_def same_but_def)

lemma gone_removes: "gone now k live r \<Longrightarrow> only_removes now live r r' \<Longrightarrow> gone now k live r'"
  by (fastforce simp: gone_def only_removes_def)

lemma redis_removes:
  assumes "redis_laws rd live"
  shows "only_removes now live r (snd (rd_getdel rd now k r))"
    and "only_removes now live r (snd (rd_delete rd now k r))"
proof -
  have "\<forall>now k r. same_but now {k} live r (snd (rd_getdel rd now k r)) \<and>
        only_removes now live r (snd (rd_getdel rd now k r)) \<and>
        (\<forall>x. fst (rd_getdel rd now k r) = Some x \<longrightarrow>
           x = live now r k \<and> gone now k live (snd (rd_getdel rd now k r)))"
    using assms unfolding redis_laws_def by (elim conjE) assumption
  then show "only_removes now live r (snd (rd_getdel rd now k r))" by blast
  have "\<forall>now k r. same_but now {k} live r (snd (rd_delete rd now k r)) \<and>
        only_removes now live r (snd (rd_delete rd now k r)) \<and>
        (fst (rd_delete rd now k r) \<longrightarrow> gone now k live (snd (rd_delete rd now k r)))"
    using assms unfolding redis_laws_def by (elim conjE) assumption
  then show "only_removes now live r (snd (rd_delete rd now k r))" by blast
qed

lemma redis_incr_same:
  assumes "redis_laws rd live" "0 < ttl"
  shows "same_but now {k} live r (snd (rd_incr_expire_nx rd now k ttl r))"
proof -
  have "\<forall>now k ttl r. 0 < ttl \<longrightarrow>
        same_but now {k} live r (snd (rd_incr_expire_nx rd now k ttl r)) \<and>
        (\<forall>n. fst (rd_incr_expire_nx rd now k ttl r) = Some n \<longrightarrow>
           n = count_of (live now r k) + 1 \<and>
           (\<forall>t\<ge>now. live t (snd (rd_incr_expire_nx rd now k ttl r)) k =
              (if (if live now r k \<noteq> None \<and> has_deadline now k live r
                   then live t r k \<noteq> None else t < now + of_int ttl)
               then Some (str_int n) else None)))"
    using assms(1) unfolding redis_laws_def by (elim conjE) assumption
  with assms(2) show ?thesis by blast
qed

lemma gone_get_redis:
  assumes "redis_laws rd live" "gone now k live (rc_server c)" "get_redis rd now c = (ok, c1)"
  shows "gone now k live (rc_server c1)"
  using gone_same [OF assms(2) get_redis_same [OF assms(1,3)]] by simp

lemma gone_setex_token:
  assumes "redis_laws rd live" "gone now k live (rc_server c)" "k \<noteq> key" "0 < ttl"
  shows "gone now k live (rc_server (snd (setex_token rd now key ttl u c)))"
proof -
  obtain x c' where s: "setex_token rd now key ttl u c = (x, c')" by fastforce
  show ?thesis using setex_token_keys [OF assms(1,4) s] gone_same [OF assms(2), of "{key}"] assms(3) s by simp
qed

lemma gone_getdel_token:
  assumes "redis_laws rd live" "gone now k live (rc_server c)"
  shows "gone now k live (rc_server (snd (getdel_token rd now key c)))"
proof -
  obtain ok c1 where g: "get_redis rd now c = (ok, c1)" by fastforce
  obtain x r where d: "rd_getdel rd now key (rc_server c1) = (x, r)" by fastforce
  have "gone now k live r"
    using gone_removes [OF gone_get_redis [OF assms g] redis_removes(1) [OF assms(1)], of key] d by simp
  with gone_get_redis [OF assms g] show ?thesis by (cases ok) (simp_all add: getdel_token_def g d)
qed

lemma gone_revoke:
  assumes "redis_laws rd live" "gone now k live (rc_server c)"
  shows "gone now k live (rc_server (snd (revoke_refresh_token rd now tok c)))"
proof -
  obtain ok c1 where g: "get_redis rd now c = (ok, c1)" by fastforce
  obtain x r where d: "rd_delete rd now (REFRESH_KEY_PREFIX @ tok) (rc_server c1) = (x, r)" by fastforce
  have "gone now k live r"
    using gone_removes [OF gone_get_redis [OF assms g] redis_removes(2) [OF assms(1)], of "REFRESH_KEY_PREFIX @ tok"] d
    by simp
  with gone_get_redis [OF assms g] show ?thesis by (cases ok) (simp_all add: revoke_refresh_token_def g d)
qed

lemma gone_reset_failures:
  assumes "redis_laws rd live" "gone now k live (rc_server c)"
  shows "gone now k live (rc_server (reset_login_failures rd now em c))"
proof -
  obtain ok c1 where g: "get_redis rd now c = (ok, c1)" by fastforce
  obtain x r where d: "rd_delete rd now (LOGIN_FAIL_PREFIX @ em) (rc_server c1) = (x, r)" by fastforce
  have "gone now k live r"
    using gone_removes [OF gone_get_redis [OF assms g] redis_removes(2) [OF assms(1)], of "LOGIN_FAIL_PREFIX @ em"] d
    by simp
  with gone_get_redis [OF assms g] show ?thesis by (cases ok) (simp_all add: reset_login_failures_def g d)
qed

lemma gone_locked:
  assumes "redis_laws rd live" "gone now k live (rc_server c)"
  shows "gone now k live (rc_server (snd (is_account_locked rd now em c)))"
proof -
  obtain ok c1 where g: "get_redis rd now c = (ok, c1)" by fastforce
  obtain x r where d: "rd_get rd now (LOGIN_FAIL_PREFIX @ em) (rc_server c1) = (x, r)" by fastforce
  have "gone now k live r"
    using gone_same [OF gone_get_redis [OF assms g], of "{}" r] redis_get [OF assms(1) d] by simp
  with gone_get_redis [OF assms g] show ?thesis by (cases ok) (simp_all add: is_account_locked_def g d)
qed

lemma gone_record:
  assumes "redis_laws rd live" "gone now k live (rc_server c)" "k \<noteq> LOGIN_FAIL_PREFIX @ em"
  shows "gone now k live (rc_server (snd (record_login_failure rd now em c)))"
proof -
  obtain ok c1 where g: "get_redis rd now c = (ok, c1)" by fastforce
  obtain x r where d: "rd_incr_expire_nx rd now (LOGIN_FAIL_PREFIX @ em) LOCKOUT_WINDOW_SECONDS (rc_server c1) = (x, r)"
    by fastforce
  have "0 < LOCKOUT_WINDOW_SECONDS" by (simp add: LOCKOUT_WINDOW_SECONDS_def)
  from gone_same [OF gone_get_redis [OF assms(1,2) g] redis_incr_same [OF assms(1) this]] assms(3) d
  have "gone now k live r" by fastforce
  with gone_get_redis [OF assms(1,2) g] show ?thesis by (cases ok) (simp_all add: record_login_failure_def g d)
qed

lemma prefixes_differ [simp]:
  "REFRESH_KEY_PREFIX @ a \<noteq> VERIFY_KEY_PREFIX @ b" "REFRESH_KEY_PREFIX @ a \<noteq> RESET_KEY_PREFIX @ b"
  "REFRESH_KEY_PREFIX @ a \<noteq> LOGIN_FAIL_PREFIX @ b"
  by (simp_all add: REFRESH_KEY_PREFIX_def VERIFY_KEY_PREFIX_def RESET_KEY_PREFIX_def LOGIN_FAIL_PREFIX_def)

end
