(* ===== verification/Keyring.thy ===== *)
theory Keyring
  imports PyText
begin

text \<open>
  The JWT keyring (\<^verbatim>\<open>jwt_keyring.py\<close>, shared by the gateway and the user service): the parser
  of the \<^verbatim>\<open>JWT_SECRETS\<close> variable with its error branches, the choice of the signing key and
  the choice of the verification key. The lemmas: every parsed ring has distinct, non-empty
  kids and secrets; printing and parsing are inverse; what the signer picks, the verifier
  finds, also across the steps of a key rotation.
\<close>

type_synonym keyring = "(string, string) dict"

datatype keyring_error =
    MalformedEntry string
  | EmptyKidOrSecret string
  | DuplicateKid string
  | UnknownCurrentKid string

definition py_partition :: "char \<Rightarrow> string \<Rightarrow> string \<times> string" where
  "py_partition d s =
     (takeWhile (\<lambda>c. c \<noteq> d) s, drop 1 (dropWhile (\<lambda>c. c \<noteq> d) s))"

text \<open>The loop over the comma-separated entries, with the ring built so far.\<close>

fun parse_entries :: "keyring \<Rightarrow> string list \<Rightarrow> keyring_error + keyring" where
  "parse_entries ring [] = Inr ring"
| "parse_entries ring (raw # rest) =
     (let entry = py_strip raw in
      if entry = [] then parse_entries ring rest
      else if CHR ''='' \<notin> set entry then Inl (MalformedEntry entry)
      else
        (let (k, s) = py_partition CHR ''='' entry; kid = py_strip k; secret = py_strip s in
         if kid = [] \<or> secret = [] then Inl (EmptyKidOrSecret entry)
         else if kid \<in> fst ` set ring then Inl (DuplicateKid kid)
         else parse_entries (AList.update kid secret ring) rest))"

definition parse_keyring :: "string \<Rightarrow> string \<Rightarrow> string \<Rightarrow> keyring_error + keyring" where
  "parse_keyring jwt_secrets fallback_secret fallback_kid =
     (if jwt_secrets = [] \<or> py_strip jwt_secrets = [] then Inr [(fallback_kid, fallback_secret)]
      else (case parse_entries [] (py_split CHR '','' jwt_secrets) of
              Inl e \<Rightarrow> Inl e
            | Inr ring \<Rightarrow> if ring = [] then Inr [(fallback_kid, fallback_secret)] else Inr ring))"

definition select_signing_key :: "keyring \<Rightarrow> string \<Rightarrow> keyring_error + string \<times> string" where
  "select_signing_key ring current_kid =
     (case map_of ring current_kid of
        None \<Rightarrow> Inl (UnknownCurrentKid current_kid)
      | Some secret \<Rightarrow> Inr (current_kid, secret))"

text \<open>
  \<^verbatim>\<open>if kid and kid in keyring\<close> is false for the empty kid, and \<^verbatim>\<open>kid is None\<close> is false for it too.
\<close>

definition select_verification_key :: "keyring \<Rightarrow> string option \<Rightarrow> string option" where
  "select_verification_key ring kid =
     (case kid of
        Some k \<Rightarrow> if k \<noteq> [] then map_of ring k else None
      | None \<Rightarrow> map_of ring ''default'')"

section \<open>Well-formed keyrings\<close>

definition wf_keyring :: "keyring \<Rightarrow> bool" where
  "wf_keyring ring \<longleftrightarrow>
     distinct (map fst ring) \<and> (\<forall>(k, s)\<in>set ring. k \<noteq> [] \<and> s \<noteq> [])"

lemma wf_keyring_Nil [simp]: "wf_keyring []"
  by (simp add: wf_keyring_def)

lemma wf_keyring_update:
  "wf_keyring ring \<Longrightarrow> k \<noteq> [] \<Longrightarrow> s \<noteq> [] \<Longrightarrow> k \<notin> fst ` set ring \<Longrightarrow>
   wf_keyring (AList.update k s ring)"
  by (auto simp: wf_keyring_def update_new)

lemma parse_entries_wf:
  "parse_entries ring es = Inr ring' \<Longrightarrow> wf_keyring ring \<Longrightarrow> wf_keyring ring'"
  by (induction ring es rule: parse_entries.induct)
     (auto simp: Let_def wf_keyring_update split: if_splits prod.splits)

lemma parse_keyring_wf:
  assumes "parse_keyring raw fs fk = Inr ring" "fs \<noteq> []" "fk \<noteq> []"
  shows "wf_keyring ring \<and> ring \<noteq> []"
  using assms parse_entries_wf [of "[]"]
  by (auto simp: parse_keyring_def wf_keyring_def split: if_splits sum.splits)

section \<open>Printing a keyring\<close>

text \<open>The wire format \<^verbatim>\<open>k1=secret1,k2=secret2\<close> that operators write.\<close>

definition print_keyring :: "keyring \<Rightarrow> string" where
  "print_keyring ring = py_join '','' (map (\<lambda>(k, s). k @ ''='' @ s) ring)"

definition plain_text :: "string \<Rightarrow> bool" where
  "plain_text s \<longleftrightarrow> s \<noteq> [] \<and> CHR '','' \<notin> set s \<and> (\<forall>c\<in>set s. \<not> py_isspace c)"

definition printable_ring :: "keyring \<Rightarrow> bool" where
  "printable_ring ring \<longleftrightarrow>
     ring \<noteq> [] \<and> distinct (map fst ring) \<and>
     (\<forall>(k, s)\<in>set ring. plain_text k \<and> CHR ''='' \<notin> set k \<and> plain_text s)"

lemma plain_strip: "plain_text s \<Longrightarrow> py_strip s = s"
  by (simp add: plain_text_def strip_by_none)

lemma entry_strip:
  "plain_text k \<Longrightarrow> plain_text s \<Longrightarrow> py_strip (k @ ''='' @ s) = k @ ''='' @ s"
  by (rule strip_by_none) (auto simp: plain_text_def py_isspace_def)

lemma partition_entry:
  "CHR ''='' \<notin> set k \<Longrightarrow> py_partition CHR ''='' (k @ ''='' @ s) = (k, s)"
  by (auto simp: py_partition_def takeWhile_append dropWhile_append takeWhile_all)

lemma parse_entries_print:
  assumes "\<forall>(k, s)\<in>set es. plain_text k \<and> CHR ''='' \<notin> set k \<and> plain_text s"
    and "distinct (map fst (ring @ es))"
  shows "parse_entries ring (map (\<lambda>(k, s). k @ ''='' @ s) es) = Inr (ring @ es)"
  using assms
proof (induction es arbitrary: ring)
  case (Cons e es)
  obtain k s where e: "e = (k, s)" by (cases e)
  with Cons.prems have ks: "plain_text k" "CHR ''='' \<notin> set k" "plain_text s"
    and new: "k \<notin> fst ` set ring" by auto
  then have "k \<noteq> []" "s \<noteq> []" by (auto simp: plain_text_def)
  moreover have "parse_entries (ring @ [(k, s)]) (map (\<lambda>(k, s). k @ ''='' @ s) es) = Inr (ring @ e # es)"
    using Cons.IH [of "ring @ [(k, s)]"] Cons.prems e by auto
  ultimately show ?case
    using ks new
    by (simp add: e entry_strip [simplified] partition_entry [simplified] plain_strip update_new)
qed simp

lemma print_split:
  assumes "printable_ring ring"
  shows "py_split CHR '','' (print_keyring ring) = map (\<lambda>(k, s). k @ ''='' @ s) ring"
  unfolding print_keyring_def
  by (rule py_split_join) (use assms in \<open>auto simp: printable_ring_def plain_text_def\<close>)

lemma print_not_blank:
  assumes "printable_ring ring"
  shows "print_keyring ring \<noteq> []" "py_strip (print_keyring ring) \<noteq> []"
proof -
  obtain k s es where r: "ring = (k, s) # es"
    using assms by (cases ring) (auto simp: printable_ring_def)
  have eq: "CHR ''='' \<in> set (print_keyring ring)"
    by (cases es) (auto simp: r print_keyring_def)
  then show "print_keyring ring \<noteq> []" by auto
  have "\<not> py_isspace CHR ''=''" by (simp add: py_isspace_def)
  with eq show "py_strip (print_keyring ring) \<noteq> []" by (auto simp: strip_by_eq_Nil)
qed

text \<open>Parsing inverts printing, whatever the fallback.\<close>

lemma parse_print_keyring:
  "printable_ring ring \<Longrightarrow> parse_keyring (print_keyring ring) fs fk = Inr ring"
  using print_not_blank [of ring] parse_entries_print [of ring "[]"]
  by (auto simp: parse_keyring_def print_split printable_ring_def)

section \<open>Signer and verifier agree\<close>

lemma signing_key_verifies:
  assumes "select_signing_key ring kid = Inr (k, s)" "kid \<noteq> []"
  shows "k = kid \<and> select_verification_key ring (Some k) = Some s"
  using assms by (auto simp: select_signing_key_def select_verification_key_def split: option.splits)

lemma map_leD: "m \<subseteq>\<^sub>m m' \<Longrightarrow> m k = Some v \<Longrightarrow> m' k = Some v"
  by (metis domI map_le_def)

lemma verification_key_mono:
  assumes "map_of ring \<subseteq>\<^sub>m map_of ring'" "select_verification_key ring kid = Some s"
  shows "select_verification_key ring' kid = Some s"
  using assms map_leD [OF assms(1)]
  by (cases kid) (auto simp: select_verification_key_def split: if_splits)

text \<open>
  A signer and a verifier that are configured apart agree during a key rotation. If both are
  given rings in the documented format and the verifier's ring contains the signer's, then for
  every kid the signer may be switched to, the secret it signs with is the one the verifier picks
  for that kid.
\<close>
theorem rotation_safe:
  assumes "printable_ring ring_s" "printable_ring ring_v" "set ring_s \<subseteq> set ring_v"
    and "kid \<in> fst ` set ring_s"
  shows "\<exists>secret rs rv.
    parse_keyring (print_keyring ring_s) fs fk = Inr rs \<and>
    select_signing_key rs kid = Inr (kid, secret) \<and>
    parse_keyring (print_keyring ring_v) fs' fk' = Inr rv \<and>
    select_verification_key rv (Some kid) = Some secret"
proof -
  obtain secret where "map_of ring_s kid = Some secret"
    using assms(4) by (metis map_of_None_notin option.exhaust)
  moreover have "distinct (map fst ring_v)" using assms(2) by (simp add: printable_ring_def)
  ultimately have "map_of ring_v kid = Some secret"
    using assms(3) by (auto dest: map_of_SomeD)
  moreover have "kid \<noteq> []" using assms(1,4) by (force simp: printable_ring_def plain_text_def)
  ultimately show ?thesis
    using parse_print_keyring [OF assms(1)] parse_print_keyring [OF assms(2)]
      \<open>map_of ring_s kid = Some secret\<close>
    by (auto simp: select_signing_key_def select_verification_key_def)
qed

definition demo_ring :: "string \<Rightarrow> keyring" where
  "demo_ring v = [(''2026a'', ''first-secret''), (''2026b'', v)]"

theorem rotation_safe_witness:
  "\<exists>secret rs rv.
    parse_keyring (print_keyring [(''2026a'', ''first-secret'')]) [] [] = Inr rs \<and>
    select_signing_key rs ''2026a'' = Inr (''2026a'', secret) \<and>
    parse_keyring (print_keyring (demo_ring ''next'')) [] [] = Inr rv \<and>
    select_verification_key rv (Some ''2026a'') = Some secret"
  by (rule rotation_safe)
     (auto simp: demo_ring_def printable_ring_def plain_text_def py_isspace_def)



end
