(* ===== verification/PyCodec.thy ===== *)
theory PyCodec
  imports PyText
begin

text \<open>
  The codecs of the Python standard library that carry identities between the services:
  \<^verbatim>\<open>uuid.UUID\<close> (128-bit values, read leniently and printed canonically), UTF-8 and \<^verbatim>\<open>base64\<close>.
  Bytes are characters.
\<close>

section \<open>UUIDs\<close>

type_synonym uuid = "128 word"

text \<open>
  \<^verbatim>\<open>uuid.UUID(hex)\<close>: prefixes, braces and dashes are dropped wherever they stand, 32 characters
  must be left, and \<^verbatim>\<open>int(_, 16)\<close> reads them; \<^const>\<open>None\<close> is \<^verbatim>\<open>ValueError\<close>.
\<close>

definition uuid_hex :: "string \<Rightarrow> string" where
  "uuid_hex s =
     py_replace ''-'' [] (strip_by (\<lambda>c. c = CHR ''{'' \<or> c = CHR ''}'')
       (py_replace ''uuid:'' [] (py_replace ''urn:'' [] s)))"

definition uuid_parse :: "string \<Rightarrow> uuid option" where
  "uuid_parse s =
     (let h = uuid_hex s in
      if length h \<noteq> 32 then None
      else (case py_int16 h of
              None \<Rightarrow> None
            | Some i \<Rightarrow> if 0 \<le> i \<and> i < 2 ^ 128 then Some (word_of_int i) else None))"

definition uuid_parts :: "string \<Rightarrow> string list" where
  "uuid_parts h =
     [take 8 h, take 4 (drop 8 h), take 4 (drop 12 h), take 4 (drop 16 h), drop 20 h]"

definition uuid_str :: "uuid \<Rightarrow> string" where
  "uuid_str u = py_join ''-'' (uuid_parts (hex_pad 32 (unat u)))"

lemma uuid_parts_concat: "concat (uuid_parts h) = h"
proof -
  have step: "take 4 (drop k h) @ drop (4 + k) h = drop k h" for k
    by (metis append_take_drop_id drop_drop)
  have "take 8 h @ drop 8 h = h" by simp
  then show ?thesis
    using step [of 8] step [of 12] step [of 16] by (simp add: uuid_parts_def)
qed

lemma uuid_parts_set: "w \<in> set (uuid_parts h) \<Longrightarrow> set w \<subseteq> set h"
  by (auto simp: uuid_parts_def dest: in_set_takeD in_set_dropD)

lemma set_py_join: "set (py_join d ws) \<subseteq> set d \<union> (\<Union>w\<in>set ws. set w)"
  by (induction d ws rule: py_join.induct) auto

lemma filter_py_join:
  "\<forall>w\<in>set ws. d \<notin> set w \<Longrightarrow> filter (\<lambda>c. c \<noteq> d) (py_join [d] ws) = concat ws"
proof (induction "[d]" ws rule: py_join.induct)
  case (2 w)
  then show ?case by (auto simp: filter_id_conv)
next
  case (3 w v ws)
  then have "filter (\<lambda>c. c \<noteq> d) w = w" by (auto simp: filter_id_conv)
  with 3 show ?case by simp
qed simp

lemma uuid_str_chars:
  assumes "c \<in> set (uuid_str u)"
  shows "c = CHR ''-'' \<or> (\<exists>d<16. c = digit_char d)"
proof -
  let ?h = "hex_pad 32 (unat u)"
  have "c \<in> set ''-'' \<union> (\<Union>w\<in>set (uuid_parts ?h). set w)"
    using assms set_py_join unfolding uuid_str_def by blast
  moreover have "(\<Union>w\<in>set (uuid_parts ?h). set w) \<subseteq> set ?h"
    using uuid_parts_set by blast
  ultimately have "c \<in> set ''-'' \<or> c \<in> set ?h" by blast
  then show ?thesis using hex_pad_digits by auto
qed

lemma uuid_str_length [simp]: "length (uuid_str u) = 36"
  by (simp add: uuid_str_def uuid_parts_def)

lemma uuid_str_nonempty [simp]: "uuid_str u \<noteq> []"
  using uuid_str_length [of u] by (metis list.size(3) zero_neq_numeral)

lemma uuid_str_no: "c \<noteq> CHR ''-'' \<Longrightarrow> (\<And>d. d < 16 \<Longrightarrow> digit_char d \<noteq> c) \<Longrightarrow> c \<notin> set (uuid_str u)"
  using uuid_str_chars by blast

lemma uuid_str_absent:
  "CHR ''u'' \<notin> set (uuid_str u)" "CHR ''{'' \<notin> set (uuid_str u)" "CHR ''}'' \<notin> set (uuid_str u)"
  "CHR ''|'' \<notin> set (uuid_str u)" "CHR '':'' \<notin> set (uuid_str u)"
  by (rule uuid_str_no, simp, rule digit_char_plain, assumption)+

lemma uuid_hex_str: "uuid_hex (uuid_str u) = hex_pad 32 (unat u)"
proof -
  let ?h = "hex_pad 32 (unat u)"
  have "\<exists>c\<in>set ''urn:''. c \<notin> set (uuid_str u)" "\<exists>c\<in>set ''uuid:''. c \<notin> set (uuid_str u)"
    using uuid_str_absent(1) [of u] by simp_all
  then have 1: "py_replace ''uuid:'' [] (py_replace ''urn:'' [] (uuid_str u)) = uuid_str u"
    by (simp only: py_replace_absent)
  have "\<forall>c\<in>set (uuid_str u). \<not> (c = CHR ''{'' \<or> c = CHR ''}'')"
    using uuid_str_absent(2,3) [of u] by metis
  then have 2: "strip_by (\<lambda>c. c = CHR ''{'' \<or> c = CHR ''}'') (uuid_str u) = uuid_str u"
    by (rule strip_by_none)
  have "CHR ''-'' \<notin> set ?h"
    using hex_pad_digits [of "CHR ''-''" 32 "unat u"] digit_char_plain(2) by metis
  then have "\<forall>w\<in>set (uuid_parts ?h). CHR ''-'' \<notin> set w"
    using uuid_parts_set [of _ ?h] by blast
  then have 3: "filter (\<lambda>c. c \<noteq> CHR ''-'') (uuid_str u) = ?h"
    unfolding uuid_str_def by (simp only: filter_py_join uuid_parts_concat)
  show ?thesis unfolding uuid_hex_def by (simp only: 1 2 3 py_replace_char)
qed

lemma hex_pad_sign:
  "0 < k \<Longrightarrow> split_sign (strip_by int_isspace (hex_pad k n)) = (False, hex_pad k n)"
proof -
  assume "0 < k"
  have "\<forall>c\<in>set (hex_pad k n). \<not> int_isspace c"
    using hex_pad_digits digit_char_plain(1) by blast
  then have 1: "strip_by int_isspace (hex_pad k n) = hex_pad k n" by (rule strip_by_none)
  obtain c s where cs: "hex_pad k n = c # s"
    using \<open>0 < k\<close> hex_pad_length [of k n] by (cases "hex_pad k n") auto
  then obtain d where "d < 16" "c = digit_char d"
    using hex_pad_digits [of c k n] by auto
  then show ?thesis using 1 cs digit_char_plain(2,3) by (simp add: split_sign_def)
qed

lemma hex_pad_drop_0x: "drop_0x (hex_pad k n) = hex_pad k n"
proof -
  have "CHR ''x'' \<notin> set (hex_pad k n)" "CHR ''X'' \<notin> set (hex_pad k n)"
    using hex_pad_digits [of _ k n] digit_char_plain(4,5) by metis+
  then have "take 2 (hex_pad k n) \<noteq> ''0x''" "take 2 (hex_pad k n) \<noteq> ''0X''"
    by (metis in_set_takeD list.set_intros)+
  then show ?thesis by (simp add: drop_0x_def)
qed

lemma hex_pad_body: "0 < k \<Longrightarrow> num_body hex_val 16 (hex_pad k n) = Some (n mod 16 ^ k)"
proof -
  assume "0 < k"
  then obtain c s where cs: "hex_pad k n = c # s"
    using hex_pad_length [of k n] by (cases "hex_pad k n") auto
  then obtain d where d: "d < 16" "c = digit_char d"
    using hex_pad_digits [of c k n] by auto
  have "num_tail hex_val 16 0 (c # s) = Some (n mod 16 ^ k)"
    using hex_pad_value [of 0 k n] cs by simp
  with d show ?thesis by (simp add: cs num_body_def)
qed

text \<open>The canonical text of a UUID reads back as that UUID.\<close>

lemma uuid_parse_str [simp]: "uuid_parse (uuid_str u) = Some u"
proof -
  have u: "unat u < 16 ^ 32"
    using unsigned_less [of u] by simp
  have "py_int16 (hex_pad 32 (unat u)) = Some (int (unat u))"
    using u by (simp add: py_int16_def hex_pad_sign hex_pad_drop_0x hex_pad_body signed_def)
  moreover have "int (unat u) < 2 ^ 128"
    using unsigned_less [of u] by simp
  ultimately show ?thesis
    by (simp add: uuid_parse_def uuid_hex_str Let_def)
qed

lemma uuid_str_inj: "uuid_str u = uuid_str v \<longleftrightarrow> u = v"
  by (metis option.inject uuid_parse_str)

section \<open>UTF-8\<close>

definition utf8_char :: "char \<Rightarrow> string" where
  "utf8_char c =
     (let n = (of_char c :: nat) in
      if n < 128 then [c] else [char_of (192 + n div 64), char_of (128 + n mod 64)])"

definition utf8_encode :: "string \<Rightarrow> string" where
  "utf8_encode s = concat (map utf8_char s)"

lemma utf8_char_inj:
  assumes "utf8_char c @ s = utf8_char d @ t"
  shows "c = d \<and> s = t"
proof -
  let ?m = "of_char c :: nat" and ?n = "of_char d :: nat"
  have b: "?m < 256" "?n < 256" by simp_all
  have inj: "?m = ?n \<Longrightarrow> c = d" by simp
  consider "?m < 128" "?n < 128" | "?m \<ge> 128" "?n \<ge> 128" | "?m < 128" "?n \<ge> 128" | "?m \<ge> 128" "?n < 128"
    by linarith
  then show ?thesis
  proof cases
    case 1
    with assms show ?thesis by (simp add: utf8_char_def)
  next
    case 2
    have lt: "?m div 64 < 4" "?n div 64 < 4" "?m mod 64 < 64" "?n mod 64 < 64"
      using b by (simp_all add: less_mult_imp_div_less)
    from 2 assms have e: "(192 + ?m div 64) mod 256 = (192 + ?n div 64) mod 256"
      "(128 + ?m mod 64) mod 256 = (128 + ?n mod 64) mod 256" "s = t"
      by (simp_all add: utf8_char_def Let_def)
    with lt have "?m div 64 = ?n div 64" "?m mod 64 = ?n mod 64" by simp_all
    then have "?m = ?n" by (metis div_mult_mod_eq)
    then show ?thesis using e(3) by simp
  next
    case 3
    with assms have "c = char_of (192 + ?n div 64)" by (simp add: utf8_char_def Let_def)
    then have "?m = (192 + ?n div 64) mod 256" by (metis of_char_of)
    with 3 b show ?thesis by auto
  next
    case 4
    with assms have "char_of (192 + ?m div 64) = d" by (simp add: utf8_char_def Let_def)
    then have "?n = (192 + ?m div 64) mod 256" by (metis of_char_of)
    with 4 b show ?thesis by auto
  qed
qed

lemma utf8_char_nonempty [simp]: "utf8_char c \<noteq> []"
  by (simp add: utf8_char_def Let_def)

lemma utf8_encode_inj: "utf8_encode s = utf8_encode t \<longleftrightarrow> s = t"
proof
  show "utf8_encode s = utf8_encode t \<Longrightarrow> s = t"
  proof (induction s arbitrary: t)
    case Nil
    then show ?case by (cases t) (auto simp: utf8_encode_def)
  next
    case (Cons c s)
    then obtain d u where t: "t = d # u" by (cases t) (auto simp: utf8_encode_def)
    with Cons.prems have "utf8_char c @ utf8_encode s = utf8_char d @ utf8_encode u"
      by (simp add: utf8_encode_def)
    then show ?case using utf8_char_inj Cons.IH t by blast
  qed
qed simp

section \<open>Base64\<close>

definition b64_char :: "nat \<Rightarrow> char" where
  "b64_char n =
     char_of (if n < 26 then 65 + n else if n < 52 then 71 + n else if n < 62 then n - 4
              else if n = 62 then 43 else (47 :: nat))"

definition b64_val :: "char \<Rightarrow> nat option" where
  "b64_val c =
     (let n = (of_char c :: nat) in
      if 65 \<le> n \<and> n \<le> 90 then Some (n - 65)
      else if 97 \<le> n \<and> n \<le> 122 then Some (n - 71)
      else if 48 \<le> n \<and> n \<le> 57 then Some (n + 4)
      else if n = 43 then Some 62
      else if n = 47 then Some 63
      else None)"

fun b64encode :: "string \<Rightarrow> string" where
  "b64encode [] = []"
| "b64encode [x] =
     (let a = (of_char x :: nat) in [b64_char (a div 4), b64_char (a mod 4 * 16), CHR ''='', CHR ''='']) "
| "b64encode [x, y] =
     (let a = (of_char x :: nat); b = of_char y in
      [b64_char (a div 4), b64_char (a mod 4 * 16 + b div 16), b64_char (b mod 16 * 4), CHR ''=''])"
| "b64encode (x # y # z # s) =
     (let a = (of_char x :: nat); b = of_char y; c = of_char z in
      [b64_char (a div 4), b64_char (a mod 4 * 16 + b div 16),
       b64_char (b mod 16 * 4 + c div 64), b64_char (c mod 64)] @ b64encode s)"

text \<open>
  \<^verbatim>\<open>b64decode(s, validate=True)\<close>: whole quadruples, of which the last may be padded; trailing
  padding after whole quadruples is accepted, anything else is an error.
\<close>

fun b64_quads :: "bool \<Rightarrow> string \<Rightarrow> string option" where
  "b64_quads started [] = Some []"
| "b64_quads started (p # s) =
     (if started \<and> (\<forall>c\<in>set (p # s). c = CHR ''='') then Some []
      else (case s of
              q # r # t # u \<Rightarrow>
                (case (b64_val p, b64_val q, b64_val r, b64_val t) of
                   (Some a, Some b, Some c, Some d) \<Rightarrow>
                     map_option (\<lambda>rest. [char_of (a * 4 + b div 16),
                                         char_of (b mod 16 * 16 + c div 4),
                                         char_of (c mod 4 * 64 + d)] @ rest) (b64_quads True u)
                 | (Some a, Some b, Some c, None) \<Rightarrow>
                     if t = CHR ''='' \<and> u = [] then
                       Some [char_of (a * 4 + b div 16), char_of (b mod 16 * 16 + c div 4)]
                     else None
                 | (Some a, Some b, None, None) \<Rightarrow>
                     if r = CHR ''='' \<and> t = CHR ''='' \<and> u = [] then
                       Some [char_of (a * 4 + b div 16)]
                     else None
                 | _ \<Rightarrow> None)
            | _ \<Rightarrow> None))"

definition b64decode :: "string \<Rightarrow> string option" where
  "b64decode s = b64_quads False s"

lemma b64_val_char [simp]: "n < 64 \<Longrightarrow> b64_val (b64_char n) = Some n"
  by (simp add: b64_val_def b64_char_def Let_def split: if_splits) arith

lemma b64_val_pad [simp]: "b64_val CHR ''='' = None"
  by (simp add: b64_val_def)

lemma b64_char_not_pad: "n < 64 \<Longrightarrow> b64_char n \<noteq> CHR ''=''"
  by (metis b64_val_char b64_val_pad option.distinct(1))

lemma byte_split:
  fixes n m k :: nat
  shows "n < 256 \<Longrightarrow> n div 4 < 64" "m < 256 \<Longrightarrow> n mod 4 * 16 + m div 16 < 64"
    "n mod 4 * 16 < 64" "k < 256 \<Longrightarrow> m mod 16 * 4 + k div 64 < 64" "m mod 16 * 4 < 64"
    "k mod 64 < 64"
proof -
  have d: "n mod 4 < 4" "m mod 16 < 16" by simp_all
  show "n < 256 \<Longrightarrow> n div 4 < 64" by (simp add: less_mult_imp_div_less)
  show "m < 256 \<Longrightarrow> n mod 4 * 16 + m div 16 < 64"
    using d less_mult_imp_div_less [of m 16 16] by linarith
  show "n mod 4 * 16 < 64" "m mod 16 * 4 < 64" using d by linarith+
  show "k < 256 \<Longrightarrow> m mod 16 * 4 + k div 64 < 64"
    using d less_mult_imp_div_less [of k 4 64] by linarith
  show "k mod 64 < 64" by simp
qed

lemma div_mod_pair:
  fixes a b k :: nat
  assumes "b < k"
  shows "(a * k + b) div k = a" "(a * k + b) mod k = b"
  using assms by simp_all

lemma byte_join:
  fixes n m :: nat
  assumes "m < 256"
  shows "n div 4 * 4 + (n mod 4 * 16 + m div 16) div 16 = n"
proof -
  from assms have "m div 16 < 16" by (simp add: less_mult_imp_div_less)
  then show ?thesis by (simp only: div_mod_pair div_mult_mod_eq)
qed

lemma byte_join2:
  fixes n m k :: nat
  assumes "m < 256" "k < 256"
  shows "(n mod 4 * 16 + m div 16) mod 16 * 16 + (m mod 16 * 4 + k div 64) div 4 = m"
proof -
  from assms have "m div 16 < 16" "k div 64 < 4" by (simp_all add: less_mult_imp_div_less)
  then show ?thesis by (simp only: div_mod_pair div_mult_mod_eq)
qed

lemma byte_join3:
  fixes m k :: nat
  assumes "k < 256"
  shows "(m mod 16 * 4 + k div 64) mod 4 * 64 + k mod 64 = k"
proof -
  from assms have "k div 64 < 4" by (simp add: less_mult_imp_div_less)
  then show ?thesis by (simp only: div_mod_pair div_mult_mod_eq)
qed

lemma b64_quads_encode: "b64_quads started (b64encode s) = Some s"
proof (induction s arbitrary: started rule: b64encode.induct)
  case 1
  then show ?case by simp
next
  case (2 x)
  then show ?case
    using byte_join [of 0 "of_char x"] byte_split [of "of_char x"]
    by (simp add: Let_def b64_char_not_pad)
next
  case (3 x y)
  then show ?case
    using byte_join [of "of_char y" "of_char x"] byte_join2 [of "of_char y" 0 "of_char x"]
    by (simp add: Let_def b64_char_not_pad byte_split)
next
  case (4 x y z s)
  then show ?case
    using byte_join [of "of_char y" "of_char x"] byte_join2 [of "of_char y" "of_char z" "of_char x"]
      byte_join3 [of "of_char z" "of_char y"]
    by (simp add: Let_def b64_char_not_pad byte_split)
qed

text \<open>Decoding inverts encoding.\<close>

lemma b64decode_encode [simp]: "b64decode (b64encode s) = Some s"
  by (simp add: b64decode_def b64_quads_encode)

lemma b64encode_inj: "b64encode s = b64encode t \<longleftrightarrow> s = t"
  by (metis b64decode_encode option.inject)

lemma b64encode_nonempty [simp]: "b64encode s = [] \<longleftrightarrow> s = []"
  by (cases s rule: b64encode.cases) (auto simp: Let_def)

end
