(* ===== verification/Http.thy ===== *)
theory Http
  imports PyCodec
begin

text \<open>
  Requests as the ASGI framework hands them to the services, header lookup, and handlers: a
  handler takes the request and the mutable world of its service and ends in a response or an
  exception, with the world it leaves.
\<close>

text \<open>
  The fields \<open>st_\<dots>\<close> are \<^verbatim>\<open>request.state\<close>: an attribute that was never set reads as \<^const>\<open>None\<close>,
  as \<^verbatim>\<open>getattr(request.state, name, None)\<close> does. The claims e-mail and roles are whatever JSON
  the token carried. The body is the list of chunks the server delivers.
\<close>

record request =
  req_method :: string
  req_path :: string
  req_query :: string
  req_scheme :: string
  req_hostname :: "string option"
  req_headers :: headers
  req_client :: "string option"
  req_body :: "string list"
  st_user_id :: "string option"
  st_user_email :: "json option"
  st_user_roles :: "json option"
  st_request_id :: "string option"

type_synonym 'w handler = "request \<Rightarrow> 'w \<Rightarrow> (http_error + response) \<times> 'w"

text \<open>Header names compare without case; the first match is returned.\<close>

definition hget :: "headers \<Rightarrow> string \<Rightarrow> string option" where
  "hget hs n = map_of (map (\<lambda>(k, v). (py_lower k, v)) hs) (py_lower n)"

definition hget_or :: "headers \<Rightarrow> string \<Rightarrow> string \<Rightarrow> string" where
  "hget_or hs n d = (case hget hs n of None \<Rightarrow> d | Some v \<Rightarrow> v)"

text \<open>Assignment to a response header replaces every header of that name.\<close>

definition hset :: "string \<Rightarrow> string \<Rightarrow> headers \<Rightarrow> headers" where
  "hset n v hs = filter (\<lambda>(k, _). py_lower k \<noteq> py_lower n) hs @ [(py_lower n, v)]"

definition hdel :: "string \<Rightarrow> headers \<Rightarrow> headers" where
  "hdel n hs = filter (\<lambda>(k, _). py_lower k \<noteq> py_lower n) hs"

definition set_header :: "string \<Rightarrow> string \<Rightarrow> response \<Rightarrow> response" where
  "set_header n v r = r\<lparr>resp_headers := hset n v (resp_headers r)\<rparr>"

definition map_response :: "(response \<Rightarrow> response) \<Rightarrow> (http_error + response) \<times> 'w \<Rightarrow>
    (http_error + response) \<times> 'w" where
  "map_response f x = (case x of (Inr r, w) \<Rightarrow> (Inr (f r), w) | (Inl e, w) \<Rightarrow> (Inl e, w))"

text \<open>The framework turns an \<^verbatim>\<open>HTTPException\<close> of a route into its response, inside every middleware.\<close>

definition exception_response :: "http_error + response \<Rightarrow> http_error + response" where
  "exception_response x =
     (case x of
        Inl (HTTPException st d hs) \<Rightarrow> Inr (JSONResponse st (detail_body d) hs)
      | _ \<Rightarrow> x)"

definition route :: "'w handler \<Rightarrow> 'w handler" where
  "route h r w = (case h r w of (x, w') \<Rightarrow> (exception_response x, w'))"

lemma py_lower_char_idem [simp]: "py_lower_char (py_lower_char c) = py_lower_char c"
  by (auto simp: py_lower_char_def Let_def)

lemma py_lower_idem [simp]: "py_lower (py_lower s) = py_lower s"
  by (simp add: py_lower_def comp_def)

lemma hget_Nil [simp]: "hget [] n = None"
  by (simp add: hget_def)

lemma hget_Cons:
  "hget ((k, v) # hs) n = (if py_lower k = py_lower n then Some v else hget hs n)"
  by (simp add: hget_def)

lemma hget_append: "hget (hs @ gs) n = (case hget hs n of None \<Rightarrow> hget gs n | Some v \<Rightarrow> Some v)"
  by (induction hs) (auto simp: hget_Cons)

lemma hget_filter_other:
  "hget (filter (\<lambda>(k, _). py_lower k \<noteq> py_lower m) hs) n =
     (if py_lower n = py_lower m then None else hget hs n)"
  by (induction hs) (auto simp: hget_Cons)

lemma hget_hset: "hget (hset m v hs) n = (if py_lower n = py_lower m then Some v else hget hs n)"
  by (auto simp: hset_def hget_append hget_filter_other hget_Cons split: option.splits)

lemma hget_hdel: "hget (hdel m hs) n = (if py_lower n = py_lower m then None else hget hs n)"
  by (simp add: hdel_def hget_filter_other)

lemma map_response_simps [simp]:
  "map_response f (Inr r, w) = (Inr (f r), w)" "map_response f (Inl e, w) = (Inl e, w)"
  by (simp_all add: map_response_def)

text \<open>The authenticated user id of a request, empty if there is none.\<close>

definition user_of :: "request \<Rightarrow> string" where
  "user_of r = (case st_user_id r of Some u \<Rightarrow> u | None \<Rightarrow> [])"

text \<open>A request without a body from a known client, for the concrete instances of the theorems.\<close>

definition plain_request :: "string \<Rightarrow> string \<Rightarrow> headers \<Rightarrow> request" where
  "plain_request meth path hs =
     \<lparr>req_method = meth, req_path = path, req_query = [], req_scheme = ''http'',
      req_hostname = Some ''gw'', req_headers = hs, req_client = Some ''10.0.0.7'', req_body = [],
      st_user_id = None, st_user_email = None, st_user_roles = None, st_request_id = None\<rparr>"

lemma plain_request_sel [simp]:
  "req_method (plain_request m p hs) = m" "req_path (plain_request m p hs) = p"
  "req_headers (plain_request m p hs) = hs" "req_query (plain_request m p hs) = []"
  "req_client (plain_request m p hs) = Some ''10.0.0.7''" "req_body (plain_request m p hs) = []"
  "req_scheme (plain_request m p hs) = ''http''" "req_hostname (plain_request m p hs) = Some ''gw''"
  "st_user_id (plain_request m p hs) = None" "st_user_email (plain_request m p hs) = None"
  "st_user_roles (plain_request m p hs) = None" "st_request_id (plain_request m p hs) = None"
  by (simp_all add: plain_request_def)

end
