(* ===== verification/UserModel.thy ===== *)
theory UserModel
  imports TokenStore Keyring Http
begin

text \<open>
  The data of the user service: the \<^verbatim>\<open>users\<close> table (\<^verbatim>\<open>models.py\<close>) and what the session of the ORM
  does with it, the request and response schemas (\<^verbatim>\<open>schemas.py\<close>), the audit log (\<^verbatim>\<open>audit.py\<close>),
  the mails (\<^verbatim>\<open>email.py\<close>), and what the service gets from its environment.
\<close>

section \<open>The table\<close>

record user =
  u_id :: uuid
  u_email :: string
  u_username :: string
  u_hashed_password :: string
  u_full_name :: "string option"
  u_is_active :: bool
  u_is_admin :: bool
  u_created_at :: pyfloat
  u_updated_at :: pyfloat
  u_last_login_at :: "pyfloat option"
  u_email_verified :: bool
  u_email_verified_at :: "pyfloat option"

definition new_user :: "pyfloat \<Rightarrow> uuid \<Rightarrow> string \<Rightarrow> string \<Rightarrow> string \<Rightarrow> string option \<Rightarrow> user" where
  "new_user now i email username hashed full_name =
     \<lparr>u_id = i, u_email = email, u_username = username, u_hashed_password = hashed,
      u_full_name = full_name, u_is_active = True, u_is_admin = False, u_created_at = now,
      u_updated_at = now, u_last_login_at = None, u_email_verified = False,
      u_email_verified_at = None\<rparr>"

text \<open>\<^verbatim>\<open>scalar_one_or_none\<close> raises when a query has more than one row.\<close>

definition scalar_one_or_none :: "'a list \<Rightarrow> string + 'a option" where
  "scalar_one_or_none rows =
     (case rows of [] \<Rightarrow> Inr None | [x] \<Rightarrow> Inr (Some x) | _ \<Rightarrow> Inl ''MultipleResultsFound'')"

text \<open>
  A changed attribute of a loaded object reaches its row, with \<^verbatim>\<open>updated_at\<close> set by the server; an
  inserted row must not repeat an id, e-mail or user name.
\<close>

definition save_user :: "pyfloat \<Rightarrow> user \<Rightarrow> user list \<Rightarrow> user list" where
  "save_user now u rows =
     map (\<lambda>x. if u_id x = u_id u then (if x = u then u else u\<lparr>u_updated_at := now\<rparr>) else x) rows"

definition insert_user :: "user \<Rightarrow> user list \<Rightarrow> string + user list" where
  "insert_user u rows =
     (if list_ex (\<lambda>x. u_id x = u_id u \<or> u_email x = u_email u \<or> u_username x = u_username u) rows
      then Inl ''IntegrityError'' else Inr (rows @ [u]))"

definition delete_user :: "uuid \<Rightarrow> user list \<Rightarrow> user list" where
  "delete_user i rows = filter (\<lambda>x. u_id x \<noteq> i) rows"

definition users_by_email :: "string \<Rightarrow> user list \<Rightarrow> user list" where
  "users_by_email email rows = filter (\<lambda>x. u_email x = email) rows"

definition users_by_id :: "uuid \<Rightarrow> user list \<Rightarrow> user list" where
  "users_by_id i rows = filter (\<lambda>x. u_id x = i) rows"

definition wf_users :: "user list \<Rightarrow> bool" where
  "wf_users rows \<longleftrightarrow>
     distinct (map u_id rows) \<and> distinct (map u_email rows) \<and> distinct (map u_username rows)"

section \<open>Schemas\<close>

definition username_re :: "string \<Rightarrow> bool" where
  "username_re s \<longleftrightarrow>
     s \<noteq> [] \<and>
     list_all (\<lambda>c. let n = (of_char c :: nat) in
       (97 \<le> n \<and> n \<le> 122) \<or> (65 \<le> n \<and> n \<le> 90) \<or> (48 \<le> n \<and> n \<le> 57) \<or> n = 95 \<or> n = 45) s"

definition password_complexity :: "string \<Rightarrow> bool" where
  "password_complexity v \<longleftrightarrow> list_ex py_isupper_char v \<and> list_ex py_isdigit_char v"

definition length_in :: "nat \<Rightarrow> nat \<Rightarrow> string \<Rightarrow> bool" where
  "length_in lo hi s \<longleftrightarrow> lo \<le> length s \<and> length s \<le> hi"

definition password_ok :: "string \<Rightarrow> bool" where
  "password_ok v \<longleftrightarrow> length_in 8 100 v \<and> password_complexity v"

definition full_name_ok :: "string option \<Rightarrow> bool" where
  "full_name_ok n \<longleftrightarrow> (case n of None \<Rightarrow> True | Some s \<Rightarrow> length s \<le> 255)"

definition unprocessable :: http_error where
  "unprocessable = HTTPException 422 ''validation error'' []"

record user_create =
  uc_email :: string
  uc_username :: string
  uc_password :: string
  uc_full_name :: "string option"

text \<open>\<open>parse_email\<close> is the e-mail type of the validation library: the normalised address, if valid.\<close>

definition UserCreate :: "(string \<Rightarrow> string option) \<Rightarrow> user_create \<Rightarrow> http_error + user_create" where
  "UserCreate parse_email p =
     (case parse_email (uc_email p) of
        None \<Rightarrow> Inl unprocessable
      | Some e \<Rightarrow>
          if length_in 3 50 (uc_username p) \<and> username_re (uc_username p) \<and>
             password_ok (uc_password p) \<and> full_name_ok (uc_full_name p)
          then Inr (p\<lparr>uc_email := e\<rparr>) else Inl unprocessable)"

record user_update =
  uu_full_name :: "string option"
  uu_password :: "string option"

definition UserUpdate :: "user_update \<Rightarrow> http_error + user_update" where
  "UserUpdate p =
     (if full_name_ok (uu_full_name p) \<and>
         (case uu_password p of None \<Rightarrow> True | Some v \<Rightarrow> password_ok v)
      then Inr p else Inl unprocessable)"

record user_response =
  ures_id :: uuid
  ures_email :: string
  ures_username :: string
  ures_full_name :: "string option"
  ures_is_active :: bool
  ures_created_at :: pyfloat
  ures_last_login_at :: "pyfloat option"

definition UserResponse :: "user \<Rightarrow> user_response" where
  "UserResponse u =
     \<lparr>ures_id = u_id u, ures_email = u_email u, ures_username = u_username u,
      ures_full_name = u_full_name u, ures_is_active = u_is_active u,
      ures_created_at = u_created_at u, ures_last_login_at = u_last_login_at u\<rparr>"

record admin_user_response = user_response +
  ures_is_admin :: bool

definition AdminUserResponse :: "user \<Rightarrow> admin_user_response" where
  "AdminUserResponse u = user_response.extend (UserResponse u) \<lparr>ures_is_admin = u_is_admin u\<rparr>"

record token_response =
  tr_access_token :: string
  tr_token_type :: string
  tr_expires_in :: int
  tr_user :: user_response
  tr_refresh_token :: "string option"

section \<open>The audit log\<close>

record audit_event =
  ae_event_type :: string
  ae_timestamp_utc :: pyfloat
  ae_data :: "(string \<times> json) list"

definition emit :: "pyfloat \<Rightarrow> string \<Rightarrow> (string \<times> json) list \<Rightarrow> audit_event" where
  "emit now event_type data =
     \<lparr>ae_event_type = event_type, ae_timestamp_utc = now, ae_data = data\<rparr>"

definition opt_text :: "string option \<Rightarrow> json" where
  "opt_text x = (case x of None \<Rightarrow> JNull | Some s \<Rightarrow> JStr s)"

definition log_login_success :: "pyfloat \<Rightarrow> string \<Rightarrow> string \<Rightarrow> string option \<Rightarrow> audit_event" where
  "log_login_success now user_id email ip =
     emit now ''login_success''
       [(''user_id'', JStr user_id), (''email'', JStr email), (''client_ip'', opt_text ip)]"

definition log_login_failure :: "pyfloat \<Rightarrow> string \<Rightarrow> string \<Rightarrow> string option \<Rightarrow> audit_event" where
  "log_login_failure now email reason ip =
     emit now ''login_failure''
       [(''email'', JStr email), (''reason'', JStr reason), (''client_ip'', opt_text ip)]"

definition log_registration :: "pyfloat \<Rightarrow> string \<Rightarrow> string \<Rightarrow> string option \<Rightarrow> audit_event" where
  "log_registration now user_id email ip =
     emit now ''registration''
       [(''user_id'', JStr user_id), (''email'', JStr email), (''client_ip'', opt_text ip)]"

definition log_account_deactivated :: "pyfloat \<Rightarrow> string \<Rightarrow> string \<Rightarrow> audit_event" where
  "log_account_deactivated now user_id target_user_id =
     emit now ''account_deactivated''
       [(''actor_user_id'', JStr user_id), (''target_user_id'', JStr target_user_id)]"

definition log_password_changed :: "pyfloat \<Rightarrow> string \<Rightarrow> string option \<Rightarrow> audit_event" where
  "log_password_changed now user_id ip =
     emit now ''password_changed'' [(''user_id'', JStr user_id), (''client_ip'', opt_text ip)]"

definition log_self_deactivation :: "pyfloat \<Rightarrow> string \<Rightarrow> string \<Rightarrow> audit_event" where
  "log_self_deactivation now user_id email =
     emit now ''self_deactivation'' [(''user_id'', JStr user_id), (''email'', JStr email)]"

definition log_self_hard_delete :: "pyfloat \<Rightarrow> string \<Rightarrow> string \<Rightarrow> audit_event" where
  "log_self_hard_delete now user_id email =
     emit now ''self_hard_delete'' [(''user_id'', JStr user_id), (''email'', JStr email)]"

definition log_email_verified :: "pyfloat \<Rightarrow> string \<Rightarrow> string \<Rightarrow> audit_event" where
  "log_email_verified now user_id email =
     emit now ''email_verified'' [(''user_id'', JStr user_id), (''email'', JStr email)]"

definition log_password_reset :: "pyfloat \<Rightarrow> string \<Rightarrow> string \<Rightarrow> audit_event" where
  "log_password_reset now user_id email =
     emit now ''password_reset'' [(''user_id'', JStr user_id), (''email'', JStr email)]"

section \<open>Mails\<close>

text \<open>Neither sender ever raises, so sending is adding to the list of mails handed over.\<close>

record mail =
  ma_to :: string
  ma_subject :: string
  ma_body :: string

definition nl :: string where
  "nl = [CHR 0x0A]"

definition verification_email_body :: "string \<Rightarrow> string" where
  "verification_email_body verify_url =
     ''Welcome to the platform!'' @ nl @ nl @
     ''Please confirm your email address by clicking the link below.'' @ nl @
     ''This link is single-use and expires in 24 hours:'' @ nl @ nl @ verify_url @ nl @ nl @
     ''If you didn'' @ [CHR 0x27] @ ''t sign up, you can safely ignore this email.''"

definition password_reset_email_body :: "string \<Rightarrow> string" where
  "password_reset_email_body reset_url =
     ''We received a request to reset your password.'' @ nl @ nl @
     ''Use the link below within 1 hour to choose a new password:'' @ nl @ nl @ reset_url @ nl @ nl @
     ''If you didn'' @ [CHR 0x27] @ ''t request this, ignore this email '' @ [CHR 0xE2, CHR 0x80, CHR 0x94] @
     '' your account is safe.''"

section \<open>Settings, environment, state\<close>

record user_settings =
  us_jwt_secret :: string
  us_jwt_algorithm :: string
  us_jwt_expiry_minutes :: int
  us_jwt_secrets :: string
  us_jwt_current_kid :: string
  us_public_base_url :: string
  us_email_verification_token_ttl_seconds :: int
  us_password_reset_token_ttl_seconds :: int
  us_initial_admin_email :: "string option"

text \<open>
  What one request gets from outside: Redis, the clock, bcrypt (\<open>hashpw\<close> with a fresh salt,
  \<open>checkpw\<close>; \<^const>\<open>None\<close> for an exception), the JWT encoder, the e-mail validator, and the
  random values it draws.
\<close>

record 'r user_env =
  ue_redis :: "'r redis"
  ue_now :: pyfloat
  ue_hashpw :: "string \<Rightarrow> string option"
  ue_checkpw :: "string \<Rightarrow> string \<Rightarrow> bool option"
  ue_dummy_hash :: string
  ue_jwt_encode :: "(string \<times> json) list \<Rightarrow> string \<Rightarrow> string \<Rightarrow> string \<Rightarrow> string option"
  ue_parse_email :: "string \<Rightarrow> string option"
  ue_uuid4 :: uuid
  ue_row_id :: uuid
  ue_token_urlsafe :: string

datatype bg_task = SendVerification user | SendPasswordReset user

record 'r user_world =
  uw_users :: "user list"
  uw_redis :: "'r redis_client"
  uw_audit :: "audit_event list"
  uw_mails :: "mail list"
  uw_tasks :: "bg_task list"

type_synonym ('r, 'a) user_action = "'r user_world \<Rightarrow> (http_error + 'a) \<times> 'r user_world"

definition audit :: "audit_event \<Rightarrow> 'r user_world \<Rightarrow> 'r user_world" where
  "audit e w = w\<lparr>uw_audit := uw_audit w @ [e]\<rparr>"

definition on_redis :: "('r redis_client \<Rightarrow> 'a \<times> 'r redis_client) \<Rightarrow> 'r user_world \<Rightarrow> 'a \<times> 'r user_world" where
  "on_redis f w = (case f (uw_redis w) of (x, c) \<Rightarrow> (x, w\<lparr>uw_redis := c\<rparr>))"

text \<open>
  \<^verbatim>\<open>get_db\<close>: the rows are committed when the route returns and rolled back when it raises; Redis,
  the audit log and the mails are not part of the transaction.
\<close>

definition in_session :: "('r, 'a) user_action \<Rightarrow> ('r, 'a) user_action" where
  "in_session body w =
     (case body w of
        (Inl e, w') \<Rightarrow> (Inl e, w'\<lparr>uw_users := uw_users w\<rparr>)
      | (Inr x, w') \<Rightarrow> (Inr x, w'))"

text \<open>One row of a query or an exception, and a library exception as the 500 it becomes.\<close>

definition fetch_one :: "(user list \<Rightarrow> user list) \<Rightarrow> ('r, user option) user_action" where
  "fetch_one q w =
     (case scalar_one_or_none (q (uw_users w)) of Inl e \<Rightarrow> (Inl (ServerError e), w) | Inr x \<Rightarrow> (Inr x, w))"

definition on_users :: "(user list \<Rightarrow> user list) \<Rightarrow> 'r user_world \<Rightarrow> 'r user_world" where
  "on_users f w = w\<lparr>uw_users := f (uw_users w)\<rparr>"

end
