(* ===== verification/Auth.thy ===== *)
theory Auth
  imports UserModel
begin

text \<open>
  The authentication routes (\<^verbatim>\<open>routes/auth.py\<close>): registration, login with the per-account lockout,
  refresh with rotation, logout, e-mail verification and password reset.
\<close>

section \<open>Tokens\<close>

definition create_access_jwt :: "'r user_env \<Rightarrow> user_settings \<Rightarrow> user \<Rightarrow> http_error + string \<times> int" where
  "create_access_jwt en cfg u =
     (case parse_keyring (us_jwt_secrets cfg) (us_jwt_secret cfg) ''default'' of
        Inl _ \<Rightarrow> Inl (ServerError ''KeyringError'')
      | Inr ring \<Rightarrow>
          (case select_signing_key ring (us_jwt_current_kid cfg) of
             Inl _ \<Rightarrow> Inl (ServerError ''KeyringError'')
           | Inr (kid, secret) \<Rightarrow>
               (let expires_in = us_jwt_expiry_minutes cfg * 60;
                    payload =
                      [(''sub'', JStr (uuid_str (u_id u))),
                       (''email'', JStr (u_email u)),
                       (''roles'', JArr (if u_is_admin u then [JStr ''admin'', JStr ''user''] else [JStr ''user''])),
                       (''exp'', JInt \<lfloor>ue_now en + of_int expires_in\<rfloor>),
                       (''iat'', JInt \<lfloor>ue_now en\<rfloor>)]
                in case ue_jwt_encode en payload secret (us_jwt_algorithm cfg) kid of
                     None \<Rightarrow> Inl (ServerError ''JWTError'')
                   | Some token \<Rightarrow> Inr (token, expires_in))))"

definition issue_token_response ::
  "'r user_env \<Rightarrow> user_settings \<Rightarrow> user \<Rightarrow> ('r, token_response) user_action" where
  "issue_token_response en cfg u w =
     (case create_access_jwt en cfg u of
        Inl e \<Rightarrow> (Inl e, w)
      | Inr (access_token, expires_in) \<Rightarrow>
          (let refresh_token = uuid_str (ue_uuid4 en) in
           case on_redis (store_refresh_token (ue_redis en) (ue_now en) refresh_token (uuid_str (u_id u))) w of
             (Inl e, w1) \<Rightarrow> (Inl (ServerError e), w1)
           | (Inr stored, w1) \<Rightarrow>
               (Inr \<lparr>tr_access_token = access_token, tr_token_type = ''bearer'',
                     tr_expires_in = expires_in, tr_user = UserResponse u,
                     tr_refresh_token = (if stored then Some refresh_token else None)\<rparr>, w1)))"

definition client_ip :: "request \<Rightarrow> string option" where
  "client_ip r =
     (let xff = hget_or (req_headers r) ''x-forwarded-for'' [] in
      if xff \<noteq> [] then Some (py_strip (hd (py_split CHR '','' xff))) else req_client r)"

section \<open>Mails with tokens\<close>

text \<open>Both pipelines catch every exception.\<close>

definition send_verification_email :: "'r user_env \<Rightarrow> user_settings \<Rightarrow> user \<Rightarrow> 'r user_world \<Rightarrow> 'r user_world" where
  "send_verification_email en cfg u w =
     (let token = ue_token_urlsafe en in
      case on_redis (store_email_verification_token (ue_redis en) (ue_now en)
             (us_email_verification_token_ttl_seconds cfg) token (uuid_str (u_id u))) w of
        (Inr True, w1) \<Rightarrow>
          w1\<lparr>uw_mails := uw_mails w1 @
             [\<lparr>ma_to = u_email u, ma_subject = ''Verify your email'',
               ma_body = verification_email_body
                 (us_public_base_url cfg @ ''/verify-email?token='' @ token)\<rparr>]\<rparr>
      | (_, w1) \<Rightarrow> w1)"

definition send_password_reset_email :: "'r user_env \<Rightarrow> user_settings \<Rightarrow> user \<Rightarrow> 'r user_world \<Rightarrow> 'r user_world" where
  "send_password_reset_email en cfg u w =
     (let token = ue_token_urlsafe en in
      case on_redis (store_password_reset_token (ue_redis en) (ue_now en)
             (us_password_reset_token_ttl_seconds cfg) token (uuid_str (u_id u))) w of
        (Inr True, w1) \<Rightarrow>
          w1\<lparr>uw_mails := uw_mails w1 @
             [\<lparr>ma_to = u_email u, ma_subject = ''Password reset'',
               ma_body = password_reset_email_body
                 (us_public_base_url cfg @ ''/reset-password?token='' @ token)\<rparr>]\<rparr>
      | (_, w1) \<Rightarrow> w1)"

text \<open>The tasks of a request run after its response and its commit; a request that raised has none.\<close>

fun run_task :: "'r user_env \<Rightarrow> user_settings \<Rightarrow> bg_task \<Rightarrow> 'r user_world \<Rightarrow> 'r user_world" where
  "run_task en cfg (SendVerification u) w = send_verification_email en cfg u w"
| "run_task en cfg (SendPasswordReset u) w = send_password_reset_email en cfg u w"

definition respond :: "'r user_env \<Rightarrow> user_settings \<Rightarrow> ('r, 'a) user_action \<Rightarrow> ('r, 'a) user_action" where
  "respond en cfg body w =
     (case in_session body (w\<lparr>uw_tasks := []\<rparr>) of
        (Inl e, w') \<Rightarrow> (Inl e, w'\<lparr>uw_tasks := []\<rparr>)
      | (Inr x, w') \<Rightarrow> (Inr x, fold (run_task en cfg) (uw_tasks w') (w'\<lparr>uw_tasks := []\<rparr>)))"

section \<open>Registration and login\<close>

definition register ::
  "'r user_env \<Rightarrow> user_settings \<Rightarrow> request \<Rightarrow> user_create \<Rightarrow> ('r, user_response) user_action" where
  "register en cfg r p0 w =
     (case UserCreate (ue_parse_email en) p0 of
        Inl e \<Rightarrow> (Inl e, w)
      | Inr p \<Rightarrow>
          (case fetch_one (filter (\<lambda>x. u_email x = uc_email p \<or> u_username x = uc_username p)) w of
             (Inl e, w1) \<Rightarrow> (Inl e, w1)
           | (Inr (Some _), w1) \<Rightarrow> (Inl (HTTPException 409 ''Email or username already registered'' []), w1)
           | (Inr None, w1) \<Rightarrow>
               (case ue_hashpw en (uc_password p) of
                  None \<Rightarrow> (Inl (ServerError ''ValueError''), w1)
                | Some hashed \<Rightarrow>
                    (let u = new_user (ue_now en) (ue_row_id en) (uc_email p) (uc_username p) hashed (uc_full_name p)
                     in case insert_user u (uw_users w1) of
                          Inl e \<Rightarrow> (Inl (ServerError e), w1)
                        | Inr rows \<Rightarrow>
                            (let w2 = audit (log_registration (ue_now en) (uuid_str (u_id u)) (u_email u) (client_ip r))
                                        (w1\<lparr>uw_users := rows\<rparr>)
                             in (Inr (UserResponse u), send_verification_email en cfg u w2))))))"

definition invalid_credentials :: http_error where
  "invalid_credentials = HTTPException 401 ''Invalid email or password'' []"

definition login ::
  "'r user_env \<Rightarrow> user_settings \<Rightarrow> request \<Rightarrow> string \<Rightarrow> string \<Rightarrow> ('r, token_response) user_action" where
  "login en cfg r raw_email password w =
     (case ue_parse_email en raw_email of
        None \<Rightarrow> (Inl unprocessable, w)
      | Some email \<Rightarrow>
          (let ip = client_ip r;
               (account_is_locked, w1) = on_redis (is_account_locked (ue_redis en) (ue_now en) email) w
           in case fetch_one (users_by_email email) w1 of
                (Inl e, w2) \<Rightarrow> (Inl e, w2)
              | (Inr found, w2) \<Rightarrow>
                  (case ue_checkpw en password
                          (case found of Some u \<Rightarrow> u_hashed_password u | None \<Rightarrow> ue_dummy_hash en) of
                     None \<Rightarrow> (Inl (ServerError ''ValueError''), w2)
                   | Some password_matches \<Rightarrow>
                       (case (if account_is_locked \<or> \<not> password_matches then None else found) of
                          None \<Rightarrow>
                            (let w3 = audit (log_login_failure (ue_now en) email
                                        (if account_is_locked then ''account_locked'' else ''invalid_credentials'') ip) w2;
                                 w4 = (if found \<noteq> None \<and> \<not> account_is_locked
                                       then snd (on_redis (record_login_failure (ue_redis en) (ue_now en) email) w3)
                                       else w3)
                             in (Inl invalid_credentials, w4))
                        | Some u \<Rightarrow>
                            if \<not> u_is_active u then
                              (Inl (HTTPException 403 ''Account deactivated'' []),
                               audit (log_login_failure (ue_now en) email ''account_deactivated'' ip) w2)
                            else
                              (let u1 = u\<lparr>u_last_login_at := Some (ue_now en)\<rparr>;
                                   w3 = on_users (save_user (ue_now en) u1) w2;
                                   w4 = w3\<lparr>uw_redis := reset_login_failures (ue_redis en) (ue_now en) email (uw_redis w3)\<rparr>;
                                   w5 = audit (log_login_success (ue_now en) (uuid_str (u_id u1)) (u_email u1) ip) w4
                               in issue_token_response en cfg u1 w5)))))"

section \<open>Refresh and logout\<close>

text \<open>
  An empty stored value counts as no token; a stored value that is no UUID makes \<^verbatim>\<open>uuid.UUID\<close>
  raise.
\<close>

definition refresh_token :: "'r user_env \<Rightarrow> user_settings \<Rightarrow> string \<Rightarrow> ('r, token_response) user_action" where
  "refresh_token en cfg presented w =
     (case on_redis (consume_refresh_token (ue_redis en) (ue_now en) presented) w of
        (Inl e, w1) \<Rightarrow> (Inl (ServerError e), w1)
      | (Inr found, w1) \<Rightarrow>
          (let user_id = (case found of Some s \<Rightarrow> s | None \<Rightarrow> []) in
           if user_id = [] then
             (Inl (HTTPException 401 ''Refresh token is invalid, expired, or already used'' []), w1)
           else
             (case uuid_parse user_id of
                None \<Rightarrow> (Inl (ServerError ''ValueError''), w1)
              | Some uid \<Rightarrow>
                  (case fetch_one (users_by_id uid) w1 of
                     (Inl e, w2) \<Rightarrow> (Inl e, w2)
                   | (Inr None, w2) \<Rightarrow> (Inl (HTTPException 401 ''User account is unavailable'' []), w2)
                   | (Inr (Some u), w2) \<Rightarrow>
                       if \<not> u_is_active u then (Inl (HTTPException 401 ''User account is unavailable'' []), w2)
                       else issue_token_response en cfg u w2))))"

definition logout :: "'r user_env \<Rightarrow> string \<Rightarrow> ('r, unit) user_action" where
  "logout en presented w =
     (case on_redis (revoke_refresh_token (ue_redis en) (ue_now en) presented) w of
        (Inl e, w1) \<Rightarrow> (Inl (ServerError e), w1)
      | (Inr _, w1) \<Rightarrow> (Inr (), w1))"

section \<open>Verification and reset\<close>

text \<open>What both routes do with the value a token stood for.\<close>

definition token_user :: "string \<Rightarrow> string + string option \<Rightarrow> ('r, user) user_action" where
  "token_user invalid found w =
     (case found of
        Inl e \<Rightarrow> (Inl (ServerError e), w)
      | Inr x \<Rightarrow>
          (let user_id = (case x of Some s \<Rightarrow> s | None \<Rightarrow> []) in
           if user_id = [] then (Inl (HTTPException 400 invalid []), w)
           else
             (case uuid_parse user_id of
                None \<Rightarrow> (Inl (HTTPException 400 ''Invalid token'' []), w)
              | Some uid \<Rightarrow>
                  (case fetch_one (users_by_id uid) w of
                     (Inl e, w1) \<Rightarrow> (Inl e, w1)
                   | (Inr None, w1) \<Rightarrow> (Inl (HTTPException 400 ''Invalid token'' []), w1)
                   | (Inr (Some u), w1) \<Rightarrow> (Inr u, w1)))))"

definition verify_email :: "'r user_env \<Rightarrow> string \<Rightarrow> ('r, unit) user_action" where
  "verify_email en token w =
     (if \<not> length_in 16 128 token then (Inl unprocessable, w)
      else
        (let (found, w1) = on_redis (consume_email_verification_token (ue_redis en) (ue_now en) token) w in
         case token_user ''Verification token is invalid, expired, or already used'' found w1 of
           (Inl e, w2) \<Rightarrow> (Inl e, w2)
         | (Inr u, w2) \<Rightarrow>
             if u_email_verified u then (Inr (), w2)
             else
               (let u1 = u\<lparr>u_email_verified := True, u_email_verified_at := Some (ue_now en)\<rparr>
                in (Inr (), audit (log_email_verified (ue_now en) (uuid_str (u_id u1)) (u_email u1))
                              (on_users (save_user (ue_now en) u1) w2)))))"

definition resend_verification :: "'r user_env \<Rightarrow> string \<Rightarrow> ('r, unit) user_action" where
  "resend_verification en raw_email w =
     (case ue_parse_email en raw_email of
        None \<Rightarrow> (Inl unprocessable, w)
      | Some email \<Rightarrow>
          (case fetch_one (users_by_email email) w of
             (Inl e, w1) \<Rightarrow> (Inl e, w1)
           | (Inr (Some u), w1) \<Rightarrow>
               (Inr (), if \<not> u_email_verified u then w1\<lparr>uw_tasks := uw_tasks w1 @ [SendVerification u]\<rparr> else w1)
           | (Inr None, w1) \<Rightarrow> (Inr (), w1)))"

definition forgot_password :: "'r user_env \<Rightarrow> string \<Rightarrow> ('r, unit) user_action" where
  "forgot_password en raw_email w =
     (case ue_parse_email en raw_email of
        None \<Rightarrow> (Inl unprocessable, w)
      | Some email \<Rightarrow>
          (case fetch_one (users_by_email email) w of
             (Inl e, w1) \<Rightarrow> (Inl e, w1)
           | (Inr (Some u), w1) \<Rightarrow>
               (Inr (), if u_is_active u then w1\<lparr>uw_tasks := uw_tasks w1 @ [SendPasswordReset u]\<rparr> else w1)
           | (Inr None, w1) \<Rightarrow> (Inr (), w1)))"

definition reset_password :: "'r user_env \<Rightarrow> string \<Rightarrow> string \<Rightarrow> ('r, unit) user_action" where
  "reset_password en token new_password w =
     (if \<not> length_in 16 128 token \<or> \<not> password_ok new_password then (Inl unprocessable, w)
      else
        (let (found, w1) = on_redis (consume_password_reset_token (ue_redis en) (ue_now en) token) w in
         case token_user ''Reset token is invalid, expired, or already used'' found w1 of
           (Inl e, w2) \<Rightarrow> (Inl e, w2)
         | (Inr u, w2) \<Rightarrow>
             (case ue_hashpw en new_password of
                None \<Rightarrow> (Inl (ServerError ''ValueError''), w2)
              | Some hashed \<Rightarrow>
                  (let u1 = u\<lparr>u_hashed_password := hashed\<rparr>
                   in (Inr (), audit (log_password_reset (ue_now en) (uuid_str (u_id u1)) (u_email u1))
                                 (on_users (save_user (ue_now en) u1) w2))))))"

end
