(* ===== verification/Users.thy ===== *)
theory Users
  imports Auth
begin

text \<open>
  The profile and administration routes (\<^verbatim>\<open>routes/users.py\<close>), their dependencies
  (\<^verbatim>\<open>dependencies.py\<close>), and the start of the service (\<^verbatim>\<open>main.py\<close>).
\<close>

section \<open>Dependencies\<close>

text \<open>A missing header is a validation error, a malformed one a 400.\<close>

definition parse_caller_id :: "request \<Rightarrow> http_error + uuid" where
  "parse_caller_id r =
     (case hget (req_headers r) ''X-User-Id'' of
        None \<Rightarrow> Inl unprocessable
      | Some h \<Rightarrow>
          (case uuid_parse h of
             Some u \<Rightarrow> Inr u
           | None \<Rightarrow> Inl (HTTPException 400 (''Invalid X-User-Id header '' @ [CHR 0xE2, CHR 0x80, CHR 0x94] @
                        '' expected a UUID'') [])))"

definition roles_of :: "string \<Rightarrow> string set" where
  "roles_of x_user_roles = set (filter (\<lambda>x. x \<noteq> []) (map py_strip (py_split CHR '','' x_user_roles)))"

definition require_admin :: "request \<Rightarrow> http_error + unit" where
  "require_admin r =
     (if ''admin'' \<notin> roles_of (hget_or (req_headers r) ''X-User-Roles'' [])
      then Inl (HTTPException 403 ''Admin privileges required for this operation'' []) else Inr ())"

definition with_caller :: "request \<Rightarrow> (uuid \<Rightarrow> ('r, 'a) user_action) \<Rightarrow> ('r, 'a) user_action" where
  "with_caller r f w = (case parse_caller_id r of Inl e \<Rightarrow> (Inl e, w) | Inr u \<Rightarrow> f u w)"

text \<open>
  \<^verbatim>\<open>_: RequireAdmin, caller_id: CallerID\<close>, in this order. An exception of a dependency ends the
  request at once; validation errors of the body and the query are reported after that.
\<close>

definition as_admin :: "request \<Rightarrow> (uuid \<Rightarrow> ('r, 'a) user_action) \<Rightarrow> ('r, 'a) user_action" where
  "as_admin r f w = (case require_admin r of Inl e \<Rightarrow> (Inl e, w) | Inr _ \<Rightarrow> with_caller r f w)"

definition get_user_or_404 :: "uuid \<Rightarrow> ('r, user) user_action" where
  "get_user_or_404 user_id w =
     (case fetch_one (users_by_id user_id) w of
        (Inl e, w1) \<Rightarrow> (Inl e, w1)
      | (Inr None, w1) \<Rightarrow> (Inl (HTTPException 404 ''User not found'' []), w1)
      | (Inr (Some u), w1) \<Rightarrow> (Inr u, w1))"

definition with_user :: "uuid \<Rightarrow> (user \<Rightarrow> ('r, 'a) user_action) \<Rightarrow> ('r, 'a) user_action" where
  "with_user user_id f w =
     (case get_user_or_404 user_id w of (Inl e, w1) \<Rightarrow> (Inl e, w1) | (Inr u, w1) \<Rightarrow> f u w1)"

section \<open>Self-service\<close>

definition get_me :: "request \<Rightarrow> ('r, user_response) user_action" where
  "get_me r = with_caller r (\<lambda>c. with_user c (\<lambda>u w. (Inr (UserResponse u), w)))"

text \<open>\<^verbatim>\<open>flush\<close> writes the row, \<^verbatim>\<open>refresh\<close> reads it back.\<close>

definition save_and_refresh :: "pyfloat \<Rightarrow> user \<Rightarrow> ('r, user) user_action" where
  "save_and_refresh now u w =
     (let w1 = on_users (save_user now u) w in
      case users_by_id (u_id u) (uw_users w1) of
        [] \<Rightarrow> (Inl (ServerError ''InvalidRequestError''), w1)
      | x # _ \<Rightarrow> (Inr x, w1))"

definition apply_update :: "'r user_env \<Rightarrow> user_update \<Rightarrow> user \<Rightarrow> ('r, user_response) user_action" where
  "apply_update en p u w =
     (let u1 = (case uu_full_name p of None \<Rightarrow> u | Some n \<Rightarrow> u\<lparr>u_full_name := Some n\<rparr>) in
      case (case uu_password p of
              None \<Rightarrow> Inr (u1, w)
            | Some v \<Rightarrow>
                (case ue_hashpw en v of
                   None \<Rightarrow> Inl (ServerError ''ValueError'')
                 | Some hashed \<Rightarrow>
                     Inr (u1\<lparr>u_hashed_password := hashed\<rparr>,
                          audit (log_password_changed (ue_now en) (uuid_str (u_id u1)) None) w))) of
        Inl e \<Rightarrow> (Inl e, w)
      | Inr (u2, w2) \<Rightarrow>
          (case save_and_refresh (ue_now en) u2 w2 of
             (Inl e, w3) \<Rightarrow> (Inl e, w3)
           | (Inr x, w3) \<Rightarrow> (Inr (UserResponse x), w3)))"

definition update_me :: "'r user_env \<Rightarrow> request \<Rightarrow> user_update \<Rightarrow> ('r, user_response) user_action" where
  "update_me en r p0 =
     with_caller r (\<lambda>c w. case UserUpdate p0 of
        Inl e \<Rightarrow> (Inl e, w)
      | Inr p \<Rightarrow> with_user c (apply_update en p) w)"

definition deactivate_me :: "'r user_env \<Rightarrow> request \<Rightarrow> ('r, unit) user_action" where
  "deactivate_me en r =
     with_caller r (\<lambda>c. with_user c (\<lambda>u w.
       (Inr (), audit (log_self_deactivation (ue_now en) (uuid_str (u_id u)) (u_email u))
                  (on_users (save_user (ue_now en) (u\<lparr>u_is_active := False\<rparr>)) w))))"

definition hard_delete_me :: "'r user_env \<Rightarrow> request \<Rightarrow> ('r, unit) user_action" where
  "hard_delete_me en r =
     with_caller r (\<lambda>c. with_user c (\<lambda>u w.
       (Inr (), on_users (delete_user (u_id u))
                  (audit (log_self_hard_delete (ue_now en) (uuid_str (u_id u)) (u_email u)) w))))"

definition get_user :: "request \<Rightarrow> uuid \<Rightarrow> ('r, user_response) user_action" where
  "get_user r user_id =
     with_caller r (\<lambda>_. with_user user_id (\<lambda>u w. (Inr (UserResponse u), w)))"

section \<open>Administration\<close>

record user_page =
  up_total :: nat
  up_limit :: int
  up_offset :: int
  up_users :: "admin_user_response list"

text \<open>\<^verbatim>\<open>ORDER BY created_at DESC\<close>: newest first; rows with equal times in any order, here that of the table.\<close>

definition newest_first :: "user list \<Rightarrow> user list" where
  "newest_first rows = sort_key (\<lambda>u. - u_created_at u) rows"

definition admin_list_users :: "request \<Rightarrow> int \<Rightarrow> int \<Rightarrow> bool \<Rightarrow> ('r, user_page) user_action" where
  "admin_list_users r limit offset active_only =
     as_admin r (\<lambda>_ w.
       if \<not> (1 \<le> limit \<and> limit \<le> 200 \<and> 0 \<le> offset) then (Inl unprocessable, w)
       else
         (let rows = (if active_only then filter u_is_active (uw_users w) else uw_users w);
              page = take (nat limit) (drop (nat offset) (newest_first rows))
          in (Inr \<lparr>up_total = length rows, up_limit = limit, up_offset = offset,
                    up_users = map AdminUserResponse page\<rparr>, w)))"

definition admin_get_user :: "request \<Rightarrow> uuid \<Rightarrow> ('r, admin_user_response) user_action" where
  "admin_get_user r user_id =
     as_admin r (\<lambda>_. with_user user_id (\<lambda>u w. (Inr (AdminUserResponse u), w)))"

definition save_as_admin :: "'r user_env \<Rightarrow> user \<Rightarrow> ('r, admin_user_response) user_action" where
  "save_as_admin en u w =
     (case save_and_refresh (ue_now en) u w of
        (Inl e, w1) \<Rightarrow> (Inl e, w1)
      | (Inr x, w1) \<Rightarrow> (Inr (AdminUserResponse x), w1))"

definition admin_promote_user :: "'r user_env \<Rightarrow> request \<Rightarrow> uuid \<Rightarrow> ('r, admin_user_response) user_action" where
  "admin_promote_user en r user_id =
     as_admin r (\<lambda>_. with_user user_id (\<lambda>u w.
       if u_is_admin u then (Inl (HTTPException 409 ''User is already an admin'' []), w)
       else save_as_admin en (u\<lparr>u_is_admin := True\<rparr>) w))"

definition admin_demote_user :: "'r user_env \<Rightarrow> request \<Rightarrow> uuid \<Rightarrow> ('r, admin_user_response) user_action" where
  "admin_demote_user en r user_id =
     as_admin r (\<lambda>caller_id w.
       if user_id = caller_id then (Inl (HTTPException 400 ''Admins cannot demote themselves'' []), w)
       else with_user user_id (\<lambda>u. save_as_admin en (u\<lparr>u_is_admin := False\<rparr>)) w)"

definition admin_delete_user :: "request \<Rightarrow> uuid \<Rightarrow> ('r, unit) user_action" where
  "admin_delete_user r user_id =
     as_admin r (\<lambda>caller_id w.
       if user_id = caller_id then
         (Inl (HTTPException 400 ''Admins cannot delete their own account via admin endpoint'' []), w)
       else with_user user_id (\<lambda>u w1. (Inr (), on_users (delete_user (u_id u)) w1)) w)"

section \<open>Start\<close>

text \<open>A failed query is logged and ignored.\<close>

definition bootstrap_initial_admin :: "pyfloat \<Rightarrow> user_settings \<Rightarrow> user list \<Rightarrow> user list" where
  "bootstrap_initial_admin now cfg rows =
     (case us_initial_admin_email cfg of
        None \<Rightarrow> rows
      | Some email \<Rightarrow>
          if email = [] then rows
          else (case scalar_one_or_none (users_by_email email rows) of
                  Inl _ \<Rightarrow> rows
                | Inr None \<Rightarrow> rows
                | Inr (Some u) \<Rightarrow>
                    if u_is_admin u then rows else save_user now (u\<lparr>u_is_admin := True\<rparr>) rows))"

end
