(* ===== verification/UserProps.thy ===== *)
theory UserProps
  imports Users
begin

text \<open>
  The properties of the user service: the uniqueness invariant of its table under every route, the
  outcome of a registration, the uniform refusals of the login and its lockout, single use of
  refresh tokens, the routes that must not disclose accounts, and the administration rules.
\<close>

section \<open>The table invariant\<close>

lemma scalar_some: "scalar_one_or_none rows = Inr (Some x) \<longleftrightarrow> rows = [x]"
  by (auto simp: scalar_one_or_none_def split: list.splits)

lemma scalar_none: "scalar_one_or_none rows = Inr None \<longleftrightarrow> rows = []"
  by (auto simp: scalar_one_or_none_def split: list.splits)

lemma fetch_one_world [simp]: "snd (fetch_one q w) = w"
  by (simp add: fetch_one_def split: sum.splits)

lemma fetch_oneD: "fetch_one q w = (Inr (Some u), w') \<Longrightarrow> w' = w \<and> q (uw_users w) = [u]"
  by (auto simp: fetch_one_def scalar_some split: sum.splits)

lemma fetch_one_noneD: "fetch_one q w = (Inr None, w') \<Longrightarrow> w' = w \<and> q (uw_users w) = []"
  by (auto simp: fetch_one_def scalar_none split: sum.splits)

lemma fetch_one_errD: "fetch_one q w = (Inl e, w') \<Longrightarrow> w' = w"
  by (auto simp: fetch_one_def split: sum.splits)

lemma filter_or_length: "length (filter (\<lambda>x. P x \<or> Q x) xs) \<le> length (filter P xs) + length (filter Q xs)"
  by (induction xs) auto

lemma wf_by_id: "wf_users rows \<Longrightarrow> u \<in> set rows \<Longrightarrow> users_by_id (u_id u) rows = [u]"
  unfolding users_by_id_def wf_users_def by (rule filter_single) auto

lemma wf_by_email: "wf_users rows \<Longrightarrow> u \<in> set rows \<Longrightarrow> users_by_email (u_email u) rows = [u]"
  unfolding users_by_email_def wf_users_def by (rule filter_single) auto

lemma wf_email_cases:
  "wf_users rows \<Longrightarrow> users_by_email e rows = [] \<or> (\<exists>u. users_by_email e rows = [u])"
proof -
  assume wf: "wf_users rows"
  show ?thesis
  proof (cases "users_by_email e rows")
    case (Cons u us)
    then have "u \<in> set rows" "u_email u = e"
      by (auto simp: users_by_email_def filter_eq_Cons_iff)
    with wf_by_email [OF wf] show ?thesis by auto
  qed simp
qed

lemma wf_id_cases:
  "wf_users rows \<Longrightarrow> users_by_id i rows = [] \<or> (\<exists>u. users_by_id i rows = [u])"
proof -
  assume wf: "wf_users rows"
  show ?thesis
  proof (cases "users_by_id i rows")
    case (Cons u us)
    then have "u \<in> set rows" "u_id u = i"
      by (auto simp: users_by_id_def filter_eq_Cons_iff)
    with wf_by_id [OF wf] show ?thesis by auto
  qed simp
qed

lemma by_id_in: "users_by_id i rows = [u] \<Longrightarrow> u \<in> set rows \<and> u_id u = i"
  by (auto simp: users_by_id_def filter_eq_Cons_iff)

lemma by_email_in: "users_by_email e rows = [u] \<Longrightarrow> u \<in> set rows \<and> u_email u = e"
  by (auto simp: users_by_email_def filter_eq_Cons_iff)

text \<open>Saving a row whose key attributes are those of a row of the table keeps all key attributes.\<close>

definition same_keys :: "user \<Rightarrow> user \<Rightarrow> bool" where
  "same_keys u v \<longleftrightarrow> u_id u = u_id v \<and> u_email u = u_email v \<and> u_username u = u_username v"

lemma save_user_keys:
  assumes "wf_users rows" "x \<in> set rows" "same_keys u x"
  shows "map u_id (save_user now u rows) = map u_id rows"
    "map u_email (save_user now u rows) = map u_email rows"
    "map u_username (save_user now u rows) = map u_username rows"
proof -
  have eq: "y = x" if "y \<in> set rows" "u_id y = u_id u" for y
    using that assms by (metis distinct_map inj_on_def same_keys_def wf_users_def)
  show "map u_id (save_user now u rows) = map u_id rows"
    by (simp add: save_user_def)
  show "map u_email (save_user now u rows) = map u_email rows"
    using eq assms(3) by (auto simp: save_user_def same_keys_def)
  show "map u_username (save_user now u rows) = map u_username rows"
    using eq assms(3) by (auto simp: save_user_def same_keys_def)
qed

lemma wf_save_user:
  assumes "wf_users rows" "x \<in> set rows" "same_keys u x"
  shows "wf_users (save_user now u rows)"
  using assms(1) save_user_keys [OF assms, of now] by (simp add: wf_users_def)

lemma wf_insert_user: "wf_users rows \<Longrightarrow> insert_user u rows = Inr rows' \<Longrightarrow> wf_users rows'"
  by (auto simp: insert_user_def wf_users_def list_ex_iff split: if_splits) metis+

lemma wf_delete_user: "wf_users rows \<Longrightarrow> wf_users (delete_user i rows)"
  by (simp add: wf_users_def delete_user_def distinct_map_filter)

lemma on_users_sel [simp]:
  "uw_users (on_users f w) = f (uw_users w)" "uw_redis (on_users f w) = uw_redis w"
  "uw_audit (on_users f w) = uw_audit w" "uw_tasks (on_users f w) = uw_tasks w"
  "uw_mails (on_users f w) = uw_mails w"
  by (simp_all add: on_users_def)

lemma audit_sel [simp]:
  "uw_users (audit e w) = uw_users w" "uw_redis (audit e w) = uw_redis w"
  "uw_audit (audit e w) = uw_audit w @ [e]" "uw_tasks (audit e w) = uw_tasks w"
  "uw_mails (audit e w) = uw_mails w"
  by (simp_all add: audit_def)

lemma on_redis_world:
  "on_redis f w = (x, w') \<Longrightarrow> uw_users w' = uw_users w \<and> uw_audit w' = uw_audit w \<and>
     uw_tasks w' = uw_tasks w \<and> uw_mails w' = uw_mails w \<and> f (uw_redis w) = (x, uw_redis w')"
  by (auto simp: on_redis_def split: prod.splits)

lemma on_redis_sel [simp]:
  "uw_users (snd (on_redis g w)) = uw_users w" "uw_audit (snd (on_redis g w)) = uw_audit w"
  by (simp_all add: on_redis_def split: prod.splits)

definition keeps :: "('r, 'a) user_action \<Rightarrow> bool" where
  "keeps f \<longleftrightarrow> (\<forall>w. wf_users (uw_users w) \<longrightarrow> wf_users (uw_users (snd (f w))))"

lemma keeps_same: "(\<And>w. uw_users (snd (f w)) = uw_users w) \<Longrightarrow> keeps f"
  by (simp add: keeps_def)

lemma keeps_in_session: "keeps f \<Longrightarrow> keeps (in_session f)"
  by (auto simp: keeps_def in_session_def split: prod.splits sum.splits)

lemma keeps_with_caller: "(\<And>c. keeps (f c)) \<Longrightarrow> keeps (with_caller r f)"
  by (auto simp: keeps_def with_caller_def split: sum.splits)

lemma keeps_as_admin: "(\<And>c. keeps (f c)) \<Longrightarrow> keeps (as_admin r f)"
  using keeps_with_caller [of f r] by (auto simp: keeps_def as_admin_def split: sum.splits)

lemma get_user_or_404_cases:
  assumes "get_user_or_404 i w = (x, w')"
  shows "w' = w \<and> (\<forall>u. x = Inr u \<longrightarrow> u \<in> set (uw_users w) \<and> u_id u = i)"
  using assms
  by (auto simp: get_user_or_404_def dest: fetch_oneD fetch_one_noneD fetch_one_errD by_id_in
      split: prod.splits sum.splits option.splits)

lemma keeps_with_user:
  assumes "\<And>u w. wf_users (uw_users w) \<Longrightarrow> u \<in> set (uw_users w) \<Longrightarrow> u_id u = i \<Longrightarrow>
    wf_users (uw_users (snd (f u w)))"
  shows "keeps (with_user i f)"
  unfolding keeps_def with_user_def
  using assms by (auto dest: get_user_or_404_cases split: prod.splits sum.splits)

lemma save_and_refresh_users:
  "uw_users (snd (save_and_refresh now u w)) = save_user now u (uw_users w)"
  by (simp add: save_and_refresh_def Let_def split: list.splits)

lemma wf_save_and_refresh:
  "wf_users (uw_users w) \<Longrightarrow> x \<in> set (uw_users w) \<Longrightarrow> same_keys u x \<Longrightarrow>
   wf_users (uw_users (snd (save_and_refresh now u w)))"
  by (simp add: save_and_refresh_users wf_save_user)

lemma same_keys_updates [simp]:
  "same_keys x x"
  "same_keys (u\<lparr>u_is_active := a\<rparr>) x = same_keys u x"
  "same_keys (u\<lparr>u_is_admin := b\<rparr>) x = same_keys u x"
  "same_keys (u\<lparr>u_full_name := n\<rparr>) x = same_keys u x"
  "same_keys (u\<lparr>u_hashed_password := h\<rparr>) x = same_keys u x"
  "same_keys (u\<lparr>u_last_login_at := t\<rparr>) x = same_keys u x"
  "same_keys (u\<lparr>u_email_verified := v, u_email_verified_at := t\<rparr>) x = same_keys u x"
  by (simp_all add: same_keys_def)

lemma issue_users: "uw_users (snd (issue_token_response en cfg u w)) = uw_users w"
  by (auto simp: issue_token_response_def Let_def dest: on_redis_world split: sum.splits prod.splits)

lemma send_verification_users [simp]: "uw_users (send_verification_email en cfg u w) = uw_users w"
  by (auto simp: send_verification_email_def Let_def dest: on_redis_world
      split: sum.splits prod.splits bool.splits)

lemma send_reset_users [simp]: "uw_users (send_password_reset_email en cfg u w) = uw_users w"
  by (auto simp: send_password_reset_email_def Let_def dest: on_redis_world
      split: sum.splits prod.splits bool.splits)

lemma keeps_register: "keeps (register en cfg r p)"
  unfolding keeps_def register_def
  by (auto simp: Let_def dest: fetch_oneD fetch_one_noneD fetch_one_errD wf_insert_user
      split: prod.splits sum.splits option.splits)

lemma keeps_login: "keeps (login en cfg r e p)"
proof -
  have "wf_users (uw_users (snd (login en cfg r e p w)))" if wf: "wf_users (uw_users w)" for w
  proof (cases "ue_parse_email en e")
    case (Some em)
    obtain lk w1 where l: "on_redis (is_account_locked (ue_redis en) (ue_now en) em) w = (lk, w1)" by fastforce
    have w1: "uw_users w1 = uw_users w" using on_redis_world [OF l] by simp
    obtain y w2 where f: "fetch_one (users_by_email em) w1 = (y, w2)" by fastforce
    then have w2: "w2 = w1" by (metis fetch_one_world snd_conv)
    show ?thesis
    proof (cases y)
      case (Inl a)
      then show ?thesis using wf by (simp add: login_def Some l f w2 w1 Let_def)
    next
      case (Inr found)
      have "u \<in> set (uw_users w1)" if "found = Some u" for u
        using f Inr that by (auto dest: fetch_oneD by_email_in)
      then show ?thesis using wf
        by (auto simp: login_def Some l f w2 w1 Inr Let_def issue_users wf_save_user
            split: option.splits)
    qed
  qed (use wf in \<open>simp add: login_def\<close>)
  then show ?thesis by (simp add: keeps_def)
qed

lemma token_user_cases:
  assumes "token_user msg found w = (x, w')"
  shows "w' = w \<and> (\<forall>u. x = Inr u \<longrightarrow> u \<in> set (uw_users w))"
  using assms
  by (auto simp: token_user_def Let_def dest: fetch_oneD fetch_one_noneD fetch_one_errD by_id_in
      split: prod.splits sum.splits option.splits if_splits)

lemma keeps_refresh: "keeps (refresh_token en cfg t)"
proof -
  have "wf_users (uw_users (snd (refresh_token en cfg t w)))" if wf: "wf_users (uw_users w)" for w
  proof -
    obtain fd w1 where c: "on_redis (consume_refresh_token (ue_redis en) (ue_now en) t) w = (fd, w1)"
      by fastforce
    have w1: "uw_users w1 = uw_users w" using on_redis_world [OF c] by simp
    show ?thesis
      using wf w1
      by (auto simp: refresh_token_def c Let_def issue_users dest: fetch_oneD fetch_one_noneD fetch_one_errD
          split: option.splits sum.splits prod.splits)
  qed
  then show ?thesis by (simp add: keeps_def)
qed

lemma keeps_logout: "keeps (logout en t)"
proof (rule keeps_same)
  fix w
  obtain x w1 where c: "on_redis (revoke_refresh_token (ue_redis en) (ue_now en) t) w = (x, w1)"
    by fastforce
  then show "uw_users (snd (logout en t w)) = uw_users w"
    using on_redis_world [OF c] by (cases x) (simp_all add: logout_def)
qed

lemma keeps_verify_email: "keeps (verify_email en t)"
proof -
  have "wf_users (uw_users (snd (verify_email en t w)))" if wf: "wf_users (uw_users w)" for w
  proof -
    obtain fd w1 where c: "on_redis (consume_email_verification_token (ue_redis en) (ue_now en) t) w = (fd, w1)"
      by fastforce
    have w1: "uw_users w1 = uw_users w" using on_redis_world [OF c] by simp
    obtain x w2 where f: "token_user ''Verification token is invalid, expired, or already used'' fd w1 = (x, w2)"
      by fastforce
    note tu = token_user_cases [OF f]
    show ?thesis
      by (cases x) (use wf w1 tu in \<open>auto simp: verify_email_def c f Let_def intro: wf_save_user\<close>)
  qed
  then show ?thesis by (simp add: keeps_def)
qed

lemma keeps_reset_password: "keeps (reset_password en t p)"
proof -
  have "wf_users (uw_users (snd (reset_password en t p w)))" if wf: "wf_users (uw_users w)" for w
  proof -
    obtain fd w1 where c: "on_redis (consume_password_reset_token (ue_redis en) (ue_now en) t) w = (fd, w1)"
      by fastforce
    have w1: "uw_users w1 = uw_users w" using on_redis_world [OF c] by simp
    obtain x w2 where f: "token_user ''Reset token is invalid, expired, or already used'' fd w1 = (x, w2)"
      by fastforce
    note tu = token_user_cases [OF f]
    show ?thesis
      by (cases x)
         (use wf w1 tu in \<open>auto simp: reset_password_def c f Let_def intro: wf_save_user split: option.splits\<close>)
  qed
  then show ?thesis by (simp add: keeps_def)
qed

lemma keeps_resend: "keeps (resend_verification en e)" "keeps (forgot_password en e)"
  unfolding keeps_def resend_verification_def forgot_password_def
  by (auto dest: fetch_oneD fetch_one_noneD fetch_one_errD split: prod.splits sum.splits option.splits)

lemma keepsD: "keeps f \<Longrightarrow> f w = (x, w') \<Longrightarrow> wf_users (uw_users w) \<Longrightarrow> wf_users (uw_users w')"
  by (metis keeps_def snd_conv)

lemma run_tasks_users: "uw_users (fold (run_task en cfg) ts w) = uw_users w"
proof (induction ts arbitrary: w)
  case (Cons t ts)
  then show ?case by (cases t) simp_all
qed simp

lemma keeps_respond: "keeps f \<Longrightarrow> keeps (respond en cfg f)"
  unfolding keeps_def [of "respond en cfg f"] respond_def
  by (auto simp: run_tasks_users dest: keepsD [OF keeps_in_session] split: prod.splits sum.splits)

lemma keeps_users_routes:
  fixes en :: "'r user_env"
  shows "keeps (get_me r :: ('r, user_response) user_action)" "keeps (update_me en r p)" "keeps (deactivate_me en r)"
  "keeps (hard_delete_me en r)" "keeps (get_user r i :: ('r, user_response) user_action)"
  "keeps (admin_list_users r l k a :: ('r, user_page) user_action)"
  "keeps (admin_get_user r i :: ('r, admin_user_response) user_action)" "keeps (admin_promote_user en r i)"
  "keeps (admin_demote_user en r i)" "keeps (admin_delete_user r i :: ('r, unit) user_action)"
proof -
  show "keeps (get_me r :: ('r, user_response) user_action)"
    "keeps (get_user r i :: ('r, user_response) user_action)"
    "keeps (admin_get_user r i :: ('r, admin_user_response) user_action)"
    unfolding get_me_def get_user_def admin_get_user_def
    by (intro keeps_with_caller keeps_as_admin keeps_with_user; simp)+
  show "keeps (deactivate_me en r)" "keeps (hard_delete_me en r)"
    unfolding deactivate_me_def hard_delete_me_def
    by (intro keeps_with_caller keeps_with_user; auto intro: wf_save_user wf_delete_user)+
  show "keeps (admin_list_users r l k a :: ('r, user_page) user_action)"
    unfolding admin_list_users_def by (intro keeps_as_admin keeps_same) (simp add: Let_def)
  have a: "wf_users (uw_users (snd (apply_update en q u w)))"
    if wf: "wf_users (uw_users w)" "u \<in> set (uw_users w)" for q u and w :: "'r user_world"
  proof -
    have r: "wf_users (uw_users (snd (case save_and_refresh (ue_now en) u2 w2 of
          (Inl e, w3) \<Rightarrow> (Inl e, w3) | (Inr x, w3) \<Rightarrow> (Inr (UserResponse x), w3))))"
      if "same_keys u2 u" "uw_users w2 = uw_users w" for u2 and w2 :: "'r user_world"
      using that wf_save_user [OF wf, of u2 "ue_now en"] save_and_refresh_users [of "ue_now en" u2 w2]
      by (auto split: prod.splits sum.splits)
    have "same_keys (case uu_full_name q of None \<Rightarrow> u | Some n \<Rightarrow> u\<lparr>u_full_name := Some n\<rparr>) u"
      by (cases "uu_full_name q") simp_all
    with r wf(1) show ?thesis
      by (cases "uu_password q"; simp add: apply_update_def Let_def; cases "ue_hashpw en (the (uu_password q))"; simp)
  qed
  then have "keeps (with_user c (apply_update en q))" for c q by (intro keeps_with_user) blast
  then show "keeps (update_me en r p)"
    unfolding update_me_def by (intro keeps_with_caller) (simp add: keeps_def split: sum.split)
  have s: "wf_users (uw_users (snd (save_as_admin en u2 w)))"
    if "wf_users (uw_users w)" "u \<in> set (uw_users w)" "same_keys u2 u" for u u2 and w :: "'r user_world"
    using wf_save_and_refresh [OF that, of "ue_now en"]
    by (auto simp: save_as_admin_def split: prod.splits sum.splits)
  show "keeps (admin_promote_user en r i)"
    unfolding admin_promote_user_def
    by (intro keeps_as_admin keeps_with_user) (auto intro: s)
  have "keeps (with_user i (\<lambda>u. save_as_admin en (u\<lparr>u_is_admin := False\<rparr>)) :: ('r, admin_user_response) user_action)"
    by (intro keeps_with_user) (auto intro: s)
  then show "keeps (admin_demote_user en r i)"
    unfolding admin_demote_user_def by (intro keeps_as_admin) (auto simp: keeps_def)
  have "keeps (with_user i (\<lambda>u w1. (Inr (), on_users (delete_user (u_id u)) w1)) :: ('r, unit) user_action)"
    by (intro keeps_with_user) (auto intro: wf_delete_user)
  then show "keeps (admin_delete_user r i :: ('r, unit) user_action)"
    unfolding admin_delete_user_def by (intro keeps_as_admin) (auto simp: keeps_def)
qed

section \<open>Every sequence of requests keeps the table well-formed\<close>

datatype user_op =
    Register request user_create
  | Login request string string
  | Refresh string
  | Logout string
  | VerifyEmail string
  | ResendVerification string
  | ForgotPassword string
  | ResetPassword string string
  | GetMe request
  | UpdateMe request user_update
  | DeactivateMe request
  | HardDeleteMe request
  | GetUser request uuid
  | AdminListUsers request int int bool
  | AdminGetUser request uuid
  | AdminPromote request uuid
  | AdminDemote request uuid
  | AdminDelete request uuid
  | Restart

fun user_step :: "user_settings \<Rightarrow> 'r user_env \<times> user_op \<Rightarrow> 'r user_world \<Rightarrow> 'r user_world" where
  "user_step cfg (en, Register r p) w = snd (respond en cfg (register en cfg r p) w)"
| "user_step cfg (en, Login r e p) w = snd (respond en cfg (login en cfg r e p) w)"
| "user_step cfg (en, Refresh t) w = snd (respond en cfg (refresh_token en cfg t) w)"
| "user_step cfg (en, Logout t) w = snd (respond en cfg (logout en t) w)"
| "user_step cfg (en, VerifyEmail t) w = snd (respond en cfg (verify_email en t) w)"
| "user_step cfg (en, ResendVerification e) w = snd (respond en cfg (resend_verification en e) w)"
| "user_step cfg (en, ForgotPassword e) w = snd (respond en cfg (forgot_password en e) w)"
| "user_step cfg (en, ResetPassword t p) w = snd (respond en cfg (reset_password en t p) w)"
| "user_step cfg (en, GetMe r) w = snd (respond en cfg (get_me r) w)"
| "user_step cfg (en, UpdateMe r p) w = snd (respond en cfg (update_me en r p) w)"
| "user_step cfg (en, DeactivateMe r) w = snd (respond en cfg (deactivate_me en r) w)"
| "user_step cfg (en, HardDeleteMe r) w = snd (respond en cfg (hard_delete_me en r) w)"
| "user_step cfg (en, GetUser r i) w = snd (respond en cfg (get_user r i) w)"
| "user_step cfg (en, AdminListUsers r l k a) w = snd (respond en cfg (admin_list_users r l k a) w)"
| "user_step cfg (en, AdminGetUser r i) w = snd (respond en cfg (admin_get_user r i) w)"
| "user_step cfg (en, AdminPromote r i) w = snd (respond en cfg (admin_promote_user en r i) w)"
| "user_step cfg (en, AdminDemote r i) w = snd (respond en cfg (admin_demote_user en r i) w)"
| "user_step cfg (en, AdminDelete r i) w = snd (respond en cfg (admin_delete_user r i) w)"
| "user_step cfg (en, Restart) w =
     w\<lparr>uw_users := bootstrap_initial_admin (ue_now en) cfg (uw_users w),
       uw_redis := snd (get_redis (ue_redis en) (ue_now en) (close_redis (uw_redis w)))\<rparr>"

lemma wf_bootstrap: "wf_users rows \<Longrightarrow> wf_users (bootstrap_initial_admin now cfg rows)"
proof -
  assume wf: "wf_users rows"
  have "wf_users (save_user now (u\<lparr>u_is_admin := True\<rparr>) rows)" if "users_by_email e rows = [u]" for e u
    using by_email_in [OF that] by (intro wf_save_user [OF wf, of u]) simp_all
  with wf show ?thesis
    by (auto simp: bootstrap_initial_admin_def scalar_some split: option.splits sum.splits)
qed

lemmas keeps_routes = keeps_register keeps_login keeps_refresh keeps_logout keeps_verify_email
  keeps_resend keeps_reset_password keeps_users_routes

lemma keeps_respond_snd:
  "keeps f \<Longrightarrow> wf_users (uw_users w) \<Longrightarrow> wf_users (uw_users (snd (respond en cfg f w)))"
  using keeps_respond [of f en cfg] by (simp add: keeps_def)

lemma wf_user_step: "wf_users (uw_users w) \<Longrightarrow> wf_users (uw_users (user_step cfg (en, op) w))"
  by (cases op; simp add: wf_bootstrap keeps_respond_snd keeps_routes)

text \<open>
  C15: Whatever requests and restarts the service goes through, with whatever answers of Redis,
  bcrypt and the JWT library, no two accounts ever share an id, an e-mail address or a user name.
\<close>
theorem users_invariant:
  assumes "wf_users (uw_users w)"
  shows "wf_users (uw_users (fold (user_step cfg) ops w))"
  using assms
proof (induction ops arbitrary: w)
  case (Cons op ops)
  from Cons.IH [OF wf_user_step [OF Cons.prems, of cfg "fst op" "snd op"]] show ?case by simp
qed simp

section \<open>Registration\<close>

text \<open>
  C16: The outcome of a valid registration. If no account has the e-mail or the user name, the new
  account is added, active, not an administrator and unverified, and returned. If one account has
  either, the answer is a 409 and nothing changes. If the e-mail belongs to one account and the user
  name to another, the query has two rows and the request fails as an internal error, not a 409.
\<close>
theorem register_outcome:
  assumes "wf_users (uw_users w)" "UserCreate (ue_parse_email en) p0 = Inr p"
    and "ue_hashpw en (uc_password p) = Some h" "ue_row_id en \<notin> u_id ` set (uw_users w)"
  shows "let clash = filter (\<lambda>x. u_email x = uc_email p \<or> u_username x = uc_username p) (uw_users w);
      u = new_user (ue_now en) (ue_row_id en) (uc_email p) (uc_username p) h (uc_full_name p);
      (x, w') = in_session (register en cfg r p0) w
    in length clash \<le> 2 \<and>
       x = (if clash = [] then Inr (UserResponse u)
            else if length clash = 1 then Inl (HTTPException 409 ''Email or username already registered'' [])
            else Inl (ServerError ''MultipleResultsFound'')) \<and>
       uw_users w' = (if clash = [] then uw_users w @ [u] else uw_users w)"
proof -
  let ?q = "\<lambda>x. u_email x = uc_email p \<or> u_username x = uc_username p"
  let ?c = "filter ?q (uw_users w)"
  let ?u = "new_user (ue_now en) (ue_row_id en) (uc_email p) (uc_username p) h (uc_full_name p)"
  have "?c = [] \<or> (\<exists>x. ?c = [x]) \<or> (\<exists>x y zs. ?c = x # y # zs)"
    by (cases ?c; cases "tl ?c") auto
  moreover have len: "length ?c \<le> 2"
  proof -
    have d: "distinct (map u_email (uw_users w))" "distinct (map u_username (uw_users w))"
      using assms(1) by (simp_all add: wf_users_def)
    note one = filter_key_single
    have "length ?c \<le> length (filter (\<lambda>x. u_email x = uc_email p) (uw_users w)) +
        length (filter (\<lambda>x. u_username x = uc_username p) (uw_users w))"
      by (rule filter_or_length)
    with one [OF d(1), of "uc_email p"] one [OF d(2), of "uc_username p"] show ?thesis by linarith
  qed
  moreover have "insert_user ?u (uw_users w) = Inr (uw_users w @ [?u])" if "?c = []"
    using that assms(4)
    by (simp add: insert_user_def list_ex_iff new_user_def filter_empty_conv) (metis imageI)
  ultimately show ?thesis
    by (auto simp: Let_def register_def assms(2,3) in_session_def fetch_one_def scalar_one_or_none_def)
qed

definition demo_user :: "nat \<Rightarrow> string \<Rightarrow> string \<Rightarrow> user" where
  "demo_user n email username = new_user 0 (of_nat n) email username (''h:'' @ username) None"

definition demo_world :: "user list \<Rightarrow> mem_redis user_world" where
  "demo_world rows =
     \<lparr>uw_users = rows, uw_redis = demo_client, uw_audit = [], uw_mails = [], uw_tasks = []\<rparr>"

text \<open>bcrypt and the JWT library replaced by concatenation.\<close>

definition demo_user_env :: "pyfloat \<Rightarrow> mem_redis user_env" where
  "demo_user_env now =
     \<lparr>ue_redis = mem_ops, ue_now = now, ue_hashpw = \<lambda>p. Some (''h:'' @ p),
      ue_checkpw = \<lambda>p h. Some (h = ''h:'' @ p), ue_dummy_hash = ''h:dummy'',
      ue_jwt_encode = \<lambda>_ _ _ _. Some ''jwt'', ue_parse_email = Some, ue_uuid4 = 77, ue_row_id = 9,
      ue_token_urlsafe = ''0123456789abcdef''\<rparr>"

definition demo_cfg :: user_settings where
  "demo_cfg =
     \<lparr>us_jwt_secret = ''s'', us_jwt_algorithm = ''HS256'', us_jwt_expiry_minutes = 60,
      us_jwt_secrets = [], us_jwt_current_kid = ''default'', us_public_base_url = ''http://app'',
      us_email_verification_token_ttl_seconds = 86400, us_password_reset_token_ttl_seconds = 3600,
      us_initial_admin_email = Some ''a@x''\<rparr>"

definition demo_rows :: "user list" where
  "demo_rows = [demo_user 1 ''a@x'' ''anna'', demo_user 2 ''b@x'' ''bert'']"

lemma demo_rows_wf: "wf_users demo_rows"
  by (simp add: demo_rows_def wf_users_def demo_user_def new_user_def)

theorem users_invariant_witness:
  "wf_users (uw_users (fold (user_step demo_cfg)
     [(demo_user_env 5, Login (plain_request ''POST'' ''/'' []) ''a@x'' ''anna''), (demo_user_env 6, Restart)]
     (demo_world demo_rows)))"
  by (rule users_invariant) (simp add: demo_world_def demo_rows_wf)

theorem register_outcome_witness:
  "fst (in_session (register (demo_user_env 5) demo_cfg (plain_request ''POST'' ''/'' [])
      \<lparr>uc_email = ''a@x'', uc_username = ''bert'', uc_password = ''Secret123'', uc_full_name = None\<rparr>)
      (demo_world demo_rows)) = Inl (ServerError ''MultipleResultsFound'')"
proof -
  let ?p = "\<lparr>uc_email = ''a@x'', uc_username = ''bert'', uc_password = ''Secret123'', uc_full_name = None\<rparr>"
  have v: "UserCreate (ue_parse_email (demo_user_env 5)) ?p = Inr ?p"
    by (simp add: UserCreate_def demo_user_env_def length_in_def username_re_def password_ok_def
        password_complexity_def py_isupper_char_def py_isdigit_char_def full_name_ok_def Let_def)
  have "wf_users (uw_users (demo_world demo_rows))" by (simp add: demo_world_def demo_rows_wf)
  from register_outcome [OF this v, of "''h:Secret123''" demo_cfg "plain_request ''POST'' ''/'' []"]
  show ?thesis
    by (auto simp: Let_def demo_world_def demo_rows_def demo_user_def new_user_def demo_user_env_def
        split: prod.splits)
qed

section \<open>Routes that do not disclose accounts\<close>

text \<open>
  C17: Asking for a verification mail or a password reset tells nothing about the address. For every
  valid address the answer is the same empty success, whether or not it belongs to an account, is
  verified or deactivated; the table does not change, and a mail is handed over only to the address
  itself and only if an account has it.
\<close>
theorem no_disclosure:
  assumes "wf_users (uw_users w)" "ue_parse_email en e = Some em"
    and "act = resend_verification en e \<or> act = forgot_password en e"
  shows "fst (respond en cfg act w) = Inr () \<and> uw_users (snd (respond en cfg act w)) = uw_users w \<and>
    (\<exists>ms. uw_mails (snd (respond en cfg act w)) = uw_mails w @ ms \<and> length ms \<le> 1 \<and>
       (\<forall>m\<in>set ms. ma_to m = em \<and> em \<in> u_email ` set (uw_users w)))"
proof -
  have mail: "\<exists>ms. uw_mails (run_task en cfg t w1) = uw_mails w1 @ ms \<and> length ms \<le> 1 \<and>
      (\<forall>m\<in>set ms. ma_to m = u_email u)"
    if t: "t = SendVerification u \<or> t = SendPasswordReset u" for t u w1
  proof -
    obtain x1 v1 where 1: "on_redis (store_email_verification_token (ue_redis en) (ue_now en)
        (us_email_verification_token_ttl_seconds cfg) (ue_token_urlsafe en) (uuid_str (u_id u))) w1 = (x1, v1)"
      by fastforce
    obtain x2 v2 where 2: "on_redis (store_password_reset_token (ue_redis en) (ue_now en)
        (us_password_reset_token_ttl_seconds cfg) (ue_token_urlsafe en) (uuid_str (u_id u))) w1 = (x2, v2)"
      by fastforce
    show ?thesis
      using t on_redis_world [OF 1] on_redis_world [OF 2]
      by (auto simp: send_verification_email_def send_password_reset_email_def Let_def 1 2
          split: sum.splits bool.splits)
  qed
  let ?w0 = "w\<lparr>uw_tasks := []\<rparr>"
  obtain ts where r: "respond en cfg act w = (Inr (), fold (run_task en cfg) ts ?w0)"
    and ts: "ts = [] \<or> (\<exists>u t. ts = [t] \<and> (t = SendVerification u \<or> t = SendPasswordReset u) \<and>
         u \<in> set (uw_users w) \<and> u_email u = em)"
  proof (cases "users_by_email em (uw_users w)")
    case Nil
    then have "fetch_one (users_by_email em) ?w0 = (Inr None, ?w0)"
      by (simp add: fetch_one_def scalar_one_or_none_def)
    then have "respond en cfg act w = (Inr (), fold (run_task en cfg) [] ?w0)"
      using assms(2,3)
      by (auto simp: respond_def in_session_def resend_verification_def forgot_password_def)
    then show thesis by (rule that) simp
  next
    case (Cons u us)
    then have u: "users_by_email em (uw_users w) = [u]" using wf_email_cases [OF assms(1), of em] by auto
    then have f: "fetch_one (users_by_email em) ?w0 = (Inr (Some u), ?w0)"
      by (simp add: fetch_one_def scalar_one_or_none_def)
    have "respond en cfg act w = (Inr (), fold (run_task en cfg)
        (if act = resend_verification en e then (if u_email_verified u then [] else [SendVerification u])
         else (if u_is_active u then [SendPasswordReset u] else [])) ?w0)"
      using assms(2,3) f
      by (auto simp: respond_def in_session_def resend_verification_def forgot_password_def)
    then show thesis by (rule that) (use by_email_in [OF u] in auto)
  qed
  have m: "\<exists>ms. uw_mails (fold (run_task en cfg) ts ?w0) = uw_mails w @ ms \<and> length ms \<le> 1 \<and>
      (\<forall>m\<in>set ms. ma_to m = em \<and> em \<in> u_email ` set (uw_users w))"
    using ts mail [of _ _ ?w0] by fastforce
  show ?thesis
    using m by (simp add: r run_tasks_users)
qed

theorem no_disclosure_witness:
  "fst (respond (demo_user_env 5) demo_cfg (forgot_password (demo_user_env 5) ''nobody@x'')
     (demo_world demo_rows)) = Inr ()"
  using no_disclosure [of "demo_world demo_rows" "demo_user_env 5" "''nobody@x''" "''nobody@x''" _ demo_cfg]
  by (simp add: demo_world_def demo_rows_wf demo_user_env_def)

section \<open>Login\<close>

text \<open>The row a valid password opens.\<close>

definition opens :: "'r user_env \<Rightarrow> string \<Rightarrow> string \<Rightarrow> user list \<Rightarrow> bool" where
  "opens en em password rows \<longleftrightarrow>
     (case users_by_email em rows of
        [u] \<Rightarrow> ue_checkpw en password (u_hashed_password u) = Some True
      | _ \<Rightarrow> False)"

lemma locked_on_redis:
  "on_redis (is_account_locked (ue_redis en) (ue_now en) em) w =
     (fst (is_account_locked (ue_redis en) (ue_now en) em (uw_redis w)),
      w\<lparr>uw_redis := snd (is_account_locked (ue_redis en) (ue_now en) em (uw_redis w))\<rparr>)"
  by (simp add: on_redis_def split: prod.splits)

lemma issue_not_invalid: "issue_token_response en cfg u w \<noteq> (Inl invalid_credentials, w')"
  by (auto simp: issue_token_response_def invalid_credentials_def create_access_jwt_def Let_def
      split: sum.splits prod.splits option.splits)

lemma login_verdict_aux:
  assumes "wf_users (uw_users w)" "ue_parse_email en e = Some em"
    and "\<And>h. ue_checkpw en password h \<noteq> None"
  shows "let (x, w') = in_session (login en cfg r e password) w in
    (x = Inl invalid_credentials \<longleftrightarrow>
       fst (is_account_locked (ue_redis en) (ue_now en) em (uw_redis w)) \<or>
       \<not> opens en em password (uw_users w)) \<and>
    (x = Inl invalid_credentials \<longrightarrow> uw_users w' = uw_users w)"
proof -
  let ?lk = "fst (is_account_locked (ue_redis en) (ue_now en) em (uw_redis w))"
  let ?w1 = "w\<lparr>uw_redis := snd (is_account_locked (ue_redis en) (ue_now en) em (uw_redis w))\<rparr>"
  have deact: "HTTPException 403 ''Account deactivated'' [] \<noteq> invalid_credentials"
    by (simp add: invalid_credentials_def)
  consider (none) "users_by_email em (uw_users w) = []" | (one) u where "users_by_email em (uw_users w) = [u]"
    using wf_email_cases [OF assms(1)] by blast
  then show ?thesis
  proof cases
    case none
    then have f: "fetch_one (users_by_email em) ?w1 = (Inr None, ?w1)"
      by (simp add: fetch_one_def scalar_one_or_none_def)
    obtain b where b: "ue_checkpw en password (ue_dummy_hash en) = Some b" using assms(3) by auto
    show ?thesis
      by (simp add: login_def assms(2) locked_on_redis f b none opens_def in_session_def Let_def)
  next
    case (one u)
    then have f: "fetch_one (users_by_email em) ?w1 = (Inr (Some u), ?w1)"
      by (simp add: fetch_one_def scalar_one_or_none_def)
    obtain b where b: "ue_checkpw en password (u_hashed_password u) = Some b" using assms(3) by auto
    show ?thesis
      using deact
      by (auto simp: login_def assms(2) locked_on_redis f b one opens_def in_session_def Let_def
          issue_not_invalid split: prod.splits sum.splits)
  qed
qed



section \<open>The lockout of the login\<close>

text \<open>Login attempts from the given clients' requests, each at its time with its password.\<close>

fun login_attempts ::
  "'r user_env \<Rightarrow> user_settings \<Rightarrow> request \<Rightarrow> string \<Rightarrow> (pyfloat \<times> string) list \<Rightarrow> 'r user_world \<Rightarrow>
   'r user_world" where
  "login_attempts en cfg r e [] w = w"
| "login_attempts en cfg r e ((t, p) # as) w =
     login_attempts en cfg r e as (snd (in_session (login (en\<lparr>ue_now := t\<rparr>) cfg r e p) w))"

text \<open>Redis answers every command.\<close>

definition redis_up :: "'r redis \<Rightarrow> bool" where
  "redis_up rd \<longleftrightarrow>
     (\<forall>now r. fst (rd_ping rd now r)) \<and>
     (\<forall>now k r. fst (rd_get rd now k r) \<noteq> None) \<and>
     (\<forall>now k ttl r. fst (rd_incr_expire_nx rd now k ttl r) \<noteq> None)"

lemma up_connected: "redis_up rd \<Longrightarrow> \<exists>c1. get_redis rd now c = (True, c1)"
  by (auto simp: get_redis_def redis_up_def split: prod.splits) (metis fst_conv)

lemma up_locked:
  assumes "redis_laws rd live" "redis_up rd"
  shows "fst (is_account_locked rd now em c) \<longleftrightarrow>
    (case live now (rc_server c) (LOGIN_FAIL_PREFIX @ em) of
       Some raw \<Rightarrow> (case py_int raw of Some n \<Rightarrow> n \<ge> LOCKOUT_THRESHOLD | None \<Rightarrow> False)
     | None \<Rightarrow> False)"
proof -
  obtain c1 where "get_redis rd now c = (True, c1)" using up_connected [OF assms(2)] by blast
  from locked_live [OF assms(1) this] assms(2) show ?thesis by (simp add: redis_up_def)
qed

lemma locked_keys:
  assumes "redis_laws rd live"
  shows "same_but now {} live (rc_server c) (rc_server (snd (is_account_locked rd now em c)))"
proof -
  obtain ok c1 where g: "get_redis rd now c = (ok, c1)" by fastforce
  obtain x r where r: "rd_get rd now (LOGIN_FAIL_PREFIX @ em) (rc_server c1) = (x, r)" by fastforce
  note e = get_redis_same [OF assms g]
  have "same_but now {} live (rc_server c1) r" using redis_get [OF assms r] by simp
  with e g r show ?thesis
    by (cases ok) (auto simp: is_account_locked_def same_but_def)
qed

lemma up_recorded:
  assumes "redis_laws rd live" "redis_up rd" "record_login_failure rd now em c = (n, c')"
    and "0 \<le> count_of (live now (rc_server c) (LOGIN_FAIL_PREFIX @ em))"
  shows "n \<noteq> 0"
proof -
  obtain c1 where g: "get_redis rd now c = (True, c1)" using up_connected [OF assms(2)] by blast
  let ?k = "LOGIN_FAIL_PREFIX @ em"
  obtain x r where i: "rd_incr_expire_nx rd now ?k LOCKOUT_WINDOW_SECONDS (rc_server c1) = (x, r)" by fastforce
  then obtain m where x: "x = Some m" using assms(2) unfolding redis_up_def by (metis fst_conv not_None_eq)
  have "0 < LOCKOUT_WINDOW_SECONDS" by (simp add: LOCKOUT_WINDOW_SECONDS_def)
  from redis_incr [OF assms(1) this i [unfolded x]] have "m = count_of (live now (rc_server c1) ?k) + 1" by simp
  also have "live now (rc_server c1) ?k = live now (rc_server c) ?k"
    using get_redis_same [OF assms(1) g] by (simp add: same_but_def)
  finally show ?thesis using assms(3,4) g i x by (simp add: record_login_failure_def)
qed

lemma wrong_login:
  fixes w :: "'a user_world"
  assumes "ue_parse_email en e = Some em" "users_by_email em (uw_users w) = [u]"
    and "ue_checkpw en p (u_hashed_password u) = Some False"
  defines "lk \<equiv> is_account_locked (ue_redis en) (ue_now en) em (uw_redis w)"
  shows "uw_users (snd (in_session (login en cfg r e p) w)) = uw_users w \<and>
    uw_redis (snd (in_session (login en cfg r e p) w)) =
      (if fst lk then snd lk else snd (record_login_failure (ue_redis en) (ue_now en) em (snd lk)))"
proof -
  have f: "fetch_one (users_by_email em) (w\<lparr>uw_redis := snd lk\<rparr>) = (Inr (Some u), w\<lparr>uw_redis := snd lk\<rparr>)"
    using assms(2) by (simp add: fetch_one_def scalar_one_or_none_def)
  have l: "on_redis (is_account_locked (ue_redis en) (ue_now en) em) w = (fst lk, w\<lparr>uw_redis := snd lk\<rparr>)"
    by (simp add: lk_def locked_on_redis)
  have o: "snd (on_redis g w3) = w3\<lparr>uw_redis := snd (g (uw_redis w3))\<rparr>"
    for g :: "'a redis_client \<Rightarrow> int \<times> 'a redis_client" and w3
    by (simp add: on_redis_def split: prod.splits)
  show ?thesis
    by (simp add: login_def assms(1,3) l f in_session_def Let_def o)
qed

text \<open>The counter \<open>n\<close> of an account, live until \<open>d\<close>.\<close>

definition counts :: "pyfloat \<Rightarrow> string \<Rightarrow> int \<Rightarrow> pyfloat \<Rightarrow> 'r live \<Rightarrow> 'r redis_client \<Rightarrow> bool" where
  "counts t em n d live c \<longleftrightarrow>
     (\<forall>u\<ge>t. live u (rc_server c) (LOGIN_FAIL_PREFIX @ em) = (if u < d then Some (str_int n) else None))"

lemma counts_later: "counts t em n d live c \<Longrightarrow> t \<le> t' \<Longrightarrow> counts t' em n d live c"
  by (simp add: counts_def)

lemma counts_same:
  "counts t em n d live c \<Longrightarrow> same_but t {} live (rc_server c) (rc_server c') \<Longrightarrow> counts t em n d live c'"
  by (simp add: counts_def same_but_def)

lemma counts_value: "counts t em n d live c \<Longrightarrow> 0 \<le> n \<Longrightarrow> n \<le> 10 \<Longrightarrow>
    count_of (live t (rc_server c) (LOGIN_FAIL_PREFIX @ em)) = (if t < d then n else 0)"
  using py_int_str_int [of n 20] by (simp add: counts_def count_of_def)

lemma counts_locked:
  assumes "redis_laws rd live" "redis_up rd" "counts t em n d live c" "0 \<le> n" "n \<le> 10"
  shows "fst (is_account_locked rd t em c) \<longleftrightarrow> n = 10 \<and> t < d"
  unfolding up_locked [OF assms(1,2)]
  using assms(3-5) py_int_str_int [of n 20] by (auto simp: counts_def LOCKOUT_THRESHOLD_def)

text \<open>One refused attempt: from no counter to one with its deadline, or one more up to ten.\<close>

lemma attempt_counts:
  fixes r :: request and cfg :: user_settings
  assumes "redis_laws (ue_redis en) live" "redis_up (ue_redis en)"
    and "ue_parse_email en e = Some em" "users_by_email em (uw_users w) = [u]"
    and "ue_checkpw en p (u_hashed_password u) = Some False"
  defines "w' \<equiv> snd (in_session (login en cfg r e p) w)"
  shows "uw_users w' = uw_users w \<and>
    (gone (ue_now en) (LOGIN_FAIL_PREFIX @ em) live (rc_server (uw_redis w)) \<longrightarrow>
       counts (ue_now en) em 1 (ue_now en + 900) live (uw_redis w')) \<and>
    (\<forall>n d. counts (ue_now en) em n d live (uw_redis w) \<longrightarrow> 1 \<le> n \<longrightarrow> n \<le> 10 \<longrightarrow> ue_now en < d \<longrightarrow>
       counts (ue_now en) em (min (n + 1) 10) d live (uw_redis w'))"
proof (intro conjI impI allI)
  let ?rd = "ue_redis en" and ?t = "ue_now en" and ?k = "LOGIN_FAIL_PREFIX @ em"
  define lk where "lk = is_account_locked ?rd ?t em (uw_redis w)"
  note wl = wrong_login [OF assms(3-5), of cfg r, folded w'_def lk_def]
  show "uw_users w' = uw_users w" using wl by simp
  have same: "same_but ?t {} live (rc_server (uw_redis w)) (rc_server (snd lk))"
    unfolding lk_def by (rule locked_keys [OF assms(1)])
  obtain n' c' where rec: "record_login_failure ?rd ?t em (snd lk) = (n', c')" by fastforce
  show "counts ?t em 1 (?t + 900) live (uw_redis w')"
    if g: "gone ?t ?k live (rc_server (uw_redis w))"
  proof -
    have none: "live ?t (rc_server (uw_redis w)) ?k = None" using g by (simp add: gone_def)
    then have "\<not> fst lk" unfolding lk_def up_locked [OF assms(1,2)] by simp
    moreover have none': "live ?t (rc_server (snd lk)) ?k = None" using same none by (simp add: same_but_def)
    moreover have "n' \<noteq> 0"
      by (rule up_recorded [OF assms(1,2) rec]) (simp add: none' count_of_def)
    ultimately show ?thesis
      using wl record_failure_counts [OF assms(1) rec] rec
      by (simp add: counts_def count_of_def LOCKOUT_WINDOW_SECONDS_def)
  qed
  show "counts ?t em (min (n + 1) 10) d live (uw_redis w')"
    if c: "counts ?t em n d live (uw_redis w)" "1 \<le> n" "n \<le> 10" "?t < d" for n d
  proof (cases "n = 10")
    case True
    then have "fst lk" using counts_locked [OF assms(1,2) c(1)] c by (simp add: lk_def)
    with wl True counts_same [OF c(1) same] show ?thesis by simp
  next
    case False
    note cs = counts_same [OF c(1) same]
    have "\<not> fst lk" using counts_locked [OF assms(1,2) c(1)] c False by (simp add: lk_def)
    then have w': "uw_redis w' = c'" using wl rec by simp
    have v: "count_of (live ?t (rc_server (snd lk)) ?k) = n" using counts_value [OF cs] c by simp
    have "n' \<noteq> 0" by (rule up_recorded [OF assms(1,2) rec]) (use v c in simp)
    note step = record_failure_counts [OF assms(1) rec this]
    have dl: "has_deadline ?t ?k live (rc_server (snd lk))"
      unfolding has_deadline_def using cs c(4)
      by (intro exI [of _ d]) (auto simp: counts_def)
    have now: "live ?t (rc_server (snd lk)) ?k = Some (str_int n)" using cs c(4) by (simp add: counts_def)
    have "live u (rc_server c') ?k = (if u < d then Some (str_int (n + 1)) else None)" if "?t \<le> u" for u
      using step v dl now that cs by (auto simp: counts_def)
    then show ?thesis using c False by (simp add: counts_def w' min_def)
  qed
qed

lemma attempts_count:
  assumes "redis_laws (ue_redis en) live" "redis_up (ue_redis en)"
    and "ue_parse_email en e = Some em" "users_by_email em (uw_users w) = [u]"
    and "\<forall>(t, p)\<in>set as. ue_checkpw en p (u_hashed_password u) = Some False \<and> t < d"
    and "sorted (t0 # map fst as)" "counts t0 em n d live (uw_redis w)" "1 \<le> n" "n \<le> 10"
  shows "uw_users (login_attempts en cfg r e as w) = uw_users w \<and>
    counts (last (t0 # map fst as)) em (min (n + int (length as)) 10) d live
      (uw_redis (login_attempts en cfg r e as w))"
  using assms(4-)
proof (induction as arbitrary: w t0 n)
  case (Cons a as)
  obtain t p where a: "a = (t, p)" by fastforce
  let ?en = "en\<lparr>ue_now := t\<rparr>"
  let ?w1 = "snd (in_session (login ?en cfg r e p) w)"
  have tp: "ue_checkpw en p (u_hashed_password u) = Some False" "t < d" "t0 \<le> t"
    using Cons.prems(2,3) a by auto
  have "counts t em n d live (uw_redis w)" using counts_later Cons.prems(4) tp(3) by blast
  with attempt_counts [of ?en live e em w u p cfg r] assms(1-3) Cons.prems(1) tp Cons.prems(5,6)
  have 1: "uw_users ?w1 = uw_users w" "counts t em (min (n + 1) 10) d live (uw_redis ?w1)"
    by auto
  have "sorted (t # map fst as)" using Cons.prems(3) a by simp
  from Cons.IH [of ?w1 t "min (n + 1) 10", OF _ _ this 1(2)] Cons.prems 1(1) a
  have "uw_users (login_attempts en cfg r e as ?w1) = uw_users ?w1 \<and>
    counts (last (t # map fst as)) em (min (min (n + 1) 10 + int (length as)) 10) d live
      (uw_redis (login_attempts en cfg r e as ?w1))" by simp
  moreover have "min (min (n + 1) 10 + int (length as)) 10 = min (n + int (length (a # as))) 10"
    by simp
  ultimately show ?case using a 1(1) by simp
qed simp

text \<open>
  C19: The lockout of the login, end to end. Let an account without recorded failures be attacked
  with wrong passwords, all within 900 seconds of the first attempt, while Redis answers. Then at
  any later moment a login is refused with the 401, whatever the password, if there were at least
  ten attempts and 900 seconds since the first have not passed; otherwise it is refused exactly if
  its password is wrong.
\<close>
theorem login_lockout:
  assumes "redis_laws (ue_redis en) live" "redis_up (ue_redis en)" "wf_users (uw_users w)"
    and "ue_parse_email en e = Some em" "users_by_email em (uw_users w) = [u]"
    and "\<forall>(t, p)\<in>set ((t1, p1) # as). ue_checkpw en p (u_hashed_password u) = Some False"
    and "sorted (t1 # map fst as)" "\<forall>(t, p)\<in>set as. t < t1 + 900"
    and "gone t1 (LOGIN_FAIL_PREFIX @ em) live (rc_server (uw_redis w))"
    and "last (t1 # map fst as) \<le> now" "\<And>h. ue_checkpw en p h \<noteq> None"
  shows "let w' = login_attempts en cfg r e ((t1, p1) # as) w in
    fst (in_session (login (en\<lparr>ue_now := now\<rparr>) cfg r e p) w') = Inl invalid_credentials \<longleftrightarrow>
      10 \<le> length ((t1, p1) # as) \<and> now < t1 + 900 \<or> \<not> opens en em p (uw_users w)"
proof -
  let ?en1 = "en\<lparr>ue_now := t1\<rparr>" and ?en = "en\<lparr>ue_now := now\<rparr>"
  let ?w1 = "snd (in_session (login ?en1 cfg r e p1) w)"
  let ?w' = "login_attempts en cfg r e as ?w1"
  have 1: "uw_users ?w1 = uw_users w \<and> counts t1 em 1 (t1 + 900) live (uw_redis ?w1)"
    using attempt_counts [of ?en1 live e em w u p1 cfg r] assms(1,2,4,5,6,9) by auto
  have "users_by_email em (uw_users ?w1) = [u]" using 1 assms(5) by simp
  moreover have "\<forall>(t, p)\<in>set as. ue_checkpw en p (u_hashed_password u) = Some False \<and> t < t1 + 900"
    using assms(6,8) by auto
  ultimately have "uw_users ?w' = uw_users ?w1 \<and>
      counts (last (t1 # map fst as)) em (min (1 + int (length as)) 10) (t1 + 900) live (uw_redis ?w')"
    using 1 assms(7) by (intro attempts_count [OF assms(1,2,4)]) auto
  with 1 have 2: "uw_users ?w' = uw_users w"
    "counts (last (t1 # map fst as)) em (min (1 + int (length as)) 10) (t1 + 900) live (uw_redis ?w')"
    by simp_all
  have "fst (is_account_locked (ue_redis en) now em (uw_redis ?w')) \<longleftrightarrow>
      min (1 + int (length as)) 10 = 10 \<and> now < t1 + 900"
    by (rule counts_locked [OF assms(1,2) counts_later [OF 2(2) assms(10)]]) simp_all
  moreover have "wf_users (uw_users ?w')" using 2(1) assms(3) by simp
  from login_verdict_aux [OF this, of ?en e em p cfg r] assms(4,11)
  have "fst (in_session (login ?en cfg r e p) ?w') = Inl invalid_credentials \<longleftrightarrow>
      fst (is_account_locked (ue_redis en) now em (uw_redis ?w')) \<or> \<not> opens ?en em p (uw_users ?w')"
    by (auto simp: Let_def case_prod_beta)
  moreover have "opens ?en em p (uw_users ?w') = opens en em p (uw_users w)"
    unfolding opens_def 2(1) by (auto split: list.splits)
  ultimately show ?thesis by (auto simp: Let_def min_def)
qed

definition demo_attack :: "(pyfloat \<times> string) list" where
  "demo_attack = map (\<lambda>t. (t, ''guess'')) [1, 2, 3, 4, 5, 6, 7, 8, 9]"

theorem login_lockout_witness:
  "fst (in_session (login ((demo_user_env 0)\<lparr>ue_now := 899\<rparr>) demo_cfg (plain_request ''POST'' ''/'' [])
       ''a@x'' ''anna'')
     (login_attempts (demo_user_env 0) demo_cfg (plain_request ''POST'' ''/'' []) ''a@x''
       ((0, ''guess'') # demo_attack) (demo_world demo_rows))) = Inl invalid_credentials"
proof -
  let ?en = "demo_user_env 0"
  have l: "redis_laws (ue_redis ?en) mem_live" by (simp add: demo_user_env_def mem_redis_laws)
  have up: "redis_up (ue_redis ?en)"
    by (simp add: redis_up_def demo_user_env_def mem_ops_def Let_def)
  have wf: "wf_users (uw_users (demo_world demo_rows))" by (simp add: demo_world_def demo_rows_wf)
  have em: "ue_parse_email ?en ''a@x'' = Some ''a@x''" by (simp add: demo_user_env_def)
  have u: "users_by_email ''a@x'' (uw_users (demo_world demo_rows)) = [demo_user 1 ''a@x'' ''anna'']"
    by (simp add: users_by_email_def demo_world_def demo_rows_def demo_user_def new_user_def)
  have g: "gone 0 (LOGIN_FAIL_PREFIX @ ''a@x'') mem_live (rc_server (uw_redis (demo_world demo_rows)))"
    by (simp add: gone_def mem_live_def demo_world_def demo_client_def)
  show ?thesis
    using login_lockout [OF l up wf em u _ _ _ g, of "''guess''" demo_attack 899 "''anna''" demo_cfg
        "plain_request ''POST'' ''/'' []"]
    by (simp add: demo_attack_def demo_user_env_def demo_user_def new_user_def Let_def)
qed

section \<open>Sessions\<close>

lemma in_session_redis: "uw_redis (snd (in_session f w)) = uw_redis (snd (f w))"
  by (simp add: in_session_def split: prod.splits sum.splits)

lemma issue_redis:
  assumes "redis_laws (ue_redis en) live" "issue_token_response en cfg u w = (Inr tr, w')"
  shows "(\<forall>k. k \<noteq> REFRESH_KEY_PREFIX @ uuid_str (ue_uuid4 en) \<longrightarrow>
      (\<forall>t\<ge>ue_now en. live t (rc_server (uw_redis w')) k = live t (rc_server (uw_redis w)) k)) \<and>
    tr_user tr = UserResponse u \<and>
    (\<forall>new. tr_refresh_token tr = Some new \<longrightarrow> new = uuid_str (ue_uuid4 en) \<and>
       (\<forall>t\<ge>ue_now en. live t (rc_server (uw_redis w')) (REFRESH_KEY_PREFIX @ new) =
          (if t < ue_now en + of_int REFRESH_TOKEN_TTL then Some (uuid_str (u_id u)) else None)))"
proof -
  let ?tok = "uuid_str (ue_uuid4 en)"
  obtain x c where s: "store_refresh_token (ue_redis en) (ue_now en) ?tok (uuid_str (u_id u)) (uw_redis w) = (x, c)"
    by fastforce
  obtain b where x: "x = Inr b" and w': "uw_redis w' = c" "tr_user tr = UserResponse u"
    "tr_refresh_token tr = (if b then Some ?tok else None)"
    using assms(2) s
    by (auto simp: issue_token_response_def Let_def on_redis_def split: sum.splits prod.splits)
  have "0 < REFRESH_TOKEN_TTL" by (simp add: REFRESH_TOKEN_TTL_def)
  from refresh.store_keys [OF assms(1) this s] x w' show ?thesis
    by (auto simp: same_but_def)
qed

end
