(* ===== verification/PyJson.thy ===== *)
theory PyJson
  imports PyCodec
begin

text \<open>
  \<^verbatim>\<open>json.dumps\<close> and \<^verbatim>\<open>json.loads\<close> with their default options, as CPython 3.12 computes them on
  code points below 256. The printed form of a float (\<^verbatim>\<open>float.__repr__\<close>) is a parameter. The
  reader answers \<^const>\<open>None\<close> where Python raises, and on the two inputs whose value is outside the
  model: escapes of code points above 255, and \<^verbatim>\<open>NaN\<close> or infinities.
\<close>

section \<open>Printing\<close>

definition json_escape :: "char \<Rightarrow> string" where
  "json_escape c =
     (let n = (of_char c :: nat); b = CHR 0x5C in
      if n = 0x22 then [b, CHR 0x22]
      else if n = 0x5C then [b, b]
      else if n = 10 then [b, CHR ''n'']
      else if n = 13 then [b, CHR ''r'']
      else if n = 9 then [b, CHR ''t'']
      else if n = 12 then [b, CHR ''f'']
      else if n = 8 then [b, CHR ''b'']
      else if 32 \<le> n \<and> n \<le> 126 then [c]
      else b # CHR ''u'' # hex_pad 4 n)"

definition json_quote :: "string \<Rightarrow> string" where
  "json_quote s = CHR 0x22 # concat (map json_escape s) @ [CHR 0x22]"

fun json_dumps :: "(pyfloat \<Rightarrow> string) \<Rightarrow> json \<Rightarrow> string" where
  "json_dumps fr JNull = ''null''"
| "json_dumps fr (JBool b) = (if b then ''true'' else ''false'')"
| "json_dumps fr (JInt i) = str_int i"
| "json_dumps fr (JFloat q) = fr q"
| "json_dumps fr (JStr s) = json_quote s"
| "json_dumps fr (JArr xs) = ''['' @ py_join '', '' (map (json_dumps fr) xs) @ '']''"
| "json_dumps fr (JObj kvs) =
     ''{'' @ py_join '', '' (map (\<lambda>(k, v). json_quote k @ '': '' @ json_dumps fr v) kvs) @ ''}''"

section \<open>Reading\<close>

definition json_ws :: "char \<Rightarrow> bool" where
  "json_ws c \<longleftrightarrow> (of_char c :: nat) \<in> set [32, 9, 10, 13]"

abbreviation skip_ws :: "string \<Rightarrow> string" where
  "skip_ws \<equiv> dropWhile json_ws"

definition hex4 :: "string \<Rightarrow> nat option" where
  "hex4 s = (if list_all (\<lambda>c. hex_val c \<noteq> None) s then num_tail hex_val 16 0 s else None)"

definition plain_escape :: "char \<Rightarrow> char option" where
  "plain_escape c =
     map_of [(CHR 0x22, CHR 0x22), (CHR 0x5C, CHR 0x5C), (CHR ''/'', CHR ''/''), (CHR ''b'', CHR 0x08),
             (CHR ''f'', CHR 0x0C), (CHR ''n'', CHR 0x0A), (CHR ''r'', CHR 0x0D), (CHR ''t'', CHR 0x09)] c"

text \<open>The rest of a string literal: its text, and what follows the closing quote.\<close>

fun json_chars :: "string \<Rightarrow> (string \<times> string) option" where
  "json_chars [] = None"
| "json_chars (c # s) =
     (if c = CHR 0x22 then Some ([], s)
      else if c = CHR 0x5C then
        (case s of
           [] \<Rightarrow> None
         | e # s1 \<Rightarrow>
             if e = CHR ''u'' then
               (case s1 of
                  h1 # h2 # h3 # h4 # s2 \<Rightarrow>
                    (case hex4 [h1, h2, h3, h4] of
                       None \<Rightarrow> None
                     | Some n \<Rightarrow>
                         if n < 256 then map_option (\<lambda>(t, r). (char_of n # t, r)) (json_chars s2) else None)
                | _ \<Rightarrow> None)
             else
               (case plain_escape e of
                  None \<Rightarrow> None
                | Some x \<Rightarrow> map_option (\<lambda>(t, r). (x # t, r)) (json_chars s1)))
      else if (of_char c :: nat) < 32 then None
      else map_option (\<lambda>(t, r). (c # t, r)) (json_chars s))"

definition is_dec :: "char \<Rightarrow> bool" where
  "is_dec c \<longleftrightarrow> dec_val c \<noteq> None"

definition dec_of :: "string \<Rightarrow> nat" where
  "dec_of s = (case num_tail dec_val 10 0 s of Some n \<Rightarrow> n | None \<Rightarrow> 0)"

definition json_frac :: "string \<Rightarrow> string \<times> string" where
  "json_frac s =
     (case s of
        c # t \<Rightarrow> if c = CHR ''.'' \<and> takeWhile is_dec t \<noteq> [] then (takeWhile is_dec t, dropWhile is_dec t) else ([], s)
      | [] \<Rightarrow> ([], s))"

definition json_exp :: "string \<Rightarrow> int option \<times> string" where
  "json_exp s =
     (case s of
        c # t \<Rightarrow>
          (let (neg, u) = split_sign t; ds = takeWhile is_dec u in
           if (c = CHR ''e'' \<or> c = CHR ''E'') \<and> ds \<noteq> [] then (Some (signed neg (dec_of ds)), dropWhile is_dec u)
           else (None, s))
      | [] \<Rightarrow> (None, s))"

definition json_unsigned :: "string \<Rightarrow> string \<Rightarrow> (json \<times> string) option" where
  "json_unsigned sg u =
     (let ds = (if take 1 u = ''0'' then ''0'' else takeWhile is_dec u);
          r1 = drop (length ds) u
      in if ds = [] then None
         else
           (let (fs, r2) = json_frac r1; (e, r3) = json_exp r2 in
            if fs = [] \<and> e = None then map_option (\<lambda>i. (JInt i, r3)) (py_int (sg @ ds))
            else
              (let k = (case e of None \<Rightarrow> 0 | Some x \<Rightarrow> x) - int (length fs);
                   m = (of_nat (dec_of (ds @ fs)) :: rat);
                   q = (if 0 \<le> k then m * 10 ^ nat k else m / 10 ^ nat (- k))
               in Some (JFloat (if sg = [] then q else - q), r3))))"

definition json_number :: "string \<Rightarrow> (json \<times> string) option" where
  "json_number s =
     (case s of
        c # t \<Rightarrow> if c = CHR ''-'' then json_unsigned ''-'' t else json_unsigned [] s
      | [] \<Rightarrow> None)"

text \<open>
  The fuel bounds the nesting and the number of members; \<^verbatim>\<open>json_loads\<close> gives more than any document
  of that length can use. A repeated member name keeps its first place and its last value.
\<close>

fun json_value :: "nat \<Rightarrow> string \<Rightarrow> (json \<times> string) option"
  and json_items :: "nat \<Rightarrow> string \<Rightarrow> (json list \<times> string) option"
  and json_members :: "nat \<Rightarrow> string \<Rightarrow> ((string \<times> json) list \<times> string) option"
where
  "json_value 0 s = None"
| "json_value (Suc n) s =
     (case s of
        [] \<Rightarrow> None
      | c # t \<Rightarrow>
          if c = CHR 0x22 then map_option (\<lambda>(u, r). (JStr u, r)) (json_chars t)
          else if c = CHR ''['' then
            (if take 1 (skip_ws t) = '']'' then Some (JArr [], tl (skip_ws t))
             else map_option (\<lambda>(xs, r). (JArr xs, r)) (json_items n (skip_ws t)))
          else if c = CHR ''{'' then
            (if take 1 (skip_ws t) = ''}'' then Some (JObj [], tl (skip_ws t))
             else map_option (\<lambda>(kvs, r). (JObj (fold (\<lambda>(k, v). AList.update k v) kvs []), r))
                    (json_members n (skip_ws t)))
          else if starts_with ''null'' s then Some (JNull, drop 4 s)
          else if starts_with ''true'' s then Some (JBool True, drop 4 s)
          else if starts_with ''false'' s then Some (JBool False, drop 5 s)
          else json_number s)"
| "json_items 0 s = None"
| "json_items (Suc n) s =
     (case json_value n s of
        None \<Rightarrow> None
      | Some (x, r) \<Rightarrow>
          (case skip_ws r of
             [] \<Rightarrow> None
           | c # t \<Rightarrow>
               if c = CHR '']'' then Some ([x], t)
               else if c = CHR '','' then map_option (\<lambda>(xs, r'). (x # xs, r')) (json_items n (skip_ws t))
               else None))"
| "json_members 0 s = None"
| "json_members (Suc n) s =
     (if take 1 s \<noteq> [CHR 0x22] then None
      else (case json_chars (tl s) of
        None \<Rightarrow> None
      | Some (k, r) \<Rightarrow>
          (case skip_ws r of
             [] \<Rightarrow> None
           | c # t \<Rightarrow>
               if c \<noteq> CHR '':'' then None
               else (case json_value n (skip_ws t) of
                 None \<Rightarrow> None
               | Some (v, r1) \<Rightarrow>
                   (case skip_ws r1 of
                      [] \<Rightarrow> None
                    | d # u \<Rightarrow>
                        if d = CHR ''}'' then Some ([(k, v)], u)
                        else if d = CHR '','' then
                          map_option (\<lambda>(kvs, r2). ((k, v) # kvs, r2)) (json_members n (skip_ws u))
                        else None)))))"

definition json_loads :: "string \<Rightarrow> json option" where
  "json_loads s =
     (case json_value (2 * length s + 1) (skip_ws s) of
        Some (v, r) \<Rightarrow> if skip_ws r = [] then Some v else None
      | None \<Rightarrow> None)"

definition json_get :: "string \<Rightarrow> json \<Rightarrow> json option" where
  "json_get k j = (case j of JObj kvs \<Rightarrow> map_of kvs k | _ \<Rightarrow> None)"

section \<open>Round trip\<close>

text \<open>Documents whose text needs no float: the ones the services write to Redis and the bus.\<close>

definition int_digits :: nat where
  "int_digits = 4300"

fun json_plain :: "json \<Rightarrow> bool" where
  "json_plain (JFloat q) = False"
| "json_plain (JInt i) = (\<bar>i\<bar> < 10 ^ int_digits)"
| "json_plain (JArr xs) = list_all json_plain xs"
| "json_plain (JObj kvs) = (distinct (map fst kvs) \<and> list_all (\<lambda>(_, v). json_plain v) kvs)"
| "json_plain _ = True"

lemma hex4_pad: "hex4 (hex_pad 4 n) = Some (n mod 16 ^ 4)"
proof -
  have "list_all (\<lambda>c. hex_val c \<noteq> None) (hex_pad 4 n)"
    unfolding list_all_iff using hex_pad_digits by fastforce
  then show ?thesis by (simp add: hex4_def hex_pad_value)
qed

lemma hex_pad_4: "\<exists>a b c d. hex_pad 4 n = [a, b, c, d]"
proof -
  have "length (hex_pad 4 n) = Suc (Suc (Suc (Suc 0)))" by simp
  then show ?thesis by (auto simp del: hex_pad.simps hex_pad_length simp: length_Suc_conv)
qed

lemma char_of_special:
  "char_of (34 :: nat) = CHR 0x22" "char_of (92 :: nat) = CHR 0x5C" "char_of (10 :: nat) = CHR 0x0A"
  "char_of (13 :: nat) = CHR 0x0D" "char_of (9 :: nat) = CHR 0x09" "char_of (12 :: nat) = CHR 0x0C"
  "char_of (8 :: nat) = CHR 0x08"
  by code_simp+

lemma json_chars_escape:
  "json_chars (json_escape c @ t) = map_option (\<lambda>(u, r). (c # u, r)) (json_chars t)"
proof -
  let ?n = "of_char c :: nat"
  have b: "?n < 256" by simp
  have c: "c = char_of ?n" by simp
  consider "?n \<in> {0x22, 0x5C, 10, 13, 9, 12, 8}" | "?n \<notin> {0x22, 0x5C, 10, 13, 9, 12, 8}" "32 \<le> ?n \<and> ?n \<le> 126"
    | "?n \<notin> {0x22, 0x5C, 10, 13, 9, 12, 8}" "\<not> (32 \<le> ?n \<and> ?n \<le> 126)" by blast
  then show ?thesis
  proof cases
    case 1
    moreover have "c = char_of k" if "?n = k" for k using that c by simp
    ultimately have "c \<in> char_of ` {0x22, 0x5C, 10, 13, 9, 12, 8 :: nat}" by blast
    then have "c = char_of (0x22 :: nat) \<or> c = char_of (0x5C :: nat) \<or> c = char_of (10 :: nat) \<or>
        c = char_of (13 :: nat) \<or> c = char_of (9 :: nat) \<or> c = char_of (12 :: nat) \<or> c = char_of (8 :: nat)"
      by blast
    then show ?thesis by (elim disjE) (simp_all add: json_escape_def plain_escape_def Let_def char_of_special)
  next
    case 2
    then have "c \<noteq> CHR 0x22" "c \<noteq> CHR 0x5C" by auto
    with 2 show ?thesis by (simp add: json_escape_def Let_def)
  next
    case 3
    obtain h1 h2 h3 h4 where h: "hex_pad 4 ?n = [h1, h2, h3, h4]" using hex_pad_4 by blast
    have "hex4 [h1, h2, h3, h4] = Some ?n" using hex4_pad [of ?n] b h by simp
    moreover have "c \<noteq> CHR 0x22" "c \<noteq> CHR 0x5C" using 3 by auto
    ultimately show ?thesis using 3 h by (simp add: json_escape_def Let_def)
  qed
qed

lemma json_chars_quote: "json_chars (concat (map json_escape s) @ CHR 0x22 # r) = Some (s, r)"
  by (induction s) (simp_all add: json_chars_escape)

lemma takeWhile_dec: "list_all is_dec ds \<Longrightarrow> r = [] \<or> \<not> is_dec (hd r) \<Longrightarrow>
    takeWhile is_dec (ds @ r) = ds \<and> dropWhile is_dec (ds @ r) = r"
  by (induction ds) (cases r; auto)+

lemma str_nat_dec: "list_all is_dec (str_nat n)"
  unfolding list_all_iff is_dec_def using str_nat_digits by fastforce

text \<open>What may follow a value inside a document.\<close>

definition value_ends :: "string \<Rightarrow> bool" where
  "value_ends r \<longleftrightarrow> r = [] \<or> hd r \<in> {CHR '','', CHR '']'', CHR ''}''}"

lemma value_ends_dec: "value_ends r \<Longrightarrow> r = [] \<or> \<not> is_dec (hd r)"
  by (auto simp: value_ends_def is_dec_def dec_val_def)

lemma value_ends_tail: "value_ends r \<Longrightarrow> json_frac r = ([], r) \<and> json_exp r = (None, r)"
  by (cases r) (auto simp: value_ends_def json_frac_def json_exp_def Let_def split_def)

lemma value_ends_ws: "value_ends r \<Longrightarrow> skip_ws r = r"
  by (cases r) (auto simp: value_ends_def json_ws_def)

lemma str_nat_zero: "take 1 (str_nat n) = ''0'' \<Longrightarrow> str_nat n = ''0''"
proof (induction n rule: str_nat.induct)
  case (1 n)
  show ?case
  proof (cases "n < 10")
    case True
    then have "length (str_nat n) = 1" by (subst str_nat.simps) simp
    with "1.prems" show ?thesis by (metis order_refl take_all)
  next
    case False
    have e: "str_nat n = str_nat (n div 10) @ [digit_char (n mod 10)]"
      using False by (subst str_nat.simps) simp
    have "take 1 (str_nat n) = take 1 (str_nat (n div 10))"
      using e by (cases "str_nat (n div 10)") auto
    with "1.IH" False "1.prems" have z: "str_nat (n div 10) = ''0''" by simp
    have "num_body dec_val 10 (str_nat (n div 10)) = Some 0"
      unfolding z by code_simp
    then have "n div 10 = 0" using str_nat_value [of "n div 10"] by simp
    with False show ?thesis by simp
  qed
qed

lemma json_number_text:
  assumes "list_all is_dec ds" "ds \<noteq> []" "take 1 ds = ''0'' \<longrightarrow> ds = ''0''" "value_ends r"
    and "sg = [] \<or> sg = ''-''"
  shows "json_number (sg @ ds @ r) = map_option (\<lambda>i. (JInt i, r)) (py_int (sg @ ds))"
proof -
  obtain d t where d: "ds = d # t" using assms(2) by (cases ds) auto
  then have "is_dec d" using assms(1) by simp
  then have nm: "d \<noteq> CHR ''-''" by (auto simp: is_dec_def dec_val_def)
  have digits: "(if take 1 (ds @ r) = ''0'' then ''0'' else takeWhile is_dec (ds @ r)) = ds"
    using assms(3) d takeWhile_dec [OF assms(1) value_ends_dec [OF assms(4)]] by auto
  have u: "json_unsigned sg (ds @ r) = map_option (\<lambda>i. (JInt i, r)) (py_int (sg @ ds))"
    unfolding json_unsigned_def digits Let_def using assms(2) value_ends_tail [OF assms(4)] by simp
  show ?thesis
    using assms(5)
  proof
    assume sg: "sg = []"
    have "json_number (sg @ ds @ r) = json_unsigned [] (ds @ r)"
      using nm d sg by (simp add: json_number_def)
    then show ?thesis using u sg by simp
  next
    assume sg: "sg = ''-''"
    have "json_number (sg @ ds @ r) = json_unsigned ''-'' (ds @ r)"
      using sg by (simp add: json_number_def)
    then show ?thesis using u sg by simp
  qed
qed

lemma json_number_int:
  assumes "\<bar>i\<bar> < 10 ^ int_digits" "value_ends r"
  shows "json_number (str_int i @ r) = Some (JInt i, r)"
proof -
  let ?sg = "if i < 0 then ''-'' else []" and ?ds = "str_nat (nat \<bar>i\<bar>)"
  have s: "str_int i = ?sg @ ?ds" by (simp add: str_int_def)
  have "json_number (?sg @ ?ds @ r) = map_option (\<lambda>i. (JInt i, r)) (py_int (?sg @ ?ds))"
    using assms(2) str_nat_dec str_nat_zero by (intro json_number_text) auto
  then show ?thesis
    using py_int_str_int [OF assms(1)] unfolding s by (simp add: int_digits_def)
qed

lemma str_int_start: "\<exists>c t. str_int i = c # t \<and> (is_dec c \<or> c = CHR ''-'')"
  using str_nat_hd [of "nat i"] by (cases "str_nat (nat i)") (auto simp: str_int_def is_dec_def)

lemma number_char: "is_dec c \<or> c = CHR ''-'' \<Longrightarrow>
    c \<notin> {CHR 0x22, CHR ''['', CHR ''{'', CHR ''n'', CHR ''t'', CHR ''f'', CHR '']'', CHR ''}''} \<and> \<not> json_ws c"
  by (auto simp: is_dec_def dec_val_def json_ws_def Let_def split: if_splits)

text \<open>A printed value starts with no blank and no closing bracket.\<close>

lemma json_start:
  assumes "json_plain j"
  shows "\<exists>c t. json_dumps fr j = c # t \<and> \<not> json_ws c \<and> c \<noteq> CHR '']'' \<and> c \<noteq> CHR ''}''"
proof (cases j)
  case (JInt i)
  obtain c t where "str_int i = c # t" "is_dec c \<or> c = CHR ''-''" using str_int_start by blast
  with JInt number_char [of c] show ?thesis by auto
qed (use assms in \<open>auto simp: json_ws_def json_quote_def\<close>)

lemma skip_ws_start: "json_plain j \<Longrightarrow> skip_ws (json_dumps fr j @ r) = json_dumps fr j @ r"
  using json_start [of j fr] by auto

definition reads_back :: "(pyfloat \<Rightarrow> string) \<Rightarrow> json \<Rightarrow> bool" where
  "reads_back fr j \<longleftrightarrow> (\<forall>n r. value_ends r \<longrightarrow> 2 * length (json_dumps fr j) \<le> n \<longrightarrow>
     json_value n (json_dumps fr j @ r) = Some (j, r))"

lemma reads_backD:
  "reads_back fr j \<Longrightarrow> value_ends r \<Longrightarrow> 2 * length (json_dumps fr j) \<le> n \<Longrightarrow>
   json_value n (json_dumps fr j @ r) = Some (j, r)"
  by (simp add: reads_back_def)

lemma value_ends_simps [simp]:
  "value_ends (CHR '','' # r)" "value_ends (CHR '']'' # r)" "value_ends (CHR ''}'' # r)" "value_ends []"
  by (simp_all add: value_ends_def)

lemma json_ws_simps [simp]:
  "json_ws CHR '' ''" "\<not> json_ws CHR '',''" "\<not> json_ws CHR '']''" "\<not> json_ws CHR ''}''" "\<not> json_ws CHR '':''"
  "\<not> json_ws CHR 0x22"
  by (simp_all add: json_ws_def)

lemma join_cons: "ws \<noteq> [] \<Longrightarrow> py_join d (w # ws) = w @ d @ py_join d ws"
  by (cases ws) auto

lemma json_items_dumps:
  assumes "xs \<noteq> []" "list_all json_plain xs" "\<forall>x\<in>set xs. reads_back fr x"
    and "2 * length (py_join '', '' (map (json_dumps fr) xs)) + 1 \<le> n"
  shows "json_items n (py_join '', '' (map (json_dumps fr) xs) @ CHR '']'' # r) = Some (xs, r)"
  using assms
proof (induction xs arbitrary: n)
  case (Cons x xs)
  obtain m where n: "n = Suc m" using Cons.prems(4) by (cases n) auto
  show ?case
  proof (cases "xs = []")
    case True
    with Cons.prems n reads_backD [of fr x "CHR '']'' # r" m] show ?thesis by simp
  next
    case False
    let ?w = "py_join '', '' (map (json_dumps fr) xs)"
    have v: "json_value m (json_dumps fr x @ CHR '','' # CHR '' '' # ?w @ CHR '']'' # r) =
        Some (x, CHR '','' # CHR '' '' # ?w @ CHR '']'' # r)"
      using Cons.prems False n by (intro reads_backD) (auto simp: join_cons)
    obtain y ys where xs: "xs = y # ys" using False by (cases xs) auto
    have "skip_ws (?w @ CHR '']'' # r) = ?w @ CHR '']'' # r"
      using Cons.prems(2) xs skip_ws_start [of y fr] by (cases ys) (auto simp: append_assoc)
    moreover have "json_items m (?w @ CHR '']'' # r) = Some (xs, r)"
      using Cons.prems False n by (intro Cons.IH) (auto simp: join_cons)
    ultimately show ?thesis using False n v by (simp add: join_cons)
  qed
qed simp

lemma json_members_dumps:
  assumes "kvs \<noteq> []" "list_all (\<lambda>(_, v). json_plain v) kvs" "\<forall>(k, v)\<in>set kvs. reads_back fr v"
    and "2 * length (py_join '', '' (map (\<lambda>(k, v). json_quote k @ '': '' @ json_dumps fr v) kvs)) + 1 \<le> n"
  shows "json_members n (py_join '', '' (map (\<lambda>(k, v). json_quote k @ '': '' @ json_dumps fr v) kvs) @
    CHR ''}'' # r) = Some (kvs, r)"
  using assms
proof (induction kvs arbitrary: n)
  case (Cons p kvs)
  obtain k x where p: "p = (k, x)" by fastforce
  obtain m where n: "n = Suc m" using Cons.prems(4) by (cases n) auto
  have px: "json_plain x" and rx: "reads_back fr x" using Cons.prems(2,3) p by auto
  have ws: "skip_ws (json_dumps fr x @ t) = json_dumps fr x @ t" for t by (rule skip_ws_start [OF px])
  show ?case
  proof (cases "kvs = []")
    case True
    have "2 * length (json_dumps fr x) \<le> m" using Cons.prems(4) True p n by (simp add: json_quote_def)
    with True p n ws reads_backD [OF rx] show ?thesis
      by (simp add: json_quote_def json_chars_quote)
  next
    case False
    let ?w = "py_join '', '' (map (\<lambda>(k, v). json_quote k @ '': '' @ json_dumps fr v) kvs)"
    have len: "2 * length (json_dumps fr x) \<le> m" "2 * length ?w + 1 \<le> m"
      using Cons.prems(4) False p n by (simp_all add: json_quote_def join_cons)
    obtain q qs where kvs: "kvs = q # qs" using False by (cases kvs) auto
    have "skip_ws (?w @ CHR ''}'' # r) = ?w @ CHR ''}'' # r"
      using kvs by (cases q; cases qs) (auto simp: json_quote_def)
    moreover have "json_members m (?w @ CHR ''}'' # r) = Some (kvs, r)"
      using Cons.prems False len by (intro Cons.IH) auto
    moreover have "json_value m (json_dumps fr x @ CHR '','' # CHR '' '' # ?w @ CHR ''}'' # r) =
        Some (x, CHR '','' # CHR '' '' # ?w @ CHR ''}'' # r)"
      using len by (intro reads_backD [OF rx]) auto
    ultimately show ?thesis using False p n ws
      by (simp add: join_cons json_quote_def json_chars_quote)
  qed
qed simp

lemma fold_update_distinct:
  "distinct (map fst (d @ kvs)) \<Longrightarrow> fold (\<lambda>(k, v). AList.update k v) kvs d = d @ kvs"
  by (induction kvs arbitrary: d) (auto simp: update_new)

lemma join_start:
  assumes "xs \<noteq> []" "list_all json_plain xs"
  shows "\<exists>c t. py_join '', '' (map (json_dumps fr) xs) @ r = c # t \<and> \<not> json_ws c \<and> c \<noteq> CHR '']''"
proof -
  obtain x ys where x: "xs = x # ys" using assms(1) by (cases xs) auto
  with assms(2) obtain c t where "json_dumps fr x = c # t" "\<not> json_ws c" "c \<noteq> CHR '']''"
    using json_start [of x fr] by auto
  with x show ?thesis by (cases ys) auto
qed

lemma reads_back_array:
  assumes "list_all json_plain xs" "\<forall>x\<in>set xs. reads_back fr x"
  shows "reads_back fr (JArr xs)"
  unfolding reads_back_def
proof (intro allI impI)
  fix n r
  assume n: "2 * length (json_dumps fr (JArr xs)) \<le> n"
  then obtain m where m: "n = Suc m" by (cases n) auto
  show "json_value n (json_dumps fr (JArr xs) @ r) = Some (JArr xs, r)"
  proof (cases "xs = []")
    case True
    then show ?thesis by (simp add: m)
  next
    case False
    let ?w = "py_join '', '' (map (json_dumps fr) xs)"
    have i: "json_items m (?w @ CHR '']'' # r) = Some (xs, r)"
      using n m by (intro json_items_dumps [OF False assms]) simp
    obtain c t where c: "?w @ CHR '']'' # r = c # t" "\<not> json_ws c" "c \<noteq> CHR '']''"
      using join_start [OF False assms(1), of fr "CHR '']'' # r"] by blast
    have "json_dumps fr (JArr xs) @ r = CHR ''['' # c # t" using c(1) by simp
    with c i m show ?thesis by simp
  qed
qed

lemma reads_back_object:
  assumes "list_all (\<lambda>(_, v). json_plain v) kvs" "\<forall>(k, v)\<in>set kvs. reads_back fr v" "distinct (map fst kvs)"
  shows "reads_back fr (JObj kvs)"
  unfolding reads_back_def
proof (intro allI impI)
  fix n r
  assume n: "2 * length (json_dumps fr (JObj kvs)) \<le> n"
  then obtain m where m: "n = Suc m" by (cases n) auto
  show "json_value n (json_dumps fr (JObj kvs) @ r) = Some (JObj kvs, r)"
  proof (cases "kvs = []")
    case True
    then show ?thesis by (simp add: m)
  next
    case False
    let ?w = "py_join '', '' (map (\<lambda>(k, v). json_quote k @ '': '' @ json_dumps fr v) kvs)"
    have i: "json_members m (?w @ CHR ''}'' # r) = Some (kvs, r)"
      using n m by (intro json_members_dumps [OF False assms(1,2)]) simp
    obtain p ps where p: "kvs = p # ps" using False by (cases kvs) auto
    obtain t where t: "?w @ CHR ''}'' # r = CHR 0x22 # t"
      unfolding p by (cases p; cases ps) (auto simp: json_quote_def)
    have "json_dumps fr (JObj kvs) @ r = CHR ''{'' # CHR 0x22 # t" using t by simp
    with t i m fold_update_distinct [of "[]" kvs] assms(3) show ?thesis by simp
  qed
qed

lemma reads_back_suc:
  assumes "json_dumps fr j \<noteq> []"
    and "\<And>m r. value_ends r \<Longrightarrow> json_value (Suc m) (json_dumps fr j @ r) = Some (j, r)"
  shows "reads_back fr j"
  unfolding reads_back_def
proof (intro allI impI)
  fix n r
  assume "value_ends r" "2 * length (json_dumps fr j) \<le> n"
  then show "json_value n (json_dumps fr j @ r) = Some (j, r)" using assms by (cases n) auto
qed

lemma json_reads_back: "json_plain j \<Longrightarrow> reads_back fr j"
proof (induction j)
  case (JInt i)
  obtain c t where c: "str_int i = c # t" "is_dec c \<or> c = CHR ''-''" using str_int_start by blast
  have "json_number (c # t @ r) = Some (JInt i, r)" if "value_ends r" for r
    using json_number_int [of i r] JInt that c(1) by simp
  with c number_char [OF c(2)] show ?case by (intro reads_back_suc) (simp_all add: starts_with_def)
next
  case (JArr xs)
  then show ?case by (intro reads_back_array) (auto simp: list_all_iff)
next
  case (JObj kvs)
  then show ?case by (intro reads_back_object) (fastforce simp: list_all_iff)+
next
  case (JStr s)
  show ?case by (rule reads_back_suc) (simp_all add: json_quote_def json_chars_quote)
next
  case (JBool b)
  show ?case by (rule reads_back_suc; cases b) (simp_all add: starts_with_def)
next
  case JNull
  show ?case by (rule reads_back_suc) (simp_all add: starts_with_def)
qed simp

text \<open>Reading inverts printing.\<close>

lemma json_loads_dumps:
  assumes "json_plain j"
  shows "json_loads (json_dumps fr j) = Some j"
proof -
  have "skip_ws (json_dumps fr j) = json_dumps fr j" using skip_ws_start [OF assms, of fr "[]"] by simp
  then show ?thesis
    using reads_backD [OF json_reads_back [OF assms], of "[]" fr "2 * length (json_dumps fr j) + 1"]
    by (simp add: json_loads_def)
qed

section \<open>Bytes\<close>

text \<open>\<^verbatim>\<open>json.loads\<close> on bytes decodes UTF-8 first; texts in UTF-16 or UTF-32 are outside the model.\<close>

fun utf8_decode :: "string \<Rightarrow> string option" where
  "utf8_decode [] = Some []"
| "utf8_decode (c # s) =
     (let n = (of_char c :: nat) in
      if n < 128 then map_option ((#) c) (utf8_decode s)
      else (case s of
              d # t \<Rightarrow>
                (let m = (of_char d :: nat) in
                 if n \<in> set [194, 195] \<and> 128 \<le> m \<and> m < 192
                 then map_option ((#) (char_of ((n - 192) * 64 + (m - 128)))) (utf8_decode t) else None)
            | [] \<Rightarrow> None))"

lemma utf8_decode_ascii: "list_all (\<lambda>c. (of_char c :: nat) < 128) s \<Longrightarrow> utf8_decode s = Some s"
  by (induction s) (simp_all add: Let_def)

lemma json_escape_ascii: "list_all (\<lambda>c. (of_char c :: nat) < 128) (json_escape c)"
proof -
  have "(of_char (digit_char d) :: nat) < 128" if "d < 16" for d
    using that by (simp add: of_char_digit)
  then have "list_all (\<lambda>c. (of_char c :: nat) < 128) (hex_pad 4 n)" for n
    unfolding list_all_iff using hex_pad_digits by blast
  then show ?thesis by (simp add: json_escape_def Let_def)
qed

lemma json_quote_ascii: "list_all (\<lambda>c. (of_char c :: nat) < 128) (json_quote s)"
  using json_escape_ascii by (simp add: json_quote_def list_all_iff)

lemma json_dumps_ascii:
  "json_plain j \<Longrightarrow> list_all (\<lambda>c. (of_char c :: nat) < 128) (json_dumps fr j)"
proof (induction fr j rule: json_dumps.induct)
  case (3 fr i)
  have "(of_char (digit_char d) :: nat) < 128" if "d < 10" for d
    using that by (simp add: of_char_digit)
  then show ?case using str_nat_digits [of _ "nat \<bar>i\<bar>"] by (fastforce simp: str_int_def list_all_iff)
next
  case (5 fr s)
  show ?case by (simp add: json_quote_ascii)
next
  case (6 fr xs)
  have "c \<in> set ''[], '' \<or> (\<exists>x\<in>set xs. c \<in> set (json_dumps fr x))" if "c \<in> set (json_dumps fr (JArr xs))" for c
    using set_py_join [of "'', ''" "map (json_dumps fr) xs"] that by auto
  moreover have "(of_char c :: nat) < 128" if "x \<in> set xs" "c \<in> set (json_dumps fr x)" for x c
    using 6 that by (simp add: list_all_iff)
  moreover have "(of_char c :: nat) < 128" if "c \<in> set ''[], ''" for c using that by auto
  ultimately show ?case unfolding list_all_iff by blast
next
  case (7 fr kvs)
  let ?f = "\<lambda>(k, v). json_quote k @ '': '' @ json_dumps fr v"
  have "c \<in> set ''{}, '' \<or> (\<exists>kv\<in>set kvs. c \<in> set (?f kv))" if "c \<in> set (json_dumps fr (JObj kvs))" for c
    using set_py_join [of "'', ''" "map ?f kvs"] that by auto
  moreover have "(of_char c :: nat) < 128" if "kv \<in> set kvs" "c \<in> set (?f kv)" for kv c
  proof -
    obtain k v where kv: "kv = (k, v)" by (cases kv)
    have "list_all (\<lambda>c. (of_char c :: nat) < 128) (json_dumps fr v)"
      using "7.IH" [OF that(1) kv [symmetric]] "7.prems" that(1) kv by (auto simp: list_all_iff)
    then show ?thesis using that(2) kv json_quote_ascii [of k] by (auto simp: list_all_iff)
  qed
  moreover have "(of_char c :: nat) < 128" if "c \<in> set ''{}, ''" for c using that by auto
  ultimately show ?case unfolding list_all_iff by blast
qed simp_all

text \<open>
  \<^verbatim>\<open>json.loads\<close> on bytes: UTF-8, with or without a byte order mark.
\<close>

definition json_loads_bytes :: "string \<Rightarrow> json option" where
  "json_loads_bytes b =
     Option.bind (utf8_decode (if starts_with [CHR 0xEF, CHR 0xBB, CHR 0xBF] b then drop 3 b else b)) json_loads"

lemma json_loads_bytes_dumps:
  assumes "json_plain j"
  shows "json_loads_bytes (json_dumps fr j) = Some j"
proof -
  have "\<not> starts_with [CHR 0xEF, CHR 0xBB, CHR 0xBF] (json_dumps fr j)"
    using json_dumps_ascii [OF assms, of fr] by (cases "json_dumps fr j") (auto simp: starts_with_def)
  then show ?thesis
    using assms by (simp add: json_loads_bytes_def utf8_decode_ascii json_dumps_ascii json_loads_dumps)
qed

end
