(* ===== verification/Pagination.thy ===== *)
theory Pagination
  imports PyJson "HOL-Library.Product_Lexorder"
begin

text \<open>
  Keyset pagination of the task service (\<^verbatim>\<open>pagination.py\<close>): the opaque cursor, its encoding and
  decoding, and the page cut out of a result fetched with one row more than the page size. The two
  conversions between a time and its ISO text (\<^verbatim>\<open>datetime.isoformat\<close>, \<^verbatim>\<open>datetime.fromisoformat\<close>)
  are parameters.
\<close>

section \<open>Base64 without validation\<close>

text \<open>
  \<^verbatim>\<open>base64.urlsafe_b64decode\<close> skips every character outside the alphabet, stops at a complete
  padding, and fails only on an unfinished group at the end. The arguments are the position in the
  group, the bits left over, and the padding characters seen since the last data character.
\<close>

fun b64_loose :: "nat \<Rightarrow> nat \<Rightarrow> nat \<Rightarrow> string \<Rightarrow> string option" where
  "b64_loose q left pads [] = (if q = 0 then Some [] else None)"
| "b64_loose q left pads (c # s) =
     (if c = CHR ''='' then
        (if 2 \<le> q \<and> 4 \<le> q + (pads + 1) then Some []
         else b64_loose q left (if 2 \<le> q then pads + 1 else pads) s)
      else (case b64_val c of
              None \<Rightarrow> b64_loose q left pads s
            | Some v \<Rightarrow>
                if q = 0 then b64_loose 1 v 0 s
                else if q = 1 then map_option ((#) (char_of (left * 4 + v div 16))) (b64_loose 2 (v mod 16) 0 s)
                else if q = 2 then map_option ((#) (char_of (left * 16 + v div 4))) (b64_loose 3 (v mod 4) 0 s)
                else map_option ((#) (char_of (left * 64 + v))) (b64_loose 0 0 0 s)))"

definition to_urlsafe :: "char \<Rightarrow> char" where
  "to_urlsafe c = (if c = CHR ''+'' then CHR ''-'' else if c = CHR ''/'' then CHR ''_'' else c)"

definition from_urlsafe :: "char \<Rightarrow> char" where
  "from_urlsafe c = (if c = CHR ''-'' then CHR ''+'' else if c = CHR ''_'' then CHR ''/'' else c)"

definition urlsafe_b64encode :: "string \<Rightarrow> string" where
  "urlsafe_b64encode s = map to_urlsafe (b64encode s)"

definition urlsafe_b64decode :: "string \<Rightarrow> string option" where
  "urlsafe_b64decode s = b64_loose 0 0 0 (map from_urlsafe s)"

section \<open>The cursor\<close>

record iso_time =
  it_isoformat :: "pyfloat \<Rightarrow> string"
  it_fromisoformat :: "string \<Rightarrow> pyfloat option"

definition encode_cursor :: "iso_time \<Rightarrow> pyfloat \<Rightarrow> uuid \<Rightarrow> string" where
  "encode_cursor it created_at item_id =
     urlsafe_b64encode (json_dumps (\<lambda>_. [])
       (JObj [(''t'', JStr (it_isoformat it created_at)), (''i'', JStr (uuid_str item_id))]))"

definition decode_cursor :: "iso_time \<Rightarrow> string \<Rightarrow> (pyfloat \<times> uuid) option" where
  "decode_cursor it cursor =
     (case urlsafe_b64decode cursor of
        None \<Rightarrow> None
      | Some raw \<Rightarrow>
          (case json_loads_bytes raw of
             None \<Rightarrow> None
           | Some payload \<Rightarrow>
               (case (json_get ''t'' payload, json_get ''i'' payload) of
                  (Some (JStr t), Some (JStr i)) \<Rightarrow>
                    (case (it_fromisoformat it t, uuid_parse i) of
                       (Some dt, Some u) \<Rightarrow> Some (dt, u)
                     | _ \<Rightarrow> None)
                | _ \<Rightarrow> None)))"

section \<open>A page\<close>

text \<open>\<open>key\<close> gives the creation time and the id of an item.\<close>

definition make_cursor_page ::
  "iso_time \<Rightarrow> ('a \<Rightarrow> pyfloat \<times> uuid) \<Rightarrow> 'a list \<Rightarrow> nat \<Rightarrow> 'a list \<times> string option" where
  "make_cursor_page it key items limit =
     (if length items > limit
      then (let next_item = items ! limit in
            (take limit items, Some (encode_cursor it (fst (key next_item)) (snd (key next_item)))))
      else (items, None))"

record 'a cursor_page =
  cp_items :: "'a list"
  cp_next_cursor :: "string option"
  cp_count :: nat

text \<open>\<^verbatim>\<open>ORDER BY created_at DESC, id DESC\<close> and the filter for the rows strictly before a cursor.\<close>

definition desc_key :: "('a \<Rightarrow> pyfloat \<times> uuid) \<Rightarrow> 'a \<Rightarrow> pyfloat \<times> int" where
  "desc_key key x = (- fst (key x), - uint (snd (key x)))"

definition order_desc :: "('a \<Rightarrow> pyfloat \<times> uuid) \<Rightarrow> 'a list \<Rightarrow> 'a list" where
  "order_desc key rows = sort_key (desc_key key) rows"

definition before_cursor :: "('a \<Rightarrow> pyfloat \<times> uuid) \<Rightarrow> pyfloat \<times> uuid \<Rightarrow> 'a \<Rightarrow> bool" where
  "before_cursor key cur x \<longleftrightarrow>
     fst (key x) < fst cur \<or> fst (key x) = fst cur \<and> snd (key x) < snd cur"

text \<open>
  What both list routes do with the rows the caller may see. A query string without a cursor and an
  empty cursor are the same.
\<close>

definition cursor_query ::
  "iso_time \<Rightarrow> ('a \<Rightarrow> pyfloat \<times> uuid) \<Rightarrow> 'a list \<Rightarrow> nat \<Rightarrow> string \<Rightarrow> ('a list \<times> string option) option" where
  "cursor_query it key rows limit cursor =
     (case (if cursor = [] then Some rows
            else map_option (\<lambda>cur. filter (before_cursor key cur) rows) (decode_cursor it cursor)) of
        None \<Rightarrow> None
      | Some rows1 \<Rightarrow> Some (make_cursor_page it key (take (limit + 1) (order_desc key rows1)) limit))"

section \<open>Cursors read back\<close>

lemma b64_loose_val: "n < 64 \<Longrightarrow> b64_loose q left pads (b64_char n # s) =
    (if q = 0 then b64_loose 1 n 0 s
     else if q = 1 then map_option ((#) (char_of (left * 4 + n div 16))) (b64_loose 2 (n mod 16) 0 s)
     else if q = 2 then map_option ((#) (char_of (left * 16 + n div 4))) (b64_loose 3 (n mod 4) 0 s)
     else map_option ((#) (char_of (left * 64 + n))) (b64_loose 0 0 0 s))"
  by (simp add: b64_char_not_pad)

lemma b64_loose_encode: "b64_loose 0 0 0 (b64encode s) = Some s"
proof (induction s rule: b64encode.induct)
  case 1
  then show ?case by simp
next
  case (2 x)
  then show ?case
    using byte_join [of 0 "of_char x"] byte_split [of "of_char x"]
    by (simp add: Let_def b64_loose_val del: b64_loose.simps(2)) simp
next
  case (3 x y)
  then show ?case
    using byte_join [of "of_char y" "of_char x"] byte_join2 [of "of_char y" 0 "of_char x"]
    by (simp add: Let_def b64_loose_val byte_split del: b64_loose.simps(2)) simp
next
  case (4 x y z s)
  then show ?case
    using byte_join [of "of_char y" "of_char x"] byte_join2 [of "of_char y" "of_char z" "of_char x"]
      byte_join3 [of "of_char z" "of_char y"]
    by (simp add: Let_def b64_loose_val byte_split del: b64_loose.simps(2))
qed

lemma b64_char_plain: "n < 64 \<Longrightarrow> from_urlsafe (to_urlsafe (b64_char n)) = b64_char n"
proof -
  assume n: "n < 64"
  have v: "b64_val CHR ''-'' = None" "b64_val CHR ''_'' = None" by (simp_all add: b64_val_def)
  then have "b64_char n \<noteq> CHR ''-''" "b64_char n \<noteq> CHR ''_''"
    using b64_val_char [OF n] by (metis option.distinct(1))+
  then show ?thesis by (simp add: from_urlsafe_def to_urlsafe_def)
qed

lemma urlsafe_encode_text: "map (from_urlsafe \<circ> to_urlsafe) (b64encode s) = b64encode s"
proof (induction s rule: b64encode.induct)
  case (4 x y z s)
  then show ?case by (simp add: Let_def b64_char_plain byte_split)
qed (simp_all add: Let_def b64_char_plain byte_split, simp_all add: from_urlsafe_def to_urlsafe_def)

lemma urlsafe_roundtrip: "urlsafe_b64decode (urlsafe_b64encode s) = Some s"
  by (simp add: urlsafe_b64decode_def urlsafe_b64encode_def urlsafe_encode_text b64_loose_encode)

lemma decode_encode:
  assumes "it_fromisoformat it (it_isoformat it t) = Some t"
  shows "decode_cursor it (encode_cursor it t i) = Some (t, i)"
proof -
  let ?j = "JObj [(''t'', JStr (it_isoformat it t)), (''i'', JStr (uuid_str i))]"
  have "json_loads_bytes (json_dumps (\<lambda>_. []) ?j) = Some ?j"
    by (rule json_loads_bytes_dumps) simp
  then show ?thesis
    using assms by (simp add: decode_cursor_def encode_cursor_def urlsafe_roundtrip json_get_def)
qed

lemma encode_cursor_nonempty: "encode_cursor it t i \<noteq> []"
  by (simp add: encode_cursor_def urlsafe_b64encode_def)

section \<open>Following the cursors\<close>

text \<open>A client that asks for page after page, with the cursor of each answer, on rows that do not change.\<close>

fun follow_pages ::
  "(string \<Rightarrow> ('a list \<times> string option) option) \<Rightarrow> nat \<Rightarrow> string \<Rightarrow> 'a list" where
  "follow_pages query 0 cursor = []"
| "follow_pages query (Suc n) cursor =
     (case query cursor of
        None \<Rightarrow> []
      | Some (page, None) \<Rightarrow> page
      | Some (page, Some c) \<Rightarrow> page @ follow_pages query n c)"

function pages_shown :: "nat \<Rightarrow> 'a list \<Rightarrow> 'a list" where
  "pages_shown k xs = (if length xs \<le> k then xs else take k xs @ pages_shown k (drop (Suc k) xs))"
  by pat_completeness auto
termination
  by (relation "measure (length \<circ> snd)") auto

declare pages_shown.simps [simp del]

lemma pages_shown_nths: "pages_shown k xs = nths xs {i. i mod Suc k \<noteq> k}"
proof (induction k xs rule: pages_shown.induct)
  case (1 k xs)
  let ?A = "{i. i mod Suc k \<noteq> k}"
  have small: "nths ys ?A = ys" if "length ys \<le> k" for ys :: "'a list"
    using that by (intro nths_all) auto
  show ?case
  proof (cases "length xs \<le> k")
    case True
    then show ?thesis by (subst pages_shown.simps) (simp add: small)
  next
    case False
    have "xs = take k xs @ xs ! k # drop (Suc k) xs"
      using False by (simp add: id_take_nth_drop)
    then have "nths xs ?A = nths (take k xs @ [xs ! k] @ drop (Suc k) xs) ?A" by simp
    also have "\<dots> = take k xs @ nths (drop (Suc k) xs) {j. j + Suc k \<in> ?A}"
      using False unfolding nths_append by (simp add: small nths_singleton del: append_Cons)
    also have "{j. j + Suc k \<in> ?A} = ?A" by (simp add: mod_add_self2 del: add_Suc_right)
    finally show ?thesis using False "1.IH" by (subst pages_shown.simps) simp
  qed
qed

lemma before_desc: "before_cursor key (key y) x \<longleftrightarrow> desc_key key y < desc_key key x"
  by (auto simp: before_cursor_def desc_key_def less_prod_def word_less_def)

lemma desc_key_inj: "inj_on key (set rows) \<Longrightarrow> inj_on (desc_key key) (set rows)"
  unfolding inj_on_def desc_key_def prod_eq_iff by (metis fst_conv neg_equal_iff_equal snd_conv word_uint_eq_iff)

lemma filter_after:
  assumes "sorted (map f xs)" "distinct (map f xs)" "m < length xs"
  shows "filter (\<lambda>x. f (xs ! m) < f x) xs = drop (Suc m) xs"
proof -
  let ?P = "\<lambda>x. f (xs ! m) < f x"
  have lt: "f (xs ! i) < f (xs ! j)" if "i < j" "j < length xs" for i j
    using sorted_nth_mono [OF assms(1), of i j] nth_eq_iff_index_eq [OF assms(2), of i j] that
    by (simp add: le_less)
  have "filter ?P (take (Suc m) xs) = []"
  proof (rule filter_False, intro ballI)
    fix x assume "x \<in> set (take (Suc m) xs)"
    then obtain i where "i < Suc m" "i < length xs" "x = xs ! i" by (auto simp: in_set_conv_nth)
    then show "\<not> ?P x" using lt [of i m] assms(3) by (cases "i = m") (auto simp: not_less le_less)
  qed
  moreover have "filter ?P (drop (Suc m) xs) = drop (Suc m) xs"
  proof (rule filter_True, intro ballI)
    fix x assume "x \<in> set (drop (Suc m) xs)"
    then obtain i where "i < length (drop (Suc m) xs)" "x = drop (Suc m) xs ! i"
      by (metis in_set_conv_nth)
    then show "?P x" using lt [of m "Suc m + i"] by simp
  qed
  ultimately show ?thesis
    by (metis append_Nil append_take_drop_id filter_append)
qed

lemma order_desc_sorted: "sorted (map (desc_key key) (order_desc key rows))"
  by (simp add: order_desc_def)

lemma order_desc_set [simp]: "set (order_desc key rows) = set rows" "length (order_desc key rows) = length rows"
  by (simp_all add: order_desc_def)

lemma order_desc_distinct:
  assumes "distinct rows" "inj_on key (set rows)"
  shows "distinct (map (desc_key key) (order_desc key rows))"
  using assms desc_key_inj [OF assms(2)] by (simp add: distinct_map order_desc_def)

lemma order_desc_before:
  assumes "distinct rows" "inj_on key (set rows)" "m < length rows"
  shows "order_desc key (filter (before_cursor key (key (order_desc key rows ! m))) rows) =
    drop (Suc m) (order_desc key rows)"
proof -
  let ?L = "order_desc key rows"
  have "order_desc key (filter (before_cursor key (key (?L ! m))) rows) =
      filter (before_cursor key (key (?L ! m))) ?L"
    by (simp add: order_desc_def filter_sort)
  also have "\<dots> = filter (\<lambda>x. desc_key key (?L ! m) < desc_key key x) ?L"
    by (rule filter_cong) (simp_all add: before_desc)
  also have "\<dots> = drop (Suc m) ?L"
    using assms by (intro filter_after order_desc_sorted order_desc_distinct) simp_all
  finally show ?thesis .
qed

definition reads_times :: "iso_time \<Rightarrow> bool" where
  "reads_times it \<longleftrightarrow> (\<forall>t. it_fromisoformat it (it_isoformat it t) = Some t)"

lemma cursor_query_at:
  assumes "distinct rows" "inj_on key (set rows)" "m < length rows" "reads_times it"
  shows "cursor_query it key rows limit
      (encode_cursor it (fst (key (order_desc key rows ! m))) (snd (key (order_desc key rows ! m)))) =
    Some (make_cursor_page it key (take (limit + 1) (drop (Suc m) (order_desc key rows))) limit)"
  using assms(4) order_desc_before [OF assms(1-3)]
  by (simp add: cursor_query_def encode_cursor_nonempty decode_encode reads_times_def)

lemma follow_from:
  assumes rows: "distinct rows" "inj_on key (set rows)" and it: "reads_times it"
    and "cursor_query it key rows limit c =
      Some (make_cursor_page it key (take (limit + 1) (drop j (order_desc key rows))) limit)"
    and "length rows - j < n"
  shows "follow_pages (cursor_query it key rows limit) n c = pages_shown limit (drop j (order_desc key rows))"
  using assms(4,5)
proof (induction n arbitrary: c j)
  case (Suc n)
  let ?L = "order_desc key rows"
  show ?case
  proof (cases "length (drop j ?L) \<le> limit")
    case True
    then show ?thesis using Suc.prems(1) by (subst pages_shown.simps) (simp add: make_cursor_page_def)
  next
    case False
    then have m: "j + limit < length rows" by simp
    have q: "cursor_query it key rows limit
        (encode_cursor it (fst (key (?L ! (j + limit)))) (snd (key (?L ! (j + limit))))) =
      Some (make_cursor_page it key (take (limit + 1) (drop (Suc (j + limit)) ?L)) limit)"
      by (rule cursor_query_at [OF rows m it])
    have "follow_pages (cursor_query it key rows limit) n
        (encode_cursor it (fst (key (?L ! (j + limit)))) (snd (key (?L ! (j + limit))))) =
      pages_shown limit (drop (Suc (j + limit)) ?L)"
      using Suc.prems(2) m by (intro Suc.IH [OF q]) linarith
    moreover have "make_cursor_page it key (take (limit + 1) (drop j ?L)) limit =
        (take limit (drop j ?L), Some (encode_cursor it (fst (key (?L ! (j + limit)))) (snd (key (?L ! (j + limit))))))"
      using m by (simp add: make_cursor_page_def Let_def min_def; arith)
    moreover have "drop (Suc limit) (drop j ?L) = drop (Suc (j + limit)) ?L" by (simp add: add.commute)
    ultimately show ?thesis
      using False Suc.prems(1) by (subst pages_shown.simps) simp
  qed
qed simp

lemma follow_all:
  assumes "distinct rows" "inj_on key (set rows)" "reads_times it" "length rows < n"
  shows "follow_pages (cursor_query it key rows limit) n [] =
    nths (order_desc key rows) {i. i mod Suc limit \<noteq> limit}"
proof -
  have "cursor_query it key rows limit [] =
      Some (make_cursor_page it key (take (limit + 1) (drop 0 (order_desc key rows))) limit)"
    by (simp add: cursor_query_def)
  from follow_from [OF assms(1-3) this, of n] assms(4) show ?thesis
    by (simp add: pages_shown_nths)
qed

end
