(* ===== verification/TaskModel.thy ===== *)
theory TaskModel
  imports TokenStore Pagination Http Users
begin

text \<open>
  The data of the task service: the two tables (\<^verbatim>\<open>models.py\<close>), the request and response schemas with
  their sanitising (\<^verbatim>\<open>schemas.py\<close>), the idempotency cache (\<^verbatim>\<open>idempotency.py\<close>), the shared Service
  Bus sender of \<^verbatim>\<open>routes/tasks.py\<close>, and what a request gets from its environment.
\<close>

section \<open>The tables\<close>

datatype task_status = TODO | IN_PROGRESS | IN_REVIEW | DONE | CANCELLED

datatype task_priority = LOW | MEDIUM | HIGH | CRITICAL

definition status_value :: "task_status \<Rightarrow> string" where
  "status_value s =
     (case s of TODO \<Rightarrow> ''todo'' | IN_PROGRESS \<Rightarrow> ''in_progress'' | IN_REVIEW \<Rightarrow> ''in_review''
      | DONE \<Rightarrow> ''done'' | CANCELLED \<Rightarrow> ''cancelled'')"

definition priority_value :: "task_priority \<Rightarrow> string" where
  "priority_value p =
     (case p of LOW \<Rightarrow> ''low'' | MEDIUM \<Rightarrow> ''medium'' | HIGH \<Rightarrow> ''high'' | CRITICAL \<Rightarrow> ''critical'')"

record project =
  p_id :: uuid
  p_name :: string
  p_description :: "string option"
  p_owner_id :: uuid
  p_is_active :: bool
  p_created_at :: pyfloat
  p_updated_at :: pyfloat

record task =
  t_id :: uuid
  t_title :: string
  t_description :: "string option"
  t_status :: task_status
  t_priority :: task_priority
  t_project_id :: uuid
  t_creator_id :: uuid
  t_assignee_id :: "uuid option"
  t_due_date :: "pyfloat option"
  t_created_at :: pyfloat
  t_updated_at :: pyfloat

section \<open>Schemas\<close>

text \<open>
  \<^verbatim>\<open>re.sub\<close> with the pattern of an opening angle bracket, any characters but a closing one, and a
  closing one.
\<close>

function sub_tags :: "string \<Rightarrow> string" where
  "sub_tags [] = []"
| "sub_tags (c # s) =
     (if c = CHR ''<'' \<and> CHR ''>'' \<in> set s
      then sub_tags (tl (dropWhile (\<lambda>d. d \<noteq> CHR ''>'') s))
      else c # sub_tags s)"
  by pat_completeness auto
termination
proof (relation "measure length")
  fix c :: char and s :: string
  have "length (dropWhile (\<lambda>d. d \<noteq> CHR ''>'') s) \<le> length s" by (rule length_dropWhile_le)
  then show "(tl (dropWhile (\<lambda>d. d \<noteq> CHR ''>'') s), c # s) \<in> measure length" by simp
qed auto

definition strip_html :: "string \<Rightarrow> string" where
  "strip_html value = py_strip (sub_tags value)"

definition sanitize_title :: "string \<Rightarrow> http_error + string" where
  "sanitize_title v = (if strip_html v = [] then Inl unprocessable else Inr (strip_html v))"

record project_create =
  pc_name :: string
  pc_description :: "string option"

definition ProjectCreate :: "project_create \<Rightarrow> http_error + project_create" where
  "ProjectCreate p = (if length_in 1 255 (pc_name p) then Inr p else Inl unprocessable)"

record task_create =
  tc_title :: string
  tc_description :: "string option"
  tc_priority :: task_priority
  tc_project_id :: uuid
  tc_assignee_id :: "uuid option"
  tc_due_date :: "pyfloat option"

definition TaskCreate :: "task_create \<Rightarrow> http_error + task_create" where
  "TaskCreate p =
     (if \<not> length_in 1 500 (tc_title p) then Inl unprocessable
      else (case sanitize_title (tc_title p) of
              Inl e \<Rightarrow> Inl e
            | Inr title \<Rightarrow> Inr (p\<lparr>tc_title := title, tc_description := map_option strip_html (tc_description p)\<rparr>)))"

text \<open>In an update each field is absent (\<^const>\<open>None\<close>), explicitly null (\<^term>\<open>Some None\<close>), or given.\<close>

record task_update =
  tu_title :: "string option option"
  tu_description :: "string option option"
  tu_status :: "task_status option option"
  tu_priority :: "task_priority option option"
  tu_assignee_id :: "uuid option option"
  tu_due_date :: "pyfloat option option"

definition TaskUpdate :: "task_update \<Rightarrow> http_error + task_update" where
  "TaskUpdate p =
     (let p1 = p\<lparr>tu_description := map_option (map_option strip_html) (tu_description p)\<rparr> in
      case tu_title p of
        Some (Some v) \<Rightarrow>
          if \<not> length_in 1 500 v then Inl unprocessable
          else (case sanitize_title v of
                  Inl e \<Rightarrow> Inl e
                | Inr title \<Rightarrow> Inr (p1\<lparr>tu_title := Some (Some title)\<rparr>))
      | _ \<Rightarrow> Inr p1)"

text \<open>The response bodies; \<open>js_time\<close> is the text pydantic gives a time in JSON.\<close>

definition uuid_opt :: "uuid option \<Rightarrow> json" where
  "uuid_opt u = (case u of None \<Rightarrow> JNull | Some i \<Rightarrow> JStr (uuid_str i))"

definition TaskResponse :: "(pyfloat \<Rightarrow> string) \<Rightarrow> task \<Rightarrow> json" where
  "TaskResponse js_time t = JObj
     [(''id'', JStr (uuid_str (t_id t))), (''title'', JStr (t_title t)),
      (''description'', opt_text (t_description t)),
      (''status'', JStr (status_value (t_status t))), (''priority'', JStr (priority_value (t_priority t))),
      (''project_id'', JStr (uuid_str (t_project_id t))), (''creator_id'', JStr (uuid_str (t_creator_id t))),
      (''assignee_id'', uuid_opt (t_assignee_id t)),
      (''due_date'', opt_text (map_option js_time (t_due_date t))),
      (''created_at'', JStr (js_time (t_created_at t))), (''updated_at'', JStr (js_time (t_updated_at t)))]"

definition ProjectResponse :: "(pyfloat \<Rightarrow> string) \<Rightarrow> project \<Rightarrow> json" where
  "ProjectResponse js_time p = JObj
     [(''id'', JStr (uuid_str (p_id p))), (''name'', JStr (p_name p)),
      (''description'', opt_text (p_description p)), (''owner_id'', JStr (uuid_str (p_owner_id p))),
      (''is_active'', JBool (p_is_active p)), (''created_at'', JStr (js_time (p_created_at p)))]"

section \<open>Idempotency cache\<close>

definition IDEMPOTENCY_TTL_SECONDS :: int where
  "IDEMPOTENCY_TTL_SECONDS = 60 * 60 * 24"

definition IDEMPOTENCY_PREFIX :: string where
  "IDEMPOTENCY_PREFIX = ''idempotency:''"

definition idempotency_client :: "'r redis \<Rightarrow> pyfloat \<Rightarrow> 'r redis_client \<Rightarrow> bool \<times> 'r redis_client" where
  "idempotency_client rd now c =
     (if rc_connected c then (True, c)
      else (case rd_ping rd now (rc_server c) of
              (ok, r) \<Rightarrow> (ok, \<lparr>rc_connected = ok, rc_server = r\<rparr>)))"

definition make_key :: "uuid \<Rightarrow> string \<Rightarrow> string" where
  "make_key caller_id idempotency_key =
     (let safe_key = take 128 (py_strip idempotency_key)
      in IDEMPOTENCY_PREFIX @ uuid_str caller_id @ '':'' @ safe_key)"

text \<open>Redis errors, texts that are no JSON, and objects without the two members all count as a miss.\<close>

definition get_cached_response ::
  "'r redis \<Rightarrow> pyfloat \<Rightarrow> uuid \<Rightarrow> string \<Rightarrow> 'r redis_client \<Rightarrow> (json \<times> json) option \<times> 'r redis_client" where
  "get_cached_response rd now caller_id idempotency_key c =
     (case idempotency_client rd now c of
        (False, c1) \<Rightarrow> (None, c1)
      | (True, c1) \<Rightarrow>
          (case rd_get rd now (make_key caller_id idempotency_key) (rc_server c1) of
             (x, r) \<Rightarrow>
               (case x of
                  Some (Some raw) \<Rightarrow>
                    (case json_loads raw of
                       Some cached \<Rightarrow>
                         (case (json_get ''status_code'' cached, json_get ''body'' cached) of
                            (Some st, Some body) \<Rightarrow> Some (st, body)
                          | _ \<Rightarrow> None)
                     | None \<Rightarrow> None)
                | _ \<Rightarrow> None, c1\<lparr>rc_server := r\<rparr>)))"

definition cache_response ::
  "'r redis \<Rightarrow> pyfloat \<Rightarrow> uuid \<Rightarrow> string \<Rightarrow> nat \<Rightarrow> json \<Rightarrow> 'r redis_client \<Rightarrow> 'r redis_client" where
  "cache_response rd now caller_id idempotency_key status_code body c =
     (case idempotency_client rd now c of
        (False, c1) \<Rightarrow> c1
      | (True, c1) \<Rightarrow>
          (let payload = json_dumps (\<lambda>_. [])
                 (JObj [(''status_code'', JInt (int status_code)), (''body'', body)])
           in c1\<lparr>rc_server := snd (rd_setex rd now (make_key caller_id idempotency_key)
                    IDEMPOTENCY_TTL_SECONDS payload (rc_server c1))\<rparr>))"

section \<open>Environment and state\<close>

text \<open>
  \<open>te_bus_connects\<close> and \<open>te_bus_accepts\<close> tell whether building a Service Bus client and sending a
  message succeed during the request.
\<close>

record 'r task_env =
  te_redis :: "'r redis"
  te_now :: pyfloat
  te_row_id :: uuid
  te_iso :: iso_time
  te_js_time :: "pyfloat \<Rightarrow> string"
  te_servicebus_connection_string :: string
  te_bus_connects :: bool
  te_bus_accepts :: bool

record bus_message =
  bm_body :: string
  bm_content_type :: string
  bm_subject :: string

text \<open>The module's cached client and sender, and the messages the topic has accepted.\<close>

record bus =
  sb_client :: bool
  sb_sender :: bool
  sb_topic :: "bus_message list"

datatype task_job =
    PublishEvent string json
  | CacheResponse uuid string nat json

record 'r task_world =
  tw_projects :: "project list"
  tw_tasks :: "task list"
  tw_redis :: "'r redis_client"
  tw_bus :: bus
  tw_jobs :: "task_job list"

type_synonym ('r, 'a) task_action = "'r task_world \<Rightarrow> (http_error + 'a) \<times> 'r task_world"

section \<open>Service Bus\<close>

text \<open>\<^const>\<open>Inl\<close> is an exception of the library.\<close>

definition get_sender :: "'r task_env \<Rightarrow> bus \<Rightarrow> (string + bool) \<times> bus" where
  "get_sender en b =
     (if te_servicebus_connection_string en = [] then (Inr False, b)
      else if sb_sender b then (Inr True, b)
      else if te_bus_connects en then (Inr True, b\<lparr>sb_client := True, sb_sender := True\<rparr>)
      else (Inl ''ValueError'', b))"

definition reset_sender :: "bus \<Rightarrow> bus" where
  "reset_sender b = b\<lparr>sb_client := False, sb_sender := False\<rparr>"

definition close_sender :: "bus \<Rightarrow> bus" where
  "close_sender b = b\<lparr>sb_client := False, sb_sender := False\<rparr>"

definition publish_event :: "'r task_env \<Rightarrow> string \<Rightarrow> json \<Rightarrow> bus \<Rightarrow> bus" where
  "publish_event en event_type data b =
     (case get_sender en b of
        (Inr False, b1) \<Rightarrow> b1
      | (Inl _, b1) \<Rightarrow> reset_sender b1
      | (Inr True, b1) \<Rightarrow>
          (let message = \<lparr>bm_body = json_dumps (\<lambda>_. []) (JObj [(''event_type'', JStr event_type), (''data'', data)]),
                          bm_content_type = ''application/json'', bm_subject = event_type\<rparr>
           in if te_bus_accepts en then b1\<lparr>sb_topic := sb_topic b1 @ [message]\<rparr> else reset_sender b1))"

fun run_job :: "'r task_env \<Rightarrow> task_job \<Rightarrow> 'r task_world \<Rightarrow> 'r task_world" where
  "run_job en (PublishEvent ev data) w = w\<lparr>tw_bus := publish_event en ev data (tw_bus w)\<rparr>"
| "run_job en (CacheResponse c k st body) w =
     w\<lparr>tw_redis := cache_response (te_redis en) (te_now en) c k st body (tw_redis w)\<rparr>"

end
