(* ===== verification/Tasks.thy ===== *)
theory Tasks
  imports TaskModel
begin

text \<open>
  The routes of the task service (\<^verbatim>\<open>routes/tasks.py\<close>, \<^verbatim>\<open>routes/projects.py\<close>) and the session around
  them: rows are committed when a route returns and rolled back when it raises; background jobs run
  after the commit, in the order they were added, and a request that raised has none.
\<close>

definition as_caller :: "request \<Rightarrow> (uuid \<Rightarrow> ('r, 'a) task_action) \<Rightarrow> ('r, 'a) task_action" where
  "as_caller r f w = (case parse_caller_id r of Inl e \<Rightarrow> (Inl e, w) | Inr u \<Rightarrow> f u w)"

definition task_respond :: "'r task_env \<Rightarrow> ('r, 'a) task_action \<Rightarrow> ('r, 'a) task_action" where
  "task_respond en body w =
     (case body (w\<lparr>tw_jobs := []\<rparr>) of
        (Inl e, w') \<Rightarrow> (Inl e, w'\<lparr>tw_projects := tw_projects w, tw_tasks := tw_tasks w, tw_jobs := []\<rparr>)
      | (Inr x, w') \<Rightarrow> (Inr x, fold (run_job en) (tw_jobs w') (w'\<lparr>tw_jobs := []\<rparr>)))"

definition add_job :: "task_job \<Rightarrow> 'r task_world \<Rightarrow> 'r task_world" where
  "add_job j w = w\<lparr>tw_jobs := tw_jobs w @ [j]\<rparr>"

section \<open>Rows\<close>

definition task_not_found :: http_error where
  "task_not_found = HTTPException 404 ''Task not found'' []"

definition project_not_found :: http_error where
  "project_not_found = HTTPException 404 ''Project not found'' []"

definition get_task_or_404 :: "uuid \<Rightarrow> 'r task_world \<Rightarrow> http_error + task" where
  "get_task_or_404 task_id w =
     (case scalar_one_or_none (filter (\<lambda>t. t_id t = task_id) (tw_tasks w)) of
        Inl e \<Rightarrow> Inl (ServerError e)
      | Inr None \<Rightarrow> Inl task_not_found
      | Inr (Some t) \<Rightarrow> Inr t)"

definition get_authorized_task :: "uuid \<Rightarrow> uuid \<Rightarrow> bool \<Rightarrow> 'r task_world \<Rightarrow> http_error + task" where
  "get_authorized_task task_id caller_id require_owner w =
     (case get_task_or_404 task_id w of
        Inl e \<Rightarrow> Inl e
      | Inr t \<Rightarrow>
          (let caller_can_view = (t_creator_id t = caller_id \<or> t_assignee_id t = Some caller_id) in
           if \<not> caller_can_view then Inl task_not_found
           else if require_owner \<and> t_creator_id t \<noteq> caller_id then
             Inl (HTTPException 403 ''Only the task creator can perform this action'' [])
           else Inr t))"

definition get_project_or_404 :: "uuid \<Rightarrow> 'r task_world \<Rightarrow> http_error + project" where
  "get_project_or_404 project_id w =
     (case scalar_one_or_none (filter (\<lambda>p. p_id p = project_id) (tw_projects w)) of
        Inl e \<Rightarrow> Inl (ServerError e)
      | Inr None \<Rightarrow> Inl project_not_found
      | Inr (Some p) \<Rightarrow> Inr p)"

definition get_owned_project :: "uuid \<Rightarrow> uuid \<Rightarrow> 'r task_world \<Rightarrow> http_error + project" where
  "get_owned_project project_id caller_id w =
     (case scalar_one_or_none (filter (\<lambda>p. p_id p = project_id) (tw_projects w)) of
        Inl e \<Rightarrow> Inl (ServerError e)
      | Inr None \<Rightarrow> Inl project_not_found
      | Inr (Some p) \<Rightarrow> if p_owner_id p \<noteq> caller_id then Inl project_not_found else Inr p)"

text \<open>The primary keys and the foreign key of the tables.\<close>

definition insert_task :: "task \<Rightarrow> 'r task_world \<Rightarrow> http_error + 'r task_world" where
  "insert_task t w =
     (if list_ex (\<lambda>x. t_id x = t_id t) (tw_tasks w) \<or>
         \<not> list_ex (\<lambda>p. p_id p = t_project_id t) (tw_projects w)
      then Inl (ServerError ''IntegrityError'') else Inr (w\<lparr>tw_tasks := tw_tasks w @ [t]\<rparr>))"

definition save_task :: "pyfloat \<Rightarrow> task \<Rightarrow> task list \<Rightarrow> task list" where
  "save_task now t rows =
     map (\<lambda>x. if t_id x = t_id t then (if x = t then t else t\<lparr>t_updated_at := now\<rparr>) else x) rows"

definition delete_row :: "uuid \<Rightarrow> task list \<Rightarrow> task list" where
  "delete_row i rows = filter (\<lambda>t. t_id t \<noteq> i) rows"

section \<open>Creating a task\<close>

definition replayed :: "json \<times> json \<Rightarrow> http_error + response" where
  "replayed cached =
     (case cached of
        (JInt st, body) \<Rightarrow> Inr (JSONResponse (nat st) body [(''Idempotency-Key-Replay'', ''true'')])
      | _ \<Rightarrow> Inl (ServerError ''TypeError''))"

definition new_task :: "'r task_env \<Rightarrow> uuid \<Rightarrow> task_create \<Rightarrow> task" where
  "new_task en caller_id p =
     \<lparr>t_id = te_row_id en, t_title = tc_title p, t_description = tc_description p, t_status = TODO,
      t_priority = tc_priority p, t_project_id = tc_project_id p, t_creator_id = caller_id,
      t_assignee_id = tc_assignee_id p, t_due_date = tc_due_date p, t_created_at = te_now en,
      t_updated_at = te_now en\<rparr>"

definition created_event :: "task \<Rightarrow> json" where
  "created_event t = JObj
     [(''task_id'', JStr (uuid_str (t_id t))), (''title'', JStr (t_title t)),
      (''project_id'', JStr (uuid_str (t_project_id t))), (''creator_id'', JStr (uuid_str (t_creator_id t))),
      (''assignee_id'', uuid_opt (t_assignee_id t))]"

definition normal_creation ::
  "'r task_env \<Rightarrow> uuid \<Rightarrow> task_create \<Rightarrow> string \<Rightarrow> ('r, response) task_action" where
  "normal_creation en caller_id p idempotency_key w =
     (case get_owned_project (tc_project_id p) caller_id w of
        Inl e \<Rightarrow> (Inl e, w)
      | Inr _ \<Rightarrow>
          (let t = new_task en caller_id p in
           case insert_task t w of
             Inl e \<Rightarrow> (Inl e, w)
           | Inr w1 \<Rightarrow>
               (let response_body = TaskResponse (te_js_time en) t;
                    w2 = add_job (PublishEvent ''task.created'' (created_event t)) w1;
                    w3 = (if idempotency_key \<noteq> []
                          then add_job (CacheResponse caller_id idempotency_key 201 response_body) w2 else w2)
                in (Inr (JSONResponse 201 response_body []), w3))))"

definition create_task :: "'r task_env \<Rightarrow> request \<Rightarrow> task_create \<Rightarrow> ('r, response) task_action" where
  "create_task en r payload =
     as_caller r (\<lambda>caller_id w.
       case TaskCreate payload of
         Inl e \<Rightarrow> (Inl e, w)
       | Inr p \<Rightarrow>
           (let idempotency_key = hget_or (req_headers r) ''Idempotency-Key'' [] in
            if idempotency_key = [] then normal_creation en caller_id p [] w
            else
              (case get_cached_response (te_redis en) (te_now en) caller_id idempotency_key (tw_redis w) of
                 (Some cached, c) \<Rightarrow> (replayed cached, w\<lparr>tw_redis := c\<rparr>)
               | (None, c) \<Rightarrow> normal_creation en caller_id p idempotency_key (w\<lparr>tw_redis := c\<rparr>))))"

section \<open>Reading\<close>

definition task_key :: "task \<Rightarrow> pyfloat \<times> uuid" where
  "task_key t = (t_created_at t, t_id t)"

definition visible_tasks :: "uuid \<Rightarrow> uuid option \<Rightarrow> task_status option \<Rightarrow> task list \<Rightarrow> task list" where
  "visible_tasks caller_id project_id status_filter rows =
     filter (\<lambda>t. (t_creator_id t = caller_id \<or> t_assignee_id t = Some caller_id) \<and>
                 (case project_id of None \<Rightarrow> True | Some i \<Rightarrow> t_project_id t = i) \<and>
                 (case status_filter of None \<Rightarrow> True | Some s \<Rightarrow> t_status t = s)) rows"

definition list_tasks ::
  "'r task_env \<Rightarrow> request \<Rightarrow> uuid option \<Rightarrow> task_status option \<Rightarrow> int \<Rightarrow> string \<Rightarrow>
   ('r, json cursor_page) task_action" where
  "list_tasks en r project_id status_filter limit cursor =
     as_caller r (\<lambda>caller_id w.
       if \<not> (1 \<le> limit \<and> limit \<le> 200) then (Inl unprocessable, w)
       else
         (case cursor_query (te_iso en) task_key
                 (visible_tasks caller_id project_id status_filter (tw_tasks w)) (nat limit) cursor of
            None \<Rightarrow> (Inl (HTTPException 400 ''Invalid cursor value'' []), w)
          | Some (page_items, next_cursor) \<Rightarrow>
              (Inr \<lparr>cp_items = map (TaskResponse (te_js_time en)) page_items,
                    cp_next_cursor = next_cursor, cp_count = length page_items\<rparr>, w)))"

definition get_task :: "'r task_env \<Rightarrow> request \<Rightarrow> uuid \<Rightarrow> ('r, json) task_action" where
  "get_task en r task_id =
     as_caller r (\<lambda>caller_id w.
       case get_authorized_task task_id caller_id False w of
         Inl e \<Rightarrow> (Inl e, w)
       | Inr t \<Rightarrow> (Inr (TaskResponse (te_js_time en) t), w))"

section \<open>Changing and deleting\<close>

text \<open>
  \<^verbatim>\<open>setattr\<close> for every field the client sent; the columns that are not nullable reject an explicit
  null when the row is flushed.
\<close>

definition apply_task_update :: "task_update \<Rightarrow> task \<Rightarrow> string + task" where
  "apply_task_update p t =
     (if tu_title p = Some None \<or> tu_status p = Some None \<or> tu_priority p = Some None
      then Inl ''IntegrityError''
      else Inr
        (t\<lparr>t_title := (case tu_title p of Some (Some v) \<Rightarrow> v | _ \<Rightarrow> t_title t),
           t_description := (case tu_description p of Some v \<Rightarrow> v | None \<Rightarrow> t_description t),
           t_status := (case tu_status p of Some (Some v) \<Rightarrow> v | _ \<Rightarrow> t_status t),
           t_priority := (case tu_priority p of Some (Some v) \<Rightarrow> v | _ \<Rightarrow> t_priority t),
           t_assignee_id := (case tu_assignee_id p of Some v \<Rightarrow> v | None \<Rightarrow> t_assignee_id t),
           t_due_date := (case tu_due_date p of Some v \<Rightarrow> v | None \<Rightarrow> t_due_date t)\<rparr>))"

definition status_event :: "task_status \<Rightarrow> uuid \<Rightarrow> task \<Rightarrow> json" where
  "status_event old_status caller_id t = JObj
     [(''task_id'', JStr (uuid_str (t_id t))), (''old_status'', JStr (status_value old_status)),
      (''new_status'', JStr (status_value (t_status t))), (''updated_by'', JStr (uuid_str caller_id)),
      (''creator_id'', JStr (uuid_str (t_creator_id t))), (''assignee_id'', uuid_opt (t_assignee_id t))]"

definition refreshed :: "pyfloat \<Rightarrow> task \<Rightarrow> task \<Rightarrow> task" where
  "refreshed now old t = (if old = t then t else t\<lparr>t_updated_at := now\<rparr>)"

definition update_task :: "'r task_env \<Rightarrow> request \<Rightarrow> uuid \<Rightarrow> task_update \<Rightarrow> ('r, json) task_action" where
  "update_task en r task_id p0 =
     as_caller r (\<lambda>caller_id w.
       case TaskUpdate p0 of
         Inl e \<Rightarrow> (Inl e, w)
       | Inr p \<Rightarrow>
           (case get_authorized_task task_id caller_id True w of
              Inl e \<Rightarrow> (Inl e, w)
            | Inr t \<Rightarrow>
                (let old_status = t_status t in
                 case apply_task_update p t of
                   Inl e \<Rightarrow> (Inl (ServerError e), w)
                 | Inr t1 \<Rightarrow>
                     (let w1 = w\<lparr>tw_tasks := save_task (te_now en) t1 (tw_tasks w)\<rparr>;
                          t2 = refreshed (te_now en) t t1;
                          w2 = (if (case tu_status p of Some (Some _) \<Rightarrow> True | _ \<Rightarrow> False) \<and> t_status t2 \<noteq> old_status
                                then add_job (PublishEvent ''task.status_changed''
                                       (status_event old_status caller_id t2)) w1
                                else w1)
                      in (Inr (TaskResponse (te_js_time en) t2), w2)))))"

definition deleted_event :: "task \<Rightarrow> json" where
  "deleted_event t = JObj
     [(''task_id'', JStr (uuid_str (t_id t))), (''creator_id'', JStr (uuid_str (t_creator_id t))),
      (''assignee_id'', uuid_opt (t_assignee_id t))]"

definition delete_task :: "'r task_env \<Rightarrow> request \<Rightarrow> uuid \<Rightarrow> ('r, unit) task_action" where
  "delete_task en r task_id =
     as_caller r (\<lambda>caller_id w.
       case get_authorized_task task_id caller_id True w of
         Inl e \<Rightarrow> (Inl e, w)
       | Inr t \<Rightarrow>
           (let event_data = deleted_event t
            in (Inr (), add_job (PublishEvent ''task.deleted'' event_data)
                          (w\<lparr>tw_tasks := delete_row (t_id t) (tw_tasks w)\<rparr>))))"

section \<open>Projects\<close>

definition project_key :: "project \<Rightarrow> pyfloat \<times> uuid" where
  "project_key p = (p_created_at p, p_id p)"

definition create_project :: "'r task_env \<Rightarrow> request \<Rightarrow> project_create \<Rightarrow> ('r, json) task_action" where
  "create_project en r payload =
     as_caller r (\<lambda>caller_id w.
       case ProjectCreate payload of
         Inl e \<Rightarrow> (Inl e, w)
       | Inr p \<Rightarrow>
           (let project = \<lparr>p_id = te_row_id en, p_name = pc_name p, p_description = pc_description p,
                           p_owner_id = caller_id, p_is_active = True, p_created_at = te_now en,
                           p_updated_at = te_now en\<rparr>
            in if list_ex (\<lambda>x. p_id x = p_id project) (tw_projects w)
               then (Inl (ServerError ''IntegrityError''), w)
               else (Inr (ProjectResponse (te_js_time en) project),
                     w\<lparr>tw_projects := tw_projects w @ [project]\<rparr>)))"

definition active_projects :: "uuid \<Rightarrow> project list \<Rightarrow> project list" where
  "active_projects caller_id rows = filter (\<lambda>p. p_owner_id p = caller_id \<and> p_is_active p) rows"

definition list_projects :: "'r task_env \<Rightarrow> request \<Rightarrow> int \<Rightarrow> string \<Rightarrow> ('r, json cursor_page) task_action" where
  "list_projects en r limit cursor =
     as_caller r (\<lambda>caller_id w.
       if \<not> (1 \<le> limit \<and> limit \<le> 200) then (Inl unprocessable, w)
       else
         (case cursor_query (te_iso en) project_key (active_projects caller_id (tw_projects w)) (nat limit) cursor of
            None \<Rightarrow> (Inl (HTTPException 400 ''Invalid cursor value'' []), w)
          | Some (page_items, next_cursor) \<Rightarrow>
              (Inr \<lparr>cp_items = map (ProjectResponse (te_js_time en)) page_items,
                    cp_next_cursor = next_cursor, cp_count = length page_items\<rparr>, w)))"

definition get_project :: "'r task_env \<Rightarrow> request \<Rightarrow> uuid \<Rightarrow> ('r, json) task_action" where
  "get_project en r project_id =
     as_caller r (\<lambda>caller_id w.
       case get_project_or_404 project_id w of
         Inl e \<Rightarrow> (Inl e, w)
       | Inr p \<Rightarrow>
           if p_owner_id p \<noteq> caller_id then (Inl project_not_found, w)
           else (Inr (ProjectResponse (te_js_time en) p), w))"

definition save_project :: "pyfloat \<Rightarrow> project \<Rightarrow> project list \<Rightarrow> project list" where
  "save_project now p rows =
     map (\<lambda>x. if p_id x = p_id p then (if x = p then p else p\<lparr>p_updated_at := now\<rparr>) else x) rows"

definition delete_project :: "'r task_env \<Rightarrow> request \<Rightarrow> uuid \<Rightarrow> ('r, unit) task_action" where
  "delete_project en r project_id =
     as_caller r (\<lambda>caller_id w.
       case get_project_or_404 project_id w of
         Inl e \<Rightarrow> (Inl e, w)
       | Inr p \<Rightarrow>
           if p_owner_id p \<noteq> caller_id then (Inl (HTTPException 403 ''Not the project owner'' []), w)
           else (Inr (), w\<lparr>tw_projects := save_project (te_now en) (p\<lparr>p_is_active := False\<rparr>) (tw_projects w)\<rparr>))"

end
