(* ===== verification/TaskProps.thy ===== *)
theory TaskProps
  imports Tasks
begin

text \<open>
  The properties of the task service: what the pages of a listing add up to, who can change and see
  which rows, the invariant of the stored texts, replays of a creation, and failed requests.
\<close>

section \<open>One request\<close>

datatype task_op =
    CreateTask request task_create
  | ListTasks request "uuid option" "task_status option" int string
  | GetTask request uuid
  | UpdateTask request uuid task_update
  | DeleteTask request uuid
  | CreateProject request project_create
  | ListProjects request int string
  | GetProject request uuid
  | DeleteProject request uuid

fun op_request :: "task_op \<Rightarrow> request" where
  "op_request (CreateTask r p) = r"
| "op_request (ListTasks r i s l c) = r"
| "op_request (GetTask r i) = r"
| "op_request (UpdateTask r i p) = r"
| "op_request (DeleteTask r i) = r"
| "op_request (CreateProject r p) = r"
| "op_request (ListProjects r l c) = r"
| "op_request (GetProject r i) = r"
| "op_request (DeleteProject r i) = r"

text \<open>The answers of the routes in one type.\<close>

datatype task_answer = Reply response | Page "json cursor_page" | Body json | NoContent

definition answer :: "('a \<Rightarrow> task_answer) \<Rightarrow> ('r, 'a) task_action \<Rightarrow> ('r, task_answer) task_action" where
  "answer f body w = (case body w of (Inl e, w') \<Rightarrow> (Inl e, w') | (Inr x, w') \<Rightarrow> (Inr (f x), w'))"

fun task_route :: "'r task_env \<Rightarrow> task_op \<Rightarrow> ('r, task_answer) task_action" where
  "task_route en (CreateTask r p) = answer Reply (create_task en r p)"
| "task_route en (ListTasks r i s l c) = answer Page (list_tasks en r i s l c)"
| "task_route en (GetTask r i) = answer Body (get_task en r i)"
| "task_route en (UpdateTask r i p) = answer Body (update_task en r i p)"
| "task_route en (DeleteTask r i) = answer (\<lambda>_. NoContent) (delete_task en r i)"
| "task_route en (CreateProject r p) = answer Body (create_project en r p)"
| "task_route en (ListProjects r l c) = answer Page (list_projects en r l c)"
| "task_route en (GetProject r i) = answer Body (get_project en r i)"
| "task_route en (DeleteProject r i) = answer (\<lambda>_. NoContent) (delete_project en r i)"

definition task_call :: "'r task_env \<Rightarrow> task_op \<Rightarrow> ('r, task_answer) task_action" where
  "task_call en op = task_respond en (task_route en op)"

definition task_step :: "'r task_env \<times> task_op \<Rightarrow> 'r task_world \<Rightarrow> 'r task_world" where
  "task_step = (\<lambda>(en, op) w. snd (task_call en op w))"

definition wf_tasks :: "'r task_world \<Rightarrow> bool" where
  "wf_tasks w \<longleftrightarrow> distinct (map t_id (tw_tasks w)) \<and> distinct (map p_id (tw_projects w)) \<and>
     (\<forall>t\<in>set (tw_tasks w). t_project_id t \<in> p_id ` set (tw_projects w))"

lemma world_sel [simp]:
  "tw_tasks (add_job j w) = tw_tasks w" "tw_projects (add_job j w) = tw_projects w"
  "tw_redis (add_job j w) = tw_redis w" "tw_bus (add_job j w) = tw_bus w"
  "tw_jobs (add_job j w) = tw_jobs w @ [j]"
  by (simp_all add: add_job_def)

lemma run_job_rows [simp]:
  "tw_tasks (run_job en j w) = tw_tasks w" "tw_projects (run_job en j w) = tw_projects w"
  by (cases j; simp)+

lemma run_jobs_rows [simp]:
  "tw_tasks (fold (run_job en) js w) = tw_tasks w" "tw_projects (fold (run_job en) js w) = tw_projects w"
  by (induction js arbitrary: w) simp_all

lemma scalar_cases: "scalar_one_or_none rows = Inr (Some x) \<longleftrightarrow> rows = [x]"
  by (auto simp: scalar_one_or_none_def split: list.splits)

lemma filter_one_in: "filter P xs = [x] \<Longrightarrow> x \<in> set xs \<and> P x"
  by (metis filter_eq_ConsD in_set_conv_decomp)

lemma get_task_in: "get_task_or_404 i w = Inr t \<Longrightarrow> t \<in> set (tw_tasks w) \<and> t_id t = i"
  by (auto simp: get_task_or_404_def scalar_cases dest!: filter_one_in split: sum.splits option.splits)

lemma authorized_cases:
  assumes "get_authorized_task i c own w = Inr t"
  shows "t \<in> set (tw_tasks w) \<and> t_id t = i \<and> (t_creator_id t = c \<or> \<not> own \<and> t_assignee_id t = Some c)"
  using assms by (auto simp: get_authorized_task_def Let_def dest: get_task_in split: sum.splits if_splits)

lemma owned_cases:
  assumes "get_owned_project i c w = Inr p"
  shows "p \<in> set (tw_projects w) \<and> p_id p = i \<and> p_owner_id p = c"
  using assms by (auto simp: get_owned_project_def scalar_cases dest!: filter_one_in split: sum.splits option.splits if_splits)

lemma project_in: "get_project_or_404 i w = Inr p \<Longrightarrow> p \<in> set (tw_projects w) \<and> p_id p = i"
  by (auto simp: get_project_or_404_def scalar_cases dest!: filter_one_in split: sum.splits option.splits)

lemma insert_task_cases:
  assumes "insert_task t w = Inr w'"
  shows "w' = w\<lparr>tw_tasks := tw_tasks w @ [t]\<rparr> \<and> t_id t \<notin> t_id ` set (tw_tasks w) \<and>
    (\<exists>p\<in>set (tw_projects w). p_id p = t_project_id t)"
  using assms by (auto simp: insert_task_def list_ex_iff split: if_splits)

lemma apply_update_keys:
  "apply_task_update p t = Inr t' \<Longrightarrow> t_id t' = t_id t \<and> t_creator_id t' = t_creator_id t \<and>
     t_project_id t' = t_project_id t \<and> t_created_at t' = t_created_at t"
  by (auto simp: apply_task_update_def split: if_splits)

section \<open>What a request does to the tables\<close>

text \<open>
  The abstract view of the routes: the changes a caller may cause. A new task is in a project of the
  caller and open; a saved task is the caller's and keeps its identity.
\<close>

inductive row_change :: "uuid \<Rightarrow> pyfloat \<Rightarrow> project list \<times> task list \<Rightarrow> project list \<times> task list \<Rightarrow> bool"
  for c :: uuid and now :: pyfloat
where
  unchanged: "row_change c now (ps, ts) (ps, ts)"
| created: "p \<in> set ps \<Longrightarrow> p_owner_id p = c \<Longrightarrow> t_project_id t = p_id p \<Longrightarrow> t_creator_id t = c \<Longrightarrow>
    t_status t = TODO \<Longrightarrow> t_id t \<notin> t_id ` set ts \<Longrightarrow> TaskCreate payload = Inr q \<Longrightarrow>
    t_title t = tc_title q \<Longrightarrow> t_description t = tc_description q \<Longrightarrow>
    row_change c now (ps, ts) (ps, ts @ [t])"
| saved: "t \<in> set ts \<Longrightarrow> t_creator_id t = c \<Longrightarrow> TaskUpdate payload = Inr q \<Longrightarrow> apply_task_update q t = Inr t' \<Longrightarrow>
    row_change c now (ps, ts) (ps, save_task now t' ts)"
| deleted: "t \<in> set ts \<Longrightarrow> t_creator_id t = c \<Longrightarrow> row_change c now (ps, ts) (ps, delete_row (t_id t) ts)"
| project: "p_owner_id p = c \<Longrightarrow> \<forall>x\<in>set ps. p_id x \<noteq> p_id p \<Longrightarrow> row_change c now (ps, ts) (ps @ [p], ts)"
| closed: "p \<in> set ps \<Longrightarrow> p_owner_id p = c \<Longrightarrow>
    row_change c now (ps, ts) (save_project now (p\<lparr>p_is_active := False\<rparr>) ps, ts)"

lemma creation_change:
  assumes "normal_creation en c q k w = (Inr x, w')" "TaskCreate payload = Inr q"
  shows "row_change c (te_now en) (tw_projects w, tw_tasks w) (tw_projects w', tw_tasks w')"
proof -
  let ?t = "new_task en c q"
  obtain p w1 where p: "get_owned_project (tc_project_id q) c w = Inr p"
      and i: "insert_task ?t w = Inr w1"
      and w': "tw_tasks w' = tw_tasks w1" "tw_projects w' = tw_projects w1"
    using assms(1) by (auto simp: normal_creation_def Let_def split: sum.splits if_splits)
  have "row_change c (te_now en) (tw_projects w, tw_tasks w) (tw_projects w, tw_tasks w @ [?t])"
    using owned_cases [OF p] insert_task_cases [OF i] assms(2)
    by (intro row_change.created [where p = p and q = q and payload = payload]) (auto simp: new_task_def)
  then show ?thesis using insert_task_cases [OF i] w' by simp
qed

lemma create_change:
  assumes "create_task en r payload w = (Inr x, w')" "parse_caller_id r = Inr c"
  shows "row_change c (te_now en) (tw_projects w, tw_tasks w) (tw_projects w', tw_tasks w')"
proof -
  let ?k = "hget_or (req_headers r) ''Idempotency-Key'' []"
  obtain q where q: "TaskCreate payload = Inr q"
    using assms by (auto simp: create_task_def as_caller_def split: sum.splits)
  obtain found cl where f: "get_cached_response (te_redis en) (te_now en) c ?k (tw_redis w) = (found, cl)"
    by fastforce
  consider "normal_creation en c q [] w = (Inr x, w')"
    | "normal_creation en c q ?k (w\<lparr>tw_redis := cl\<rparr>) = (Inr x, w')" | "w' = w\<lparr>tw_redis := cl\<rparr>"
    using assms q f by (auto simp: create_task_def as_caller_def Let_def split: if_splits option.splits)
  then show ?thesis
  proof cases
    case 1
    then show ?thesis by (rule creation_change [OF _ q])
  next
    case 2
    from creation_change [OF this q] show ?thesis by simp
  next
    case 3
    then show ?thesis by (simp add: row_change.unchanged)
  qed
qed

lemma route_change:
  assumes "task_route en op w = (Inr x, w')"
  shows "\<exists>c. parse_caller_id (op_request op) = Inr c \<and>
    row_change c (te_now en) (tw_projects w, tw_tasks w) (tw_projects w', tw_tasks w')"
proof -
  obtain c where c: "parse_caller_id (op_request op) = Inr c"
    using assms
    by (cases op) (auto simp: answer_def as_caller_def create_task_def list_tasks_def get_task_def update_task_def
        delete_task_def create_project_def list_projects_def get_project_def delete_project_def split: sum.splits)
  have "row_change c (te_now en) (tw_projects w, tw_tasks w) (tw_projects w', tw_tasks w')"
  proof (cases op)
    case (CreateTask r p)
    then obtain y where "create_task en r p w = (Inr y, w')"
      using assms by (auto simp: answer_def split: prod.splits sum.splits)
    from create_change [OF this] c CreateTask show ?thesis by simp
  next
    case (UpdateTask r i p)
    with assms c show ?thesis
      by (auto simp: answer_def update_task_def as_caller_def Let_def
          dest!: authorized_cases split: prod.splits sum.splits if_splits intro: row_change.saved)
  next
    case (DeleteTask r i)
    with assms c show ?thesis
      by (auto simp: answer_def delete_task_def as_caller_def Let_def
          dest!: authorized_cases split: prod.splits sum.splits intro: row_change.deleted)
  next
    case (CreateProject r p)
    with assms c show ?thesis
      by (auto simp: answer_def create_project_def as_caller_def Let_def list_ex_iff
          split: prod.splits sum.splits if_splits intro!: row_change.project)
  next
    case (DeleteProject r i)
    with assms c show ?thesis
      by (auto simp: answer_def delete_project_def as_caller_def Let_def
          dest!: project_in split: prod.splits sum.splits if_splits intro!: row_change.closed)
  qed (use assms c in \<open>auto simp: answer_def list_tasks_def get_task_def list_projects_def get_project_def
        as_caller_def split: prod.splits sum.splits option.splits if_splits intro: row_change.unchanged\<close>)
  with c show ?thesis by blast
qed

text \<open>A request as a whole: it fails and leaves the tables alone, or it changes them as above.\<close>

lemma respond_rows:
  "task_respond en body w = (x, w') \<Longrightarrow>
   (case x of
      Inl _ \<Rightarrow> tw_tasks w' = tw_tasks w \<and> tw_projects w' = tw_projects w
    | Inr y \<Rightarrow> \<exists>w1. body (w\<lparr>tw_jobs := []\<rparr>) = (Inr y, w1) \<and> tw_tasks w' = tw_tasks w1 \<and>
        tw_projects w' = tw_projects w1)"
  by (auto simp: task_respond_def split: prod.splits sum.splits)

lemma call_change:
  assumes "task_call en op w = (x, w')"
  shows "tw_tasks w' = tw_tasks w \<and> tw_projects w' = tw_projects w \<or>
    (\<exists>c. parse_caller_id (op_request op) = Inr c \<and>
       row_change c (te_now en) (tw_projects w, tw_tasks w) (tw_projects w', tw_tasks w'))"
proof (cases x)
  case (Inl e)
  with respond_rows [OF assms [unfolded task_call_def]] show ?thesis by simp
next
  case (Inr y)
  with respond_rows [OF assms [unfolded task_call_def]] obtain w1
    where r: "task_route en op (w\<lparr>tw_jobs := []\<rparr>) = (Inr y, w1)"
      and "tw_tasks w' = tw_tasks w1" "tw_projects w' = tw_projects w1" by auto
  with route_change [OF r] show ?thesis by simp
qed

section \<open>Ownership\<close>

definition foreign_tasks :: "uuid \<Rightarrow> task list \<Rightarrow> task list" where
  "foreign_tasks c ts = filter (\<lambda>t. t_creator_id t \<noteq> c) ts"

definition foreign_projects :: "uuid \<Rightarrow> project list \<Rightarrow> project list" where
  "foreign_projects c ps = filter (\<lambda>p. p_owner_id p \<noteq> c) ps"

lemma foreign_save:
  assumes "distinct (map t_id ts)" "t \<in> set ts" "t_creator_id t = c" "t_id t' = t_id t" "t_creator_id t' = c"
  shows "foreign_tasks c (save_task now t' ts) = foreign_tasks c ts"
proof -
  have "t_creator_id x = c" if "x \<in> set ts" "t_id x = t_id t" for x
    using that assms by (metis distinct_map inj_onD)
  then show ?thesis
    using assms(4,5) unfolding foreign_tasks_def save_task_def
    by (induction ts) auto
qed

lemma foreign_save_project:
  assumes "distinct (map p_id ps)" "p \<in> set ps" "p_owner_id p = c"
  shows "foreign_projects c (save_project now (p\<lparr>p_is_active := False\<rparr>) ps) = foreign_projects c ps"
proof -
  have "p_owner_id x = c" if "x \<in> set ps" "p_id x = p_id p" for x
    using that assms by (metis distinct_map inj_onD)
  then show ?thesis
    using assms(3) unfolding foreign_projects_def save_project_def by (induction ps) auto
qed

lemma foreign_delete:
  assumes "distinct (map t_id ts)" "t \<in> set ts" "t_creator_id t = c"
  shows "foreign_tasks c (delete_row (t_id t) ts) = foreign_tasks c ts"
proof -
  have "t_creator_id x = c" if "x \<in> set ts" "t_id x = t_id t" for x
    using that assms by (metis distinct_map inj_onD)
  then show ?thesis
    unfolding foreign_tasks_def delete_row_def filter_filter by (intro filter_cong) auto
qed

lemma row_change_foreign:
  assumes "row_change c now (ps, ts) (ps', ts')" "distinct (map t_id ts)" "distinct (map p_id ps)"
  shows "foreign_tasks c ts' = foreign_tasks c ts \<and> foreign_projects c ps' = foreign_projects c ps"
  using assms
proof (cases rule: row_change.cases)
  case (saved t q t' payload)
  with assms(2) apply_update_keys [OF saved(6)] show ?thesis by (auto intro: foreign_save)
next
  case (deleted t)
  with assms(2) show ?thesis by (auto intro: foreign_delete)
next
  case (closed p)
  with assms(3) show ?thesis by (auto intro: foreign_save_project)
qed (auto simp: foreign_tasks_def foreign_projects_def)

definition own_tasks :: "uuid \<Rightarrow> task list \<Rightarrow> task list" where
  "own_tasks c ts = filter (\<lambda>t. t_creator_id t = c) ts"

definition own_projects :: "uuid \<Rightarrow> project list \<Rightarrow> project list" where
  "own_projects c ps = filter (\<lambda>p. p_owner_id p = c) ps"

lemma own_of_foreign:
  "d \<noteq> c \<Longrightarrow> own_tasks c ts = own_tasks c (foreign_tasks d ts)"
  "d \<noteq> c \<Longrightarrow> own_projects c ps = own_projects c (foreign_projects d ps)"
  unfolding own_tasks_def foreign_tasks_def own_projects_def foreign_projects_def filter_filter
  by (intro filter_cong; auto)+

lemma save_task_ids:
  assumes "t_id t' = t_id t"
  shows "map t_id (save_task now t' ts) = map t_id ts"
  by (induction ts) (auto simp: save_task_def)

lemma save_project_ids: "map p_id (save_project now p ps) = map p_id ps"
  by (induction ps) (auto simp: save_project_def)

lemma ids_image: "p_id ` set (save_project now p ps) = p_id ` set ps"
  using save_project_ids [of now p ps] by (metis list.set_map)

definition wf_rows :: "project list \<times> task list \<Rightarrow> bool" where
  "wf_rows = (\<lambda>(ps, ts). distinct (map t_id ts) \<and> distinct (map p_id ps) \<and>
     (\<forall>t\<in>set ts. t_project_id t \<in> p_id ` set ps))"

lemma wf_tasks_rows: "wf_tasks w \<longleftrightarrow> wf_rows (tw_projects w, tw_tasks w)"
  by (simp add: wf_tasks_def wf_rows_def)

lemma save_task_set: "x \<in> set (save_task now t' ts) \<Longrightarrow>
    x \<in> set ts \<or> x = t' \<or> x = t'\<lparr>t_updated_at := now\<rparr>"
  by (auto simp: save_task_def)

lemma row_change_wf:
  assumes "row_change c now rows rows'" "wf_rows rows"
  shows "wf_rows rows'"
  using assms
proof (induction rule: row_change.induct)
  case (saved t ts payload q t' ps)
  note k = apply_update_keys [OF saved(4)]
  have ids: "map t_id (save_task now t' ts) = map t_id ts" using k save_task_ids [of t' t now ts] by simp
  have "t_project_id x \<in> p_id ` set ps" if "x \<in> set (save_task now t' ts)" for x
    using save_task_set [OF that] saved(1,5) k by (auto simp: wf_rows_def)
  with saved(5) ids show ?case by (simp add: wf_rows_def)
next
  case (deleted t ts ps)
  then show ?case by (auto simp: wf_rows_def delete_row_def distinct_map_filter)
next
  case (closed p ps ts)
  then show ?case by (simp add: wf_rows_def save_project_ids ids_image)
qed (auto simp: wf_rows_def)

lemma wf_step: "wf_tasks w \<Longrightarrow> wf_tasks (task_step (en, op) w)"
proof -
  assume wf: "wf_tasks w"
  obtain x w' where r: "task_call en op w = (x, w')" by fastforce
  from call_change [OF r] wf row_change_wf show ?thesis
    unfolding wf_tasks_rows by (auto simp: task_step_def r)
qed

lemma own_step:
  assumes "wf_tasks w" "parse_caller_id (op_request op) \<noteq> Inr c"
  shows "own_tasks c (tw_tasks (task_step (en, op) w)) = own_tasks c (tw_tasks w) \<and>
    own_projects c (tw_projects (task_step (en, op) w)) = own_projects c (tw_projects w)"
proof -
  obtain x w' where r: "task_call en op w = (x, w')" by fastforce
  from call_change [OF r] show ?thesis
  proof
    assume "\<exists>d. parse_caller_id (op_request op) = Inr d \<and>
      row_change d (te_now en) (tw_projects w, tw_tasks w) (tw_projects w', tw_tasks w')"
    then obtain d where d: "parse_caller_id (op_request op) = Inr d"
        and ch: "row_change d (te_now en) (tw_projects w, tw_tasks w) (tw_projects w', tw_tasks w')" by blast
    have "d \<noteq> c" using assms(2) d by auto
    from own_of_foreign [OF this] row_change_foreign [OF ch] assms(1) show ?thesis
      by (simp add: task_step_def r wf_tasks_def) metis
  qed (simp add: task_step_def r)
qed

text \<open>
  C26: Ownership. Whatever requests other callers make, in whatever order and with whatever answers
  of Redis and the bus, they cannot create, change or delete a task of this user's or a project of
  this user's: the rows the user created stay as they are, in their order.
\<close>
theorem task_ownership:
  assumes "wf_tasks w" "\<forall>(en, op)\<in>set ops. parse_caller_id (op_request op) \<noteq> Inr c"
  shows "own_tasks c (tw_tasks (fold task_step ops w)) = own_tasks c (tw_tasks w) \<and>
    own_projects c (tw_projects (fold task_step ops w)) = own_projects c (tw_projects w)"
  using assms
proof (induction ops arbitrary: w)
  case (Cons e ops)
  obtain en op where e: "e = (en, op)" by fastforce
  have "parse_caller_id (op_request op) \<noteq> Inr c" using Cons.prems(2) e by auto
  with Cons.IH [OF wf_step [OF Cons.prems(1), of en op]] Cons.prems own_step [of w op c en] e
  show ?case by simp
qed simp

section \<open>Stored texts\<close>

text \<open>No opening angle bracket is followed, anywhere later, by a closing one: there is no tag left.\<close>

fun tag_free :: "string \<Rightarrow> bool" where
  "tag_free [] = True"
| "tag_free (c # s) = ((c = CHR ''<'' \<longrightarrow> CHR ''>'' \<notin> set s) \<and> tag_free s)"

lemma sub_tags_set: "set (sub_tags s) \<subseteq> set s"
proof (induction s rule: sub_tags.induct)
  case (2 c s)
  have "set (tl (dropWhile (\<lambda>d. d \<noteq> CHR ''>'') s)) \<subseteq> set s"
    by (metis list.set_sel(2) set_dropWhileD subsetI tl_Nil)
  with 2 show ?case by auto
qed simp

lemma sub_tags_free: "tag_free (sub_tags s)"
proof (induction s rule: sub_tags.induct)
  case (2 c s)
  then show ?case using sub_tags_set [of s] by auto
qed simp

lemma tag_free_suffix: "tag_free (a @ b) \<Longrightarrow> tag_free b"
  by (induction a) auto

lemma tag_free_prefix: "tag_free (a @ b) \<Longrightarrow> tag_free a"
  by (induction a) auto

lemma tag_free_strip: "tag_free s \<Longrightarrow> tag_free (strip_by p s)"
proof -
  assume t: "tag_free s"
  let ?u = "dropWhile p s"
  have u: "tag_free ?u" using t tag_free_suffix [of "takeWhile p s" ?u] by simp
  have "?u = rev (dropWhile p (rev ?u)) @ rev (takeWhile p (rev ?u))"
    by (metis rev_append rev_rev_ident takeWhile_dropWhile_id)
  with u tag_free_prefix show ?thesis unfolding strip_by_def by metis
qed

lemma sub_tags_id: "tag_free s \<Longrightarrow> sub_tags s = s"
  by (induction s rule: sub_tags.induct) auto

lemma strip_html_free: "tag_free (strip_html s)"
  by (simp add: strip_html_def tag_free_strip sub_tags_free)

lemma strip_html_idem: "strip_html (strip_html s) = strip_html s"
  using sub_tags_id [OF strip_html_free] by (simp add: strip_html_def strip_by_idem)

lemma strip_by_length: "length (strip_by p s) \<le> length s"
  unfolding strip_by_def by (metis length_dropWhile_le length_rev order_trans)

lemma sub_tags_length: "length (sub_tags s) \<le> length s"
proof (induction s rule: sub_tags.induct)
  case (2 c s)
  have "length (tl (dropWhile (\<lambda>d. d \<noteq> CHR ''>'') s)) \<le> length s"
    using length_dropWhile_le [of "\<lambda>d. d \<noteq> CHR ''>''" s] by simp
  with 2 show ?case by (auto intro: le_trans)
qed simp

lemma strip_html_length: "length (strip_html s) \<le> length s"
  unfolding strip_html_def by (metis le_trans strip_by_length sub_tags_length)

definition clean_task :: "task \<Rightarrow> bool" where
  "clean_task t \<longleftrightarrow>
     t_title t \<noteq> [] \<and> length (t_title t) \<le> 500 \<and> strip_html (t_title t) = t_title t \<and> tag_free (t_title t) \<and>
     (case t_description t of None \<Rightarrow> True | Some d \<Rightarrow> tag_free d)"

lemma sanitize_title_ok: "sanitize_title v = Inr t \<Longrightarrow> length v \<le> 500 \<Longrightarrow>
    t \<noteq> [] \<and> length t \<le> 500 \<and> strip_html t = t \<and> tag_free t"
  using strip_html_length [of v]
  by (auto simp: sanitize_title_def strip_html_idem strip_html_free split: if_splits)

lemma create_clean: "TaskCreate p = Inr q \<Longrightarrow>
    tc_title q \<noteq> [] \<and> length (tc_title q) \<le> 500 \<and> strip_html (tc_title q) = tc_title q \<and> tag_free (tc_title q) \<and>
    (case tc_description q of None \<Rightarrow> True | Some d \<Rightarrow> tag_free d)"
  by (auto simp: TaskCreate_def length_in_def strip_html_free dest: sanitize_title_ok
      split: if_splits sum.splits option.splits)

lemma update_clean:
  assumes "TaskUpdate p = Inr q" "apply_task_update q t = Inr t'" "clean_task t"
  shows "clean_task t'"
proof -
  have title: "tu_title q = None \<or> tu_title q = Some None \<or>
      (\<exists>v. tu_title q = Some (Some v) \<and> v \<noteq> [] \<and> length v \<le> 500 \<and> strip_html v = v \<and> tag_free v)"
    using assms(1)
    by (auto simp: TaskUpdate_def Let_def length_in_def dest: sanitize_title_ok
        split: if_splits sum.splits option.splits)
  have "tu_description q = map_option (map_option strip_html) (tu_description p)"
    using assms(1) by (auto simp: TaskUpdate_def Let_def split: if_splits sum.splits option.splits)
  then have desc: "tu_description q = None \<or> tu_description q = Some None \<or>
      (\<exists>d. tu_description q = Some (Some d) \<and> tag_free d)"
    using strip_html_free by (cases "tu_description p"; cases "the (tu_description p)") auto
  have t': "t_title t' = (case tu_title q of Some (Some v) \<Rightarrow> v | _ \<Rightarrow> t_title t)"
      "t_description t' = (case tu_description q of Some v \<Rightarrow> v | None \<Rightarrow> t_description t)"
    using assms(2) by (auto simp: apply_task_update_def split: if_splits)
  have "t_title t' \<noteq> [] \<and> length (t_title t') \<le> 500 \<and> strip_html (t_title t') = t_title t' \<and> tag_free (t_title t')"
    using title assms(3) unfolding t' clean_task_def by auto
  moreover have "case t_description t' of None \<Rightarrow> True | Some d \<Rightarrow> tag_free d"
    using desc assms(3) unfolding t' clean_task_def by auto
  ultimately show ?thesis by (simp add: clean_task_def)
qed

lemma row_change_clean:
  assumes "row_change c now rows rows'" "\<forall>t\<in>set (snd rows). clean_task t"
  shows "\<forall>t\<in>set (snd rows'). clean_task t"
  using assms
proof (induction rule: row_change.induct)
  case (created p ps t ts payload q)
  with create_clean [OF created(7)] show ?case by (auto simp: clean_task_def)
next
  case (saved t ts payload q t' ps)
  have c: "clean_task t'" by (rule update_clean [OF saved(3,4)]) (use saved in simp)
  then have "clean_task (t'\<lparr>t_updated_at := now\<rparr>)" by (simp add: clean_task_def)
  with c saved(5) show ?case by (auto dest!: save_task_set)
qed (auto simp: delete_row_def)

lemma clean_step:
  assumes "\<forall>t\<in>set (tw_tasks w). clean_task t"
  shows "\<forall>t\<in>set (tw_tasks (task_step (en, op) w)). clean_task t"
proof -
  obtain x w' where r: "task_call en op w = (x, w')" by fastforce
  from call_change [OF r] assms row_change_clean show ?thesis by (fastforce simp: task_step_def r)
qed

text \<open>
  C30: Stored texts. Through any sequence of requests, every title in the table stays nonempty, at
  most 500 characters long, free of tags and of blanks at its ends (sanitising it again changes
  nothing), and every description free of tags. Both tables keep unique ids, and every task its
  project.
\<close>
theorem stored_texts:
  assumes "wf_tasks w" "\<forall>t\<in>set (tw_tasks w). clean_task t"
  shows "wf_tasks (fold task_step ops w) \<and> (\<forall>t\<in>set (tw_tasks (fold task_step ops w)). clean_task t)"
  using assms
proof (induction ops arbitrary: w)
  case (Cons e ops)
  obtain en op where e: "e = (en, op)" by fastforce
  from Cons.IH [OF wf_step [OF Cons.prems(1), of en op] clean_step [OF Cons.prems(2), of en op]] e
  show ?case by simp
qed simp

section \<open>Following the pages of a listing\<close>

definition task_pages ::
  "'r task_env \<Rightarrow> request \<Rightarrow> uuid option \<Rightarrow> task_status option \<Rightarrow> int \<Rightarrow> 'r task_world \<Rightarrow> string \<Rightarrow>
   (json list \<times> string option) option" where
  "task_pages en r i s limit w cursor =
     (case fst (list_tasks en r i s limit cursor w) of
        Inr p \<Rightarrow> Some (cp_items p, cp_next_cursor p) | Inl _ \<Rightarrow> None)"

lemma follow_map:
  "follow_pages (\<lambda>c. map_option (\<lambda>(xs, n). (map f xs, n)) (q c)) k c = map f (follow_pages q k c)"
  by (induction k arbitrary: c) (auto split: option.splits prod.splits)

lemma task_pages_query:
  assumes "parse_caller_id r = Inr c" "1 \<le> limit" "limit \<le> 200"
  shows "task_pages en r i s limit w cursor =
    map_option (\<lambda>(xs, n). (map (TaskResponse (te_js_time en)) xs, n))
      (cursor_query (te_iso en) task_key (visible_tasks c i s (tw_tasks w)) (nat limit) cursor)"
  using assms by (auto simp: task_pages_def list_tasks_def as_caller_def split: option.splits)

lemma task_key_inj: "distinct (map t_id ts) \<Longrightarrow> distinct (filter P ts) \<and> inj_on task_key (set (filter P ts))"
  by (auto simp: distinct_map inj_on_def task_key_def)

text \<open>
  C25: What the pages of a listing add up to. A client that starts without a cursor and follows
  \<^verbatim>\<open>next_cursor\<close> to the end, while the table does not change, gets the visible tasks in the order
  newest first \<^emph>\<open>except\<close> every task at a position that leaves the remainder \<open>limit\<close> modulo
  \<open>limit + 1\<close>: the first task behind each full page is the cursor of the next request, whose filter
  is strict, and so is never shown. The walk ends after at most as many pages as there are tasks.
\<close>
theorem pages_lose_tasks:
  assumes "parse_caller_id r = Inr c" "1 \<le> limit" "limit \<le> 200" "reads_times (te_iso en)"
    and "distinct (map t_id (tw_tasks w))" "length (tw_tasks w) < n"
  shows "follow_pages (task_pages en r i s limit w) n [] =
    map (TaskResponse (te_js_time en))
      (nths (order_desc task_key (visible_tasks c i s (tw_tasks w))) {k. k mod Suc (nat limit) \<noteq> nat limit})"
proof -
  have q: "task_pages en r i s limit w = (\<lambda>cu. map_option (\<lambda>(xs, n). (map (TaskResponse (te_js_time en)) xs, n))
      (cursor_query (te_iso en) task_key (visible_tasks c i s (tw_tasks w)) (nat limit) cu))"
    by (rule ext) (rule task_pages_query [OF assms(1-3)])
  have "length (visible_tasks c i s (tw_tasks w)) < n"
    by (rule le_less_trans [OF _ assms(6)]) (simp add: visible_tasks_def)
  moreover have "distinct (visible_tasks c i s (tw_tasks w)) \<and> inj_on task_key (set (visible_tasks c i s (tw_tasks w)))"
    unfolding visible_tasks_def by (rule task_key_inj [OF assms(5)])
  ultimately have "follow_pages (cursor_query (te_iso en) task_key (visible_tasks c i s (tw_tasks w)) (nat limit)) n [] =
      nths (order_desc task_key (visible_tasks c i s (tw_tasks w))) {k. k mod Suc (nat limit) \<noteq> nat limit}"
    using assms(4) by (intro follow_all) simp_all
  then show ?thesis unfolding q by (subst follow_map) (rule arg_cong)
qed

section \<open>Failed requests\<close>

lemma creation_bus:
  "tw_bus (snd (normal_creation en c q k w)) = tw_bus w"
  by (auto simp: normal_creation_def Let_def insert_task_def split: sum.splits if_splits)

lemma answer_snd [simp]: "snd (answer f body w) = snd (body w)"
  by (auto simp: answer_def split: prod.splits sum.splits)

lemma route_bus: "tw_bus (snd (task_route en op w)) = tw_bus w"
  by (cases op)
     (auto simp: create_task_def creation_bus list_tasks_def get_task_def update_task_def delete_task_def
        create_project_def list_projects_def get_project_def delete_project_def as_caller_def Let_def
        split: prod.splits sum.splits option.splits if_splits)

text \<open>
  C31: Failed requests. A request that ends in an error, whichever it is, leaves both tables as they
  were, publishes nothing on the bus, and leaves no job behind.
\<close>
theorem failed_request_inert:
  assumes "task_call en op w = (Inl e, w')"
  shows "tw_tasks w' = tw_tasks w \<and> tw_projects w' = tw_projects w \<and> tw_bus w' = tw_bus w \<and> tw_jobs w' = []"
proof -
  obtain x w1 where r: "task_route en op (w\<lparr>tw_jobs := []\<rparr>) = (x, w1)" by fastforce
  have "tw_bus w1 = tw_bus w" using route_bus [of en op "w\<lparr>tw_jobs := []\<rparr>"] r by simp
  with assms r show ?thesis by (auto simp: task_call_def task_respond_def split: sum.splits)
qed

end
