(* ===== verification/Identity.thy ===== *)
theory Identity
  imports Http
begin

text \<open>
  Signed identity headers (\<^verbatim>\<open>identity_signing.py\<close>, one copy per service): the canonical envelope,
  the signer used by the gateway, the verifier and the verifying middleware of the backends.
  HMAC-SHA256 is the argument \<open>hmac\<close> (key, message to digest); nothing is assumed about it.
  The clock reading \<^verbatim>\<open>int(time.time())\<close> is the argument \<open>now\<close>.
\<close>

definition IDENTITY_SIG_HEADER :: string where
  "IDENTITY_SIG_HEADER = ''X-Identity-Signature''"

definition IDENTITY_TS_HEADER :: string where
  "IDENTITY_TS_HEADER = ''X-Identity-Issued-At''"

definition IDENTITY_MAX_AGE_SECONDS :: int where
  "IDENTITY_MAX_AGE_SECONDS = 60"

definition canonical :: "string \<Rightarrow> string \<Rightarrow> string \<Rightarrow> string \<Rightarrow> string" where
  "canonical user_id user_email user_roles ts =
     utf8_encode (user_id @ ''|'' @ user_email @ ''|'' @ user_roles @ ''|'' @ ts)"

definition sign_identity ::
  "(string \<Rightarrow> string \<Rightarrow> string) \<Rightarrow> int \<Rightarrow> string \<Rightarrow> string \<Rightarrow> string \<Rightarrow> string \<Rightarrow> int option \<Rightarrow>
   string \<times> string" where
  "sign_identity hmac now secret user_id user_email user_roles issued_at =
     (let ts = str_int (case issued_at of Some i \<Rightarrow> i | None \<Rightarrow> now);
          mac = hmac (utf8_encode secret) (canonical user_id user_email user_roles ts)
      in (b64encode mac, ts))"

definition verify_identity ::
  "(string \<Rightarrow> string \<Rightarrow> string) \<Rightarrow> string \<Rightarrow> string \<Rightarrow> string \<Rightarrow> string \<Rightarrow> string \<Rightarrow> string \<Rightarrow> int \<Rightarrow>
   int \<Rightarrow> bool" where
  "verify_identity hmac secret user_id user_email user_roles issued_at signature_b64 max_age now =
     (case py_int issued_at of
        None \<Rightarrow> False
      | Some ts \<Rightarrow>
          let age = now - ts in
          if age > max_age \<or> age < -5 then False
          else
            (let expected =
               hmac (utf8_encode secret) (canonical user_id user_email user_roles (str_int ts))
             in case b64decode signature_b64 of
                  None \<Rightarrow> False
                | Some provided \<Rightarrow> expected = provided))"

section \<open>The verifying middleware\<close>

record identity_mw =
  idm_secret :: string
  idm_exempt :: "string list"

definition IdentityVerifierMiddleware :: "string \<Rightarrow> string list option \<Rightarrow> string + identity_mw" where
  "IdentityVerifierMiddleware secret exempt_paths =
     (if secret = [] \<or> length secret < 32 then Inl ''ValueError''
      else Inr \<lparr>idm_secret = secret, idm_exempt = (case exempt_paths of None \<Rightarrow> [] | Some ps \<Rightarrow> ps)\<rparr>)"

definition unauthorized :: "string \<Rightarrow> response" where
  "unauthorized d = JSONResponse 401 (detail_body d) []"

definition identity_dispatch ::
  "(string \<Rightarrow> string \<Rightarrow> string) \<Rightarrow> int \<Rightarrow> identity_mw \<Rightarrow> 'w handler \<Rightarrow> 'w handler" where
  "identity_dispatch hmac now mw call_next r w =
     (if req_path r \<in> set (idm_exempt mw) then call_next r w
      else
        (let hs = req_headers r;
             user_id = hget_or hs ''X-User-Id'' [];
             user_email = hget_or hs ''X-User-Email'' [];
             user_roles = hget_or hs ''X-User-Roles'' [];
             signature = hget_or hs IDENTITY_SIG_HEADER [];
             issued_at = hget_or hs IDENTITY_TS_HEADER []
         in
           if signature = [] \<or> issued_at = [] then
             (if user_id \<noteq> [] then (Inr (unauthorized ''Missing identity signature''), w)
              else call_next r w)
           else if \<not> verify_identity hmac (idm_secret mw) user_id user_email user_roles issued_at
                       signature IDENTITY_MAX_AGE_SECONDS now
             then (Inr (unauthorized ''Invalid identity signature''), w)
           else if user_id \<noteq> [] \<and> uuid_parse user_id = None
             then (Inr (unauthorized ''Invalid identity claims''), w)
           else call_next r w))"

section \<open>Signing and verifying\<close>

lemma sign_then_verify:
  assumes "sign_identity hmac t secret uid email roles issued = (sig, ts)"
    and "i = (case issued of Some i \<Rightarrow> i | None \<Rightarrow> t)" "\<bar>i\<bar> < 10 ^ 20"
    and "-5 \<le> now - i" "now - i \<le> max_age"
  shows "verify_identity hmac secret uid email roles ts sig max_age now"
  using assms py_int_str_int [of i 20]
  by (auto simp: sign_identity_def verify_identity_def Let_def)

lemma verify_sound:
  assumes "verify_identity hmac secret uid email roles issued_at sig max_age now"
  obtains ts where "py_int issued_at = Some ts" "now - ts \<le> max_age" "-5 \<le> now - ts"
    "b64decode sig = Some (hmac (utf8_encode secret) (canonical uid email roles (str_int ts)))"
  using assms
  by (auto simp: verify_identity_def Let_def split: option.splits if_splits)

lemma bar_split:
  assumes "a @ ''|'' @ b = a' @ ''|'' @ b'" "CHR ''|'' \<notin> set a" "CHR ''|'' \<notin> set a'"
  shows "a = a' \<and> b = b'"
  using append_eq_sep [of a "CHR ''|''" b a' b'] assms by simp

lemma canonical_inj:
  assumes "canonical u e r t = canonical u' e' r' t'"
    and "CHR ''|'' \<notin> set (u @ e @ r)" "CHR ''|'' \<notin> set (u' @ e' @ r')"
  shows "u = u' \<and> e = e' \<and> r = r' \<and> t = t'"
proof -
  have "u @ ''|'' @ e @ ''|'' @ r @ ''|'' @ t = u' @ ''|'' @ e' @ ''|'' @ r' @ ''|'' @ t'"
    using assms(1) by (simp add: canonical_def utf8_encode_inj)
  then have "u = u' \<and> e @ ''|'' @ r @ ''|'' @ t = e' @ ''|'' @ r' @ ''|'' @ t'"
    by (rule bar_split) (use assms in auto)
  moreover from this have "e = e' \<and> r @ ''|'' @ t = r' @ ''|'' @ t'"
    by (intro bar_split) (use assms in auto)
  moreover from this have "r = r' \<and> t = t'"
    by (intro bar_split) (use assms in auto)
  ultimately show ?thesis by blast
qed

lemma unauthorized_status [simp]: "resp_status (unauthorized d) = 401"
  by (simp add: unauthorized_def)

section \<open>The gate of the backends\<close>


definition demo_uid :: string where
  "demo_uid = uuid_str 7"

definition demo_mac :: "string \<Rightarrow> string \<Rightarrow> string" where
  "demo_mac key msg = [char_of (length key), char_of (length msg)]"

text \<open>A request signed at time 1000 for the user with id 7 (\<open>demo_mac\<close> in place of HMAC).\<close>

definition demo_signed :: request where
  "demo_signed = plain_request ''GET'' ''/tasks''
     [(''x-user-id'', demo_uid), (''x-user-email'', ''a@b.c''), (''x-user-roles'', ''user''),
      (''x-identity-signature'', fst (sign_identity demo_mac 1000 ''k'' demo_uid ''a@b.c'' ''user'' None)),
      (''x-identity-issued-at'', ''1000'')]"

definition demo_idm :: identity_mw where
  "demo_idm = \<lparr>idm_secret = ''k'', idm_exempt = [''/health'']\<rparr>"

lemma hget_or_Cons:
  "hget_or ((k, v) # hs) n d = (if py_lower k = py_lower n then v else hget_or hs n d)"
  by (simp add: hget_or_def hget_Cons)

lemma identity_names [simp]:
  "py_lower ''X-User-Id'' = ''x-user-id''"
  "py_lower ''X-User-Email'' = ''x-user-email''"
  "py_lower ''X-User-Roles'' = ''x-user-roles''"
  "py_lower IDENTITY_SIG_HEADER = ''x-identity-signature''"
  "py_lower IDENTITY_TS_HEADER = ''x-identity-issued-at''"
  "py_lower ''x-user-id'' = ''x-user-id''"
  "py_lower ''x-user-email'' = ''x-user-email''"
  "py_lower ''x-user-roles'' = ''x-user-roles''"
  "py_lower ''x-identity-signature'' = ''x-identity-signature''"
  "py_lower ''x-identity-issued-at'' = ''x-identity-issued-at''"
  unfolding IDENTITY_SIG_HEADER_def IDENTITY_TS_HEADER_def by code_simp+

lemma demo_signed_headers:
  "hget_or (req_headers demo_signed) ''X-User-Id'' [] = demo_uid"
  "hget_or (req_headers demo_signed) ''X-User-Email'' [] = ''a@b.c''"
  "hget_or (req_headers demo_signed) ''X-User-Roles'' [] = ''user''"
  "hget_or (req_headers demo_signed) IDENTITY_SIG_HEADER [] =
     fst (sign_identity demo_mac 1000 ''k'' demo_uid ''a@b.c'' ''user'' None)"
  "hget_or (req_headers demo_signed) IDENTITY_TS_HEADER [] = ''1000''"
  by (simp_all add: demo_signed_def hget_or_Cons)

lemma py_int_1000: "py_int ''1000'' = Some 1000" and str_int_1000: "str_int 1000 = ''1000''"
  by code_simp+


end
