(* ===== verification/Backends.thy ===== *)
theory Backends
  imports Identity
begin

text \<open>
  What the three backend services have in common around their routes (\<^verbatim>\<open>main.py\<close> and
  \<^verbatim>\<open>security_headers.py\<close> of user-, task- and notification-service): the layers, the probes, and the
  checks of the user service's settings and database address.
\<close>

section \<open>Settings\<close>

text \<open>
  The user service checks its secret only outside development. \<open>ENVIRONMENT\<close> is the process's
  environment variable of that name.
\<close>

definition user_secret_must_be_strong :: "string option \<Rightarrow> string \<Rightarrow> string + string" where
  "user_secret_must_be_strong ENVIRONMENT v =
     (let env = (case ENVIRONMENT of Some e \<Rightarrow> e | None \<Rightarrow> ''development'') in
      if py_lower env = ''development'' then Inr v
      else if py_lower v \<in> set [''change-me'', ''change-me-in-production'', ''secret'', ''password'',
                                ''jwt-secret'', ''your-secret'']
              \<or> length v < 32 then Inl ''ValueError''
      else Inr v)"

definition user_algorithm_must_be_secure :: "string \<Rightarrow> string + string" where
  "user_algorithm_must_be_secure v =
     (if v \<notin> set [''HS256'', ''HS384'', ''HS512''] then Inl ''ValueError'' else Inr v)"

text \<open>\<^verbatim>\<open>replace\<close> with a count of one: the first occurrence only.\<close>

fun replace_first :: "string \<Rightarrow> string \<Rightarrow> string \<Rightarrow> string" where
  "replace_first old new [] = (if old = [] then new else [])"
| "replace_first old new (c # cs) =
     (if starts_with old (c # cs) then new @ drop (length old) (c # cs)
      else c # replace_first old new cs)"

definition async_url :: "string \<Rightarrow> string" where
  "async_url database_url = replace_first ''postgresql://'' ''postgresql+asyncpg://'' database_url"

section \<open>Security headers\<close>

definition BACKEND_SECURITY_HEADERS :: "(string \<times> string) list" where
  "BACKEND_SECURITY_HEADERS =
     [(''X-Content-Type-Options'', ''nosniff''),
      (''X-Frame-Options'', ''DENY''),
      (''X-XSS-Protection'', ''0''),
      (''Content-Security-Policy'',
         ''default-src '' @ [CHR 0x27] @ ''none'' @ [CHR 0x27] @ ''; frame-ancestors '' @
         [CHR 0x27] @ ''none'' @ [CHR 0x27]),
      (''Referrer-Policy'', ''strict-origin-when-cross-origin'')]"

definition BACKEND_HEADERS_TO_REMOVE :: "string list" where
  "BACKEND_HEADERS_TO_REMOVE = [''server'', ''x-powered-by'']"

definition hardened :: "response \<Rightarrow> response" where
  "hardened resp =
     (let r1 = fold (\<lambda>(h, v). set_header h v) BACKEND_SECURITY_HEADERS resp
      in r1\<lparr>resp_headers := fold hdel BACKEND_HEADERS_TO_REMOVE (resp_headers r1)\<rparr>)"

definition hardening_dispatch :: "'w handler \<Rightarrow> 'w handler" where
  "hardening_dispatch call_next r w = map_response hardened (call_next r w)"

section \<open>Probes\<close>

definition backend_liveness :: "string \<Rightarrow> 'w handler" where
  "backend_liveness service r w =
     (Inr (JSONResponse 200 (JObj [(''status'', JStr ''ok''), (''service'', JStr service)]) []), w)"

text \<open>\<open>select_1\<close> is whether a connection can be opened and answers.\<close>

definition database_readiness :: "bool \<Rightarrow> 'w handler" where
  "database_readiness select_1 r w =
     (if select_1 then (Inr (JSONResponse 200 (JObj [(''status'', JStr ''ready'')]) []), w)
      else (Inl (HTTPException 503 ''Database connection unavailable'' []), w))"

section \<open>The application\<close>

definition PROBE_PATHS :: "string list" where
  "PROBE_PATHS = [''/health'', ''/health/ready'', ''/metrics'']"

text \<open>
  The routes: the API under its prefixes, the three probes, and the framework's answer to the rest.
  A probe asked with another method than GET is answered 405.
\<close>

definition backend_routes ::
  "string \<Rightarrow> 'w handler \<Rightarrow> 'w handler \<Rightarrow> 'w handler \<Rightarrow> 'w handler \<Rightarrow> 'w handler" where
  "backend_routes service ready export api_routes other r w =
     (let probe = (\<lambda>h. if req_method r = ''GET'' then h r w
            else (Inl (HTTPException 405 ''Method Not Allowed'' [(''Allow'', ''GET'')]), w))
      in if starts_with ''/api/v1/'' (req_path r) then api_routes r w
         else if req_path r = ''/health'' then probe (backend_liveness service)
         else if req_path r = ''/health/ready'' then probe ready
         else if req_path r = ''/metrics'' then probe export
         else other r w)"

text \<open>The layer added last is the outermost: the identity check stands outside the headers.\<close>

definition backend_app ::
  "(string \<Rightarrow> string \<Rightarrow> string) \<Rightarrow> int \<Rightarrow> identity_mw \<Rightarrow> 'w handler \<Rightarrow> 'w handler" where
  "backend_app hmac now idm routes =
     identity_dispatch hmac now idm (hardening_dispatch (route routes))"

definition backend_identity :: "string \<Rightarrow> string + identity_mw" where
  "backend_identity secret = IdentityVerifierMiddleware secret (Some PROBE_PATHS)"

section \<open>What the layers do\<close>

lemma hardening_names [simp]:
  "py_lower ''X-Content-Type-Options'' = ''x-content-type-options''"
  "py_lower ''X-Frame-Options'' = ''x-frame-options''"
  "py_lower ''X-XSS-Protection'' = ''x-xss-protection''"
  "py_lower ''Content-Security-Policy'' = ''content-security-policy''"
  "py_lower ''Referrer-Policy'' = ''referrer-policy''"
  "py_lower ''server'' = ''server''" "py_lower ''x-powered-by'' = ''x-powered-by''"
  by code_simp+

lemma hardened_headers:
  "hget (resp_headers (hardened resp)) n =
     (if py_lower n \<in> set BACKEND_HEADERS_TO_REMOVE then None
      else case map_of (map (\<lambda>(h, v). (py_lower h, v)) BACKEND_SECURITY_HEADERS) (py_lower n) of
             Some v \<Rightarrow> Some v | None \<Rightarrow> hget (resp_headers resp) n)"
  by (simp add: hardened_def BACKEND_SECURITY_HEADERS_def BACKEND_HEADERS_TO_REMOVE_def Let_def
      set_header_def hget_hdel hget_hset)

lemma hardened_content [simp]:
  "resp_status (hardened resp) = resp_status resp" "resp_body (hardened resp) = resp_body resp"
  by (simp_all add: hardened_def BACKEND_SECURITY_HEADERS_def Let_def set_header_def)

lemma identity_dispatch_cases:
  "identity_dispatch hmac now mw h r w = h r w \<or>
   (\<exists>d. identity_dispatch hmac now mw h r w = (Inr (unauthorized d), w) \<and> req_path r \<notin> set (idm_exempt mw))"
  by (auto simp: identity_dispatch_def Let_def)

text \<open>
  Which responses of a backend are hardened. Every response of a route, errors that the framework
  answers included, leaves with the five security headers at their values and without the headers that
  name the server, its status and body unchanged. The 401 of the identity layer carries none of them:
  that layer stands outside the headers', contrary to the comment in each \<^verbatim>\<open>main.py\<close>. It is only given
  outside the probe paths, and the routes have not run then.
\<close>
theorem backend_hardening:
  "(\<exists>d. backend_app hmac now idm routes r w = (Inr (unauthorized d), w) \<and>
      req_path r \<notin> set (idm_exempt idm) \<and>
      list_all (\<lambda>(h, _). hget (resp_headers (unauthorized d)) h = None) BACKEND_SECURITY_HEADERS) \<or>
   (case backend_app hmac now idm routes r w of
      (Inl e, w') \<Rightarrow> routes r w = (Inl e, w') \<and> (\<exists>m. e = ServerError m)
    | (Inr resp, w') \<Rightarrow>
        list_all (\<lambda>(h, v). hget (resp_headers resp) h = Some v) BACKEND_SECURITY_HEADERS \<and>
        list_all (\<lambda>h. hget (resp_headers resp) h = None) BACKEND_HEADERS_TO_REMOVE \<and>
        (\<exists>resp0. route routes r w = (Inr resp0, w') \<and> resp_status resp0 = resp_status resp \<and>
           resp_body resp0 = resp_body resp))"
proof -
  have bare: "list_all (\<lambda>(h, _). hget (resp_headers (unauthorized d)) h = None) BACKEND_SECURITY_HEADERS" for d
    by (simp add: unauthorized_def JSONResponse_def BACKEND_SECURITY_HEADERS_def)
  show ?thesis
  proof (cases "\<exists>d. backend_app hmac now idm routes r w = (Inr (unauthorized d), w) \<and> req_path r \<notin> set (idm_exempt idm)")
    case False
    then have app: "backend_app hmac now idm routes r w = map_response hardened (route routes r w)"
      using identity_dispatch_cases [of hmac now idm "hardening_dispatch (route routes)" r w]
      by (auto simp: backend_app_def hardening_dispatch_def)
    have h: "list_all (\<lambda>(h, v). hget (resp_headers (hardened resp)) h = Some v) BACKEND_SECURITY_HEADERS"
      "list_all (\<lambda>h. hget (resp_headers (hardened resp)) h = None) BACKEND_HEADERS_TO_REMOVE" for resp
      by (simp_all add: hardened_headers BACKEND_SECURITY_HEADERS_def BACKEND_HEADERS_TO_REMOVE_def)
    obtain x w' where r: "routes r w = (x, w')" by fastforce
    show ?thesis
    proof (cases "exception_response x")
      case (Inl e)
      then have "x = Inl e \<and> (\<exists>m. e = ServerError m)"
        by (cases x; cases e) (auto simp: exception_response_def split: http_error.splits)
      with Inl r app show ?thesis by (auto simp: route_def)
    next
      case (Inr resp)
      with r app h show ?thesis by (auto simp: route_def)
    qed
  qed (use bare in blast)
qed

end
