(* ===== verification/Routes.thy ===== *)
theory Routes
  imports UserProps TaskProps Backends "HOL-Library.Monad_Syntax"
begin

text \<open>
  The routers of the user and the task service: which function a request reaches, how its path, query and
  body become the arguments, and which response its result becomes. The decorators of
  \<^verbatim>\<open>routes/auth.py\<close>, \<^verbatim>\<open>routes/users.py\<close>, \<^verbatim>\<open>routes/tasks.py\<close> and \<^verbatim>\<open>routes/projects.py\<close> with the prefixes of \<^verbatim>\<open>main.py\<close> are
  tables, searched in the order in which the routes are declared. What the framework and its validation
  library do on their own is the record \<open>framework\<close>.
\<close>

section \<open>What the framework provides\<close>

text \<open>The body as the framework decoded it: none, one that is no JSON, or a document.\<close>

datatype sent_body = NoBody | BadBody | SentBody json

text \<open>
  Reading of a UUID, a time, a query parameter, a number and a truth value from a text, and the text of a time in a
  response.
\<close>

record framework =
  fw_body :: "request \<Rightarrow> sent_body"
  fw_uuid :: "string \<Rightarrow> uuid option"
  fw_datetime :: "json \<Rightarrow> pyfloat option"
  fw_query :: "request \<Rightarrow> string \<Rightarrow> string option"
  fw_int :: "string \<Rightarrow> int option"
  fw_bool :: "string \<Rightarrow> bool option"
  fw_js_time :: "pyfloat \<Rightarrow> string"

section \<open>Paths\<close>

datatype path_part = Lit string | Param

text \<open>A parameter stands for one part of the path that is not empty.\<close>

fun match_parts :: "path_part list \<Rightarrow> string list \<Rightarrow> string list option" where
  "match_parts [] [] = Some []"
| "match_parts (Lit s # ps) (x # xs) = (if x = s then match_parts ps xs else None)"
| "match_parts (Param # ps) (x # xs) = (if x = [] then None else map_option (Cons x) (match_parts ps xs))"
| "match_parts _ _ = None"

fun fill_parts :: "path_part list \<Rightarrow> string list \<Rightarrow> string list" where
  "fill_parts (Lit s # ps) xs = s # fill_parts ps xs"
| "fill_parts (Param # ps) (x # xs) = x # fill_parts ps xs"
| "fill_parts _ _ = []"

type_synonym 'e route_table = "(string \<times> path_part list \<times> 'e) list"

fun find_route :: "'e route_table \<Rightarrow> string \<Rightarrow> string list \<Rightarrow> ('e \<times> string list) option" where
  "find_route [] meth parts = None"
| "find_route ((m, p, e) # t) meth parts =
     (if m = meth
      then (case match_parts p parts of Some ps \<Rightarrow> Some (e, ps) | None \<Rightarrow> find_route t meth parts)
      else find_route t meth parts)"

definition path_parts :: "string \<Rightarrow> string list" where
  "path_parts path = py_split CHR ''/'' path"

definition api_path :: "string \<Rightarrow> path_part list \<Rightarrow> path_part list" where
  "api_path prefix ps = [Lit [], Lit ''api'', Lit ''v1'', Lit prefix] @ ps"

section \<open>Fields of a body\<close>

text \<open>\<^const>\<open>None\<close> is a validation error.\<close>

definition text_of :: "json \<Rightarrow> string option" where
  "text_of v = (case v of JStr s \<Rightarrow> Some s | _ \<Rightarrow> None)"

definition nullable :: "(json \<Rightarrow> 'a option) \<Rightarrow> json \<Rightarrow> 'a option option" where
  "nullable read v = (if v = JNull then Some None else map_option Some (read v))"

definition required :: "string \<Rightarrow> (json \<Rightarrow> 'a option) \<Rightarrow> (string \<times> json) list \<Rightarrow> 'a option" where
  "required k read kvs = (case map_of kvs k of Some v \<Rightarrow> read v | None \<Rightarrow> None)"

definition defaulted :: "'a \<Rightarrow> string \<Rightarrow> (json \<Rightarrow> 'a option) \<Rightarrow> (string \<times> json) list \<Rightarrow> 'a option" where
  "defaulted d k read kvs = (case map_of kvs k of Some v \<Rightarrow> read v | None \<Rightarrow> Some d)"

text \<open>A field that may be left out, in which case \<^verbatim>\<open>exclude_unset\<close> drops it.\<close>

definition unset_or :: "string \<Rightarrow> (json \<Rightarrow> 'a option) \<Rightarrow> (string \<times> json) list \<Rightarrow> 'a option option option" where
  "unset_or k read kvs = defaulted None k (\<lambda>v. map_option Some (nullable read v)) kvs"

definition body_fields :: "framework \<Rightarrow> request \<Rightarrow> (string \<times> json) list option" where
  "body_fields fw r = (case fw_body fw r of SentBody (JObj kvs) \<Rightarrow> Some kvs | _ \<Rightarrow> None)"

definition uuid_of :: "framework \<Rightarrow> json \<Rightarrow> uuid option" where
  "uuid_of fw v = text_of v \<bind> fw_uuid fw"

definition status_of :: "json \<Rightarrow> task_status option" where
  "status_of v = find (\<lambda>s. v = JStr (status_value s)) [TODO, IN_PROGRESS, IN_REVIEW, DONE, CANCELLED]"

definition priority_of :: "json \<Rightarrow> task_priority option" where
  "priority_of v = find (\<lambda>p. v = JStr (priority_value p)) [LOW, MEDIUM, HIGH, CRITICAL]"

text \<open>A query parameter with its default.\<close>

definition query_or :: "framework \<Rightarrow> 'a \<Rightarrow> (string \<Rightarrow> 'a option) \<Rightarrow> request \<Rightarrow> string \<Rightarrow> 'a option" where
  "query_or fw d read r k = (case fw_query fw r k of None \<Rightarrow> Some d | Some s \<Rightarrow> read s)"

section \<open>Answers\<close>

definition no_content :: response where
  "no_content = \<lparr>resp_status = 204, resp_headers = [], resp_body = Bytes []\<rparr>"

definition answered :: "('a \<Rightarrow> response) \<Rightarrow> ('w \<Rightarrow> (http_error + 'a) \<times> 'w) \<Rightarrow> 'w \<Rightarrow> (http_error + response) \<times> 'w" where
  "answered f act w = (case act w of (Inl e, w') \<Rightarrow> (Inl e, w') | (Inr x, w') \<Rightarrow> (Inr (f x), w'))"

definition replies :: "nat \<Rightarrow> ('a \<Rightarrow> json) \<Rightarrow> ('w \<Rightarrow> (http_error + 'a) \<times> 'w) \<Rightarrow> 'w \<Rightarrow> (http_error + response) \<times> 'w" where
  "replies status f = answered (\<lambda>x. JSONResponse status (f x) [])"

definition replies_nothing :: "('w \<Rightarrow> (http_error + unit) \<times> 'w) \<Rightarrow> 'w \<Rightarrow> (http_error + response) \<times> 'w" where
  "replies_nothing = answered (\<lambda>_. no_content)"

text \<open>
  One router: a body that is no JSON is refused before the dependencies run, an argument that cannot be
  read after them; \<open>act\<close> gives the route's function once its arguments are read.
\<close>

definition run_router ::
  "'e route_table \<Rightarrow> ('e \<Rightarrow> bool) \<Rightarrow> ('e \<Rightarrow> request \<Rightarrow> http_error option) \<Rightarrow>
   ('e \<Rightarrow> request \<Rightarrow> string list \<Rightarrow> ('w \<Rightarrow> (http_error + response) \<times> 'w) option) \<Rightarrow>
   framework \<Rightarrow> 'w handler \<Rightarrow> 'w handler"
where
  "run_router table has_body depends act fw other r w =
     (case find_route table (req_method r) (path_parts (req_path r)) of
        None \<Rightarrow> other r w
      | Some (e, ps) \<Rightarrow>
          if has_body e \<and> fw_body fw r = BadBody then (Inl unprocessable, w)
          else (case depends e r of
                  Some x \<Rightarrow> (Inl x, w)
                | None \<Rightarrow> (case act e r ps of None \<Rightarrow> (Inl unprocessable, w) | Some f \<Rightarrow> f w)))"

definition refused_by :: "http_error + 'a \<Rightarrow> http_error option" where
  "refused_by x = (case x of Inl e \<Rightarrow> Some e | Inr _ \<Rightarrow> None)"

definition needs_caller :: "request \<Rightarrow> http_error option" where
  "needs_caller r = refused_by (parse_caller_id r)"

definition needs_admin :: "request \<Rightarrow> http_error option" where
  "needs_admin r = (case refused_by (require_admin r) of Some e \<Rightarrow> Some e | None \<Rightarrow> needs_caller r)"

section \<open>User service\<close>

datatype user_endpoint =
    PostRegister | PostLogin | PostRefresh | PostLogout | PostVerifyEmail | PostResend | PostForgot | PostReset
  | GetOwn | PatchOwn | DeleteOwn | DeleteOwnForGood | GetOther
  | AdminList | AdminGetOne | PostPromote | PostDemote | AdminDeleteOne

definition user_table :: "user_endpoint route_table" where
  "user_table =
     [(''POST'', api_path ''auth'' [Lit ''register''], PostRegister),
      (''POST'', api_path ''auth'' [Lit ''login''], PostLogin),
      (''POST'', api_path ''auth'' [Lit ''refresh''], PostRefresh),
      (''POST'', api_path ''auth'' [Lit ''logout''], PostLogout),
      (''POST'', api_path ''auth'' [Lit ''verify-email''], PostVerifyEmail),
      (''POST'', api_path ''auth'' [Lit ''resend-verification''], PostResend),
      (''POST'', api_path ''auth'' [Lit ''forgot-password''], PostForgot),
      (''POST'', api_path ''auth'' [Lit ''reset-password''], PostReset),
      (''GET'', api_path ''users'' [Lit ''me''], GetOwn),
      (''PATCH'', api_path ''users'' [Lit ''me''], PatchOwn),
      (''DELETE'', api_path ''users'' [Lit ''me''], DeleteOwn),
      (''DELETE'', api_path ''users'' [Lit ''me'', Lit ''permanent''], DeleteOwnForGood),
      (''GET'', api_path ''users'' [Param], GetOther),
      (''GET'', api_path ''users'' [Lit ''admin'', Lit ''users''], AdminList),
      (''GET'', api_path ''users'' [Lit ''admin'', Lit ''users'', Param], AdminGetOne),
      (''POST'', api_path ''users'' [Lit ''admin'', Lit ''users'', Param, Lit ''promote''], PostPromote),
      (''POST'', api_path ''users'' [Lit ''admin'', Lit ''users'', Param, Lit ''demote''], PostDemote),
      (''DELETE'', api_path ''users'' [Lit ''admin'', Lit ''users'', Param], AdminDeleteOne)]"

definition user_has_body :: "user_endpoint \<Rightarrow> bool" where
  "user_has_body e \<longleftrightarrow>
     e \<in> {PostRegister, PostLogin, PostRefresh, PostLogout, PostVerifyEmail, PostResend, PostForgot, PostReset, PatchOwn}"

definition user_depends :: "user_endpoint \<Rightarrow> request \<Rightarrow> http_error option" where
  "user_depends e r =
     (if e \<in> {AdminList, AdminGetOne, PostPromote, PostDemote, AdminDeleteOne} then needs_admin r
      else if e \<in> {GetOwn, PatchOwn, DeleteOwn, DeleteOwnForGood, GetOther} then needs_caller r
      else None)"

definition UserCreate_fields :: "(string \<times> json) list \<Rightarrow> user_create option" where
  "UserCreate_fields kvs = do {
     e \<leftarrow> required ''email'' text_of kvs;
     u \<leftarrow> required ''username'' text_of kvs;
     p \<leftarrow> required ''password'' text_of kvs;
     f \<leftarrow> defaulted None ''full_name'' (nullable text_of) kvs;
     Some \<lparr>uc_email = e, uc_username = u, uc_password = p, uc_full_name = f\<rparr>
   }"

definition UserUpdate_fields :: "(string \<times> json) list \<Rightarrow> user_update option" where
  "UserUpdate_fields kvs = do {
     f \<leftarrow> defaulted None ''full_name'' (nullable text_of) kvs;
     p \<leftarrow> defaulted None ''password'' (nullable text_of) kvs;
     Some \<lparr>uu_full_name = f, uu_password = p\<rparr>
   }"

definition LoginRequest_fields :: "(string \<times> json) list \<Rightarrow> (string \<times> string) option" where
  "LoginRequest_fields kvs = do {m \<leftarrow> required ''email'' text_of kvs; p \<leftarrow> required ''password'' text_of kvs; Some (m, p)}"

definition RefreshRequest_fields :: "(string \<times> json) list \<Rightarrow> string option" where
  "RefreshRequest_fields = required ''refresh_token'' text_of"

definition LogoutRequest_fields :: "(string \<times> json) list \<Rightarrow> string option" where
  "LogoutRequest_fields = required ''refresh_token'' text_of"

definition VerifyEmailRequest_fields :: "(string \<times> json) list \<Rightarrow> string option" where
  "VerifyEmailRequest_fields = required ''token'' text_of"

definition ResendVerificationRequest_fields :: "(string \<times> json) list \<Rightarrow> string option" where
  "ResendVerificationRequest_fields = required ''email'' text_of"

definition ForgotPasswordRequest_fields :: "(string \<times> json) list \<Rightarrow> string option" where
  "ForgotPasswordRequest_fields = required ''email'' text_of"

definition ResetPasswordRequest_fields :: "(string \<times> json) list \<Rightarrow> (string \<times> string) option" where
  "ResetPasswordRequest_fields kvs = do {t \<leftarrow> required ''token'' text_of kvs; p \<leftarrow> required ''new_password'' text_of kvs; Some (t, p)}"

text \<open>The query of the list of users: limit, offset and \<^verbatim>\<open>active_only\<close>.\<close>

definition users_query :: "framework \<Rightarrow> request \<Rightarrow> (int \<times> int \<times> bool) option" where
  "users_query fw r = do {
     l \<leftarrow> query_or fw 50 (fw_int fw) r ''limit'';
     k \<leftarrow> query_or fw 0 (fw_int fw) r ''offset'';
     a \<leftarrow> query_or fw False (fw_bool fw) r ''active_only'';
     Some (l, k, a)
   }"

definition public_fields :: "(pyfloat \<Rightarrow> string) \<Rightarrow> 'a user_response_scheme \<Rightarrow> (string \<times> json) list" where
  "public_fields js_time u =
     [(''id'', JStr (uuid_str (ures_id u))), (''email'', JStr (ures_email u)),
      (''username'', JStr (ures_username u)), (''full_name'', opt_text (ures_full_name u)),
      (''is_active'', JBool (ures_is_active u)), (''created_at'', JStr (js_time (ures_created_at u))),
      (''last_login_at'', opt_text (map_option js_time (ures_last_login_at u)))]"

definition user_json :: "(pyfloat \<Rightarrow> string) \<Rightarrow> user_response \<Rightarrow> json" where
  "user_json js_time u = JObj (public_fields js_time u)"

definition admin_json :: "(pyfloat \<Rightarrow> string) \<Rightarrow> admin_user_response \<Rightarrow> json" where
  "admin_json js_time u = JObj (public_fields js_time u @ [(''is_admin'', JBool (ures_is_admin u))])"

definition token_json :: "(pyfloat \<Rightarrow> string) \<Rightarrow> token_response \<Rightarrow> json" where
  "token_json js_time t = JObj
     [(''access_token'', JStr (tr_access_token t)), (''token_type'', JStr (tr_token_type t)),
      (''expires_in'', JInt (tr_expires_in t)), (''user'', user_json js_time (tr_user t)),
      (''refresh_token'', opt_text (tr_refresh_token t))]"

definition users_json :: "(pyfloat \<Rightarrow> string) \<Rightarrow> user_page \<Rightarrow> json" where
  "users_json js_time p = JObj
     [(''total'', JInt (int (up_total p))), (''limit'', JInt (up_limit p)), (''offset'', JInt (up_offset p)),
      (''users'', JArr (map (admin_json js_time) (up_users p)))]"

text \<open>The operation of the histories that a request is, once its arguments are read.\<close>

definition user_request :: "framework \<Rightarrow> user_endpoint \<Rightarrow> request \<Rightarrow> string list \<Rightarrow> user_op option" where
  "user_request fw e r ps =
     (let sent = body_fields fw r; target = fw_uuid fw (hd ps)
      in case e of
           PostRegister \<Rightarrow> map_option (Register r) (sent \<bind> UserCreate_fields)
         | PostLogin \<Rightarrow> map_option (\<lambda>(m, p). Login r m p) (sent \<bind> LoginRequest_fields)
         | PostRefresh \<Rightarrow> map_option Refresh (sent \<bind> RefreshRequest_fields)
         | PostLogout \<Rightarrow> map_option Logout (sent \<bind> LogoutRequest_fields)
         | PostVerifyEmail \<Rightarrow> map_option VerifyEmail (sent \<bind> VerifyEmailRequest_fields)
         | PostResend \<Rightarrow> map_option ResendVerification (sent \<bind> ResendVerificationRequest_fields)
         | PostForgot \<Rightarrow> map_option ForgotPassword (sent \<bind> ForgotPasswordRequest_fields)
         | PostReset \<Rightarrow> map_option (\<lambda>(t, p). ResetPassword t p) (sent \<bind> ResetPasswordRequest_fields)
         | GetOwn \<Rightarrow> Some (GetMe r)
         | PatchOwn \<Rightarrow> map_option (UpdateMe r) (sent \<bind> UserUpdate_fields)
         | DeleteOwn \<Rightarrow> Some (DeactivateMe r)
         | DeleteOwnForGood \<Rightarrow> Some (HardDeleteMe r)
         | GetOther \<Rightarrow> map_option (GetUser r) target
         | AdminList \<Rightarrow> map_option (\<lambda>(l, k, a). AdminListUsers r l k a) (users_query fw r)
         | AdminGetOne \<Rightarrow> map_option (AdminGetUser r) target
         | PostPromote \<Rightarrow> map_option (AdminPromote r) target
         | PostDemote \<Rightarrow> map_option (AdminDemote r) target
         | AdminDeleteOne \<Rightarrow> map_option (AdminDelete r) target)"

text \<open>An operation as a request is answered. \<^const>\<open>Restart\<close> is no request.\<close>

fun user_answer ::
  "(pyfloat \<Rightarrow> string) \<Rightarrow> 'r user_env \<Rightarrow> user_settings \<Rightarrow> user_op \<Rightarrow> ('r, response) user_action option"
where
  "user_answer js en cfg (Register r p) = Some (replies 201 (user_json js) (respond en cfg (register en cfg r p)))"
| "user_answer js en cfg (Login r m p) = Some (replies 200 (token_json js) (respond en cfg (login en cfg r m p)))"
| "user_answer js en cfg (Refresh t) = Some (replies 200 (token_json js) (respond en cfg (refresh_token en cfg t)))"
| "user_answer js en cfg (Logout t) = Some (replies_nothing (respond en cfg (logout en t)))"
| "user_answer js en cfg (VerifyEmail t) = Some (replies_nothing (respond en cfg (verify_email en t)))"
| "user_answer js en cfg (ResendVerification m) = Some (replies_nothing (respond en cfg (resend_verification en m)))"
| "user_answer js en cfg (ForgotPassword m) = Some (replies_nothing (respond en cfg (forgot_password en m)))"
| "user_answer js en cfg (ResetPassword t p) = Some (replies_nothing (respond en cfg (reset_password en t p)))"
| "user_answer js en cfg (GetMe r) = Some (replies 200 (user_json js) (respond en cfg (get_me r)))"
| "user_answer js en cfg (UpdateMe r p) = Some (replies 200 (user_json js) (respond en cfg (update_me en r p)))"
| "user_answer js en cfg (DeactivateMe r) = Some (replies_nothing (respond en cfg (deactivate_me en r)))"
| "user_answer js en cfg (HardDeleteMe r) = Some (replies_nothing (respond en cfg (hard_delete_me en r)))"
| "user_answer js en cfg (GetUser r i) = Some (replies 200 (user_json js) (respond en cfg (get_user r i)))"
| "user_answer js en cfg (AdminListUsers r l k a) =
     Some (replies 200 (users_json js) (respond en cfg (admin_list_users r l k a)))"
| "user_answer js en cfg (AdminGetUser r i) = Some (replies 200 (admin_json js) (respond en cfg (admin_get_user r i)))"
| "user_answer js en cfg (AdminPromote r i) =
     Some (replies 200 (admin_json js) (respond en cfg (admin_promote_user en r i)))"
| "user_answer js en cfg (AdminDemote r i) =
     Some (replies 200 (admin_json js) (respond en cfg (admin_demote_user en r i)))"
| "user_answer js en cfg (AdminDelete r i) = Some (replies_nothing (respond en cfg (admin_delete_user r i)))"
| "user_answer js en cfg Restart = None"

definition user_api :: "framework \<Rightarrow> 'r user_env \<Rightarrow> user_settings \<Rightarrow> 'r user_world handler \<Rightarrow> 'r user_world handler" where
  "user_api fw en cfg =
     run_router user_table user_has_body user_depends
       (\<lambda>e r ps. user_request fw e r ps \<bind> user_answer (fw_js_time fw) en cfg) fw"

section \<open>Task service\<close>

datatype task_endpoint =
    PostTask | GetTasks | GetOneTask | PatchTask | DeleteOneTask
  | PostProject | GetProjects | GetOneProject | DeleteOneProject

definition task_table :: "task_endpoint route_table" where
  "task_table =
     [(''POST'', api_path ''tasks'' [Lit []], PostTask),
      (''GET'', api_path ''tasks'' [Lit []], GetTasks),
      (''GET'', api_path ''tasks'' [Param], GetOneTask),
      (''PATCH'', api_path ''tasks'' [Param], PatchTask),
      (''DELETE'', api_path ''tasks'' [Param], DeleteOneTask),
      (''POST'', api_path ''projects'' [Lit []], PostProject),
      (''GET'', api_path ''projects'' [Lit []], GetProjects),
      (''GET'', api_path ''projects'' [Param], GetOneProject),
      (''DELETE'', api_path ''projects'' [Param], DeleteOneProject)]"

definition task_has_body :: "task_endpoint \<Rightarrow> bool" where
  "task_has_body e \<longleftrightarrow> e \<in> {PostTask, PatchTask, PostProject}"

definition task_depends :: "task_endpoint \<Rightarrow> request \<Rightarrow> http_error option" where
  "task_depends e r = needs_caller r"

definition TaskCreate_fields :: "framework \<Rightarrow> (string \<times> json) list \<Rightarrow> task_create option" where
  "TaskCreate_fields fw kvs = do {
     t \<leftarrow> required ''title'' text_of kvs;
     d \<leftarrow> defaulted None ''description'' (nullable text_of) kvs;
     p \<leftarrow> defaulted MEDIUM ''priority'' priority_of kvs;
     i \<leftarrow> required ''project_id'' (uuid_of fw) kvs;
     a \<leftarrow> defaulted None ''assignee_id'' (nullable (uuid_of fw)) kvs;
     u \<leftarrow> defaulted None ''due_date'' (nullable (fw_datetime fw)) kvs;
     Some \<lparr>tc_title = t, tc_description = d, tc_priority = p, tc_project_id = i, tc_assignee_id = a, tc_due_date = u\<rparr>
   }"

definition TaskUpdate_fields :: "framework \<Rightarrow> (string \<times> json) list \<Rightarrow> task_update option" where
  "TaskUpdate_fields fw kvs = do {
     t \<leftarrow> unset_or ''title'' text_of kvs;
     d \<leftarrow> unset_or ''description'' text_of kvs;
     s \<leftarrow> unset_or ''status'' status_of kvs;
     p \<leftarrow> unset_or ''priority'' priority_of kvs;
     a \<leftarrow> unset_or ''assignee_id'' (uuid_of fw) kvs;
     u \<leftarrow> unset_or ''due_date'' (fw_datetime fw) kvs;
     Some \<lparr>tu_title = t, tu_description = d, tu_status = s, tu_priority = p, tu_assignee_id = a, tu_due_date = u\<rparr>
   }"

definition ProjectCreate_fields :: "(string \<times> json) list \<Rightarrow> project_create option" where
  "ProjectCreate_fields kvs = do {
     n \<leftarrow> required ''name'' text_of kvs;
     d \<leftarrow> defaulted None ''description'' (nullable text_of) kvs;
     Some \<lparr>pc_name = n, pc_description = d\<rparr>
   }"

definition page_json :: "json cursor_page \<Rightarrow> json" where
  "page_json p = JObj
     [(''items'', JArr (cp_items p)), (''next_cursor'', opt_text (cp_next_cursor p)), (''count'', JInt (int (cp_count p)))]"

text \<open>The queries of the two lists.\<close>

definition tasks_query ::
  "framework \<Rightarrow> request \<Rightarrow> (uuid option \<times> task_status option \<times> int \<times> string) option" where
  "tasks_query fw r = do {
     p \<leftarrow> query_or fw None (\<lambda>s. map_option Some (fw_uuid fw s)) r ''project_id'';
     s \<leftarrow> query_or fw None (\<lambda>s. map_option Some (status_of (JStr s))) r ''status'';
     l \<leftarrow> query_or fw 50 (fw_int fw) r ''limit'';
     c \<leftarrow> query_or fw [] Some r ''cursor'';
     Some (p, s, l, c)
   }"

definition projects_query :: "framework \<Rightarrow> request \<Rightarrow> (int \<times> string) option" where
  "projects_query fw r = do {
     l \<leftarrow> query_or fw 50 (fw_int fw) r ''limit'';
     c \<leftarrow> query_or fw [] Some r ''cursor'';
     Some (l, c)
   }"

definition task_request :: "framework \<Rightarrow> task_endpoint \<Rightarrow> request \<Rightarrow> string list \<Rightarrow> task_op option" where
  "task_request fw e r ps =
     (let sent = body_fields fw r; target = fw_uuid fw (hd ps)
      in case e of
           PostTask \<Rightarrow> map_option (CreateTask r) (sent \<bind> TaskCreate_fields fw)
         | GetTasks \<Rightarrow> map_option (\<lambda>(p, s, l, c). ListTasks r p s l c) (tasks_query fw r)
         | GetOneTask \<Rightarrow> map_option (GetTask r) target
         | PatchTask \<Rightarrow> do {i \<leftarrow> target; p \<leftarrow> sent \<bind> TaskUpdate_fields fw; Some (UpdateTask r i p)}
         | DeleteOneTask \<Rightarrow> map_option (DeleteTask r) target
         | PostProject \<Rightarrow> map_option (CreateProject r) (sent \<bind> ProjectCreate_fields)
         | GetProjects \<Rightarrow> map_option (\<lambda>(l, c). ListProjects r l c) (projects_query fw r)
         | GetOneProject \<Rightarrow> map_option (GetProject r) target
         | DeleteOneProject \<Rightarrow> map_option (DeleteProject r) target)"

text \<open>The status of a body is that of the decorator: 201 for a new project, 200 for the others.\<close>

definition task_reply :: "task_endpoint \<Rightarrow> task_answer \<Rightarrow> response" where
  "task_reply e x =
     (case x of
        Reply resp \<Rightarrow> resp
      | Page p \<Rightarrow> JSONResponse 200 (page_json p) []
      | Body j \<Rightarrow> JSONResponse (if e = PostProject then 201 else 200) j []
      | NoContent \<Rightarrow> no_content)"

definition task_api :: "framework \<Rightarrow> 'r task_env \<Rightarrow> 'r task_world handler \<Rightarrow> 'r task_world handler" where
  "task_api fw en =
     run_router task_table task_has_body task_depends
       (\<lambda>e r ps. map_option (\<lambda>op. answered (task_reply e) (task_call en op)) (task_request fw e r ps)) fw"

section \<open>Requests are steps of the histories\<close>

lemma snd_answered [simp]: "snd (answered f act w) = snd (act w)"
  by (simp add: answered_def split: prod.split sum.split)

lemma user_answer_step: "user_answer js en cfg op = Some act \<Longrightarrow> snd (act w) = user_step cfg (en, op) w"
  by (cases op) (auto simp: replies_def replies_nothing_def)

lemma run_router_effect:
  assumes "\<And>e r ps f w. act e r ps = Some f \<Longrightarrow> stays w (snd (f w))" "\<And>w. stays w w" "\<And>r w. stays w (snd (other r w))"
  shows "stays w (snd (run_router table has_body depends act fw other r w))"
  using assms by (auto simp: run_router_def split: option.split)

text \<open>
  What a request does to the state is a step of the histories, or nothing, if the framework's own
  answers change nothing.
\<close>

definition inert :: "'w handler \<Rightarrow> bool" where
  "inert h \<longleftrightarrow> (\<forall>r w. snd (h r w) = w)"

lemma user_api_effect:
  assumes "inert other"
  shows "snd (user_api fw en cfg other r w) = w \<or> (\<exists>op. snd (user_api fw en cfg other r w) = user_step cfg (en, op) w)"
  unfolding user_api_def
  by (rule run_router_effect [where stays = "\<lambda>w w'. w' = w \<or> (\<exists>op. w' = user_step cfg (en, op) w)"])
    (use assms in \<open>auto simp: inert_def bind_eq_Some_conv dest: user_answer_step\<close>)

lemma task_api_effect:
  assumes "inert other"
  shows "snd (task_api fw en other r w) = w \<or> (\<exists>op. snd (task_api fw en other r w) = task_step (en, op) w)"
  unfolding task_api_def
  by (rule run_router_effect [where stays = "\<lambda>w w'. w' = w \<or> (\<exists>op. w' = task_step (en, op) w)"])
    (use assms in \<open>auto simp: inert_def task_step_def\<close>)

lemma user_api_wf [wf_intros]:
  assumes "inert other" "wf_users (uw_users w)"
  shows "wf_users (uw_users (snd (user_api fw en cfg other r w)))"
  using user_api_effect [OF assms(1), of fw en cfg r w] wf_user_step assms(2) by fastforce

lemma task_api_wf [wf_intros]:
  assumes "inert other" "wf_tasks w"
  shows "wf_tasks (snd (task_api fw en other r w))"
  using task_api_effect [OF assms(1), of fw en r w] wf_step assms(2) by fastforce

text \<open>
  A request of the user service whose caller is missing or malformed changes nothing, outside the
  routes of \<^verbatim>\<open>auth\<close>.
\<close>

lemma user_api_needs_caller:
  assumes "find_route user_table (req_method r) (path_parts (req_path r)) = Some (e, ps)"
    and "e \<notin> {PostRegister, PostLogin, PostRefresh, PostLogout, PostVerifyEmail, PostResend, PostForgot, PostReset}"
    and "parse_caller_id r = Inl x"
  shows "\<exists>y. user_api fw en cfg other r w = (Inl y, w)"
  using assms
  by (cases e) (auto simp: user_api_def run_router_def user_depends_def needs_admin_def needs_caller_def refused_by_def
      user_has_body_def require_admin_def)

lemma task_api_needs_caller:
  assumes "find_route task_table (req_method r) (path_parts (req_path r)) = Some (e, ps)" "parse_caller_id r = Inl x"
  shows "\<exists>y. task_api fw en other r w = (Inl y, w)"
  using assms by (simp add: task_api_def run_router_def task_depends_def needs_caller_def refused_by_def)

section \<open>Every route is reached\<close>

definition declared :: "'e route_table \<Rightarrow> 'e \<Rightarrow> string \<times> path_part list" where
  "declared table e = (case find (\<lambda>(m, p, e'). e' = e) table of Some (m, p, _) \<Rightarrow> (m, p) | None \<Rightarrow> ([], []))"

fun params :: "path_part list \<Rightarrow> nat" where
  "params [] = 0"
| "params (Lit s # ps) = params ps"
| "params (Param # ps) = Suc (params ps)"

lemma match_fill: "length xs = params ps \<Longrightarrow> [] \<notin> set xs \<Longrightarrow> match_parts ps (fill_parts ps xs) = Some xs"
  by (induction ps xs rule: fill_parts.induct) auto

lemma fill_match: "match_parts ps parts = Some xs \<Longrightarrow> fill_parts ps xs = parts \<and> length xs = params ps \<and> [] \<notin> set xs"
  by (induction ps parts arbitrary: xs rule: match_parts.induct) (auto split: if_splits)

text \<open>The path of a route with its parameters filled in.\<close>

definition url_for :: "'e route_table \<Rightarrow> 'e \<Rightarrow> string list \<Rightarrow> string" where
  "url_for table e xs = py_join ''/'' (fill_parts (snd (declared table e)) xs)"

definition good_params :: "'e route_table \<Rightarrow> 'e \<Rightarrow> string list \<Rightarrow> bool" where
  "good_params table e xs \<longleftrightarrow>
     length xs = params (snd (declared table e)) \<and> (\<forall>x\<in>set xs. x \<noteq> [] \<and> CHR ''/'' \<notin> set x)"

definition plain_parts :: "path_part list \<Rightarrow> bool" where
  "plain_parts ps \<longleftrightarrow> (\<exists>qs. ps = Lit [] # qs) \<and> list_all (\<lambda>p. case p of Lit s \<Rightarrow> CHR ''/'' \<notin> set s | Param \<Rightarrow> True) ps"

lemma parts_of_url:
  assumes "good_params table e xs" "plain_parts (snd (declared table e))"
  shows "path_parts (url_for table e xs) = fill_parts (snd (declared table e)) xs"
proof -
  have c: "\<forall>x\<in>set (fill_parts ps ys). CHR ''/'' \<notin> set x"
    if "list_all (\<lambda>p. case p of Lit s \<Rightarrow> CHR ''/'' \<notin> set s | Param \<Rightarrow> True) ps" "\<forall>x\<in>set ys. CHR ''/'' \<notin> set x" for ps ys
    using that by (induction ps ys rule: fill_parts.induct) auto
  have "\<forall>x\<in>set (fill_parts (snd (declared table e)) xs). CHR ''/'' \<notin> set x"
    by (rule c) (use assms in \<open>simp_all add: good_params_def plain_parts_def\<close>)
  moreover have "fill_parts (snd (declared table e)) xs \<noteq> []" using assms(2) by (auto simp: plain_parts_def)
  ultimately show ?thesis by (simp add: path_parts_def url_for_def py_split_join)
qed

text \<open>The entry of each route.\<close>

lemma declared_user:
  "declared user_table PostRegister = (''POST'', api_path ''auth'' [Lit ''register''])"
  "declared user_table PostLogin = (''POST'', api_path ''auth'' [Lit ''login''])"
  "declared user_table PostRefresh = (''POST'', api_path ''auth'' [Lit ''refresh''])"
  "declared user_table PostLogout = (''POST'', api_path ''auth'' [Lit ''logout''])"
  "declared user_table PostVerifyEmail = (''POST'', api_path ''auth'' [Lit ''verify-email''])"
  "declared user_table PostResend = (''POST'', api_path ''auth'' [Lit ''resend-verification''])"
  "declared user_table PostForgot = (''POST'', api_path ''auth'' [Lit ''forgot-password''])"
  "declared user_table PostReset = (''POST'', api_path ''auth'' [Lit ''reset-password''])"
  "declared user_table GetOwn = (''GET'', api_path ''users'' [Lit ''me''])"
  "declared user_table PatchOwn = (''PATCH'', api_path ''users'' [Lit ''me''])"
  "declared user_table DeleteOwn = (''DELETE'', api_path ''users'' [Lit ''me''])"
  "declared user_table DeleteOwnForGood = (''DELETE'', api_path ''users'' [Lit ''me'', Lit ''permanent''])"
  "declared user_table GetOther = (''GET'', api_path ''users'' [Param])"
  "declared user_table AdminList = (''GET'', api_path ''users'' [Lit ''admin'', Lit ''users''])"
  "declared user_table AdminGetOne = (''GET'', api_path ''users'' [Lit ''admin'', Lit ''users'', Param])"
  "declared user_table PostPromote = (''POST'', api_path ''users'' [Lit ''admin'', Lit ''users'', Param, Lit ''promote''])"
  "declared user_table PostDemote = (''POST'', api_path ''users'' [Lit ''admin'', Lit ''users'', Param, Lit ''demote''])"
  "declared user_table AdminDeleteOne = (''DELETE'', api_path ''users'' [Lit ''admin'', Lit ''users'', Param])"
  by (simp_all add: declared_def user_table_def)

lemma declared_task:
  "declared task_table PostTask = (''POST'', api_path ''tasks'' [Lit []])"
  "declared task_table GetTasks = (''GET'', api_path ''tasks'' [Lit []])"
  "declared task_table GetOneTask = (''GET'', api_path ''tasks'' [Param])"
  "declared task_table PatchTask = (''PATCH'', api_path ''tasks'' [Param])"
  "declared task_table DeleteOneTask = (''DELETE'', api_path ''tasks'' [Param])"
  "declared task_table PostProject = (''POST'', api_path ''projects'' [Lit []])"
  "declared task_table GetProjects = (''GET'', api_path ''projects'' [Lit []])"
  "declared task_table GetOneProject = (''GET'', api_path ''projects'' [Param])"
  "declared task_table DeleteOneProject = (''DELETE'', api_path ''projects'' [Param])"
  by (simp_all add: declared_def task_table_def)

lemma user_found:
  assumes "good_params user_table e xs" "e = GetOther \<Longrightarrow> xs \<noteq> [''me'']"
  shows "find_route user_table (fst (declared user_table e)) (fill_parts (snd (declared user_table e)) xs) = Some (e, xs)"
  using assms
  by (cases e; clarsimp simp: good_params_def declared_user api_path_def length_Suc_conv;
      simp add: user_table_def api_path_def)

lemma task_found:
  assumes "good_params task_table e xs"
  shows "find_route task_table (fst (declared task_table e)) (fill_parts (snd (declared task_table e)) xs) = Some (e, xs)"
  using assms
  by (cases e; clarsimp simp: good_params_def declared_task api_path_def length_Suc_conv;
      simp add: task_table_def api_path_def)

lemma table_plain: "plain_parts (snd (declared user_table e))" "plain_parts (snd (declared task_table d))"
  by (cases e; simp add: declared_user plain_parts_def api_path_def)
    (cases d; simp add: declared_task plain_parts_def api_path_def)

lemma found_declared: "find_route table meth parts = Some (e, xs) \<Longrightarrow>
    \<exists>p. (meth, p, e) \<in> set table \<and> fill_parts p xs = parts \<and> length xs = params p"
  by (induction table meth parts rule: find_route.induct) (auto dest: fill_match split: if_splits option.splits)

lemma table_entries:
  "\<forall>(m, p, e)\<in>set user_table. declared user_table e = (m, p)"
  "\<forall>(m, p, e)\<in>set task_table. declared task_table e = (m, p)"
  by code_simp+

text \<open>
  C40: Every route is reached by its own address. For each route of the user and of the task service and
  parameters that are not empty and have no slash, the address made of the prefix, the route's path and
  the parameters leads, with the route's method, to that route with these parameters; the one
  exception is the profile of a user with the id \<^verbatim>\<open>me\<close>, for which the own profile is declared first. No
  other request reaches a route: what the search finds was declared with the request's method, and its
  path is the request's.
\<close>
theorem routes_reached:
  assumes "good_params user_table e xs" "e = GetOther \<Longrightarrow> xs \<noteq> [''me'']" "good_params task_table d ys"
  shows "find_route user_table (fst (declared user_table e)) (path_parts (url_for user_table e xs)) = Some (e, xs) \<and>
    find_route task_table (fst (declared task_table d)) (path_parts (url_for task_table d ys)) = Some (d, ys) \<and>
    find_route user_table ''GET'' (path_parts (url_for user_table GetOther [''me''])) = Some (GetOwn, []) \<and>
    (find_route user_table meth parts = Some (e', zs) \<longrightarrow>
       fst (declared user_table e') = meth \<and> fill_parts (snd (declared user_table e')) zs = parts) \<and>
    (find_route task_table meth parts = Some (d', zs) \<longrightarrow>
       fst (declared task_table d') = meth \<and> fill_parts (snd (declared task_table d')) zs = parts)"
proof -
  have me: "find_route user_table ''GET'' (path_parts (url_for user_table GetOther [''me''])) = Some (GetOwn, [])"
    by code_simp
  have u: "(meth, p, e') \<in> set user_table \<Longrightarrow> declared user_table e' = (meth, p)" for p
    using table_entries(1) by auto
  have t: "(meth, p, d') \<in> set task_table \<Longrightarrow> declared task_table d' = (meth, p)" for p
    using table_entries(2) by auto
  have r: "find_route user_table (fst (declared user_table e)) (path_parts (url_for user_table e xs)) = Some (e, xs)"
    unfolding parts_of_url [OF assms(1) table_plain(1)] by (rule user_found [OF assms(1,2)])
  have q: "find_route task_table (fst (declared task_table d)) (path_parts (url_for task_table d ys)) = Some (d, ys)"
    unfolding parts_of_url [OF assms(3) table_plain(2)] by (rule task_found [OF assms(3)])
  have f: "fst (declared user_table e') = meth \<and> fill_parts (snd (declared user_table e')) zs = parts"
    if "find_route user_table meth parts = Some (e', zs)"
    using found_declared [OF that] u by auto
  have g: "fst (declared task_table d') = meth \<and> fill_parts (snd (declared task_table d')) zs = parts"
    if "find_route task_table meth parts = Some (d', zs)"
    using found_declared [OF that] t by auto
  show ?thesis using r q me f g by blast
qed

theorem routes_reached_witness:
  "find_route user_table ''POST'' (path_parts ''/api/v1/users/admin/users/7/promote'') = Some (PostPromote, [''7'']) \<and>
   find_route task_table ''GET'' (path_parts ''/api/v1/tasks/'') = Some (GetTasks, [])"
proof -
  have g: "good_params user_table PostPromote [''7'']" "good_params task_table GetTasks []"
    by (simp_all add: good_params_def declared_user declared_task api_path_def)
  have u: "url_for user_table PostPromote [''7''] = ''/api/v1/users/admin/users/7/promote''"
    "url_for task_table GetTasks [] = ''/api/v1/tasks/''"
    by (simp_all add: url_for_def declared_user declared_task api_path_def)
  show ?thesis
    using routes_reached [OF g(1) _ g(2)] unfolding u by (simp add: declared_user declared_task)
qed

end
