(* ===== verification/GatewayAuth.thy ===== *)
theory GatewayAuth
  imports Keyring Http
begin

text \<open>
  The gateway's JWT middleware (\<^verbatim>\<open>middleware/auth.py\<close>). The JWT library is two arguments:
  \<open>unverified\<close>, the \<open>kid\<close> of a token's header (the library passes it on only as a string), and
  \<open>decode\<close>, the verified claims of a token under a secret and a list of algorithms. Nothing is
  assumed about them.
\<close>

datatype header_result = Kid "string option" | MalformedHeader

datatype decode_result =
    Claims "(string \<times> json) list"
  | ExpiredSignature
  | InvalidToken
  | DecodeRaises string

record jwt_settings =
  cfg_jwt_secret :: string
  cfg_jwt_algorithm :: string
  cfg_jwt_secrets :: string

record auth_mw =
  am_exempt_paths :: "string list"
  am_exempt_prefixes :: "string list"

definition JWTAuthMiddleware :: "string list option \<Rightarrow> string list option \<Rightarrow> auth_mw" where
  "JWTAuthMiddleware paths prefixes =
     \<lparr>am_exempt_paths = (case paths of None \<Rightarrow> [] | Some ps \<Rightarrow> ps),
      am_exempt_prefixes = (case prefixes of None \<Rightarrow> [] | Some ps \<Rightarrow> ps)\<rparr>"

definition is_exempt :: "auth_mw \<Rightarrow> string \<Rightarrow> bool" where
  "is_exempt mw path \<longleftrightarrow>
     path \<in> set (am_exempt_paths mw) \<or> list_ex (\<lambda>p. starts_with p path) (am_exempt_prefixes mw)"

text \<open>
  \<^verbatim>\<open>uuid.UUID(str(raw_sub))\<close>: only texts and integers print as something \<^verbatim>\<open>uuid.UUID\<close> may accept;
  the printed forms of the other JSON values have the wrong length or a bracket or quote in them.
\<close>

definition sub_uuid :: "json \<Rightarrow> uuid option" where
  "sub_uuid raw_sub =
     (case raw_sub of
        JStr s \<Rightarrow> uuid_parse s
      | JInt i \<Rightarrow> uuid_parse (str_int i)
      | _ \<Rightarrow> None)"

definition auth_error :: "nat \<Rightarrow> string \<Rightarrow> response" where
  "auth_error st d = JSONResponse st (detail_body d) []"

definition auth_dispatch ::
  "(string \<Rightarrow> header_result) \<Rightarrow> (string \<Rightarrow> string \<Rightarrow> string list \<Rightarrow> decode_result) \<Rightarrow> jwt_settings \<Rightarrow>
   auth_mw \<Rightarrow> 'w handler \<Rightarrow> 'w handler" where
  "auth_dispatch unverified decode cfg mw call_next r w =
     (if is_exempt mw (req_path r) then call_next r w
      else
        (let auth_header = hget_or (req_headers r) ''Authorization'' [] in
         if \<not> starts_with ''bearer '' (py_lower auth_header) then
           (Inr (JSONResponse 401 (detail_body ''Missing or invalid Authorization header'')
                   [(''WWW-Authenticate'', ''Bearer'')]), w)
         else
           (let token = py_strip (drop 7 auth_header) in
            case unverified token of
              MalformedHeader \<Rightarrow> (Inr (auth_error 401 ''Invalid token''), w)
            | Kid kid \<Rightarrow>
                (case parse_keyring (cfg_jwt_secrets cfg) (cfg_jwt_secret cfg) ''default'' of
                   Inl _ \<Rightarrow> (Inr (auth_error 500 ''Server misconfigured''), w)
                 | Inr ring \<Rightarrow>
                     (case select_verification_key ring kid of
                        None \<Rightarrow> (Inr (auth_error 401 ''Invalid token''), w)
                      | Some secret \<Rightarrow>
                          (case decode token secret [cfg_jwt_algorithm cfg] of
                             ExpiredSignature \<Rightarrow> (Inr (auth_error 401 ''Token expired''), w)
                           | InvalidToken \<Rightarrow> (Inr (auth_error 401 ''Invalid token''), w)
                           | DecodeRaises e \<Rightarrow> (Inl (ServerError e), w)
                           | Claims payload \<Rightarrow>
                               (let raw_sub = (case map_of payload ''sub'' of Some v \<Rightarrow> v | None \<Rightarrow> JStr []) in
                                case sub_uuid raw_sub of
                                  None \<Rightarrow> (Inr (auth_error 401 ''Invalid token claims''), w)
                                | Some user_uuid \<Rightarrow>
                                    call_next
                                      (r\<lparr>st_user_id := Some (uuid_str user_uuid),
                                         st_user_email := map_of payload ''email'',
                                         st_user_roles :=
                                           Some (case map_of payload ''roles'' of
                                                   Some v \<Rightarrow> v | None \<Rightarrow> JArr [])\<rparr>) w)))))))"

section \<open>The gate\<close>

text \<open>What an accepted request has shown: a token that verifies under the ring's key for its kid.\<close>

definition authenticates ::
  "(string \<Rightarrow> header_result) \<Rightarrow> (string \<Rightarrow> string \<Rightarrow> string list \<Rightarrow> decode_result) \<Rightarrow> jwt_settings \<Rightarrow>
   request \<Rightarrow> uuid \<Rightarrow> (string \<times> json) list \<Rightarrow> bool" where
  "authenticates unverified decode cfg r u payload \<longleftrightarrow>
     (\<exists>token kid ring secret.
        starts_with ''bearer '' (py_lower (hget_or (req_headers r) ''Authorization'' [])) \<and>
        token = py_strip (drop 7 (hget_or (req_headers r) ''Authorization'' [])) \<and>
        unverified token = Kid kid \<and>
        parse_keyring (cfg_jwt_secrets cfg) (cfg_jwt_secret cfg) ''default'' = Inr ring \<and>
        select_verification_key ring kid = Some secret \<and>
        decode token secret [cfg_jwt_algorithm cfg] = Claims payload \<and>
        sub_uuid (case map_of payload ''sub'' of Some v \<Rightarrow> v | None \<Rightarrow> JStr []) = Some u)"

definition with_identity :: "uuid \<Rightarrow> (string \<times> json) list \<Rightarrow> request \<Rightarrow> request" where
  "with_identity u payload r =
     r\<lparr>st_user_id := Some (uuid_str u), st_user_email := map_of payload ''email'',
       st_user_roles := Some (case map_of payload ''roles'' of Some v \<Rightarrow> v | None \<Rightarrow> JArr [])\<rparr>"

lemma auth_dispatch_cases:
  fixes h :: "'w handler"
  obtains (exempt) "is_exempt mw (req_path r)"
      "auth_dispatch unverified decode cfg mw h r w = h r w"
  | (passed) u payload where "\<not> is_exempt mw (req_path r)"
      "authenticates unverified decode cfg r u payload"
      "\<And>(h :: 'w handler) w. auth_dispatch unverified decode cfg mw h r w = h (with_identity u payload r) w"
  | (refused) x where "\<not> is_exempt mw (req_path r)"
      "\<And>(h :: 'w handler) w. auth_dispatch unverified decode cfg mw h r w = (x, w)"
      "(\<exists>resp. x = Inr resp \<and> resp_status resp \<in> {401, 500} \<and>
          set (resp_headers resp) \<subseteq> {(''WWW-Authenticate'', ''Bearer'')}) \<or>
       (\<exists>e. x = Inl (ServerError e))"
proof (cases "is_exempt mw (req_path r)")
  case True
  then show thesis by (rule exempt) (simp add: auth_dispatch_def True)
next
  case False
  note [simp] = auth_dispatch_def auth_error_def Let_def
  let ?hd = "hget_or (req_headers r) ''Authorization'' []"
  let ?tok = "py_strip (drop 7 ?hd)"
  show thesis
  proof (cases "starts_with ''bearer '' (py_lower ?hd)")
    case bearer: True
    show thesis
    proof (cases "unverified ?tok")
      case (Kid kid)
      show thesis
      proof (cases "parse_keyring (cfg_jwt_secrets cfg) (cfg_jwt_secret cfg) ''default''")
        case (Inr ring)
        show thesis
        proof (cases "select_verification_key ring kid")
          case (Some secret)
          show thesis
          proof (cases "decode ?tok secret [cfg_jwt_algorithm cfg]")
            case (Claims payload)
            show thesis
            proof (cases "sub_uuid (case map_of payload ''sub'' of Some v \<Rightarrow> v | None \<Rightarrow> JStr [])")
              case (Some u)
              show thesis
              proof (rule passed [OF False])
                show "authenticates unverified decode cfg r u payload"
                  unfolding authenticates_def
                  using bearer Kid Inr \<open>select_verification_key ring kid = Some secret\<close> Claims Some
                  by blast
                show "auth_dispatch unverified decode cfg mw h r w = h (with_identity u payload r) w"
                  for h :: "'w handler" and w
                  using False bearer Kid Inr \<open>select_verification_key ring kid = Some secret\<close> Claims Some
                  by (simp add: with_identity_def)
              qed
            qed (rule refused [OF False], use False bearer Kid Inr Some Claims in auto)
          qed (rule refused [OF False], use False bearer Kid Inr Some in auto)+
        qed (rule refused [OF False], use False bearer Kid Inr in auto)
      qed (rule refused [OF False], use False bearer Kid in auto)
    qed (rule refused [OF False], use False bearer in auto)
  qed (rule refused [OF False], use False in auto)
qed

lemma authenticates_passes:
  assumes "\<not> is_exempt mw (req_path r)" "authenticates unverified decode cfg r u payload"
  shows "auth_dispatch unverified decode cfg mw h r w = h (with_identity u payload r) w"
  using assms by (auto simp: authenticates_def auth_dispatch_def with_identity_def Let_def)

text \<open>
  C5: The gateway's gate. On a path that is not exempt the application runs exactly when the request
  carries a bearer token whose kid names a key of the ring, that verifies under this key, and whose
  subject is a UUID; it then sees this UUID in canonical form, and the token's e-mail and roles, as
  the request's identity, whatever the request said before. Otherwise the answer is a 401 or a 500
  and the application does not run.
\<close>
theorem auth_gate:
  fixes h :: "'w handler"
  assumes "\<not> is_exempt mw (req_path r)"
  shows "(\<exists>u payload. authenticates unverified decode cfg r u payload \<and>
       auth_dispatch unverified decode cfg mw h r w = h (with_identity u payload r) w) \<or>
    ((\<nexists>u payload. authenticates unverified decode cfg r u payload) \<and>
       (\<exists>x. auth_dispatch unverified decode cfg mw h r w = (x, w) \<and>
          ((\<exists>resp. x = Inr resp \<and> resp_status resp \<in> {401, 500}) \<or> (\<exists>e. x = Inl (ServerError e)))))"
proof (cases "\<exists>u payload. authenticates unverified decode cfg r u payload")
  case True
  then obtain u payload where a: "authenticates unverified decode cfg r u payload" by blast
  show ?thesis
    by (rule disjI1, intro exI conjI, rule a, rule authenticates_passes [OF assms a])
next
  case False
  show ?thesis
  proof (rule auth_dispatch_cases [of mw r unverified decode cfg h w])
    assume "is_exempt mw (req_path r)"
    with assms show ?thesis by blast
  next
    fix u payload
    assume "authenticates unverified decode cfg r u payload"
    with False show ?thesis by blast
  next
    fix x
    assume e: "\<And>(h :: 'w handler) w. auth_dispatch unverified decode cfg mw h r w = (x, w)"
      and x: "(\<exists>resp. x = Inr resp \<and> resp_status resp \<in> {401, 500} \<and>
          set (resp_headers resp) \<subseteq> {(''WWW-Authenticate'', ''Bearer'')}) \<or>
        (\<exists>e. x = Inl (ServerError e))"
    from x have x': "(\<exists>resp. x = Inr resp \<and> resp_status resp \<in> {401, 500}) \<or> (\<exists>e. x = Inl (ServerError e))"
      by blast
    show ?thesis by (rule disjI2, rule conjI [OF False], rule exI [of _ x], rule conjI [OF e x'])
  qed
qed

definition demo_jwt :: jwt_settings where
  "demo_jwt = \<lparr>cfg_jwt_secret = ''legacy'', cfg_jwt_algorithm = ''HS256'', cfg_jwt_secrets = []\<rparr>"

definition demo_token_request :: request where
  "demo_token_request = plain_request ''GET'' ''/api/v1/tasks'' [(''authorization'', ''Bearer t1'')]"

definition demo_decode :: "string \<Rightarrow> string \<Rightarrow> string list \<Rightarrow> decode_result" where
  "demo_decode token secret algs =
     (if token = ''t1'' \<and> secret = ''legacy''
      then Claims [(''sub'', JStr (uuid_str 7)), (''email'', JStr ''a@b.c'')] else InvalidToken)"

lemma demo_authenticates:
  "authenticates (\<lambda>_. Kid None) demo_decode demo_jwt demo_token_request 7
     [(''sub'', JStr (uuid_str 7)), (''email'', JStr ''a@b.c'')]"
proof -
  have "hget_or (req_headers demo_token_request) ''Authorization'' [] = ''Bearer t1''"
    by code_simp
  moreover have "starts_with ''bearer '' (py_lower ''Bearer t1'')" "py_strip (drop 7 ''Bearer t1'') = ''t1''"
    by code_simp+
  ultimately show ?thesis
    by (simp add: authenticates_def demo_jwt_def parse_keyring_def select_verification_key_def
        demo_decode_def sub_uuid_def)
qed

theorem auth_gate_witness:
  "\<exists>u payload. authenticates (\<lambda>_. Kid None) demo_decode demo_jwt demo_token_request u payload \<and>
     auth_dispatch (\<lambda>_. Kid None) demo_decode demo_jwt (JWTAuthMiddleware None None)
       (\<lambda>r' n. (Inr (JSONResponse 200 JNull []), Suc n)) demo_token_request 0 =
     (\<lambda>r' n. (Inr (JSONResponse 200 JNull []), Suc n)) (with_identity u payload demo_token_request) 0"
  using auth_gate [of "JWTAuthMiddleware None None" demo_token_request "\<lambda>_. Kid None" demo_decode demo_jwt
      "\<lambda>r' n. (Inr (JSONResponse 200 JNull []), Suc n)" 0] demo_authenticates
  by (simp add: is_exempt_def JWTAuthMiddleware_def) blast

end
