(* ===== verification/RateLimiter.thy ===== *)
theory RateLimiter
  imports Http
begin

text \<open>
  The gateway's rate limiter (\<^verbatim>\<open>middleware/rate_limiter.py\<close>): the in-memory sliding window with
  its LRU table, the Redis store behind a pipeline, and the dispatch that checks the per-IP and
  the per-user budget. Clock readings are arguments. The Redis server is the argument \<open>exec\<close>,
  which runs a transaction and returns its replies, \<^const>\<open>None\<close> for an exception.

  What dispatch relies on is the locale \<open>window_store\<close>; both stores are interpretations of it.
\<close>

definition MAX_TRACKED_IPS :: nat where
  "MAX_TRACKED_IPS = 10000"

definition auth_paths :: "string list" where
  "auth_paths = [''/api/v1/auth/login'', ''/api/v1/auth/register'']"

definition exempt_paths :: "string list" where
  "exempt_paths = [''/health'', ''/health/ready'', ''/metrics'']"

text \<open>\<^verbatim>\<open>\w\<close> of Python's \<^verbatim>\<open>re\<close> on code points below 256.\<close>

definition re_word :: "char \<Rightarrow> bool" where
  "re_word c =
     (let n = (of_char c :: nat) in
      (48 \<le> n \<and> n \<le> 57) \<or> (65 \<le> n \<and> n \<le> 90) \<or> n = 95 \<or> (97 \<le> n \<and> n \<le> 122) \<or>
      n \<in> set [170, 178, 179, 181, 185, 186, 188, 189, 190] \<or>
      (192 \<le> n \<and> n \<noteq> 215 \<and> n \<noteq> 247))"

text \<open>\<^verbatim>\<open>^[\<dots>]{1,n}$\<close> under \<^verbatim>\<open>re.match\<close>: \<^verbatim>\<open>$\<close> also matches before one final newline.\<close>

definition re_class_upto :: "(char \<Rightarrow> bool) \<Rightarrow> nat \<Rightarrow> string \<Rightarrow> bool" where
  "re_class_upto p n s =
     (let ok = (\<lambda>t. 1 \<le> length t \<and> length t \<le> n \<and> list_all p t)
      in ok s \<or> (s \<noteq> [] \<and> last s = CHR 0x0A \<and> ok (butlast s)))"

definition ip_re :: "string \<Rightarrow> bool" where
  "ip_re s = re_class_upto (\<lambda>c. re_word c \<or> c \<in> set '':.[]%-'') 64 s"

definition extract_client_ip :: "request \<Rightarrow> string" where
  "extract_client_ip r =
     (let real_ip = py_strip (hget_or (req_headers r) ''x-real-ip'' []) in
      if real_ip \<noteq> [] \<and> ip_re real_ip then real_ip
      else
        (let fallback = (case req_client r of Some h \<Rightarrow> h | None \<Rightarrow> ''unknown'') in
         if \<not> ip_re fallback then ''unknown'' else fallback))"

section \<open>The in-memory store\<close>

type_synonym buckets = "(string, pyfloat list) dict"

definition get_bucket :: "string \<Rightarrow> buckets \<Rightarrow> pyfloat list \<times> buckets" where
  "get_bucket key bs =
     (case map_of bs key of
        Some bucket \<Rightarrow> (bucket, AList.delete key bs @ [(key, bucket)])
      | None \<Rightarrow>
          (let bs' = (if length bs \<ge> MAX_TRACKED_IPS then drop 1 bs else bs)
           in ([], bs' @ [(key, [])])))"

definition mem_check :: "pyfloat \<Rightarrow> string \<Rightarrow> int \<Rightarrow> int \<Rightarrow> buckets \<Rightarrow> (bool \<times> int) \<times> buckets" where
  "mem_check now key limit window_seconds bs =
     (let (bucket, bs') = get_bucket key bs;
          bucket' = dropWhile (\<lambda>t. t < now - of_int window_seconds) bucket @ [now];
          count = int (length bucket')
      in ((count > limit, count), AList.update key bucket' bs'))"

section \<open>The Redis store\<close>

datatype redis_cmd =
    ZREMRANGEBYSCORE string pyfloat
  | ZADD string string pyfloat
  | ZCARD string
  | EXPIRE string int

definition redis_check ::
  "(redis_cmd list \<Rightarrow> 'r \<Rightarrow> nat list option \<times> 'r) \<Rightarrow> string \<Rightarrow>
   pyfloat \<Rightarrow> string \<Rightarrow> int \<Rightarrow> int \<Rightarrow> 'r \<Rightarrow> (bool \<times> int) \<times> 'r" where
  "redis_check exec member now key limit window_seconds rs =
     (let window_start = now - of_int window_seconds in
      case exec [ZREMRANGEBYSCORE key window_start, ZADD key member now, ZCARD key,
                 EXPIRE key (window_seconds + 1)] rs of
        (None, rs') \<Rightarrow> ((False, 0), rs')
      | (Some results, rs') \<Rightarrow>
          if length results \<le> 2 then ((False, 0), rs')
          else (let count = int (results ! 2) in ((count > limit, count), rs')))"

section \<open>What the middleware relies on\<close>

locale window_store =
  fixes check :: "pyfloat \<Rightarrow> string \<Rightarrow> int \<Rightarrow> int \<Rightarrow> 's \<Rightarrow> (bool \<times> int) \<times> 's"
  assumes verdict: "0 \<le> limit \<Longrightarrow> check now key limit w s = ((over, n), s') \<Longrightarrow> over \<longleftrightarrow> limit < n"
    and count_nonneg: "check now key limit w s = ((over, n), s') \<Longrightarrow> 0 \<le> n"
begin

lemma remaining_bounds:
  assumes "0 \<le> limit" "check now key limit w s = ((over, n), s')"
  shows "0 \<le> max 0 (limit - n)" "max 0 (limit - n) \<le> limit"
    "\<not> over \<Longrightarrow> max 0 (limit - n) = limit - n" "over \<Longrightarrow> max 0 (limit - n) = 0"
  using verdict [OF assms] count_nonneg [OF assms(2)] assms(1) by auto

end

interpretation mem: window_store mem_check
  by unfold_locales (auto simp: mem_check_def Let_def split: prod.splits)

interpretation redis: window_store "redis_check exec member" for exec member
  by unfold_locales (auto simp: redis_check_def Let_def split: prod.splits option.splits if_splits)

section \<open>The middleware\<close>

datatype 'r store = RedisStore 'r | InMemoryStore buckets

record 'r limiter =
  rl_max_requests :: int
  rl_window_seconds :: int
  rl_auth_max_requests :: int
  rl_user_max_requests :: int
  rl_redis_url :: "string option"
  rl_store :: "'r store option"

text \<open>
  What one request reads from outside: the wall clock when the reset time is computed, and the
  clock and the fresh member id at each of the two checks.
\<close>

record rl_env =
  en_wall :: pyfloat
  en_ip_now :: pyfloat
  en_ip_member :: string
  en_user_now :: pyfloat
  en_user_member :: string

text \<open>\<open>connect url\<close> is the client after a successful ping, \<^const>\<open>None\<close> if connecting raises.\<close>

definition get_store :: "(string \<Rightarrow> 'r option) \<Rightarrow> 'r limiter \<Rightarrow> 'r store \<times> 'r limiter" where
  "get_store connect rl =
     (case rl_store rl of
        Some st \<Rightarrow> (st, rl)
      | None \<Rightarrow>
          (let st = (case rl_redis_url rl of
                       None \<Rightarrow> InMemoryStore []
                     | Some url \<Rightarrow>
                         if url = [] then InMemoryStore []
                         else (case connect url of
                                 Some c \<Rightarrow> RedisStore c
                               | None \<Rightarrow> InMemoryStore []))
           in (st, rl\<lparr>rl_store := Some st\<rparr>)))"

definition store_check ::
  "(redis_cmd list \<Rightarrow> 'r \<Rightarrow> nat list option \<times> 'r) \<Rightarrow> string \<Rightarrow>
   pyfloat \<Rightarrow> string \<Rightarrow> int \<Rightarrow> int \<Rightarrow> 'r store \<Rightarrow> (bool \<times> int) \<times> 'r store" where
  "store_check exec member now key limit w st =
     (case st of
        InMemoryStore bs \<Rightarrow> (case mem_check now key limit w bs of (x, bs') \<Rightarrow> (x, InMemoryStore bs'))
      | RedisStore r \<Rightarrow> (case redis_check exec member now key limit w r of (x, r') \<Rightarrow> (x, RedisStore r')))"

interpretation st: window_store "store_check exec member" for exec member
  by unfold_locales
     (auto simp: store_check_def split: store.splits prod.splits dest: mem.verdict redis.verdict
       mem.count_nonneg redis.count_nonneg)

definition rate_limited :: "int \<Rightarrow> int \<Rightarrow> int \<Rightarrow> string \<Rightarrow> response" where
  "rate_limited window_seconds reported_limit reset_ts which =
     JSONResponse 429 (detail_body ''Rate limit exceeded. Try again later.'')
       [(''Retry-After'', str_int window_seconds),
        (''X-RateLimit-Limit'', str_int reported_limit),
        (''X-RateLimit-Remaining'', ''0''),
        (''X-RateLimit-Reset'', str_int reset_ts),
        (''X-RateLimit-Scope'', which)]"

definition limit_headers :: "int \<Rightarrow> int \<Rightarrow> string \<Rightarrow> int \<Rightarrow> response \<Rightarrow> response" where
  "limit_headers limit remaining scope reset_ts resp =
     set_header ''X-RateLimit-Reset'' (str_int reset_ts)
       (set_header ''X-RateLimit-Scope'' scope
         (set_header ''X-RateLimit-Remaining'' (str_int remaining)
           (set_header ''X-RateLimit-Limit'' (str_int limit) resp)))"

definition limiter_dispatch ::
  "(redis_cmd list \<Rightarrow> 'r \<Rightarrow> nat list option \<times> 'r) \<Rightarrow> (string \<Rightarrow> 'r option) \<Rightarrow> rl_env \<Rightarrow>
   'w handler \<Rightarrow> request \<Rightarrow> 'r limiter \<times> 'w \<Rightarrow> (http_error + response) \<times> 'r limiter \<times> 'w" where
  "limiter_dispatch exec connect en call_next r lw =
     (let (rl, w) = lw in
      if req_path r \<in> set exempt_paths then (let (x, w') = call_next r w in (x, rl, w'))
      else
        (let client_ip = extract_client_ip r;
             is_auth_path = req_path r \<in> set auth_paths;
             scope = (if is_auth_path then ''auth'' else ''general'');
             ip_limit = (if is_auth_path then rl_auth_max_requests rl else rl_max_requests rl);
             ip_key = ''rate:'' @ scope @ '':'' @ client_ip;
             reset_ts = \<lfloor>en_wall en\<rfloor> + rl_window_seconds rl;
             (st0, rl0) = get_store connect rl;
             ((ip_over, ip_count), st1) =
               store_check exec (en_ip_member en) (en_ip_now en) ip_key ip_limit (rl_window_seconds rl) st0;
             ip_remaining = max 0 (ip_limit - ip_count);
             user_id = (case st_user_id r of Some u \<Rightarrow> u | None \<Rightarrow> []);
             ((user_over, user_remaining), st2) =
               (if user_id \<noteq> [] then
                  (let ((o2, user_count), s2) =
                         store_check exec (en_user_member en) (en_user_now en) (''rate:user:'' @ user_id)
                           (rl_user_max_requests rl) (rl_window_seconds rl) st1
                   in ((o2, max 0 (rl_user_max_requests rl - user_count)), s2))
                else ((False, rl_user_max_requests rl), st1));
             rl' = rl0\<lparr>rl_store := Some st2\<rparr>
         in
           if ip_over \<or> user_over then
             (Inr (rate_limited (rl_window_seconds rl)
                     (if ip_over then ip_limit else rl_user_max_requests rl) reset_ts
                     (if ip_over then ''ip'' else ''user'')), rl', w)
           else
             (let (x, w') =
                map_response
                  (\<lambda>resp.
                     if user_id \<noteq> [] \<and> user_remaining < ip_remaining
                     then limit_headers (rl_user_max_requests rl) user_remaining ''user'' reset_ts resp
                     else limit_headers ip_limit ip_remaining ''ip'' reset_ts resp)
                  (call_next r w)
              in (x, rl', w'))))"

section \<open>The sliding window is exact\<close>

text \<open>The table after a sequence of requests, each with its clock reading and key.\<close>

definition mem_hits :: "int \<Rightarrow> (pyfloat \<times> string) list \<Rightarrow> buckets" where
  "mem_hits w hist = foldl (\<lambda>bs (now, key). snd (mem_check now key 0 w bs)) [] hist"

definition times_of :: "string \<Rightarrow> (pyfloat \<times> string) list \<Rightarrow> pyfloat list" where
  "times_of key hist = map fst (filter (\<lambda>(_, k). k = key) hist)"

text \<open>The reference: how many requests of the key, this one included, the window holds.\<close>

definition window_count :: "int \<Rightarrow> (pyfloat \<times> string) list \<Rightarrow> pyfloat \<Rightarrow> string \<Rightarrow> int" where
  "window_count w hist now key =
     int (length (filter (\<lambda>t. now - of_int w \<le> t) (times_of key hist))) + 1"

lemma mem_hits_Nil [simp]: "mem_hits w [] = []"
  by (simp add: mem_hits_def)

lemma mem_hits_snoc [simp]:
  "mem_hits w (hist @ [(now, key)]) = snd (mem_check now key 0 w (mem_hits w hist))"
  by (simp add: mem_hits_def)

lemma mem_check_state: "snd (mem_check now key limit w bs) = snd (mem_check now key 0 w bs)"
  by (simp add: mem_check_def Let_def split: prod.splits)

lemma sorted_dropWhile_filter:
  "sorted b \<Longrightarrow> dropWhile (\<lambda>t. t < c) b = filter (\<lambda>t. c \<le> t) (b :: pyfloat list)"
proof (induction b)
  case (Cons a b)
  show ?case
  proof (cases "a < c")
    case False
    with Cons.prems have "\<forall>t\<in>set (a # b). c \<le> t" by auto
    then have "filter (\<lambda>t. c \<le> t) (a # b) = a # b" by (rule filter_True)
    with False show ?thesis by simp
  qed (use Cons in auto)
qed simp

lemma get_bucket_keys:
  "map fst (snd (get_bucket key bs)) =
     (if key \<in> set (map fst bs) then removeAll key (map fst bs)
      else drop (if MAX_TRACKED_IPS \<le> length bs then 1 else 0) (map fst bs)) @ [key]"
proof (cases "map_of bs key")
  case None
  then have "key \<notin> set (map fst bs)" by (simp add: map_of_eq_None_iff)
  with None show ?thesis by (simp add: get_bucket_def Let_def drop_map)
next
  case (Some b)
  then have "key \<in> set (map fst bs)" by (metis map_of_eq_None_iff list.set_map option.distinct(1))
  with Some show ?thesis by (simp add: get_bucket_def delete_keys)
qed

lemma update_present_keys: "key \<in> set (map fst bs) \<Longrightarrow> map fst (AList.update key v bs) = map fst bs"
  by (induction bs) auto

lemma mem_check_keys:
  "map fst (snd (mem_check now key limit w bs)) = map fst (snd (get_bucket key bs))"
proof -
  have "key \<in> set (map fst (snd (get_bucket key bs)))"
    by (simp only: get_bucket_keys) simp
  then show ?thesis
    by (cases "get_bucket key bs") (simp add: mem_check_def Let_def update_present_keys)
qed

definition lastn :: "nat \<Rightarrow> 'a list \<Rightarrow> 'a list" where
  "lastn n xs = drop (length xs - n) xs"

lemma remdups_snoc: "remdups (xs @ [x]) = removeAll x (remdups xs) @ [x]"
  by (induction xs) auto

lemma lastn_append: "length zs = n \<Longrightarrow> lastn n (ys @ zs) = zs"
  by (simp add: lastn_def)

lemma lastn_short: "length zs \<le> n \<Longrightarrow> lastn n zs = zs"
  by (simp add: lastn_def)

lemma lastn_split: "xs = take (length xs - n) xs @ lastn n xs"
  by (simp only: lastn_def append_take_drop_id)

lemma length_removeAll_distinct:
  "distinct zs \<Longrightarrow> x \<in> set zs \<Longrightarrow> Suc (length (removeAll x zs)) = length zs"
  using length_pos_if_in_set [of x zs]
  by (simp add: distinct_remove1_removeAll [symmetric] length_remove1)

text \<open>Moving a key to the end of the recency order, seen through the window of the last n.\<close>

lemma lastn_touch:
  assumes "distinct R" "0 < n"
  defines "K \<equiv> lastn n R"
  shows "lastn n (removeAll k R @ [k]) =
    (if k \<in> set K then removeAll k K else drop (if n \<le> length K then 1 else 0) K) @ [k]"
proof -
  define Y where "Y = take (length R - n) R"
  have R: "R = Y @ K" unfolding Y_def K_def by (rule lastn_split)
  have len: "length K = min n (length R)" by (simp add: K_def lastn_def)
  show ?thesis
  proof (cases "k \<in> set K")
    case True
    with assms(1) R have "k \<notin> set Y" "distinct K" by auto
    with True have l: "Suc (length (removeAll k K)) = length K"
      by (intro length_removeAll_distinct) auto
    have e: "removeAll k R @ [k] = Y @ (removeAll k K @ [k])"
      using R \<open>k \<notin> set Y\<close> by simp
    show ?thesis
    proof (cases "n \<le> length R")
      case True
      with len l have "length (removeAll k K @ [k]) = n" by simp
      then show ?thesis using \<open>k \<in> set K\<close> by (simp only: e lastn_append) simp
    next
      case False
      with Y_def have "Y = []" by simp
      moreover have "length (removeAll k K @ [k]) \<le> n" using False len l by simp
      ultimately show ?thesis using \<open>k \<in> set K\<close> by (simp only: e lastn_short append_Nil) simp
    qed
  next
    case False
    then have e: "removeAll k R @ [k] = removeAll k Y @ K @ [k]"
      using R by (simp add: removeAll_id)
    show ?thesis
    proof (cases "n \<le> length R")
      case True
      with len have l: "length K = n" by simp
      with assms(2) obtain z zs where K: "K = z # zs" by (cases K) auto
      have "lastn n ((removeAll k Y @ [z]) @ (zs @ [k])) = zs @ [k]"
        by (rule lastn_append) (use l K in simp)
      with False l K e show ?thesis by simp
    next
      case False
      with Y_def have "Y = []" by simp
      then show ?thesis using e False len \<open>k \<notin> set K\<close> by (simp add: lastn_short)
    qed
  qed
qed

lemma mem_hits_keys:
  "map fst (mem_hits w hist) = lastn MAX_TRACKED_IPS (remdups (map snd hist))"
proof (induction hist rule: rev_induct)
  case Nil
  show ?case by (simp add: lastn_def)
next
  case (snoc x hist)
  obtain now k where x: "x = (now, k)" by (cases x)
  define K where "K = map fst (mem_hits w hist)"
  have "map fst (mem_hits w (hist @ [x])) =
      (if k \<in> set K then removeAll k K
       else drop (if MAX_TRACKED_IPS \<le> length K then 1 else 0) K) @ [k]"
    by (simp only: x mem_hits_snoc mem_check_keys get_bucket_keys K_def length_map)
  also have "\<dots> = lastn MAX_TRACKED_IPS (removeAll k (remdups (map snd hist)) @ [k])"
    using lastn_touch [of "remdups (map snd hist)" MAX_TRACKED_IPS k] snoc
    by (simp add: K_def MAX_TRACKED_IPS_def)
  also have "\<dots> = lastn MAX_TRACKED_IPS (remdups (map snd (hist @ [x])))"
    by (simp add: x remdups_snoc)
  finally show ?case .
qed

lemma mem_hits_length: "length (mem_hits w hist) \<le> MAX_TRACKED_IPS"
  using arg_cong [OF mem_hits_keys [of w hist], of length] by (simp add: lastn_def)

lemma mem_hits_distinct: "distinct (map fst (mem_hits w hist))"
  by (simp only: mem_hits_keys lastn_def) simp

definition bucket_of :: "buckets \<Rightarrow> string \<Rightarrow> pyfloat list" where
  "bucket_of bs key = (case map_of bs key of None \<Rightarrow> [] | Some b \<Rightarrow> b)"

lemma mem_check_count:
  "fst (mem_check now key limit w bs) =
     (let n = int (length (dropWhile (\<lambda>t. t < now - of_int w) (bucket_of bs key))) + 1
      in (limit < n, n))"
  by (auto simp: mem_check_def get_bucket_def bucket_of_def Let_def split: option.splits)

lemma mem_check_bucket:
  assumes "map_of bs k \<noteq> None \<or> length bs < MAX_TRACKED_IPS"
  shows "bucket_of (snd (mem_check t k limit w bs)) k' =
    (if k' = k then dropWhile (\<lambda>u. u < t - of_int w) (bucket_of bs k) @ [t] else bucket_of bs k')"
  using assms
  by (auto simp: mem_check_def get_bucket_def bucket_of_def Let_def map_add_def
      split: option.splits)

lemma times_of_snoc:
  "times_of key (hist @ [(t, k)]) = times_of key hist @ (if k = key then [t] else [])"
  by (simp add: times_of_def)

lemma mem_hits_room:
  assumes "card (set (map snd (hist @ [(t, k)]))) \<le> MAX_TRACKED_IPS"
  shows "map_of (mem_hits w hist) k \<noteq> None \<or> length (mem_hits w hist) < MAX_TRACKED_IPS"
proof (cases "k \<in> set (map snd hist)")
  case True
  have "card (set (map snd hist)) \<le> card (set (map snd (hist @ [(t, k)])))"
    by (rule card_mono) auto
  with assms have "length (remdups (map snd hist)) \<le> MAX_TRACKED_IPS"
    by (simp add: length_remdups_card_conv)
  then have "map fst (mem_hits w hist) = remdups (map snd hist)"
    by (simp only: mem_hits_keys lastn_short)
  then have "k \<in> fst ` set (mem_hits w hist)"
    using True by (metis list.set_map set_remdups)
  then show ?thesis by (simp add: map_of_eq_None_iff)
next
  case False
  then have "card (set (map snd (hist @ [(t, k)]))) = Suc (card (set (map snd hist)))"
    by simp
  with assms have "length (remdups (map snd hist)) < MAX_TRACKED_IPS"
    by (simp add: length_remdups_card_conv)
  moreover have "length (mem_hits w hist) \<le> length (remdups (map snd hist))"
    using arg_cong [OF mem_hits_keys [of w hist], of length] by (simp add: lastn_def)
  ultimately show ?thesis by simp
qed

lemma mem_hits_window:
  assumes "sorted (map fst hist)" "card (set (map snd hist)) \<le> MAX_TRACKED_IPS"
  shows "sorted (bucket_of (mem_hits w hist) key) \<and>
    set (bucket_of (mem_hits w hist) key) \<subseteq> fst ` set hist \<and>
    (\<forall>now. (\<forall>t\<in>fst ` set hist. t \<le> now) \<longrightarrow>
       filter (\<lambda>t. now - of_int w \<le> t) (bucket_of (mem_hits w hist) key) =
       filter (\<lambda>t. now - of_int w \<le> t) (times_of key hist))"
  using assms
proof (induction hist arbitrary: key rule: rev_induct)
  case Nil
  show ?case by (simp add: bucket_of_def times_of_def)
next
  case (snoc x hist)
  obtain t k where x: "x = (t, k)" by (cases x)
  let ?b = "\<lambda>key. bucket_of (mem_hits w hist) key"
  have "card (set (map snd hist)) \<le> card (set (map snd (hist @ [x])))"
    by (rule card_mono) auto
  with snoc have IH: "sorted (?b key)" "set (?b key) \<subseteq> fst ` set hist"
    "\<And>now. \<forall>t\<in>fst ` set hist. t \<le> now \<Longrightarrow>
       filter (\<lambda>t. now - of_int w \<le> t) (?b key) = filter (\<lambda>t. now - of_int w \<le> t) (times_of key hist)"
    for key by (auto simp: sorted_append)
  from snoc.prems(1) have le: "\<forall>u\<in>fst ` set hist. u \<le> t"
    by (auto simp: x sorted_append)
  have room: "map_of (mem_hits w hist) k \<noteq> None \<or> length (mem_hits w hist) < MAX_TRACKED_IPS"
    using mem_hits_room snoc.prems(2) x by blast
  have b: "bucket_of (mem_hits w (hist @ [x])) key =
      (if key = k then filter (\<lambda>u. t - of_int w \<le> u) (?b k) @ [t] else ?b key)"
    using mem_check_bucket [OF room] by (simp add: x sorted_dropWhile_filter IH(1))
  have below: "\<forall>u\<in>set (?b k). u \<le> t" using IH(2) le by blast
  show ?case
  proof (intro conjI allI impI)
    show "sorted (bucket_of (mem_hits w (hist @ [x])) key)"
      using IH(1) below by (auto simp: b sorted_append sorted_wrt_filter)
    show "set (bucket_of (mem_hits w (hist @ [x])) key) \<subseteq> fst ` set (hist @ [x])"
      unfolding b using IH(2) x by (auto split: if_splits)
    fix now assume now: "\<forall>u\<in>fst ` set (hist @ [x]). u \<le> now"
    then have "t - of_int w \<le> now - of_int w" by (auto simp: x)
    then have f: "filter (\<lambda>u. now - of_int w \<le> u) (filter (\<lambda>u. t - of_int w \<le> u) (?b k)) =
        filter (\<lambda>u. now - of_int w \<le> u) (?b k)"
      by (auto intro!: filter_cong)
    from now have "\<forall>u\<in>fst ` set hist. u \<le> now" by auto
    then show "filter (\<lambda>u. now - of_int w \<le> u) (bucket_of (mem_hits w (hist @ [x])) key) =
        filter (\<lambda>u. now - of_int w \<le> u) (times_of key (hist @ [x]))"
      unfolding b using IH(3) f by (simp add: x times_of_snoc del: filter_filter)
  qed
qed

lemma mem_check_exact:
  assumes "sorted (map fst hist)" "\<forall>t\<in>fst ` set hist. t \<le> now"
    and "card (set (map snd hist)) \<le> MAX_TRACKED_IPS"
  shows "fst (mem_check now key limit w (mem_hits w hist)) =
    (limit < window_count w hist now key, window_count w hist now key)"
  using mem_hits_window [OF assms(1,3), of w key] assms(2)
  by (simp add: mem_check_count sorted_dropWhile_filter window_count_def Let_def)

section \<open>The dispatch over the in-memory store\<close>

text \<open>The names of the verdicts of one request, for the statements below.\<close>

definition ip_key_of :: "request \<Rightarrow> string" where
  "ip_key_of r =
     ''rate:'' @ (if req_path r \<in> set auth_paths then ''auth'' else ''general'') @ '':'' @
     extract_client_ip r"

definition ip_limit_of :: "'r limiter \<Rightarrow> request \<Rightarrow> int" where
  "ip_limit_of rl r =
     (if req_path r \<in> set auth_paths then rl_auth_max_requests rl else rl_max_requests rl)"

lemma store_check_mem:
  "store_check exec member now key limit w (InMemoryStore bs) =
     (fst (mem_check now key limit w bs), InMemoryStore (snd (mem_check now key 0 w bs)))"
  by (simp add: store_check_def mem_check_state [of now key limit] split: prod.splits)
     (metis mem_check_state prod.sel(2))

lemma limiter_exempt:
  "req_path r \<in> set exempt_paths \<Longrightarrow>
   limiter_dispatch exec connect en h r (rl, w) = (let (x, w') = h r w in (x, rl, w'))"
  by (simp add: limiter_dispatch_def)

lemma limiter_dispatch_mem:
  fixes rl :: "'r limiter" and en :: rl_env and r :: request and bs :: buckets
  assumes "rl_store rl = Some (InMemoryStore bs)" "req_path r \<notin> set exempt_paths"
  defines "W \<equiv> rl_window_seconds rl" and "reset \<equiv> \<lfloor>en_wall en\<rfloor> + rl_window_seconds rl"
  defines "c1 \<equiv> mem_check (en_ip_now en) (ip_key_of r) (ip_limit_of rl r) W bs"
  defines "c2 \<equiv> mem_check (en_user_now en) (''rate:user:'' @ user_of r) (rl_user_max_requests rl) W (snd c1)"
  defines "over1 \<equiv> fst (fst c1)" and "over2 \<equiv> user_of r \<noteq> [] \<and> fst (fst c2)"
  defines "rem1 \<equiv> max 0 (ip_limit_of rl r - snd (fst c1))"
    and "rem2 \<equiv> max 0 (rl_user_max_requests rl - snd (fst c2))"
  shows "limiter_dispatch exec connect en h r (rl, w) =
    (let rl' = rl\<lparr>rl_store := Some (InMemoryStore (if user_of r \<noteq> [] then snd c2 else snd c1))\<rparr> in
     if over1 \<or> over2 then
       (Inr (rate_limited W (if over1 then ip_limit_of rl r else rl_user_max_requests rl) reset
               (if over1 then ''ip'' else ''user'')), rl', w)
     else
       (let (x, w') =
          map_response
            (\<lambda>resp. if user_of r \<noteq> [] \<and> rem2 < rem1
               then limit_headers (rl_user_max_requests rl) rem2 ''user'' reset resp
               else limit_headers (ip_limit_of rl r) rem1 ''ip'' reset resp) (h r w)
        in (x, rl', w')))"
proof -
  obtain o1 n1 bs1 where c1: "c1 = ((o1, n1), bs1)" by (metis prod.exhaust)
  obtain o2 n2 bs2 where c2: "c2 = ((o2, n2), bs2)" by (metis prod.exhaust)
  have e1: "mem_check (en_ip_now en) (ip_key_of r) (ip_limit_of rl r) (rl_window_seconds rl) bs =
      ((o1, n1), bs1)"
    using c1 by (simp add: c1_def W_def)
  have e2: "mem_check (en_user_now en) (''rate:user:'' @ user_of r) (rl_user_max_requests rl)
      (rl_window_seconds rl) bs1 = ((o2, n2), bs2)"
    using c2 c1 by (simp add: c2_def W_def)
  have g: "get_store connect rl = (InMemoryStore bs, rl)"
    using assms(1) by (simp add: get_store_def)
  have k: "''rate:'' @ (if req_path r \<in> set auth_paths then ''auth'' else ''general'') @ '':'' @
      extract_client_ip r = ip_key_of r"
    by (simp add: ip_key_of_def)
  have l: "(if req_path r \<in> set auth_paths then rl_auth_max_requests rl else rl_max_requests rl) =
      ip_limit_of rl r"
    by (simp add: ip_limit_of_def)
  have u: "(case st_user_id r of Some u \<Rightarrow> u | None \<Rightarrow> []) = user_of r"
    by (simp add: user_of_def)
  show ?thesis
    unfolding limiter_dispatch_def Let_def prod.case g k l u store_check_def store.case e1
      over1_def over2_def rem1_def rem2_def W_def reset_def c1 c2 fst_conv snd_conv
    using assms(2) e2 by simp
qed

text \<open>
  C1: Over the in-memory store the limiter is exact. For any history of requests in clock order
  that touched at most 10000 keys, a request to a non-exempt path is answered 429, without
  reaching the application, exactly when the requests of its IP (this one included) that lie in
  the window exceed the IP budget, or when it is authenticated and those of its user exceed the
  user budget; otherwise the application runs and the response carries the tighter of the two
  budgets. Rejected requests are recorded like accepted ones.
\<close>
theorem limiter_exact:
  assumes "rl_store rl = Some (InMemoryStore (mem_hits (rl_window_seconds rl) hist))"
    and "req_path r \<notin> set exempt_paths"
    and "sorted (map fst hist)" "\<forall>t\<in>fst ` set hist. t \<le> en_ip_now en"
    and "en_ip_now en \<le> en_user_now en"
    and "card (insert (ip_key_of r) (set (map snd hist))) \<le> MAX_TRACKED_IPS"
  shows "limiter_dispatch exec connect en h r (rl, w) =
    (let W = rl_window_seconds rl;
         reset = \<lfloor>en_wall en\<rfloor> + W;
         user_key = ''rate:user:'' @ user_of r;
         hist1 = hist @ [(en_ip_now en, ip_key_of r)];
         hist2 = (if user_of r \<noteq> [] then hist1 @ [(en_user_now en, user_key)] else hist1);
         n_ip = window_count W hist (en_ip_now en) (ip_key_of r);
         n_user = window_count W hist1 (en_user_now en) user_key;
         ip_limit = ip_limit_of rl r;
         user_limit = rl_user_max_requests rl;
         rl' = rl\<lparr>rl_store := Some (InMemoryStore (mem_hits W hist2))\<rparr>
     in
       if ip_limit < n_ip then (Inr (rate_limited W ip_limit reset ''ip''), rl', w)
       else if user_of r \<noteq> [] \<and> user_limit < n_user then
         (Inr (rate_limited W user_limit reset ''user''), rl', w)
       else
         (let (x, w') =
            map_response
              (\<lambda>resp. if user_of r \<noteq> [] \<and> user_limit - n_user < ip_limit - n_ip
                 then limit_headers user_limit (user_limit - n_user) ''user'' reset resp
                 else limit_headers ip_limit (ip_limit - n_ip) ''ip'' reset resp) (h r w)
          in (x, rl', w')))"
proof -
  let ?W = "rl_window_seconds rl" and ?t = "en_ip_now en" and ?k = "ip_key_of r"
  let ?hist1 = "hist @ [(?t, ?k)]" and ?u = "''rate:user:'' @ user_of r"
  have "card (set (map snd hist)) \<le> card (insert ?k (set (map snd hist)))"
    by (rule card_insert_le)
  with assms(6) have "card (set (map snd hist)) \<le> MAX_TRACKED_IPS" by linarith
  then have e1: "fst (mem_check ?t ?k (ip_limit_of rl r) ?W (mem_hits ?W hist)) =
      (ip_limit_of rl r < window_count ?W hist ?t ?k, window_count ?W hist ?t ?k)"
    using assms(3,4) by (intro mem_check_exact) auto
  have "sorted (map fst ?hist1)" using assms(3,4) by (auto simp: sorted_append)
  moreover have "\<forall>t\<in>fst ` set ?hist1. t \<le> en_user_now en" using assms(4,5) by fastforce
  moreover have "card (set (map snd ?hist1)) \<le> MAX_TRACKED_IPS" using assms(6) by simp
  ultimately have e2: "fst (mem_check (en_user_now en) ?u (rl_user_max_requests rl) ?W (mem_hits ?W ?hist1)) =
      (rl_user_max_requests rl < window_count ?W ?hist1 (en_user_now en) ?u,
       window_count ?W ?hist1 (en_user_now en) ?u)"
    by (rule mem_check_exact)
  have s1: "snd (mem_check ?t ?k (ip_limit_of rl r) ?W (mem_hits ?W hist)) = mem_hits ?W ?hist1"
    by (simp add: mem_check_state [of _ _ "ip_limit_of rl r"])
  have s2: "snd (mem_check (en_user_now en) ?u (rl_user_max_requests rl) ?W (mem_hits ?W ?hist1)) =
      mem_hits ?W (?hist1 @ [(en_user_now en, ?u)])"
    by (simp only: mem_check_state [of _ _ "rl_user_max_requests rl"] mem_hits_snoc)
  let ?n1 = "window_count ?W hist ?t ?k" and ?n2 = "window_count ?W ?hist1 (en_user_now en) ?u"
  note out = limiter_dispatch_mem [OF assms(1,2)] e1 s1 e2 s2 fst_conv snd_conv Let_def
  consider (ip) "ip_limit_of rl r < ?n1"
    | (anonymous) "\<not> ip_limit_of rl r < ?n1" "user_of r = []"
    | (user) "\<not> ip_limit_of rl r < ?n1" "user_of r \<noteq> []" "rl_user_max_requests rl < ?n2"
    | (free) "\<not> ip_limit_of rl r < ?n1" "user_of r \<noteq> []" "\<not> rl_user_max_requests rl < ?n2"
    by blast
  then show ?thesis
  proof cases
    case ip
    then show ?thesis unfolding out by (simp del: mem_hits_snoc append_assoc)
  next
    case anonymous
    then have "max 0 (ip_limit_of rl r - ?n1) = ip_limit_of rl r - ?n1" by simp
    with anonymous show ?thesis unfolding out by (simp del: mem_hits_snoc append_assoc)
  next
    case user
    then show ?thesis unfolding out by (simp del: mem_hits_snoc append_assoc)
  next
    case free
    then have m: "max 0 (ip_limit_of rl r - ?n1) = ip_limit_of rl r - ?n1"
      "max 0 (rl_user_max_requests rl - ?n2) = rl_user_max_requests rl - ?n2" by simp_all
    from free show ?thesis unfolding out m by (simp del: mem_hits_snoc append_assoc)
  qed
qed

definition demo_limiter :: "unit limiter" where
  "demo_limiter =
     \<lparr>rl_max_requests = 1, rl_window_seconds = 60, rl_auth_max_requests = 10,
      rl_user_max_requests = 300, rl_redis_url = None,
      rl_store = Some (InMemoryStore (mem_hits 60 [(1, ''rate:general:10.0.0.7'')]))\<rparr>"

definition demo_env :: rl_env where
  "demo_env = \<lparr>en_wall = 1000, en_ip_now = 2, en_ip_member = ''m1'', en_user_now = 3,
     en_user_member = ''m2''\<rparr>"

lemma demo_ip_key: "ip_key_of (plain_request ''GET'' ''/api/v1/tasks'' []) = ''rate:general:10.0.0.7''"
  by (simp add: ip_key_of_def extract_client_ip_def auth_paths_def hget_or_def
      ip_re_def re_class_upto_def re_word_def Let_def strip_by_def)

theorem limiter_exact_witness:
  "fst (limiter_dispatch (\<lambda>_ s. (None, s)) (\<lambda>_. None) demo_env
       (\<lambda>r w. (Inr (JSONResponse 200 JNull []), Suc w))
       (plain_request ''GET'' ''/api/v1/tasks'' []) (demo_limiter, 0)) =
   Inr (rate_limited 60 1 1060 ''ip'')"
proof -
  let ?r = "plain_request ''GET'' ''/api/v1/tasks'' []"
  let ?hist = "[(1, ''rate:general:10.0.0.7'')] :: (pyfloat \<times> string) list"
  have "limiter_dispatch (\<lambda>_ s. (None, s)) (\<lambda>_. None) demo_env
       (\<lambda>r w. (Inr (JSONResponse 200 JNull []), Suc w)) ?r (demo_limiter, 0) =
     (Inr (rate_limited 60 1 1060 ''ip''),
      demo_limiter\<lparr>rl_store := Some (InMemoryStore (mem_hits 60 (?hist @ [(2, ''rate:general:10.0.0.7'')])))\<rparr>, 0)"
    by (subst limiter_exact [where hist = ?hist])
       (simp_all add: demo_ip_key demo_limiter_def demo_env_def exempt_paths_def
         MAX_TRACKED_IPS_def user_of_def ip_limit_of_def auth_paths_def window_count_def times_of_def
         ip_key_of_def [symmetric] del: mem_hits_snoc)
  then show ?thesis by simp
qed

text \<open>
  The limiter's table never grows past 10000 keys and evicts by recency: after any sequence
  of checks its keys are the 10000 most recently used distinct keys, in order of last use.
\<close>
theorem limiter_lru:
  "map fst (mem_hits w hist) = lastn MAX_TRACKED_IPS (remdups (map snd hist)) \<and>
   length (mem_hits w hist) \<le> MAX_TRACKED_IPS"
  using mem_hits_keys mem_hits_length by blast

end
