(* ===== verification/CircuitBreaker.thy ===== *)
theory CircuitBreaker
  imports Http
begin

text \<open>
  The per-upstream circuit breaker of the gateway (\<^verbatim>\<open>circuit_breaker.py\<close>) and its registry.
  \<^verbatim>\<open>time.monotonic()\<close> is the argument \<open>now\<close> of every operation that reads the clock; reading the
  property \<^verbatim>\<open>state\<close> changes the breaker, so it returns it. The lemmas: an invariant that every
  interleaving of operations preserves, and a simulation of the three-state machine of the
  module's documentation.
\<close>

datatype circuit_state = CLOSED | OPEN | HALF_OPEN

record breaker =
  cb_service_name :: string
  cb_failure_threshold :: int
  cb_recovery_timeout :: pyfloat
  cb_state :: circuit_state
  cb_failure_count :: int
  cb_last_failure_time :: "pyfloat option"

definition CircuitBreaker :: "string \<Rightarrow> int \<Rightarrow> pyfloat \<Rightarrow> breaker" where
  "CircuitBreaker name threshold timeout =
     \<lparr>cb_service_name = name, cb_failure_threshold = threshold, cb_recovery_timeout = timeout,
      cb_state = CLOSED, cb_failure_count = 0, cb_last_failure_time = None\<rparr>"

definition state_prop :: "pyfloat \<Rightarrow> breaker \<Rightarrow> circuit_state \<times> breaker" where
  "state_prop now b =
     (let b' = (if cb_state b = OPEN \<and>
                   (case cb_last_failure_time b of
                      None \<Rightarrow> False
                    | Some t \<Rightarrow> now - t \<ge> cb_recovery_timeout b)
                then b\<lparr>cb_state := HALF_OPEN\<rparr> else b)
      in (cb_state b', b'))"

definition is_open :: "pyfloat \<Rightarrow> breaker \<Rightarrow> bool \<times> breaker" where
  "is_open now b = (let (s, b') = state_prop now b in (s = OPEN, b'))"

definition allow_probe :: "pyfloat \<Rightarrow> breaker \<Rightarrow> bool \<times> breaker" where
  "allow_probe now b = (let (s, b') = state_prop now b in (s = HALF_OPEN, b'))"

definition record_success :: "breaker \<Rightarrow> breaker" where
  "record_success b =
     b\<lparr>cb_failure_count := 0, cb_last_failure_time := None, cb_state := CLOSED\<rparr>"

definition record_failure :: "pyfloat \<Rightarrow> breaker \<Rightarrow> breaker" where
  "record_failure now b =
     (let b1 = b\<lparr>cb_failure_count := cb_failure_count b + 1, cb_last_failure_time := Some now\<rparr>
      in if cb_state b1 = HALF_OPEN then b1\<lparr>cb_state := OPEN\<rparr>
         else if cb_failure_count b1 \<ge> cb_failure_threshold b1 then b1\<lparr>cb_state := OPEN\<rparr>
         else b1)"

section \<open>The registry\<close>

type_synonym registry = "(string, breaker) dict"

definition registry_get :: "registry \<Rightarrow> string \<Rightarrow> breaker \<times> registry" where
  "registry_get reg name =
     (case map_of reg name of
        Some b \<Rightarrow> (b, reg)
      | None \<Rightarrow> (let b = CircuitBreaker name 5 30 in (b, AList.update name b reg)))"

text \<open>\<^verbatim>\<open>all_states\<close> reads the property of every breaker, so breakers may move to half-open.\<close>

definition all_states :: "pyfloat \<Rightarrow> registry \<Rightarrow> (string \<times> circuit_state) list \<times> registry" where
  "all_states now reg =
     (map (\<lambda>(n, b). (n, fst (state_prop now b))) reg,
      map (\<lambda>(n, b). (n, snd (state_prop now b))) reg)"

section \<open>Runs of a breaker\<close>

text \<open>
  Whatever the tasks of the event loop do with one breaker is a list of these events, each with
  its clock reading.
\<close>

datatype cb_event = QueryState pyfloat | Success | Failure pyfloat

fun cb_step :: "breaker \<Rightarrow> cb_event \<Rightarrow> breaker" where
  "cb_step b (QueryState now) = snd (state_prop now b)"
| "cb_step b Success = record_success b"
| "cb_step b (Failure now) = record_failure now b"

definition cb_run :: "breaker \<Rightarrow> cb_event list \<Rightarrow> breaker" where
  "cb_run b es = foldl cb_step b es"

definition wf_breaker :: "breaker \<Rightarrow> bool" where
  "wf_breaker b \<longleftrightarrow>
     0 < cb_failure_threshold b \<and> 0 \<le> cb_failure_count b \<and>
     (cb_state b = CLOSED \<longrightarrow> cb_failure_count b < cb_failure_threshold b) \<and>
     (cb_state b \<noteq> CLOSED \<longrightarrow> cb_failure_threshold b \<le> cb_failure_count b) \<and>
     (cb_last_failure_time b = None \<longleftrightarrow> cb_failure_count b = 0)"

lemma wf_CircuitBreaker [wf_intros]: "0 < n \<Longrightarrow> wf_breaker (CircuitBreaker name n t)"
  by (simp add: wf_breaker_def CircuitBreaker_def)

lemma wf_state_prop [wf_intros]: "wf_breaker b \<Longrightarrow> wf_breaker (snd (state_prop now b))"
  by (auto simp: wf_breaker_def state_prop_def)

lemma wf_record_success [wf_intros]: "wf_breaker b \<Longrightarrow> wf_breaker (record_success b)"
  by (simp add: wf_breaker_def record_success_def)

lemma wf_record_failure [wf_intros]: "wf_breaker b \<Longrightarrow> wf_breaker (record_failure now b)"
  by (cases "cb_state b") (auto simp: wf_breaker_def record_failure_def Let_def)

lemma wf_cb_step [wf_intros]: "wf_breaker b \<Longrightarrow> wf_breaker (cb_step b e)"
  by (cases e) (auto intro: wf_intros)

lemma wf_cb_run [wf_intros]: "wf_breaker b \<Longrightarrow> wf_breaker (cb_run b es)"
  unfolding cb_run_def by (induction es arbitrary: b) (auto intro: wf_intros)

lemma cb_step_config [simp]:
  "cb_failure_threshold (cb_step b e) = cb_failure_threshold b"
  "cb_recovery_timeout (cb_step b e) = cb_recovery_timeout b"
  "cb_service_name (cb_step b e) = cb_service_name b"
  by (cases e; simp add: state_prop_def record_success_def record_failure_def Let_def)+

lemma cb_run_config [simp]:
  "cb_failure_threshold (cb_run b es) = cb_failure_threshold b"
  "cb_recovery_timeout (cb_run b es) = cb_recovery_timeout b"
  "cb_service_name (cb_run b es) = cb_service_name b"
  unfolding cb_run_def by (induction es arbitrary: b; simp)+

lemma state_prop_state: "fst (state_prop now b) = cb_state (snd (state_prop now b))"
  by (simp add: state_prop_def Let_def)

section \<open>The documented machine\<close>

text \<open>
  The machine drawn in the module's documentation: consecutive failures counted while closed,
  the time of the last failure while open, one transition per event.
\<close>

datatype cb_abs = AClosed nat | AOpen pyfloat | AHalfOpen

fun cb_abs_step :: "nat \<Rightarrow> pyfloat \<Rightarrow> cb_abs \<Rightarrow> cb_event \<Rightarrow> cb_abs" where
  "cb_abs_step n d (AClosed k) (Failure now) = (if n \<le> Suc k then AOpen now else AClosed (Suc k))"
| "cb_abs_step n d (AOpen t) (Failure now) = AOpen now"
| "cb_abs_step n d AHalfOpen (Failure now) = AOpen now"
| "cb_abs_step n d s Success = AClosed 0"
| "cb_abs_step n d (AOpen t) (QueryState now) = (if now - t \<ge> d then AHalfOpen else AOpen t)"
| "cb_abs_step n d s (QueryState now) = s"

definition cb_abs :: "breaker \<Rightarrow> cb_abs" where
  "cb_abs b =
     (case cb_state b of
        CLOSED \<Rightarrow> AClosed (nat (cb_failure_count b))
      | OPEN \<Rightarrow> AOpen (case cb_last_failure_time b of Some t \<Rightarrow> t | None \<Rightarrow> 0)
      | HALF_OPEN \<Rightarrow> AHalfOpen)"

lemma cb_step_refines:
  assumes "wf_breaker b"
  shows "cb_abs (cb_step b e) =
    cb_abs_step (nat (cb_failure_threshold b)) (cb_recovery_timeout b) (cb_abs b) e"
proof (cases e)
  case (QueryState now)
  with assms show ?thesis
    by (cases "cb_state b")
       (auto simp: state_prop_def cb_abs_def wf_breaker_def split: option.splits)
next
  case Success
  then show ?thesis
    by (cases "cb_state b") (auto simp: record_success_def cb_abs_def)
next
  case (Failure now)
  with assms show ?thesis
    by (cases "cb_state b")
       (auto simp: record_failure_def cb_abs_def wf_breaker_def Let_def nat_add_distrib)
qed

lemma cb_run_refines:
  "wf_breaker b \<Longrightarrow>
   cb_abs (cb_run b es) =
   foldl (cb_abs_step (nat (cb_failure_threshold b)) (cb_recovery_timeout b)) (cb_abs b) es"
proof (induction es arbitrary: b)
  case (Cons e es)
  from Cons.IH [of "cb_step b e"] Cons.prems show ?case
    by (simp add: cb_run_def cb_step_refines wf_cb_step)
qed (simp add: cb_run_def)

section \<open>Registry lemmas\<close>

lemma registry_get_known [simp]: "map_of (snd (registry_get reg n)) n = Some (fst (registry_get reg n))"
  by (simp add: registry_get_def Let_def split: option.splits)

lemma registry_get_other: "m \<noteq> n \<Longrightarrow> map_of (snd (registry_get reg n)) m = map_of reg m"
  by (auto simp: registry_get_def Let_def split: option.splits)

definition wf_registry :: "registry \<Rightarrow> bool" where
  "wf_registry reg \<longleftrightarrow>
     distinct (map fst reg) \<and> (\<forall>(n, b)\<in>set reg. wf_breaker b \<and> cb_service_name b = n)"

lemma wf_registry_get [wf_intros]:
  assumes "wf_registry reg"
  shows "wf_registry (snd (registry_get reg n))" and "wf_breaker (fst (registry_get reg n))"
proof -
  show "wf_registry (snd (registry_get reg n))"
    using assms wf_CircuitBreaker [of 5 n 30]
    by (auto simp: wf_registry_def registry_get_def Let_def map_of_None_notin update_new
        CircuitBreaker_def split: option.splits)
  show "wf_breaker (fst (registry_get reg n))"
    using assms wf_CircuitBreaker [of 5 n 30]
    by (auto simp: wf_registry_def registry_get_def Let_def dest: map_of_SomeD split: option.splits)
qed

lemma wf_registry_update [wf_intros]:
  assumes "wf_registry reg" "wf_breaker b" "cb_service_name b = n"
  shows "wf_registry (AList.update n b reg)"
  using assms set_update_subset [of n b reg]
  by (fastforce simp: wf_registry_def distinct_update)

section \<open>The breaker as a whole\<close>



lemma failure_state:
  assumes "wf_breaker b"
  shows "cb_state (cb_run b (map Failure ts)) =
    (if ts = [] then cb_state b
     else if cb_state b = CLOSED \<and> cb_failure_count b + int (length ts) < cb_failure_threshold b
     then CLOSED else OPEN)"
  using assms
proof (induction ts arbitrary: b)
  case (Cons t ts)
  have s: "cb_run b (map Failure (t # ts)) = cb_run (record_failure t b) (map Failure ts)"
    by (simp add: cb_run_def)
  have "wf_breaker (record_failure t b)" using Cons.prems by (rule wf_intros)
  from Cons.IH [OF this] Cons.prems show ?case
    unfolding s by (cases "cb_state b") (auto simp: record_failure_def wf_breaker_def Let_def)
qed (simp add: cb_run_def)

lemma failure_time:
  "ts \<noteq> [] \<Longrightarrow> cb_last_failure_time (cb_run b (map Failure ts)) = Some (last ts)"
proof (induction ts arbitrary: b)
  case (Cons t ts)
  then show ?case by (cases ts) (simp_all add: cb_run_def record_failure_def Let_def)
qed simp

text \<open>
  Fast failure. Whatever happened to a breaker before, as many failures in a row as its
  threshold leave it open: it refuses every request until the recovery timeout has passed since the
  last of them, and none after that.
\<close>
theorem breaker_trips:
  assumes "0 < n" "int (length ts) \<ge> n"
  shows "fst (is_open now (cb_run (cb_run (CircuitBreaker name n d) es) (map Failure ts))) \<longleftrightarrow>
    now - last ts < d"
proof -
  let ?b = "cb_run (CircuitBreaker name n d) es"
  have wf: "wf_breaker ?b" using assms(1) by (intro wf_intros)
  have ne: "ts \<noteq> []" using assms by auto
  have th: "cb_failure_threshold ?b = n" "cb_recovery_timeout ?b = d"
    by (simp_all add: CircuitBreaker_def)
  have "cb_state (cb_run ?b (map Failure ts)) = OPEN"
    unfolding failure_state [OF wf] using wf ne assms(2) th by (simp add: wf_breaker_def)
  moreover note failure_time [OF ne, of ?b]
  moreover have "cb_recovery_timeout (cb_run ?b (map Failure ts)) = d" using th by simp
  ultimately show ?thesis by (auto simp: is_open_def state_prop_def Let_def)
qed

theorem breaker_trips_witness:
  "fst (is_open 31 (cb_run (cb_run (CircuitBreaker ''task-service'' 2 30) [Failure 0, Success])
     (map Failure [1, 2])))"
  using breaker_trips [of 2 "[1, 2]" 31 "''task-service''" 30 "[Failure 0, Success]"] by simp

text \<open>
  Once the timeout has passed, the breaker does not limit the probes: any number of requests in
  a row finds it not open before the first of their outcomes is recorded. (The module's
  documentation speaks of one probe; \<^verbatim>\<open>allow_probe\<close> is never called.)
\<close>
theorem half_open_admits_all:
  assumes "wf_breaker b" "cb_state b = OPEN" "cb_last_failure_time b = Some t"
    and "sorted ts" "\<forall>u\<in>set ts. t + cb_recovery_timeout b \<le> u" "now \<in> set ts"
  shows "\<not> fst (is_open now (cb_run b (map QueryState ts)))"
proof -
  have half: "cb_run c (map QueryState us) = c" if "cb_state c = HALF_OPEN" for c us
    using that by (induction us) (simp_all add: cb_run_def state_prop_def)
  obtain u us where ts: "ts = u # us" using assms(6) by (cases ts) auto
  have s: "cb_step b (QueryState u) = b\<lparr>cb_state := HALF_OPEN\<rparr>"
    using assms(2,3,5) ts by (simp add: state_prop_def algebra_simps)
  have "cb_run b (map QueryState ts) = cb_run (cb_step b (QueryState u)) (map QueryState us)"
    by (simp add: ts cb_run_def)
  also have "\<dots> = b\<lparr>cb_state := HALF_OPEN\<rparr>" unfolding s by (rule half) simp
  finally show ?thesis by (simp add: is_open_def state_prop_def)
qed

theorem half_open_admits_all_witness:
  "\<not> fst (is_open 42 (cb_run (cb_run (CircuitBreaker ''task-service'' 1 30) [Failure 1])
       (map QueryState [40, 41, 42])))"
  by (rule half_open_admits_all [where t = 1])
     (simp_all add: cb_run_def CircuitBreaker_def record_failure_def wf_breaker_def)

end
