(* ===== verification/BodySize.thy ===== *)
theory BodySize
  imports Http
begin

text \<open>
  The gateway's body-size limit (\<^verbatim>\<open>middleware/body_size.py\<close>) and the receive channel it wraps.
  The server delivers the body as a list of chunks; the channel is part of the world, because the
  middleware learns what the application read from it only after the application has answered.
\<close>

record body_state =
  bs_chunks :: "string list"
  bs_limit :: "int option"
  bs_received :: int
  bs_oversize :: bool

definition fresh_body :: "string list \<Rightarrow> body_state" where
  "fresh_body cs = \<lparr>bs_chunks = cs, bs_limit = None, bs_received = 0, bs_oversize = False\<rparr>"

text \<open>
  One message of the channel: its body and whether more follow. Past the limit the wrapper
  replaces the message by an empty last one.
\<close>

definition receive :: "body_state \<Rightarrow> (string \<times> bool) \<times> body_state" where
  "receive bs =
     (let (chunk, rest) = (case bs_chunks bs of [] \<Rightarrow> ([], []) | c # cs \<Rightarrow> (c, cs));
          bs1 = bs\<lparr>bs_chunks := rest\<rparr>
      in case bs_limit bs of
           None \<Rightarrow> ((chunk, rest \<noteq> []), bs1)
         | Some m \<Rightarrow>
             (let n = bs_received bs + int (length chunk); bs2 = bs1\<lparr>bs_received := n\<rparr>
              in if n > m then (([], False), bs2\<lparr>bs_oversize := True\<rparr>)
                 else ((chunk, rest \<noteq> []), bs2)))"

text \<open>\<^verbatim>\<open>await request.body()\<close> of the framework: read messages until the last one.\<close>

function read_body :: "body_state \<Rightarrow> string \<times> body_state" where
  "read_body bs =
     (case receive bs of
        ((c, more_body), bs') \<Rightarrow>
          if more_body then (case read_body bs' of (s, bs'') \<Rightarrow> (c @ s, bs'')) else (c, bs'))"
  by pat_completeness auto
termination
  by (relation "measure (\<lambda>bs. length (bs_chunks bs))")
     (auto simp: receive_def Let_def split: list.splits option.splits if_splits)

declare read_body.simps [simp del]

text \<open>The constructor refuses a limit that is not positive.\<close>

definition BodySizeLimitMiddleware :: "int \<Rightarrow> string + int" where
  "BodySizeLimitMiddleware max_bytes = (if max_bytes \<le> 0 then Inl ''ValueError'' else Inr max_bytes)"

definition too_large_response :: "int \<Rightarrow> response" where
  "too_large_response max_bytes =
     JSONResponse 413
       (detail_body (''Request body exceeds the '' @ str_int max_bytes @ ''-byte limit. '' @
          ''Split the payload or contact an operator if your use case '' @
          ''legitimately requires a larger body.''))
       [(''Connection'', ''close'')]"

text \<open>The world of the layers inside, with the components \<open>'a\<close> of other middlewares before the channel.\<close>

definition wrap_receive ::
  "int \<Rightarrow> ('a \<times> body_state \<times> 'w) handler \<Rightarrow> ('a \<times> body_state \<times> 'w) handler" where
  "wrap_receive max_bytes call_next r aw =
     (case aw of (a, bs, w) \<Rightarrow>
        (case call_next r (a, bs\<lparr>bs_limit := Some max_bytes, bs_received := 0, bs_oversize := False\<rparr>, w) of
           (Inl e, aw') \<Rightarrow> (Inl e, aw')
         | (Inr resp, (a', bs', w')) \<Rightarrow>
             (Inr (if bs_oversize bs' then too_large_response max_bytes else resp), (a', bs', w'))))"

definition body_size_dispatch ::
  "int \<Rightarrow> ('a \<times> body_state \<times> 'w) handler \<Rightarrow> ('a \<times> body_state \<times> 'w) handler" where
  "body_size_dispatch max_bytes call_next r aw =
     (let declared = (case hget (req_headers r) ''content-length'' of None \<Rightarrow> None | Some d \<Rightarrow> py_int d)
      in case declared of
           Some n \<Rightarrow>
             if n > max_bytes then (Inr (too_large_response max_bytes), aw)
             else wrap_receive max_bytes call_next r aw
         | None \<Rightarrow> wrap_receive max_bytes call_next r aw)"

section \<open>What the application can read\<close>

text \<open>The chunks that pass before the running total exceeds the limit, and whether one does.\<close>

fun delivered :: "int \<Rightarrow> int \<Rightarrow> string list \<Rightarrow> string list" where
  "delivered m n [] = []"
| "delivered m n (c # cs) =
     (if n + int (length c) > m then [] else c # delivered m (n + int (length c)) cs)"

lemma delivered_fits: "n \<le> m \<Longrightarrow> delivered m n cs = cs \<longleftrightarrow> n + int (length (concat cs)) \<le> m"
proof (induction cs arbitrary: n)
  case (Cons c cs)
  show ?case
  proof (cases "n + int (length c) > m")
    case True
    then have "\<not> n + int (length (concat (c # cs))) \<le> m" by simp
    with True show ?thesis by simp
  next
    case False
    with Cons.IH [of "n + int (length c)"] show ?thesis by (simp add: add.assoc)
  qed
qed simp

lemma delivered_bound: "n \<le> m \<Longrightarrow> n + int (length (concat (delivered m n cs))) \<le> m"
proof (induction cs arbitrary: n)
  case (Cons c cs)
  then show ?case using Cons.IH [of "n + int (length c)"] by (simp add: add.assoc)
qed simp

lemma delivered_prefix: "\<exists>d. concat cs = concat (delivered m n cs) @ d"
  by (induction cs arbitrary: n) auto

lemma read_body_step:
  "read_body \<lparr>bs_chunks = c # cs, bs_limit = Some m, bs_received = n, bs_oversize = ov\<rparr> =
     (if n + int (length c) > m
      then ([], \<lparr>bs_chunks = cs, bs_limit = Some m, bs_received = n + int (length c), bs_oversize = True\<rparr>)
      else if cs = []
      then (c, \<lparr>bs_chunks = [], bs_limit = Some m, bs_received = n + int (length c), bs_oversize = ov\<rparr>)
      else (case read_body \<lparr>bs_chunks = cs, bs_limit = Some m, bs_received = n + int (length c), bs_oversize = ov\<rparr> of
              (s, bs'') \<Rightarrow> (c @ s, bs'')))"
  by (subst read_body.simps) (simp add: receive_def Let_def)

lemma read_body_delivered:
  assumes "cs \<noteq> []" "n \<le> m"
  shows "fst (read_body \<lparr>bs_chunks = cs, bs_limit = Some m, bs_received = n, bs_oversize = False\<rparr>) =
      concat (delivered m n cs) \<and>
    bs_oversize (snd (read_body \<lparr>bs_chunks = cs, bs_limit = Some m, bs_received = n, bs_oversize = False\<rparr>)) =
      (delivered m n cs \<noteq> cs)"
  using assms
proof (induction cs arbitrary: n)
  case (Cons c cs)
  show ?case
  proof (cases "n + int (length c) > m \<or> cs = []")
    case True
    then show ?thesis by (auto simp: read_body_step)
  next
    case False
    with Cons.IH [of "n + int (length c)"] show ?thesis
      by (auto simp: read_body_step split: prod.splits)
  qed
qed simp

lemma read_body_limited:
  assumes "0 < m"
  shows "fst (read_body \<lparr>bs_chunks = cs, bs_limit = Some m, bs_received = 0, bs_oversize = False\<rparr>) =
      concat (delivered m 0 cs)"
    and "bs_oversize (snd (read_body \<lparr>bs_chunks = cs, bs_limit = Some m, bs_received = 0, bs_oversize = False\<rparr>)) \<longleftrightarrow>
      m < int (length (concat cs))"
proof -
  show "fst (read_body \<lparr>bs_chunks = cs, bs_limit = Some m, bs_received = 0, bs_oversize = False\<rparr>) =
      concat (delivered m 0 cs)"
  proof (cases "cs = []")
    case True
    with assms show ?thesis by (subst read_body.simps) (simp add: receive_def)
  next
    case False
    then show ?thesis using read_body_delivered [of cs 0 m] assms by simp
  qed
  show "bs_oversize (snd (read_body \<lparr>bs_chunks = cs, bs_limit = Some m, bs_received = 0, bs_oversize = False\<rparr>)) \<longleftrightarrow>
      m < int (length (concat cs))"
  proof (cases "cs = []")
    case True
    with assms show ?thesis by (subst read_body.simps) (simp add: receive_def)
  next
    case False
    then show ?thesis using read_body_delivered [of cs 0 m] delivered_fits [of 0 m cs] assms by auto
  qed
qed

text \<open>
  C12: The body limit. Let the application read the whole body before it answers, as the proxy does.
  Then it never holds more than the limit: what it reads is a prefix of the body, and all of it
  exactly when the body is within the limit. If it is, the application's answer is returned; if it
  is not, an answer is replaced by a 413, after the application has run on the truncated prefix.
\<close>
theorem body_limit:
  assumes "BodySizeLimitMiddleware max_bytes = Inr m"
  shows "let body = concat cs; got = concat (delivered m 0 cs) in
    int (length got) \<le> m \<and> (\<exists>rest. body = got @ rest) \<and>
    (got = body \<longleftrightarrow> int (length body) \<le> m) \<and>
    (\<exists>bs'. wrap_receive m (\<lambda>r (a, bs, w). case read_body bs of (s, bs1) \<Rightarrow>
          (case app s r (a, w) of (x, (a', w')) \<Rightarrow> (x, (a', bs1, w')))) r (a, fresh_body cs, w) =
       (case app got r (a, w) of
          (Inl e, (a', w')) \<Rightarrow> (Inl e, (a', bs', w'))
        | (Inr resp, (a', w')) \<Rightarrow>
            (Inr (if int (length body) \<le> m then resp else too_large_response m), (a', bs', w'))))"
proof -
  have m: "0 < m" using assms by (auto simp: BodySizeLimitMiddleware_def split: if_splits)
  let ?bs = "\<lparr>bs_chunks = cs, bs_limit = Some m, bs_received = 0, bs_oversize = False\<rparr>"
  obtain s bs1 where rd: "read_body ?bs = (s, bs1)" by fastforce
  have got: "s = concat (delivered m 0 cs)" and over: "bs_oversize bs1 \<longleftrightarrow> m < int (length (concat cs))"
    using read_body_limited [OF m, of cs] by (simp_all add: rd)
  obtain rest where rest: "concat cs = concat (delivered m 0 cs) @ rest"
    using delivered_prefix by blast
  have all: "concat (delivered m 0 cs) = concat cs \<longleftrightarrow> int (length (concat cs)) \<le> m"
    using delivered_fits [of 0 m cs] delivered_bound [of 0 m cs] m by fastforce
  obtain x a' w' where ap: "app (concat (delivered m 0 cs)) r (a, w) = (x, (a', w'))"
    by (metis prod.exhaust)
  have "wrap_receive m (\<lambda>r (a, bs, w). case read_body bs of (s, bs1) \<Rightarrow>
          (case app s r (a, w) of (x, (a', w')) \<Rightarrow> (x, (a', bs1, w')))) r (a, fresh_body cs, w) =
       (case app (concat (delivered m 0 cs)) r (a, w) of
          (Inl e, (a', w')) \<Rightarrow> (Inl e, (a', bs1, w'))
        | (Inr resp, (a', w')) \<Rightarrow>
            (Inr (if int (length (concat cs)) \<le> m then resp else too_large_response m), (a', bs1, w')))"
    using over by (cases x) (simp_all add: wrap_receive_def fresh_body_def rd got ap not_le)
  with rest all delivered_bound [of 0 m cs] m show ?thesis unfolding Let_def by fastforce
qed

theorem body_limit_witness:
  "\<exists>bs'. wrap_receive 3 (\<lambda>r (a, bs, w). case read_body bs of (s, bs1) \<Rightarrow>
          (case (Inr (JSONResponse 201 (JStr s) []), (a, w @ [s])) of (x, (a', w')) \<Rightarrow> (x, (a', bs1, w'))))
       (plain_request ''POST'' ''/'' []) ((), fresh_body [''ab'', ''cd''], []) =
     (Inr (too_large_response 3), ((), bs', [''ab'']))"
  using body_limit [of 3 3 "[''ab'', ''cd'']" "\<lambda>s r (a, w). (Inr (JSONResponse 201 (JStr s) []), (a, w @ [s]))"
      "plain_request ''POST'' ''/'' []" "()" "[]"]
  by (simp add: BodySizeLimitMiddleware_def Let_def)

end
