(* ===== verification/Proxy.thy ===== *)
theory Proxy
  imports Identity CircuitBreaker BodySize
begin

text \<open>
  The gateway's reverse proxy (\<^verbatim>\<open>routes/proxy.py\<close>): route resolution, the headers forwarded to
  the backend, the retry loop around the circuit breaker and the streaming path.

  The HTTP client is an argument: \<open>send\<close> answers a request or fails, and may change the whole
  world, because other requests run while it is awaited; the same holds of \<open>sleep\<close>. The world is
  the breaker registry and a component of the environment's own, from which \<open>now\<close> reads the clock.
\<close>

record proxy_settings =
  user_service_url :: string
  task_service_url :: string
  notification_service_url :: string
  interservice_hmac_secret :: string

definition ROUTE_MAP :: "proxy_settings \<Rightarrow> (string, string) dict" where
  "ROUTE_MAP cfg =
     [(''/api/v1/users'', user_service_url cfg),
      (''/api/v1/auth'', user_service_url cfg),
      (''/api/v1/tasks'', task_service_url cfg),
      (''/api/v1/projects'', task_service_url cfg),
      (''/api/v1/notifications'', notification_service_url cfg)]"

definition HOP_BY_HOP :: "string list" where
  "HOP_BY_HOP =
     [''connection'', ''keep-alive'', ''transfer-encoding'', ''te'', ''trailers'', ''upgrade'',
      ''proxy-authorization'']"

definition GATEWAY_OWNED :: "string list" where
  "GATEWAY_OWNED =
     [''x-user-id'', ''x-user-email'', ''x-user-roles'',
      ''x-forwarded-for'', ''x-forwarded-host'', ''x-forwarded-proto'',
      ''x-original-url'', ''x-rewrite-url'', ''host'',
      ''x-http-method-override'', ''x-method-override'', ''x-http-method'']"

definition RETRYABLE_STATUS :: "nat list" where
  "RETRYABLE_STATUS = [502, 503, 504]"

definition BACKOFF_SCHEDULE :: "pyfloat list" where
  "BACKOFF_SCHEDULE = [0, 1/10, 2/10]"

definition MAX_ATTEMPTS :: nat where
  "MAX_ATTEMPTS = length BACKOFF_SCHEDULE"

section \<open>Resolving the upstream\<close>

text \<open>\<^verbatim>\<open>s.split("//")\<close>.\<close>

fun split_slashes :: "string \<Rightarrow> string list" where
  "split_slashes (a # b # s) =
     (if a = CHR ''/'' \<and> b = CHR ''/'' then [] # split_slashes s
      else (case split_slashes (b # s) of w # ws \<Rightarrow> (a # w) # ws | [] \<Rightarrow> [[a]]))"
| "split_slashes s = [s]"

definition service_name_of :: "string \<Rightarrow> string" where
  "service_name_of upstream = hd (py_split CHR '':'' (last (split_slashes upstream)))"

definition resolve_upstream :: "proxy_settings \<Rightarrow> string \<Rightarrow> http_error + string \<times> string \<times> string" where
  "resolve_upstream cfg path =
     (case find (\<lambda>(prefix, _). starts_with prefix path) (ROUTE_MAP cfg) of
        Some (_, upstream) \<Rightarrow> Inr (upstream, path, service_name_of upstream)
      | None \<Rightarrow> Inl (HTTPException 404 (''No route for path: '' @ path) []))"

section \<open>The forwarded headers\<close>

text \<open>
  A header dict of the client library; a value is a text unless a claim of the token put
  something else there.
\<close>

type_synonym fwd_headers = "(string, json) dict"

definition strip_headers :: "headers \<Rightarrow> fwd_headers" where
  "strip_headers hs =
     fold (\<lambda>(k, v) d.
       if py_lower k \<notin> set HOP_BY_HOP \<and> py_lower k \<notin> set GATEWAY_OWNED
       then AList.update k (JStr v) d else d) hs []"

text \<open>Python's truth value of a claim, and the elements \<^verbatim>\<open>join\<close> meets when it iterates over one.\<close>

fun truthy :: "json \<Rightarrow> bool" where
  "truthy JNull = False"
| "truthy (JBool b) = b"
| "truthy (JInt i) = (i \<noteq> 0)"
| "truthy (JFloat q) = (q \<noteq> 0)"
| "truthy (JStr s) = (s \<noteq> [])"
| "truthy (JArr xs) = (xs \<noteq> [])"
| "truthy (JObj kvs) = (kvs \<noteq> [])"

fun json_iter :: "json \<Rightarrow> json list option" where
  "json_iter (JArr xs) = Some xs"
| "json_iter (JStr s) = Some (map (\<lambda>c. JStr [c]) s)"
| "json_iter (JObj kvs) = Some (map (\<lambda>(k, _). JStr k) kvs)"
| "json_iter _ = None"

fun json_str :: "json \<Rightarrow> string option" where
  "json_str (JStr s) = Some s"
| "json_str _ = None"

fun all_some :: "'a option list \<Rightarrow> 'a list option" where
  "all_some [] = Some []"
| "all_some (None # xs) = None"
| "all_some (Some x # xs) = (case all_some xs of None \<Rightarrow> None | Some ys \<Rightarrow> Some (x # ys))"

definition join_roles :: "json \<Rightarrow> string option" where
  "join_roles rs =
     (case json_iter rs of
        None \<Rightarrow> None
      | Some xs \<Rightarrow> (case all_some (map json_str xs) of
                      None \<Rightarrow> None | Some ws \<Rightarrow> Some (py_join '','' ws)))"

definition or_else :: "json option \<Rightarrow> json \<Rightarrow> json" where
  "or_else x d = (case x of Some v \<Rightarrow> if truthy v then v else d | None \<Rightarrow> d)"

text \<open>How an f-string prints the e-mail claim; \<open>fmt\<close> prints the values that no token of this system holds.\<close>

definition email_text :: "(json \<Rightarrow> string) \<Rightarrow> json \<Rightarrow> string" where
  "email_text fmt e = (case e of JStr s \<Rightarrow> s | JInt i \<Rightarrow> str_int i | _ \<Rightarrow> fmt e)"

definition build_forward_headers ::
  "(string \<Rightarrow> string \<Rightarrow> string) \<Rightarrow> (json \<Rightarrow> string) \<Rightarrow> int \<Rightarrow> proxy_settings \<Rightarrow> request \<Rightarrow>
   http_error + fwd_headers" where
  "build_forward_headers hmac fmt now cfg r =
     (let h0 = strip_headers (req_headers r);
          client_ip = (case req_client r of Some h \<Rightarrow> h | None \<Rightarrow> []);
          prior = hget_or (req_headers r) ''x-forwarded-for'' [];
          h1 = (if client_ip \<noteq> []
                then AList.update ''X-Forwarded-For''
                       (JStr (if prior \<noteq> [] then prior @ '', '' @ client_ip else client_ip)) h0
                else h0);
          h2 = AList.update ''X-Forwarded-Proto'' (JStr (req_scheme r)) h1;
          h3 = AList.update ''X-Forwarded-Host''
                 (JStr (case req_hostname r of Some h \<Rightarrow> h | None \<Rightarrow> [])) h2;
          user_id = (case st_user_id r of Some u \<Rightarrow> u | None \<Rightarrow> []);
          user_email = or_else (st_user_email r) (JStr [])
      in case join_roles (or_else (st_user_roles r) (JArr [])) of
           None \<Rightarrow> Inl (ServerError ''TypeError'')
         | Some user_roles \<Rightarrow>
             (let h4 =
                (if user_id \<noteq> [] then
                   (let a = AList.update ''X-User-Id'' (JStr user_id) h3;
                        b = (if truthy user_email then AList.update ''X-User-Email'' user_email a else a);
                        c = AList.update ''X-User-Roles'' (JStr user_roles) b;
                        (sig, issued_at) =
                          sign_identity hmac now (interservice_hmac_secret cfg) user_id
                            (email_text fmt user_email) user_roles None
                    in AList.update IDENTITY_TS_HEADER (JStr issued_at)
                         (AList.update IDENTITY_SIG_HEADER (JStr sig) c))
                 else h3)
              in Inr (case st_request_id r of
                        Some rid \<Rightarrow> if rid \<noteq> [] then AList.update ''X-Request-ID'' (JStr rid) h4 else h4
                      | None \<Rightarrow> h4)))"

section \<open>Dispatch with retry\<close>

record up_request =
  up_method :: string
  up_url :: string
  up_headers :: fwd_headers
  up_body :: string

record up_response =
  ur_status :: nat
  ur_headers :: headers
  ur_content :: string

datatype transport_error = ConnectError | TimeoutException

text \<open>\<open>Raises\<close> is any exception the retry loop does not catch, such as a broken response.\<close>

datatype outcome = Answer up_response | Fails transport_error | Raises string

text \<open>
  The breaker object that \<^verbatim>\<open>cb_registry.get\<close> returned is shared: a later call on it changes the
  registry's entry as it is then.
\<close>

definition on_breaker :: "string \<Rightarrow> (breaker \<Rightarrow> breaker) \<Rightarrow> registry \<times> 'u \<Rightarrow> registry \<times> 'u" where
  "on_breaker name f w =
     (case w of (reg, u) \<Rightarrow>
        (case map_of reg name of
           Some b \<Rightarrow> (AList.update name (f b) reg, u)
         | None \<Rightarrow> (reg, u)))"

definition get_is_open :: "('u \<Rightarrow> pyfloat) \<Rightarrow> string \<Rightarrow> registry \<times> 'u \<Rightarrow> bool \<times> registry \<times> 'u" where
  "get_is_open now name w =
     (case w of (reg, u) \<Rightarrow>
        (let (b, reg') = registry_get reg name; (op, b') = is_open (now u) b
         in (op, AList.update name b' reg', u)))"

definition unreachable_error :: "string \<Rightarrow> nat \<Rightarrow> transport_error option \<Rightarrow> http_error" where
  "unreachable_error name attempts last_exc =
     (case last_exc of
        Some ConnectError \<Rightarrow> HTTPException 503 ''Upstream service unreachable'' []
      | Some TimeoutException \<Rightarrow> HTTPException 504 ''Upstream service timed out'' []
      | None \<Rightarrow> HTTPException 503
          (''Service '' @ [CHR 0x27] @ name @ [CHR 0x27] @ '' returned an error after '' @
           str_nat attempts @ '' attempts'') [])"

function attempt_loop ::
  "(up_request \<Rightarrow> registry \<times> 'u \<Rightarrow> outcome \<times> registry \<times> 'u) \<Rightarrow>
   (pyfloat \<Rightarrow> registry \<times> 'u \<Rightarrow> registry \<times> 'u) \<Rightarrow> ('u \<Rightarrow> pyfloat) \<Rightarrow> up_request \<Rightarrow> string \<Rightarrow> bool \<Rightarrow>
   nat \<Rightarrow> nat \<Rightarrow> transport_error option \<Rightarrow> registry \<times> 'u \<Rightarrow>
   (http_error + up_response) \<times> registry \<times> 'u" where
  "attempt_loop send sleep now q name idem attempts attempt last_exc w =
     (if attempts \<le> attempt then
        (Inl (unreachable_error name attempts last_exc),
         on_breaker name (record_failure (now (snd w))) w)
      else
        (let w1 = (if 0 < attempt then sleep (BACKOFF_SCHEDULE ! attempt) w else w);
             (out, w2) = send q w1
         in case out of
              Answer resp \<Rightarrow>
                if ur_status resp \<in> set RETRYABLE_STATUS \<and> idem \<and> Suc attempt < attempts
                then attempt_loop send sleep now q name idem attempts (Suc attempt) None w2
                else if ur_status resp < 500 \<or> ur_status resp \<notin> set RETRYABLE_STATUS
                then (Inr resp, on_breaker name record_success w2)
                else (Inr resp, on_breaker name (record_failure (now (snd w2))) w2)
            | Fails e \<Rightarrow>
                attempt_loop send sleep now q name idem attempts (Suc attempt) (Some e) w2
            | Raises e \<Rightarrow> (Inl (ServerError e), w2)))"
  by pat_completeness auto
termination
  by (relation "measure (\<lambda>(_, _, _, _, _, _, attempts, attempt, _, _). attempts - attempt)") auto

declare attempt_loop.simps [simp del]

definition open_error :: "string \<Rightarrow> http_error" where
  "open_error name =
     HTTPException 503
       (''Service '' @ [CHR 0x27] @ name @ [CHR 0x27] @
        '' is temporarily unavailable. Please retry shortly.'') [(''Retry-After'', ''30'')]"

definition is_get :: "string \<Rightarrow> bool" where
  "is_get meth \<longleftrightarrow> py_lower meth = ''get''"

definition attempts_for :: "string \<Rightarrow> nat" where
  "attempts_for meth = (if is_get meth then MAX_ATTEMPTS else 1)"

definition dispatch_with_retry ::
  "(up_request \<Rightarrow> registry \<times> 'u \<Rightarrow> outcome \<times> registry \<times> 'u) \<Rightarrow>
   (pyfloat \<Rightarrow> registry \<times> 'u \<Rightarrow> registry \<times> 'u) \<Rightarrow> ('u \<Rightarrow> pyfloat) \<Rightarrow> up_request \<Rightarrow> string \<Rightarrow>
   registry \<times> 'u \<Rightarrow> (http_error + up_response) \<times> registry \<times> 'u" where
  "dispatch_with_retry send sleep now q name w =
     (let (op, w1) = get_is_open now name w in
      if op then (Inl (open_error name), w1)
      else attempt_loop send sleep now q name (is_get (up_method q)) (attempts_for (up_method q)) 0 None w1)"

section \<open>The streaming path and the route\<close>

text \<open>
  One step of reading the upstream's event stream: a chunk, its end, or an exception, each with
  what other tasks did to the world meanwhile. A list of steps that ends with neither of the last
  two is a client that went away: the generator is cancelled and records nothing.
\<close>

datatype stream_read = Chunk string | StreamEnd | ReadFails

fun sse_chunks ::
  "('u \<Rightarrow> pyfloat) \<Rightarrow> string \<Rightarrow> (stream_read \<times> (registry \<times> 'u \<Rightarrow> registry \<times> 'u)) list \<Rightarrow>
   registry \<times> 'u \<Rightarrow> string list \<times> registry \<times> 'u" where
  "sse_chunks now name [] w = ([], w)"
| "sse_chunks now name ((Chunk c, env) # rs) w =
     (case sse_chunks now name rs (env w) of (cs, w') \<Rightarrow> (c # cs, w'))"
| "sse_chunks now name ((StreamEnd, env) # rs) w = ([], env w)"
| "sse_chunks now name ((ReadFails, env) # rs) w =
     (let w1 = env w in ([], on_breaker name (record_failure (now (snd w1))) w1))"

text \<open>\<^verbatim>\<open>_sse_generator\<close>: \<open>connect\<close> opens the stream and tells whether that worked.\<close>

definition sse_generator ::
  "(up_request \<Rightarrow> registry \<times> 'u \<Rightarrow> bool \<times> registry \<times> 'u) \<Rightarrow> ('u \<Rightarrow> pyfloat) \<Rightarrow> up_request \<Rightarrow> string \<Rightarrow>
   (stream_read \<times> (registry \<times> 'u \<Rightarrow> registry \<times> 'u)) list \<Rightarrow> registry \<times> 'u \<Rightarrow>
   string list \<times> registry \<times> 'u" where
  "sse_generator connect now q name rs w =
     (case connect q w of
        (True, w1) \<Rightarrow> sse_chunks now name rs (on_breaker name record_success w1)
      | (False, w1) \<Rightarrow> ([], on_breaker name (record_failure (now (snd w1))) w1))"

definition sse_response :: response where
  "sse_response =
     \<lparr>resp_status = 200,
      resp_headers = [(''cache-control'', ''no-cache''), (''x-accel-buffering'', ''no''),
        (''connection'', ''keep-alive''), (''content-type'', ''text/event-stream; charset=utf-8'')],
      resp_body = EventStream\<rparr>"

text \<open>
  The dict of response headers; \<^verbatim>\<open>media_type\<close> is only used where the dict has no content type,
  and then there is none. The content-length that the framework adds itself is not modelled.
\<close>

definition relay_response :: "up_response \<Rightarrow> response" where
  "relay_response u =
     \<lparr>resp_status = ur_status u,
      resp_headers =
        fold (\<lambda>(k, v) d. if py_lower k \<notin> set HOP_BY_HOP then AList.update k v d else d) (ur_headers u) [],
      resp_body = Bytes (ur_content u)\<rparr>"

record 'u http_client =
  hc_send :: "up_request \<Rightarrow> registry \<times> 'u \<Rightarrow> outcome \<times> registry \<times> 'u"
  hc_sleep :: "pyfloat \<Rightarrow> registry \<times> 'u \<Rightarrow> registry \<times> 'u"
  hc_now :: "'u \<Rightarrow> pyfloat"

definition target_url :: "string \<Rightarrow> request \<Rightarrow> string" where
  "target_url upstream r =
     upstream @ req_path r @ (if req_query r \<noteq> [] then ''?'' @ req_query r else [])"

text \<open>
  The route. \<open>client\<close> is \<^const>\<open>None\<close> until the application has started. On the streaming path
  the answer is the response object, whose generator runs later.
\<close>

definition proxy ::
  "(string \<Rightarrow> string \<Rightarrow> string) \<Rightarrow> (json \<Rightarrow> string) \<Rightarrow> int \<Rightarrow> proxy_settings \<Rightarrow> 'u http_client option \<Rightarrow>
   (body_state \<times> registry \<times> 'u) handler" where
  "proxy hmac fmt wall cfg client r w0 =
     (let (bs, w) = w0 in
      case resolve_upstream cfg (req_path r) of
        Inl e \<Rightarrow> (Inl e, w0)
      | Inr (upstream, path, name) \<Rightarrow>
          (case build_forward_headers hmac fmt wall cfg r of
             Inl e \<Rightarrow> (Inl e, w0)
           | Inr headers \<Rightarrow>
               (let (body, bs') = read_body bs in
                case client of
                  None \<Rightarrow> (Inl (HTTPException 503 ''Gateway not ready'' []), bs', w)
                | Some c \<Rightarrow>
                    if starts_with ''text/event-stream'' (hget_or (req_headers r) ''accept'' []) \<and>
                       is_get (req_method r)
                    then
                      (let (op, w1) = get_is_open (hc_now c) name w in
                       if op then
                         (Inl (HTTPException 503
                                (''Service '' @ [CHR 0x27] @ name @ [CHR 0x27] @ '' unavailable'') []), bs', w1)
                       else (Inr sse_response, bs', w1))
                    else
                      (case dispatch_with_retry (hc_send c) (hc_sleep c) (hc_now c)
                              \<lparr>up_method = req_method r, up_url = target_url upstream r,
                               up_headers = headers, up_body = body\<rparr> name w of
                         (Inl e, w1) \<Rightarrow> (Inl e, bs', w1)
                       | (Inr u, w1) \<Rightarrow> (Inr (relay_response u), bs', w1)))))"

section \<open>The retry loop in closed form\<close>

fun transient :: "outcome \<Rightarrow> bool" where
  "transient (Answer resp) \<longleftrightarrow> ur_status resp \<in> set RETRYABLE_STATUS"
| "transient (Fails e) \<longleftrightarrow> True"
| "transient (Raises e) \<longleftrightarrow> False"

primrec nth_try ::
  "(up_request \<Rightarrow> registry \<times> 'u \<Rightarrow> outcome \<times> registry \<times> 'u) \<Rightarrow>
   (pyfloat \<Rightarrow> registry \<times> 'u \<Rightarrow> registry \<times> 'u) \<Rightarrow> up_request \<Rightarrow> registry \<times> 'u \<Rightarrow> nat \<Rightarrow>
   outcome \<times> registry \<times> 'u" where
  "nth_try send sleep q w 0 = send q w"
| "nth_try send sleep q w (Suc k) =
     send q (sleep (BACKOFF_SCHEDULE ! Suc k) (snd (nth_try send sleep q w k)))"

text \<open>What the last attempt means for the caller and for the breaker.\<close>

definition settle ::
  "('u \<Rightarrow> pyfloat) \<Rightarrow> string \<Rightarrow> outcome \<times> registry \<times> 'u \<Rightarrow>
   (http_error + up_response) \<times> registry \<times> 'u" where
  "settle now name ow =
     (case ow of (out, w) \<Rightarrow>
        (case out of
           Answer resp \<Rightarrow> Inr resp
         | Fails ConnectError \<Rightarrow> Inl (HTTPException 503 ''Upstream service unreachable'' [])
         | Fails TimeoutException \<Rightarrow> Inl (HTTPException 504 ''Upstream service timed out'' [])
         | Raises e \<Rightarrow> Inl (ServerError e),
         if transient out then on_breaker name (record_failure (now (snd w))) w
         else (case out of Answer _ \<Rightarrow> on_breaker name record_success w | _ \<Rightarrow> w)))"

lemma retryable_500: "ur_status resp \<in> set RETRYABLE_STATUS \<Longrightarrow> \<not> ur_status resp < 500"
  by (auto simp: RETRYABLE_STATUS_def)

lemma attempt_loop_step:
  assumes "attempt < attempts"
    and "send q (if 0 < attempt then sleep (BACKOFF_SCHEDULE ! attempt) w else w) = (out, w2)"
  shows "attempt_loop send sleep now q name idem attempts attempt last_exc w =
    (case out of
       Answer resp \<Rightarrow>
         if ur_status resp \<in> set RETRYABLE_STATUS \<and> idem \<and> Suc attempt < attempts
         then attempt_loop send sleep now q name idem attempts (Suc attempt) None w2
         else if ur_status resp \<notin> set RETRYABLE_STATUS
         then (Inr resp, on_breaker name record_success w2)
         else (Inr resp, on_breaker name (record_failure (now (snd w2))) w2)
     | Fails e \<Rightarrow> attempt_loop send sleep now q name idem attempts (Suc attempt) (Some e) w2
     | Raises e \<Rightarrow> (Inl (ServerError e), w2))"
proof -
  have "\<not> attempts \<le> attempt" using assms(1) by simp
  then show ?thesis
    unfolding attempt_loop.simps [of send sleep now q name idem attempts attempt] Let_def assms(2) prod.case
    using retryable_500 by (auto split: outcome.split)
qed

lemma attempt_loop_last:
  assumes "Suc attempt = attempts"
    and "send q (if 0 < attempt then sleep (BACKOFF_SCHEDULE ! attempt) w else w) = t"
  shows "attempt_loop send sleep now q name idem attempts attempt last_exc w = settle now name t"
proof -
  obtain out w2 where t: "t = (out, w2)" by (cases t) auto
  have last: "attempt_loop send sleep now q name idem attempts (Suc attempt) (Some e) w2 =
      (Inl (unreachable_error name attempts (Some e)),
       on_breaker name (record_failure (now (snd w2))) w2)" for e
    using assms(1) by (subst attempt_loop.simps) simp
  have lt: "attempt < attempts" using assms(1) by simp
  note u = attempt_loop_step [of attempt attempts send q sleep w out w2 now name idem last_exc, OF lt assms(2) [unfolded t]]
  show ?thesis
    unfolding u t settle_def last unreachable_error_def
    using assms(1) by (cases out) (auto split: transport_error.splits)
qed

lemma attempt_loop_retry:
  assumes "Suc attempt < attempts"
    and "send q (if 0 < attempt then sleep (BACKOFF_SCHEDULE ! attempt) w else w) = (out, w2)"
  shows "\<exists>last'. attempt_loop send sleep now q name True attempts attempt last_exc w =
    (if transient out then attempt_loop send sleep now q name True attempts (Suc attempt) last' w2
     else settle now name (out, w2))"
proof -
  have "attempt < attempts" using assms(1) by simp
  note u = attempt_loop_step [of attempt attempts send q sleep w out w2 now name True last_exc, OF this assms(2)]
  show ?thesis unfolding u using assms(1) by (cases out) (auto simp: settle_def)
qed

text \<open>
  C2: The retry loop computes a closed form. With an open breaker the answer is a 503 and nothing
  is sent. Otherwise the loop answers with its first attempt that is not transient (502, 503, 504
  or a transport failure), or with the last one allowed: the third for GET, the first for any
  other method. Only that attempt reaches the breaker: one failure if it is transient, one
  success if it is another answer, nothing for an exception the loop does not catch. In
  particular the loop's own last error message is never produced.
\<close>
theorem dispatch_closed_form:
  "dispatch_with_retry send sleep now q name w =
     (case get_is_open now name w of
        (True, w1) \<Rightarrow> (Inl (open_error name), w1)
      | (False, w1) \<Rightarrow>
          (let t = nth_try send sleep q w1 in
           settle now name
             (if is_get (up_method q) \<and> transient (fst (t 0))
              then (if transient (fst (t 1)) then t 2 else t 1) else t 0)))"
proof -
  obtain op w1 where g: "get_is_open now name w = (op, w1)" by (cases "get_is_open now name w") auto
  let ?t = "nth_try send sleep q w1"
  have once: "attempt_loop send sleep now q name False 1 0 None w1 = settle now name (?t 0)"
    by (rule attempt_loop_last) simp_all
  obtain o0 v0 where t0: "?t 0 = (o0, v0)" by (cases "?t 0")
  obtain o1 v1 where t1: "?t (Suc 0) = (o1, v1)" by (cases "?t (Suc 0)")
  have s0: "send q (if 0 < (0::nat) then sleep (BACKOFF_SCHEDULE ! 0) w1 else w1) = (o0, v0)"
    using t0 by simp
  have s1: "send q (if 0 < Suc 0 then sleep (BACKOFF_SCHEDULE ! Suc 0) v0 else v0) = (o1, v1)"
    using t0 t1 by simp
  have s2: "?t 2 = send q (if 0 < Suc (Suc 0) then sleep (BACKOFF_SCHEDULE ! Suc (Suc 0)) v1 else v1)"
    using t1 by (simp add: numeral_2_eq_2)
  obtain l0 where l0: "attempt_loop send sleep now q name True 3 0 None w1 =
    (if transient o0 then attempt_loop send sleep now q name True 3 (Suc 0) l0 v0
     else settle now name (o0, v0))"
    using attempt_loop_retry [of 0 3 send q sleep w1 o0 v0 now name None] s0 by auto
  obtain l1 where l1: "attempt_loop send sleep now q name True 3 (Suc 0) l0 v0 =
    (if transient o1 then attempt_loop send sleep now q name True 3 (Suc (Suc 0)) l1 v1
     else settle now name (o1, v1))"
    using attempt_loop_retry [of "Suc 0" 3 send q sleep v0 o1 v1 now name l0] s1 by auto
  have l2: "attempt_loop send sleep now q name True 3 (Suc (Suc 0)) l1 v1 = settle now name (?t 2)"
    by (rule attempt_loop_last) (simp_all add: s2)
  have n: "attempts_for (up_method q) = (if is_get (up_method q) then 3 else 1)"
    by (simp add: attempts_for_def MAX_ATTEMPTS_def BACKOFF_SCHEDULE_def)
  show ?thesis
    unfolding dispatch_with_retry_def g Let_def prod.case n One_nat_def t0 t1 fst_conv
    using once l0 l1 l2 t0 by (cases op) (auto simp: t1 simp del: nth_try.simps)
qed

text \<open>A client that keeps a log of the requests it was given, beside the environment \<open>'v\<close>.\<close>

definition logging ::
  "(up_request \<Rightarrow> registry \<times> 'v \<Rightarrow> outcome \<times> registry \<times> 'v) \<Rightarrow>
   up_request \<Rightarrow> registry \<times> up_request list \<times> 'v \<Rightarrow> outcome \<times> registry \<times> up_request list \<times> 'v" where
  "logging send q w =
     (case w of (reg, lg, v) \<Rightarrow>
        (case send q (reg, v) of (out, (reg', v')) \<Rightarrow> (out, (reg', lg @ [q], v'))))"

definition past_log ::
  "(registry \<times> 'v \<Rightarrow> registry \<times> 'v) \<Rightarrow>
   registry \<times> up_request list \<times> 'v \<Rightarrow> registry \<times> up_request list \<times> 'v" where
  "past_log f w = (case w of (reg, lg, v) \<Rightarrow> (case f (reg, v) of (reg', v') \<Rightarrow> (reg', lg, v')))"

definition log_of :: "registry \<times> up_request list \<times> 'v \<Rightarrow> up_request list" where
  "log_of w = fst (snd w)"

lemma log_of_send [simp]: "log_of (snd (logging send q w)) = log_of w @ [q]"
  by (auto simp: logging_def log_of_def split: prod.splits)

lemma log_of_past [simp]: "log_of (past_log f w) = log_of w"
  by (auto simp: past_log_def log_of_def split: prod.splits)

lemma log_of_on_breaker [simp]: "log_of (on_breaker name f w) = log_of w"
  by (auto simp: on_breaker_def log_of_def split: prod.splits option.splits)

lemma log_of_nth_try:
  "log_of (snd (nth_try (logging send) (\<lambda>d. past_log (sleep d)) q w k)) = log_of w @ replicate (Suc k) q"
  by (induction k) (simp_all add: replicate_append_same)

lemma log_of_settle [simp]: "log_of (snd (settle now name t)) = log_of (snd t)"
  by (auto simp: settle_def split: prod.splits outcome.splits)

lemma log_of_get_is_open [simp]: "log_of (snd (get_is_open now name w)) = log_of w"
  by (auto simp: get_is_open_def log_of_def Let_def split: prod.splits)


definition demo_post :: up_request where
  "demo_post = \<lparr>up_method = ''POST'', up_url = ''http://task-service:8002/api/v1/tasks'',
     up_headers = [], up_body = ''{}''\<rparr>"


section \<open>The identity headers come from the gateway\<close>

definition clean :: "fwd_headers \<Rightarrow> bool" where
  "clean h \<longleftrightarrow> (\<forall>(k, v)\<in>set h. py_lower k \<notin> set HOP_BY_HOP \<and> py_lower k \<notin> set GATEWAY_OWNED)"

lemma clean_strip: "clean (strip_headers hs)"
proof -
  have "clean d \<Longrightarrow> clean (fold (\<lambda>(k, v) d.
       if py_lower k \<notin> set HOP_BY_HOP \<and> py_lower k \<notin> set GATEWAY_OWNED
       then AList.update k (JStr v) d else d) hs d)" for d
  proof (induction hs arbitrary: d)
    case (Cons p hs)
    obtain k v where p: "p = (k, v)" by (cases p)
    show ?case
      unfolding p fold_Cons comp_def prod.case
      using set_update_subset [of k "JStr v" d] Cons.prems
      by (intro Cons.IH) (auto simp: clean_def)
  qed simp
  moreover have "clean []" by (simp add: clean_def)
  ultimately show ?thesis unfolding strip_headers_def by blast
qed

lemma in_update: "(k, v) \<in> set (AList.update a b d) \<Longrightarrow> (k, v) = (a, b) \<or> (k, v) \<in> set d"
  using set_update_subset [of a b d] by auto

text \<open>
  The dict as a chain of assignments on the stripped client headers: this form is what the lemmas
  about single headers work on.
\<close>

definition identity_headers ::
  "(string \<Rightarrow> string \<Rightarrow> string) \<Rightarrow> (json \<Rightarrow> string) \<Rightarrow> int \<Rightarrow> proxy_settings \<Rightarrow> request \<Rightarrow> string \<Rightarrow>
   fwd_headers" where
  "identity_headers hmac fmt now cfg r user_roles =
     (let e = or_else (st_user_email r) (JStr []);
          (sig, issued_at) =
            sign_identity hmac now (interservice_hmac_secret cfg) (user_of r) (email_text fmt e) user_roles None
      in if user_of r = [] then []
         else [(''X-User-Id'', JStr (user_of r))] @
              (if truthy e then [(''X-User-Email'', e)] else []) @
              [(''X-User-Roles'', JStr user_roles), (IDENTITY_SIG_HEADER, JStr sig),
               (IDENTITY_TS_HEADER, JStr issued_at)])"

definition origin_headers :: "request \<Rightarrow> fwd_headers" where
  "origin_headers r =
     (let ip = (case req_client r of Some h \<Rightarrow> h | None \<Rightarrow> []);
          prior = hget_or (req_headers r) ''x-forwarded-for'' []
      in (if ip \<noteq> [] then [(''X-Forwarded-For'', JStr (if prior \<noteq> [] then prior @ '', '' @ ip else ip))]
          else []) @
         [(''X-Forwarded-Proto'', JStr (req_scheme r)),
          (''X-Forwarded-Host'', JStr (case req_hostname r of Some h \<Rightarrow> h | None \<Rightarrow> []))])"

definition request_id_header :: "request \<Rightarrow> fwd_headers" where
  "request_id_header r =
     (case st_request_id r of
        Some rid \<Rightarrow> if rid \<noteq> [] then [(''X-Request-ID'', JStr rid)] else []
      | None \<Rightarrow> [])"

definition updates :: "('k, 'v) dict \<Rightarrow> ('k, 'v) dict \<Rightarrow> ('k, 'v) dict" where
  "updates kvs d = fold (\<lambda>(k, v). AList.update k v) kvs d"

lemma updates_simps [simp]:
  "updates [] d = d" "updates ((k, v) # kvs) d = updates kvs (AList.update k v d)"
  "updates (xs @ ys) d = updates ys (updates xs d)"
  by (simp_all add: updates_def)

lemma in_updates: "(k, v) \<in> set (updates kvs d) \<Longrightarrow> (k, v) \<in> set kvs \<or> (k, v) \<in> set d"
proof (induction kvs arbitrary: d)
  case (Cons p kvs)
  then show ?case using in_update [of k v "fst p" "snd p" d] by (cases p) auto
qed simp

lemma map_of_updates:
  "map_of (updates kvs d) k = (case map_of (rev kvs) k of Some v \<Rightarrow> Some v | None \<Rightarrow> map_of d k)"
  by (induction kvs arbitrary: d) (auto simp: map_add_def split: option.splits)

lemma forward_headers_chain:
  "build_forward_headers hmac fmt now cfg r =
     (case join_roles (or_else (st_user_roles r) (JArr [])) of
        None \<Rightarrow> Inl (ServerError ''TypeError'')
      | Some user_roles \<Rightarrow>
          Inr (updates (origin_headers r @ identity_headers hmac fmt now cfg r user_roles @
                 request_id_header r) (strip_headers (req_headers r))))"
proof (cases "join_roles (or_else (st_user_roles r) (JArr []))")
  case None
  then show ?thesis by (simp add: build_forward_headers_def Let_def)
next
  case (Some roles)
  obtain sig ts where s: "sign_identity hmac now (interservice_hmac_secret cfg) (user_of r)
      (email_text fmt (or_else (st_user_email r) (JStr []))) roles None = (sig, ts)"
    by fastforce
  show ?thesis
    unfolding build_forward_headers_def Let_def Some option.case identity_headers_def
      origin_headers_def request_id_header_def user_of_def [symmetric] s prod.case
    by (cases "st_request_id r") simp_all
qed

lemma lower_names [simp]:
  "py_lower ''X-Forwarded-For'' = ''x-forwarded-for''"
  "py_lower ''X-Forwarded-Proto'' = ''x-forwarded-proto''"
  "py_lower ''X-Forwarded-Host'' = ''x-forwarded-host''"
  "py_lower ''X-Request-ID'' = ''x-request-id''"
  by code_simp+

lemma origin_header_names:
  "(k, v) \<in> set (origin_headers r) \<Longrightarrow>
   py_lower k = ''x-forwarded-for'' \<and> (\<exists>ip. req_client r = Some ip \<and> ip \<noteq> []) \<or>
   py_lower k = ''x-forwarded-proto'' \<and> v = JStr (req_scheme r) \<or>
   py_lower k = ''x-forwarded-host'' \<and> v = JStr (case req_hostname r of Some n \<Rightarrow> n | None \<Rightarrow> [])"
  by (cases "req_client r") (auto simp: origin_headers_def Let_def split: if_splits)

lemma identity_header_names:
  "(k, v) \<in> set (identity_headers hmac fmt now cfg r roles) \<Longrightarrow>
   user_of r \<noteq> [] \<and>
   (py_lower k = ''x-user-id'' \<and> v = JStr (user_of r) \<or>
    py_lower k = ''x-user-email'' \<and> st_user_email r = Some v \<or>
    py_lower k = ''x-user-roles'' \<and> v = JStr roles \<or>
    py_lower k = ''x-identity-signature'' \<or> py_lower k = ''x-identity-issued-at'')"
  by (cases "st_user_email r")
     (auto simp: identity_headers_def Let_def or_else_def split: if_splits prod.splits)

lemma request_id_names:
  "(k, v) \<in> set (request_id_header r) \<Longrightarrow> py_lower k = ''x-request-id''"
  by (auto simp: request_id_header_def split: option.splits if_splits)

lemma forward_headers_entry:
  assumes "build_forward_headers hmac fmt now cfg r = Inr h" "(k, v) \<in> set h"
  obtains roles where "join_roles (or_else (st_user_roles r) (JArr [])) = Some roles"
    "(k, v) \<in> set (origin_headers r) \<or> (k, v) \<in> set (identity_headers hmac fmt now cfg r roles) \<or>
     (k, v) \<in> set (request_id_header r) \<or> (k, v) \<in> set (strip_headers (req_headers r))"
proof -
  from assms(1) obtain roles where j: "join_roles (or_else (st_user_roles r) (JArr [])) = Some roles"
    and h: "h = updates (origin_headers r @ identity_headers hmac fmt now cfg r roles @
      request_id_header r) (strip_headers (req_headers r))"
    by (auto simp: forward_headers_chain simp del: updates_simps split: option.splits)
  show thesis using that [OF j] in_updates [OF assms(2) [unfolded h]] by auto
qed


definition demo_proxy :: proxy_settings where
  "demo_proxy =
     \<lparr>user_service_url = ''http://user-service:8001'', task_service_url = ''http://task-service:8002'',
      notification_service_url = ''http://notification-service:8003'', interservice_hmac_secret = ''k''\<rparr>"

definition demo_spoof :: request where
  "demo_spoof = (plain_request ''GET'' ''/api/v1/tasks'' [(''x-user-id'', ''admin'')])
     \<lparr>st_user_id := Some ''u1'', st_user_roles := Some (JArr [JStr ''user''])\<rparr>"


end
