(* ===== verification/Gateway.thy ===== *)
theory Gateway
  imports GatewayAuth RateLimiter Proxy
begin

text \<open>
  The rest of the API gateway and its composition: correlation ids
  (\<^verbatim>\<open>middleware/correlation.py\<close>), security headers (\<^verbatim>\<open>middleware/security_headers.py\<close>), the checks
  of the configuration (\<^verbatim>\<open>config.py\<close>), and the application with its middleware stack, metrics
  and health routes (\<^verbatim>\<open>main.py\<close>).
\<close>

section \<open>Configuration\<close>

definition ALLOWED_JWT_ALGORITHMS :: "string list" where
  "ALLOWED_JWT_ALGORITHMS = [''HS256'', ''HS384'', ''HS512'']"

definition MIN_JWT_SECRET_LEN :: nat where
  "MIN_JWT_SECRET_LEN = 32"

definition BANNED_SECRETS :: "string list" where
  "BANNED_SECRETS =
     [''change-me'', ''change-me-in-production'', ''secret'', ''password'', ''jwt-secret'', ''your-secret'']"

text \<open>\<open>loads\<close> is the JSON parser and \<open>str\<close> the printed form of a JSON value that is not a text.\<close>

definition parse_origins :: "(string \<Rightarrow> json option) \<Rightarrow> (json \<Rightarrow> string) \<Rightarrow> string \<Rightarrow> string list" where
  "parse_origins loads str raw =
     (let s = py_strip raw;
          text = (\<lambda>x. py_strip (case x of JStr t \<Rightarrow> t | _ \<Rightarrow> str x));
          items = filter (\<lambda>x. x \<noteq> []) (map py_strip (py_split CHR '','' s))
      in if raw = [] \<or> s = [] then []
         else if starts_with ''['' s then
           (case loads s of
              Some (JArr xs) \<Rightarrow> filter (\<lambda>x. x \<noteq> []) (map text xs)
            | _ \<Rightarrow> items)
         else items)"

definition algorithm_must_be_secure :: "string \<Rightarrow> string + string" where
  "algorithm_must_be_secure v = (if v \<notin> set ALLOWED_JWT_ALGORITHMS then Inl ''ValueError'' else Inr v)"

definition secret_must_be_strong :: "string \<Rightarrow> string + string" where
  "secret_must_be_strong v =
     (if py_lower v \<in> set BANNED_SECRETS then Inl ''ValueError''
      else if length v < MIN_JWT_SECRET_LEN then Inl ''ValueError''
      else Inr v)"

section \<open>Correlation ids\<close>

definition request_id_re :: "string \<Rightarrow> bool" where
  "request_id_re s = re_class_upto (\<lambda>c. re_word c \<or> c = CHR ''-'') 128 s"

text \<open>\<open>fresh\<close> is the text of a new random UUID.\<close>

definition sanitize_or_generate :: "string \<Rightarrow> string option \<Rightarrow> string" where
  "sanitize_or_generate fresh raw =
     (case raw of
        Some s \<Rightarrow> if s \<noteq> [] \<and> request_id_re s then s else fresh
      | None \<Rightarrow> fresh)"

definition correlation_dispatch :: "string \<Rightarrow> 'w handler \<Rightarrow> 'w handler" where
  "correlation_dispatch fresh call_next r w =
     (let request_id = sanitize_or_generate fresh (hget (req_headers r) ''x-request-id'')
      in map_response (set_header ''X-Request-ID'' request_id)
           (call_next (r\<lparr>st_request_id := Some request_id\<rparr>) w))"

section \<open>Security headers\<close>

definition CREDENTIAL_PATHS :: "string list" where
  "CREDENTIAL_PATHS =
     [''/api/v1/auth/login'', ''/api/v1/auth/register'', ''/api/v1/auth/refresh'',
      ''/api/v1/users/me/password'']"

definition SECURITY_HEADERS :: "(string \<times> string) list" where
  "SECURITY_HEADERS =
     [(''X-Content-Type-Options'', ''nosniff''),
      (''X-Frame-Options'', ''DENY''),
      (''X-XSS-Protection'', ''0''),
      (''Strict-Transport-Security'', ''max-age=63072000; includeSubDomains; preload''),
      (''Content-Security-Policy'',
         ''default-src '' @ [CHR 0x27] @ ''none'' @ [CHR 0x27] @ ''; frame-ancestors '' @
         [CHR 0x27] @ ''none'' @ [CHR 0x27]),
      (''Referrer-Policy'', ''strict-origin-when-cross-origin''),
      (''Permissions-Policy'',
         ''camera=(), microphone=(), geolocation=(), interest-cohort=(), payment=()'')]"

definition HEADERS_TO_REMOVE :: "string list" where
  "HEADERS_TO_REMOVE = [''server'', ''x-powered-by'']"

definition secure_response :: "string \<Rightarrow> response \<Rightarrow> response" where
  "secure_response path resp =
     (let r1 = fold (\<lambda>(h, v). set_header h v) SECURITY_HEADERS resp;
          r2 = (if path \<in> set CREDENTIAL_PATHS
                then set_header ''Pragma'' ''no-cache''
                       (set_header ''Cache-Control'' ''no-store, no-cache, must-revalidate'' r1)
                else r1)
      in r2\<lparr>resp_headers := fold hdel HEADERS_TO_REMOVE (resp_headers r2)\<rparr>)"

definition security_dispatch :: "'w handler \<Rightarrow> 'w handler" where
  "security_dispatch call_next r w = map_response (secure_response (req_path r)) (call_next r w)"

section \<open>Metrics\<close>

text \<open>
  The request counter as the list of its increments: method, path, status. \<open>elapsed\<close> is the printed
  duration; the histogram of durations is not modelled.
\<close>

type_synonym metrics = "(string \<times> string \<times> nat) list"

definition record_metrics ::
  "bool \<Rightarrow> string \<Rightarrow> (string \<times> string \<times> nat \<Rightarrow> 'w \<Rightarrow> 'w) \<Rightarrow> 'w handler \<Rightarrow> 'w handler" where
  "record_metrics is_prod elapsed inc call_next r w =
     (case call_next r w of
        (Inl e, w') \<Rightarrow> (Inl e, w')
      | (Inr resp, w') \<Rightarrow>
          (Inr (if \<not> is_prod then set_header ''X-Response-Time'' elapsed resp else resp),
           inc (req_method r, req_path r, resp_status resp) w'))"

section \<open>Health routes\<close>

type_synonym 'u app_state = "body_state \<times> registry \<times> metrics \<times> 'u"

definition liveness :: "'w handler" where
  "liveness r w =
     (Inr (JSONResponse 200 (JObj [(''status'', JStr ''ok''), (''service'', JStr ''api-gateway'')]) []), w)"

definition state_name :: "circuit_state \<Rightarrow> string" where
  "state_name s = (case s of CLOSED \<Rightarrow> ''CLOSED'' | OPEN \<Rightarrow> ''OPEN'' | HALF_OPEN \<Rightarrow> ''HALF_OPEN'')"

definition upstreams :: "proxy_settings \<Rightarrow> (string \<times> string) list" where
  "upstreams cfg =
     [(''user-service'', user_service_url cfg), (''task-service'', task_service_url cfg),
      (''notification-service'', notification_service_url cfg)]"

text \<open>
  \<open>probe url\<close> is whether a GET of the URL answered 200; the three probes run concurrently and
  their verdicts come back in the order of the services. An error whose detail is an object is
  given directly as the response the framework makes of it.
\<close>

definition readiness ::
  "(string \<Rightarrow> bool) \<Rightarrow> bool \<Rightarrow> ('u \<Rightarrow> pyfloat) \<Rightarrow> proxy_settings \<Rightarrow> 'u app_state handler" where
  "readiness probe started now cfg r w =
     (if \<not> started then
        (Inr (JSONResponse 503
           (JObj [(''detail'', JObj [(''status'', JStr ''starting''),
              (''reason'', JStr ''HTTP client not yet initialized'')])]) []), w)
      else
        (case w of (bs, reg, m, u) \<Rightarrow>
           (let unhealthy = map fst (filter (\<lambda>(n, url). \<not> probe (url @ ''/health'')) (upstreams cfg));
                (states, reg') = all_states (now u) reg;
                breakers = JObj (map (\<lambda>(n, s). (n, JStr (state_name s))) states)
            in if unhealthy \<noteq> [] then
                 (Inr (JSONResponse 503
                    (JObj [(''detail'', JObj [(''status'', JStr ''degraded''),
                       (''unhealthy'', JArr (map JStr unhealthy)),
                       (''circuit_breakers'', breakers)])]) []), bs, reg', m, u)
               else
                 (Inr (JSONResponse 200
                    (JObj [(''status'', JStr ''ready''),
                       (''services'', JArr (map (\<lambda>(n, _). JStr n) (upstreams cfg))),
                       (''circuit_breakers'', breakers)]) []), bs, reg', m, u))))"

section \<open>The application\<close>

text \<open>
  What the application gets from its libraries and its environment: the JWT library, HMAC, the CORS
  middleware, Redis, the HTTP client, the Prometheus exporter, the framework's own answers
  (documentation, unknown paths), and the readings of one request.
\<close>

record ('r, 'u) gateway_env =
  ge_unverified :: "string \<Rightarrow> header_result"
  ge_decode :: "string \<Rightarrow> string \<Rightarrow> string list \<Rightarrow> decode_result"
  ge_hmac :: "string \<Rightarrow> string \<Rightarrow> string"
  ge_fmt :: "json \<Rightarrow> string"
  ge_cors :: "'u app_state handler \<Rightarrow> 'u app_state handler"
  ge_exec :: "redis_cmd list \<Rightarrow> 'r \<Rightarrow> nat list option \<times> 'r"
  ge_connect :: "string \<Rightarrow> 'r option"
  ge_client :: "(metrics \<times> 'u) http_client option"
  ge_probe :: "string \<Rightarrow> bool"
  ge_export :: "metrics \<Rightarrow> string"
  ge_other :: "'u app_state handler"
  ge_limiter :: rl_env
  ge_fresh :: string
  ge_elapsed :: string
  ge_now :: "metrics \<times> 'u \<Rightarrow> pyfloat"

record gateway_settings =
  gs_proxy :: proxy_settings
  gs_jwt :: jwt_settings
  gs_max_body_bytes :: int
  gs_production :: bool

definition gateway_auth :: auth_mw where
  "gateway_auth =
     JWTAuthMiddleware (Some [''/health'', ''/health/ready'', ''/metrics'']) (Some [''/api/v1/auth/''])"

definition metrics_route :: "(metrics \<Rightarrow> string) \<Rightarrow> 'u app_state handler" where
  "metrics_route export r w =
     (case w of (bs, reg, m, u) \<Rightarrow>
        (Inr \<lparr>resp_status = 200, resp_headers = [], resp_body = Bytes (export m)\<rparr>, w))"

definition method_not_allowed :: "string \<Rightarrow> 'w handler" where
  "method_not_allowed allow r w = (Inl (HTTPException 405 ''Method Not Allowed'' [(''Allow'', allow)]), w)"

definition gateway_routes ::
  "('r, 'u) gateway_env \<Rightarrow> gateway_settings \<Rightarrow> 'u app_state handler" where
  "gateway_routes en cfg r w =
     (if starts_with ''/api/v1/'' (req_path r) then
        (if req_method r \<in> set [''GET'', ''POST'', ''PUT'', ''PATCH'', ''DELETE'']
         then proxy (ge_hmac en) (ge_fmt en) \<lfloor>en_wall (ge_limiter en)\<rfloor> (gs_proxy cfg) (ge_client en) r w
         else method_not_allowed ''GET, POST, PUT, PATCH, DELETE'' r w)
      else if req_path r = ''/health'' then
        (if req_method r = ''GET'' then liveness r w else method_not_allowed ''GET'' r w)
      else if req_path r = ''/health/ready'' then
        (if req_method r = ''GET''
         then (case w of (bs, reg, m, u) \<Rightarrow>
           readiness (ge_probe en) (ge_client en \<noteq> None) (\<lambda>u'. ge_now en (m, u')) (gs_proxy cfg) r w)
         else method_not_allowed ''GET'' r w)
      else if req_path r = ''/metrics'' then
        (if req_method r = ''GET'' then metrics_route (ge_export en) r w else method_not_allowed ''GET'' r w)
      else ge_other en r w)"

text \<open>
  The stack. Each \<^verbatim>\<open>add_middleware\<close> puts its layer outside all earlier ones, so the order of the
  calls in \<^verbatim>\<open>main.py\<close>, read from the first, is the order of the layers from the inside out.
\<close>

definition inner_app :: "('r, 'u) gateway_env \<Rightarrow> gateway_settings \<Rightarrow> 'u app_state handler" where
  "inner_app en cfg = ge_cors en (security_dispatch (route (gateway_routes en cfg)))"

definition count_request ::
  "string \<times> string \<times> nat \<Rightarrow> 'r limiter \<times> 'u app_state \<Rightarrow> 'r limiter \<times> 'u app_state" where
  "count_request e w = (case w of (rl, bs, reg, m, u) \<Rightarrow> (rl, bs, reg, m @ [e], u))"

definition gateway_app ::
  "('r, 'u) gateway_env \<Rightarrow> gateway_settings \<Rightarrow> ('r limiter \<times> 'u app_state) handler" where
  "gateway_app en cfg =
     record_metrics (gs_production cfg) (ge_elapsed en) count_request
      (body_size_dispatch (gs_max_body_bytes cfg)
       (auth_dispatch (ge_unverified en) (ge_decode en) (gs_jwt cfg) gateway_auth
        (correlation_dispatch (ge_fresh en)
         (limiter_dispatch (ge_exec en) (ge_connect en) (ge_limiter en)
          (inner_app en cfg)))))"

section \<open>What every response of the inner application carries\<close>

lemma security_names [simp]:
  "py_lower ''X-Content-Type-Options'' = ''x-content-type-options''"
  "py_lower ''X-Frame-Options'' = ''x-frame-options''"
  "py_lower ''X-XSS-Protection'' = ''x-xss-protection''"
  "py_lower ''Strict-Transport-Security'' = ''strict-transport-security''"
  "py_lower ''Content-Security-Policy'' = ''content-security-policy''"
  "py_lower ''Referrer-Policy'' = ''referrer-policy''"
  "py_lower ''Permissions-Policy'' = ''permissions-policy''"
  "py_lower ''Cache-Control'' = ''cache-control''" "py_lower ''Pragma'' = ''pragma''"
  "py_lower ''server'' = ''server''" "py_lower ''x-powered-by'' = ''x-powered-by''"
  by code_simp+

text \<open>
  Whatever the routes answer, errors included, the response that leaves the security layer has
  each of the seven security headers with its configured value, no header that names the server
  software, and, on the paths that hand out credentials, the directives against caching; its status
  and body are those of the route.
\<close>
theorem security_headers_present:
  "case security_dispatch call_next r w of
     (Inl e, w') \<Rightarrow> call_next r w = (Inl e, w')
   | (Inr resp, w') \<Rightarrow>
       list_all (\<lambda>(h, v). hget (resp_headers resp) h = Some v) SECURITY_HEADERS \<and>
       list_all (\<lambda>h. hget (resp_headers resp) h = None) HEADERS_TO_REMOVE \<and>
       (req_path r \<in> set CREDENTIAL_PATHS \<longrightarrow>
          hget (resp_headers resp) ''Cache-Control'' = Some ''no-store, no-cache, must-revalidate'' \<and>
          hget (resp_headers resp) ''Pragma'' = Some ''no-cache'') \<and>
       (\<exists>resp0. call_next r w = (Inr resp0, w') \<and> resp_status resp0 = resp_status resp \<and>
          resp_body resp0 = resp_body resp)"
proof -
  obtain x w' where c: "call_next r w = (x, w')" by fastforce
  show ?thesis
  proof (cases x)
    case (Inl e)
    with c show ?thesis by (simp add: security_dispatch_def)
  next
    case (Inr resp0)
    have "list_all (\<lambda>(h, v). hget (resp_headers (secure_response (req_path r) resp0)) h = Some v) SECURITY_HEADERS"
      by (simp add: secure_response_def SECURITY_HEADERS_def HEADERS_TO_REMOVE_def Let_def
          set_header_def hget_hdel hget_hset)
    moreover have "list_all (\<lambda>h. hget (resp_headers (secure_response (req_path r) resp0)) h = None) HEADERS_TO_REMOVE"
      by (simp add: secure_response_def HEADERS_TO_REMOVE_def Let_def hget_hdel)
    moreover have "req_path r \<in> set CREDENTIAL_PATHS \<longrightarrow>
        hget (resp_headers (secure_response (req_path r) resp0)) ''Cache-Control'' =
          Some ''no-store, no-cache, must-revalidate'' \<and>
        hget (resp_headers (secure_response (req_path r) resp0)) ''Pragma'' = Some ''no-cache''"
      by (simp add: secure_response_def HEADERS_TO_REMOVE_def Let_def set_header_def hget_hdel hget_hset)
    moreover have "resp_status (secure_response (req_path r) resp0) = resp_status resp0 \<and>
        resp_body (secure_response (req_path r) resp0) = resp_body resp0"
      by (simp add: secure_response_def SECURITY_HEADERS_def Let_def set_header_def)
    ultimately show ?thesis using c Inr by (simp add: security_dispatch_def)
  qed
qed

theorem security_headers_present_witness:
  "hget (resp_headers (case fst (security_dispatch (\<lambda>r w. (Inr (JSONResponse 200 JNull [(''Server'', ''x'')]), w))
       (plain_request ''POST'' ''/api/v1/auth/login'' []) ()) of Inr resp \<Rightarrow> resp)) ''Pragma'' = Some ''no-cache''"
  using security_headers_present [of "\<lambda>r w. (Inr (JSONResponse 200 JNull [(''Server'', ''x'')]), w)"
      "plain_request ''POST'' ''/api/v1/auth/login'' []" "()"]
  by (simp add: security_dispatch_def CREDENTIAL_PATHS_def)

section \<open>The order of the layers\<close>

lemma body_size_passes:
  assumes "\<And>bs. \<exists>bs'. h r (a, bs, w) = (x, (a, bs', w)) \<and> bs_oversize bs' = bs_oversize bs"
  shows "(\<exists>bs'. body_size_dispatch m h r (a, bs, w) = (x, (a, bs', w))) \<or>
    body_size_dispatch m h r (a, bs, w) = (Inr (too_large_response m), (a, bs, w))"
proof -
  have "\<exists>bs'. wrap_receive m h r (a, bs, w) = (x, (a, bs', w))"
    using assms [of "bs\<lparr>bs_limit := Some m, bs_received := 0, bs_oversize := False\<rparr>"]
    by (cases x) (auto simp: wrap_receive_def)
  then show ?thesis
    by (auto simp: body_size_dispatch_def Let_def split: option.splits)
qed

lemma refusal_headers:
  assumes "set hs \<subseteq> {(''WWW-Authenticate'', ''Bearer'')} \<or> hs = [(''Connection'', ''close'')]"
  shows "hget hs ''X-Request-ID'' = None \<and> hget hs ''X-Frame-Options'' = None"
proof -
  have n: "py_lower ''WWW-Authenticate'' = ''www-authenticate''" "py_lower ''Connection'' = ''connection''"
    by code_simp+
  have "hget hs ''X-Request-ID'' = None \<and> hget hs ''X-Frame-Options'' = None"
    if "set hs \<subseteq> {(''WWW-Authenticate'', ''Bearer'')}" for hs
    using that by (induction hs) (auto simp: hget_Cons n)
  then show ?thesis using assms by (auto simp: hget_Cons n)
qed

text \<open>
  C11: An unauthenticated request ends at the JWT layer. On a path that is not exempt, a request that
  does not authenticate is answered 401, 413 or 500 (or an exception of the JWT library) with
  nothing but the request counter changed: the limiter's table, the breakers and the upstreams are
  not touched. The layer stands outside the others, so this answer has not been rate limited and
  carries no correlation id and no security header.
\<close>
theorem gateway_refusal:
  assumes "\<not> is_exempt gateway_auth (req_path r)"
    and "\<nexists>u payload. authenticates (ge_unverified en) (ge_decode en) (gs_jwt cfg) r u payload"
  shows "\<exists>x bs' m'. gateway_app en cfg r (rl, bs, reg, m, u) = (x, (rl, bs', reg, m', u)) \<and>
    ((\<exists>resp. x = Inr resp \<and> resp_status resp \<in> {401, 413, 500} \<and>
        hget (resp_headers resp) ''X-Request-ID'' = None \<and>
        hget (resp_headers resp) ''X-Frame-Options'' = None \<and>
        m' = m @ [(req_method r, req_path r, resp_status resp)]) \<or>
     (\<exists>e. x = Inl (ServerError e) \<and> m' = m))"
proof -
  define inner where "inner = correlation_dispatch (ge_fresh en)
         (limiter_dispatch (ge_exec en) (ge_connect en) (ge_limiter en) (inner_app en cfg))"
  define auth where
    "auth = auth_dispatch (ge_unverified en) (ge_decode en) (gs_jwt cfg) gateway_auth inner"
  obtain x where ref: "\<And>w. auth r w = (x, w)"
    and x: "(\<exists>resp. x = Inr resp \<and> resp_status resp \<in> {401, 500} \<and>
          set (resp_headers resp) \<subseteq> {(''WWW-Authenticate'', ''Bearer'')}) \<or>
        (\<exists>e. x = Inl (ServerError e))"
    by (rule auth_dispatch_cases [of gateway_auth r "ge_unverified en" "ge_decode en" "gs_jwt cfg" inner])
       (use assms in \<open>auto simp: auth_def\<close>)
  have "(\<exists>bs'. body_size_dispatch (gs_max_body_bytes cfg) auth r (rl, bs, reg, m, u) = (x, (rl, bs', reg, m, u))) \<or>
    body_size_dispatch (gs_max_body_bytes cfg) auth r (rl, bs, reg, m, u) =
      (Inr (too_large_response (gs_max_body_bytes cfg)), (rl, bs, reg, m, u))"
    by (rule body_size_passes) (simp add: ref)
  then obtain y bs' where b: "body_size_dispatch (gs_max_body_bytes cfg) auth r (rl, bs, reg, m, u) =
      (y, (rl, bs', reg, m, u))" and y: "y = x \<or> y = Inr (too_large_response (gs_max_body_bytes cfg))"
    by blast
  have g: "gateway_app en cfg = record_metrics (gs_production cfg) (ge_elapsed en) count_request
      (body_size_dispatch (gs_max_body_bytes cfg) auth)"
    by (simp add: gateway_app_def auth_def inner_def)
  have rt: "py_lower ''X-Response-Time'' = ''x-response-time''" by code_simp
  show ?thesis
  proof (cases y)
    case (Inl e)
    with x y show ?thesis by (auto simp: g record_metrics_def b)
  next
    case (Inr resp)
    with x y have st: "resp_status resp \<in> {401, 413, 500}"
      by (auto simp: too_large_response_def)
    have hs: "hget (resp_headers resp) ''X-Request-ID'' = None \<and>
        hget (resp_headers resp) ''X-Frame-Options'' = None"
      by (rule refusal_headers) (use Inr x y in \<open>auto simp: too_large_response_def\<close>)
    show ?thesis
      using st hs
      by (auto simp: g record_metrics_def b Inr count_request_def set_header_def hget_hset rt)
  qed
qed

definition demo_gateway :: "(unit, unit) gateway_env" where
  "demo_gateway =
     \<lparr>ge_unverified = \<lambda>_. Kid None, ge_decode = demo_decode, ge_hmac = demo_mac, ge_fmt = \<lambda>_. [],
      ge_cors = \<lambda>h. h, ge_exec = \<lambda>_ s. (None, s), ge_connect = \<lambda>_. None, ge_client = None,
      ge_probe = \<lambda>_. True, ge_export = \<lambda>_. [],
      ge_other = \<lambda>r w. (Inl (HTTPException 404 ''Not Found'' []), w),
      ge_limiter = demo_env, ge_fresh = uuid_str 1, ge_elapsed = ''0.0100s'', ge_now = \<lambda>_. 0\<rparr>"

definition demo_gateway_settings :: gateway_settings where
  "demo_gateway_settings =
     \<lparr>gs_proxy = demo_proxy, gs_jwt = demo_jwt, gs_max_body_bytes = 1048576, gs_production = False\<rparr>"

theorem gateway_refusal_witness:
  "\<exists>x bs' m'. gateway_app demo_gateway demo_gateway_settings (plain_request ''GET'' ''/api/v1/tasks'' [])
     (demo_limiter, fresh_body [], [], [], ()) = (x, (demo_limiter, bs', [], m', ()))"
proof -
  have "\<not> is_exempt gateway_auth (req_path (plain_request ''GET'' ''/api/v1/tasks'' []))"
    by (simp add: is_exempt_def gateway_auth_def JWTAuthMiddleware_def starts_with_def)
  moreover have "\<nexists>u payload. authenticates (ge_unverified demo_gateway) (ge_decode demo_gateway)
      (gs_jwt demo_gateway_settings) (plain_request ''GET'' ''/api/v1/tasks'' []) u payload"
    by (simp add: authenticates_def hget_or_def starts_with_def py_lower_def)
  ultimately show ?thesis
    using gateway_refusal [of "plain_request ''GET'' ''/api/v1/tasks'' []" demo_gateway
        demo_gateway_settings demo_limiter "fresh_body []" "[]" "[]" "()"] by blast
qed

section \<open>Request ids\<close>

text \<open>
  The correlation id is safe to log. For a header value without a line break, the id put on the
  request and echoed in the response consists of one to 128 word characters and hyphens: the
  client's if it has that form, a new UUID otherwise.
\<close>
theorem request_id_safe:
  assumes "\<forall>s. raw = Some s \<longrightarrow> CHR 0x0A \<notin> set s"
  shows "let rid = sanitize_or_generate (uuid_str u) raw in
    1 \<le> length rid \<and> length rid \<le> 128 \<and> list_all (\<lambda>c. re_word c \<or> c = CHR ''-'') rid \<and>
    rid \<in> (case raw of Some s \<Rightarrow> {s, uuid_str u} | None \<Rightarrow> {uuid_str u}) \<and>
    (\<forall>(call_next :: 'w handler) r w resp w'. hget (req_headers r) ''x-request-id'' = raw \<longrightarrow>
       correlation_dispatch (uuid_str u) call_next r w = (Inr resp, w') \<longrightarrow>
       hget (resp_headers resp) ''X-Request-ID'' = Some rid)"
proof -
  have d: "d < 16 \<Longrightarrow> re_word (digit_char d)" for d
    by (cases "d < 10") (simp_all add: digit_char_def re_word_def Let_def)
  have "\<forall>c\<in>set (uuid_str u). re_word c \<or> c = CHR ''-''"
    using uuid_str_chars [of _ u] d by blast
  then have fresh: "list_all (\<lambda>c. re_word c \<or> c = CHR ''-'') (uuid_str u)" by (simp add: list_all_iff)
  have rx: "1 \<le> length s \<and> length s \<le> 128 \<and> list_all (\<lambda>c. re_word c \<or> c = CHR ''-'') s"
    if "request_id_re s" "CHR 0x0A \<notin> set s" for s
  proof -
    have "\<not> (s \<noteq> [] \<and> last s = CHR 0x0A)" using that(2) last_in_set by metis
    with that(1) show ?thesis by (auto simp: request_id_re_def re_class_upto_def Let_def)
  qed
  let ?rid = "sanitize_or_generate (uuid_str u) raw"
  have "1 \<le> length ?rid \<and> length ?rid \<le> 128 \<and> list_all (\<lambda>c. re_word c \<or> c = CHR ''-'') ?rid"
    using assms rx fresh by (cases raw) (auto simp: sanitize_or_generate_def)
  moreover have "?rid \<in> (case raw of Some s \<Rightarrow> {s, uuid_str u} | None \<Rightarrow> {uuid_str u})"
    by (cases raw) (auto simp: sanitize_or_generate_def)
  moreover have "hget (resp_headers resp) ''X-Request-ID'' = Some ?rid"
    if "hget (req_headers r) ''x-request-id'' = raw"
      "correlation_dispatch (uuid_str u) call_next r w = (Inr resp, w')"
    for call_next :: "'w handler" and r w resp w'
    using that
    by (auto simp: correlation_dispatch_def map_response_def set_header_def hget_hset Let_def
        split: prod.splits sum.splits)
  ultimately show ?thesis by (simp add: Let_def)
qed

theorem request_id_safe_witness:
  "sanitize_or_generate (uuid_str 1) (Some ''a b'') = uuid_str 1 \<and>
   length (sanitize_or_generate (uuid_str 1) (Some ''a b'')) \<le> 128"
  using request_id_safe [of "Some ''a b''" 1]
  by (simp add: sanitize_or_generate_def request_id_re_def re_class_upto_def re_word_def Let_def)

lemma strip_headers_keeps:
  assumes "py_lower k \<notin> set HOP_BY_HOP" "py_lower k \<notin> set GATEWAY_OWNED"
  shows "map_of (strip_headers hs) k = map_option JStr (map_of (rev hs) k)"
proof -
  let ?f = "\<lambda>(k, v) d. if py_lower k \<notin> set HOP_BY_HOP \<and> py_lower k \<notin> set GATEWAY_OWNED
       then AList.update k (JStr v) d else d"
  have "map_of (fold ?f hs d) k =
      (case map_of (rev hs) k of Some v \<Rightarrow> Some (JStr v) | None \<Rightarrow> map_of d k)" for d
    using assms by (induction hs arbitrary: d) (auto simp: map_add_def split: option.splits)
  then show ?thesis by (simp add: strip_headers_def split: option.splits)
qed

text \<open>
  The sanitised id does not replace the client's. The server hands header names to the gateway
  in lower case, and the dict that is forwarded keeps the client's \<^verbatim>\<open>x-request-id\<close>,
  \<^verbatim>\<open>x-identity-signature\<close> and \<^verbatim>\<open>x-identity-issued-at\<close> entries, whatever their values, next to
  the capitalised ones of the gateway.
\<close>
theorem client_entries_survive:
  assumes "build_forward_headers hmac fmt now cfg r = Inr h"
    and "k \<in> set [''x-request-id'', ''x-identity-signature'', ''x-identity-issued-at'']"
    and "map_of (rev (req_headers r)) k = Some v"
  shows "map_of h k = Some (JStr v)"
proof -
  have lk: "py_lower k = k" using assms(2) by (auto simp: py_lower_def py_lower_char_def)
  then have "py_lower k \<notin> set HOP_BY_HOP" "py_lower k \<notin> set GATEWAY_OWNED"
    using assms(2) by (auto simp: HOP_BY_HOP_def GATEWAY_OWNED_def)
  note s = strip_headers_keeps [OF this, of "req_headers r"]
  obtain roles where h: "h = updates (origin_headers r @ identity_headers hmac fmt now cfg r roles @
      request_id_header r) (strip_headers (req_headers r))"
    using assms(1) by (auto simp: forward_headers_chain simp del: updates_simps split: option.splits)
  have "k \<notin> fst ` set (origin_headers r @ identity_headers hmac fmt now cfg r roles @ request_id_header r)"
    using assms(2)
    by (auto simp: origin_headers_def identity_headers_def request_id_header_def Let_def
        IDENTITY_SIG_HEADER_def IDENTITY_TS_HEADER_def split: if_splits option.splits prod.splits)
  then have n: "map_of (rev (origin_headers r @ identity_headers hmac fmt now cfg r roles @ request_id_header r)) k = None"
    by (metis map_of_None_notin set_rev)
  show ?thesis unfolding h map_of_updates n option.case s assms(3) by simp
qed

theorem client_entries_survive_witness:
  "\<exists>h. build_forward_headers demo_mac (\<lambda>_. []) 1000 demo_proxy
      ((plain_request ''GET'' ''/api/v1/tasks'' [(''x-request-id'', ''a b'')])
         \<lparr>st_request_id := Some (uuid_str 1)\<rparr>) = Inr h \<and>
    map_of h ''x-request-id'' = Some (JStr ''a b'')"
proof -
  let ?r = "(plain_request ''GET'' ''/api/v1/tasks'' [(''x-request-id'', ''a b'')])
         \<lparr>st_request_id := Some (uuid_str 1)\<rparr>"
  obtain h where h: "build_forward_headers demo_mac (\<lambda>_. []) 1000 demo_proxy ?r = Inr h"
    by (simp add: forward_headers_chain join_roles_def or_else_def)
  have "map_of h ''x-request-id'' = Some (JStr ''a b'')"
    by (rule client_entries_survive [OF h]) simp_all
  with h show ?thesis by blast
qed

end
