(* ===== verification/Sessions.thy ===== *)
theory Sessions
  imports UserProps
begin

text \<open>
  What the claims about tokens say over time: a refresh token that was used or revoked stays dead,
  whatever requests come later.
\<close>

section \<open>No later request revives a used token\<close>

definition dead :: "pyfloat \<Rightarrow> string \<Rightarrow> 'r live \<Rightarrow> 'r user_world \<Rightarrow> bool" where
  "dead now k live w \<longleftrightarrow> gone now k live (rc_server (uw_redis w))"

lemma dead_updates [simp]:
  "dead now k live (audit e w) = dead now k live w"
  "dead now k live (on_users f w) = dead now k live w"
  "dead now k live (w\<lparr>uw_users := us\<rparr>) = dead now k live w"
  "dead now k live (w\<lparr>uw_mails := ms\<rparr>) = dead now k live w"
  "dead now k live (w\<lparr>uw_tasks := ts\<rparr>) = dead now k live w"
  "dead now k live (w\<lparr>uw_redis := c\<rparr>) = gone now k live (rc_server c)"
  by (simp_all add: dead_def audit_def on_users_def)

lemma dead_on_redis:
  "(\<And>c. gone now k live (rc_server c) \<Longrightarrow> gone now k live (rc_server (snd (f c)))) \<Longrightarrow>
   dead now k live w \<Longrightarrow> dead now k live (snd (on_redis f w))"
  by (simp add: dead_def on_redis_def split: prod.splits) (metis snd_conv)

lemma dead_pair: "dead now k live (snd p) \<Longrightarrow> p = (x, w') \<Longrightarrow> dead now k live w'"
  by simp

definition still :: "('r, 'a) user_action \<Rightarrow> bool" where
  "still f \<longleftrightarrow> (\<forall>w. uw_redis (snd (f w)) = uw_redis w)"

lemma still_with_caller: "(\<And>c. still (f c)) \<Longrightarrow> still (with_caller r f)"
  by (auto simp: still_def with_caller_def split: sum.splits)

lemma still_as_admin: "(\<And>c. still (f c)) \<Longrightarrow> still (as_admin r f)"
  using still_with_caller [of f r] by (auto simp: still_def as_admin_def split: sum.splits)

lemma still_with_user: "(\<And>u. still (f u)) \<Longrightarrow> still (with_user i f)"
  unfolding still_def with_user_def
  by (auto dest: get_user_or_404_cases split: prod.splits sum.splits)

lemma still_save: "still (save_and_refresh now u)"
  by (simp add: still_def save_and_refresh_def Let_def split: list.splits)

lemma still_saved: "save_and_refresh now u w = (x, w') \<Longrightarrow> uw_redis w' = uw_redis w"
  using still_save [of now u] by (metis snd_conv still_def)

lemma still_routes:
  "still (get_me r)" "still (update_me en r p)" "still (deactivate_me en r)"
  "still (hard_delete_me en r)" "still (get_user r i)" "still (admin_list_users r l n a)"
  "still (admin_get_user r i)" "still (admin_promote_user en r i)"
  "still (admin_demote_user en r i)" "still (admin_delete_user r i)"
proof -
  show "still (get_me r)" "still (get_user r i)" "still (admin_get_user r i)"
      "still (deactivate_me en r)" "still (hard_delete_me en r)" "still (admin_list_users r l n a)"
    unfolding get_me_def get_user_def admin_get_user_def deactivate_me_def hard_delete_me_def admin_list_users_def
    by (intro still_with_caller still_as_admin still_with_user; simp add: still_def Let_def)+
  have "still (apply_update en q u)" for q u
    unfolding still_def apply_update_def Let_def
    by (auto dest!: still_saved split: option.splits prod.splits sum.splits)
  then have "still (with_user c (apply_update en q))" for c q by (intro still_with_user)
  then show "still (update_me en r p)"
    unfolding update_me_def by (intro still_with_caller) (simp add: still_def split: sum.split)
  have s: "still (save_as_admin en u)" for u
    unfolding still_def save_as_admin_def by (auto dest!: still_saved split: prod.splits sum.splits)
  show "still (admin_promote_user en r i)"
    unfolding admin_promote_user_def
    by (intro still_as_admin still_with_user) (use s in \<open>auto simp: still_def\<close>)
  have "still (with_user i (\<lambda>u. save_as_admin en (u\<lparr>u_is_admin := False\<rparr>)))"
    by (intro still_with_user s)
  then show "still (admin_demote_user en r i)"
    unfolding admin_demote_user_def by (intro still_as_admin) (auto simp: still_def)
  have "still (with_user i (\<lambda>u w1. (Inr (), on_users (delete_user (u_id u)) w1)))"
    by (intro still_with_user) (simp add: still_def)
  then show "still (admin_delete_user r i)"
    unfolding admin_delete_user_def by (intro still_as_admin) (auto simp: still_def)
qed

lemma dead_store_other:
  assumes "redis_laws rd live" "dead now k live w" "k \<noteq> key" "0 < ttl"
    and "on_redis (setex_token rd now key ttl u) w = (x, w')"
  shows "dead now k live w'"
  using dead_on_redis [where f = "setex_token rd now key ttl u", OF gone_setex_token [OF assms(1) _ assms(3,4)] assms(2)]
    assms(5) by simp

lemma dead_consume:
  assumes "redis_laws rd live" "dead now k live w" "on_redis (getdel_token rd now key) w = (x, w')"
  shows "dead now k live w'"
  using dead_on_redis [where f = "getdel_token rd now key", OF gone_getdel_token [OF assms(1)] assms(2)] assms(3) by simp

lemma dead_tasks:
  assumes "redis_laws (ue_redis en) live" "dead (ue_now en) (REFRESH_KEY_PREFIX @ tok) live w"
    and "0 < us_email_verification_token_ttl_seconds cfg" "0 < us_password_reset_token_ttl_seconds cfg"
  shows "dead (ue_now en) (REFRESH_KEY_PREFIX @ tok) live (run_task en cfg t w)"
proof -
  obtain u where t: "t = SendVerification u \<or> t = SendPasswordReset u" by (cases t) auto
  obtain x1 v1 where 1: "on_redis (store_email_verification_token (ue_redis en) (ue_now en)
      (us_email_verification_token_ttl_seconds cfg) (ue_token_urlsafe en) (uuid_str (u_id u))) w = (x1, v1)"
    by fastforce
  obtain x2 v2 where 2: "on_redis (store_password_reset_token (ue_redis en) (ue_now en)
      (us_password_reset_token_ttl_seconds cfg) (ue_token_urlsafe en) (uuid_str (u_id u))) w = (x2, v2)"
    by fastforce
  have "dead (ue_now en) (REFRESH_KEY_PREFIX @ tok) live v1"
    by (rule dead_store_other [OF assms(1,2) _ assms(3) 1 [unfolded store_email_verification_token_def]]) simp
  moreover have "dead (ue_now en) (REFRESH_KEY_PREFIX @ tok) live v2"
    by (rule dead_store_other [OF assms(1,2) _ assms(4) 2 [unfolded store_password_reset_token_def]]) simp
  ultimately show ?thesis
    using t by (auto simp: send_verification_email_def send_password_reset_email_def Let_def 1 2
        split: sum.splits bool.splits)
qed

lemma dead_issue:
  assumes "redis_laws (ue_redis en) live" "dead (ue_now en) (REFRESH_KEY_PREFIX @ tok) live w"
    and "tok \<noteq> uuid_str (ue_uuid4 en)"
  shows "dead (ue_now en) (REFRESH_KEY_PREFIX @ tok) live (snd (issue_token_response en cfg u w))"
proof -
  obtain x w1 where s: "on_redis (store_refresh_token (ue_redis en) (ue_now en) (uuid_str (ue_uuid4 en))
      (uuid_str (u_id u))) w = (x, w1)" by fastforce
  have "0 < REFRESH_TOKEN_TTL" by (simp add: REFRESH_TOKEN_TTL_def)
  then have "dead (ue_now en) (REFRESH_KEY_PREFIX @ tok) live w1"
    by (intro dead_store_other [OF assms(1,2) _ _ s [unfolded store_refresh_token_def]]) (use assms(3) in auto)
  with assms(2) show ?thesis
    by (auto simp: issue_token_response_def Let_def s split: sum.splits prod.splits)
qed

lemma dead_login:
  assumes "redis_laws (ue_redis en) live" "dead (ue_now en) (REFRESH_KEY_PREFIX @ tok) live w"
    and "tok \<noteq> uuid_str (ue_uuid4 en)"
  shows "dead (ue_now en) (REFRESH_KEY_PREFIX @ tok) live (snd (login en cfg r e p w))"
proof (cases "ue_parse_email en e")
  case (Some em)
  let ?k = "REFRESH_KEY_PREFIX @ tok"
  let ?c = "snd (is_account_locked (ue_redis en) (ue_now en) em (uw_redis w))"
  have c: "gone (ue_now en) ?k live (rc_server ?c)"
    using gone_locked [OF assms(1)] assms(2) by (simp add: dead_def)
  let ?w1 = "w\<lparr>uw_redis := ?c\<rparr>"
  have f: "snd (fetch_one q ?w1) = ?w1" for q by simp
  have rec: "dead (ue_now en) ?k live (snd (on_redis (record_login_failure (ue_redis en) (ue_now en) em) (audit ev ?w1)))"
    for ev
    by (rule dead_on_redis [OF gone_record [OF assms(1)]]) (use c in auto)
  have res: "gone (ue_now en) ?k live (rc_server (reset_login_failures (ue_redis en) (ue_now en) em ?c))"
    by (rule gone_reset_failures [OF assms(1) c])
  note iss = dead_issue [OF assms(1) _ assms(3)]
  obtain y where y: "fetch_one (users_by_email em) ?w1 = (y, ?w1)" by (metis f prod.collapse)
  show ?thesis
    using c rec res
    by (auto simp: login_def Some locked_on_redis y Let_def intro!: iss split: sum.splits option.splits)
qed (use assms in \<open>simp add: login_def\<close>)

lemma dead_refresh:
  assumes "redis_laws (ue_redis en) live" "dead (ue_now en) (REFRESH_KEY_PREFIX @ tok) live w"
    and "tok \<noteq> uuid_str (ue_uuid4 en)"
  shows "dead (ue_now en) (REFRESH_KEY_PREFIX @ tok) live (snd (refresh_token en cfg t w))"
proof -
  obtain x w1 where c: "on_redis (consume_refresh_token (ue_redis en) (ue_now en) t) w = (x, w1)" by fastforce
  have d: "dead (ue_now en) (REFRESH_KEY_PREFIX @ tok) live w1"
    by (rule dead_consume [OF assms(1,2) c [unfolded consume_refresh_token_def]])
  have y: "fetch_one q w1 = (fst (fetch_one q w1), w1)" for q by (metis fetch_one_world prod.collapse)
  show ?thesis
    using d dead_issue [OF assms(1) d assms(3), of cfg]
    by (subst refresh_token_def, subst c, simp add: Let_def split: sum.split option.split)
       (subst y, auto split: sum.splits option.splits)
qed

definition buries :: "pyfloat \<Rightarrow> string \<Rightarrow> 'r live \<Rightarrow> ('r, 'a) user_action \<Rightarrow> bool" where
  "buries now k live f \<longleftrightarrow> (\<forall>w. dead now k live w \<longrightarrow> dead now k live (snd (f w)))"

lemma buries_still: "still f \<Longrightarrow> buries now k live f"
  by (simp add: buries_def still_def dead_def)

lemma dead_token_user: "dead now k live w \<Longrightarrow> dead now k live (snd (token_user m found w))"
  by (auto simp: token_user_def Let_def fetch_one_def split: sum.splits option.splits)

lemma dead_token_route:
  assumes "redis_laws (ue_redis en) live" "dead (ue_now en) k live w"
    and "on_redis (getdel_token (ue_redis en) (ue_now en) key) w = (x, w1)"
    and "token_user m x w1 = (y, w2)"
  shows "dead (ue_now en) k live w2"
  using dead_token_user [OF dead_consume [OF assms(1-3)], of m x] assms(4) by simp

lemma buries_auth_routes:
  assumes laws: "redis_laws (ue_redis en) live" and ttl: "0 < us_email_verification_token_ttl_seconds cfg"
    "0 < us_password_reset_token_ttl_seconds cfg" and fresh: "tok \<noteq> uuid_str (ue_uuid4 en)"
  shows "buries (ue_now en) (REFRESH_KEY_PREFIX @ tok) live (register en cfg r p)"
    and "buries (ue_now en) (REFRESH_KEY_PREFIX @ tok) live (login en cfg r e pw)"
    and "buries (ue_now en) (REFRESH_KEY_PREFIX @ tok) live (refresh_token en cfg t)"
    and "buries (ue_now en) (REFRESH_KEY_PREFIX @ tok) live (logout en t)"
    and "buries (ue_now en) (REFRESH_KEY_PREFIX @ tok) live (verify_email en t)"
    and "buries (ue_now en) (REFRESH_KEY_PREFIX @ tok) live (reset_password en t pw)"
    and "still (resend_verification en e)" "still (forgot_password en e)"
proof -
  let ?k = "REFRESH_KEY_PREFIX @ tok"
  show "buries (ue_now en) ?k live (login en cfg r e pw)" "buries (ue_now en) ?k live (refresh_token en cfg t)"
    by (simp_all add: buries_def dead_login [OF laws _ fresh] dead_refresh [OF laws _ fresh])
  have v: "dead (ue_now en) ?k live (send_verification_email en cfg u w)"
    if "dead (ue_now en) ?k live w" for u w
    using dead_tasks [OF laws that ttl, of "SendVerification u"] by simp
  show "buries (ue_now en) ?k live (register en cfg r p)"
    by (auto simp: buries_def register_def Let_def fetch_one_def intro!: v split: sum.splits option.splits)
  show "buries (ue_now en) ?k live (logout en t)"
  proof (unfold buries_def, intro allI impI)
    fix w assume d: "dead (ue_now en) ?k live w"
    obtain x w1 where c: "on_redis (revoke_refresh_token (ue_redis en) (ue_now en) t) w = (x, w1)" by fastforce
    have "dead (ue_now en) ?k live w1"
      using dead_on_redis [where f = "revoke_refresh_token (ue_redis en) (ue_now en) t", OF gone_revoke [OF laws] d] c
      by simp
    then show "dead (ue_now en) ?k live (snd (logout en t w))" by (simp add: logout_def c split: sum.split)
  qed
  show "buries (ue_now en) ?k live (verify_email en t)"
  proof (unfold buries_def, intro allI impI)
    fix w assume d: "dead (ue_now en) ?k live w"
    obtain x w1 where c: "on_redis (consume_email_verification_token (ue_redis en) (ue_now en) t) w = (x, w1)"
      by fastforce
    obtain y w2 where y: "token_user ''Verification token is invalid, expired, or already used'' x w1 = (y, w2)"
      by fastforce
    have "dead (ue_now en) ?k live w2"
      by (rule dead_token_route [OF laws d c [unfolded consume_email_verification_token_def] y])
    then show "dead (ue_now en) ?k live (snd (verify_email en t w))"
      using d by (simp add: verify_email_def c y Let_def split: sum.split)
  qed
  show "buries (ue_now en) ?k live (reset_password en t pw)"
  proof (unfold buries_def, intro allI impI)
    fix w assume d: "dead (ue_now en) ?k live w"
    obtain x w1 where c: "on_redis (consume_password_reset_token (ue_redis en) (ue_now en) t) w = (x, w1)"
      by fastforce
    obtain y w2 where y: "token_user ''Reset token is invalid, expired, or already used'' x w1 = (y, w2)"
      by fastforce
    have "dead (ue_now en) ?k live w2"
      by (rule dead_token_route [OF laws d c [unfolded consume_password_reset_token_def] y])
    then show "dead (ue_now en) ?k live (snd (reset_password en t pw w))"
      using d by (simp add: reset_password_def c y Let_def split: sum.split option.split)
  qed
  show "still (resend_verification en e)" "still (forgot_password en e)"
    by (auto simp: still_def resend_verification_def forgot_password_def fetch_one_def Let_def
        split: option.splits sum.splits)
qed

lemma buries_in_session: "buries now k live f \<Longrightarrow> buries now k live (in_session f)"
  by (auto simp: buries_def in_session_def dead_def split: prod.splits sum.splits)

lemma dead_task_list:
  assumes "redis_laws (ue_redis en) live" "0 < us_email_verification_token_ttl_seconds cfg"
    "0 < us_password_reset_token_ttl_seconds cfg"
  shows "dead (ue_now en) (REFRESH_KEY_PREFIX @ tok) live w \<Longrightarrow>
    dead (ue_now en) (REFRESH_KEY_PREFIX @ tok) live (fold (run_task en cfg) ts w)"
  by (induction ts arbitrary: w) (simp_all add: dead_tasks [OF assms(1) _ assms(2,3)])

lemma buries_respond:
  assumes laws: "redis_laws (ue_redis en) live" "0 < us_email_verification_token_ttl_seconds cfg"
    "0 < us_password_reset_token_ttl_seconds cfg"
    and f: "buries (ue_now en) (REFRESH_KEY_PREFIX @ tok) live f"
  shows "dead (ue_now en) (REFRESH_KEY_PREFIX @ tok) live w \<Longrightarrow>
    dead (ue_now en) (REFRESH_KEY_PREFIX @ tok) live (snd (respond en cfg f w))"
proof -
  assume d: "dead (ue_now en) (REFRESH_KEY_PREFIX @ tok) live w"
  obtain x w' where r: "in_session f (w\<lparr>uw_tasks := []\<rparr>) = (x, w')" by fastforce
  have "dead (ue_now en) (REFRESH_KEY_PREFIX @ tok) live w'"
    using buries_in_session [OF f] d r unfolding buries_def by (metis dead_updates(5) snd_conv)
  then show ?thesis by (cases x) (simp_all add: respond_def r dead_task_list [OF laws])
qed

text \<open>The requests a token is followed through: one Redis, one clock, no repeated random UUID.\<close>

definition follows :: "'r live \<Rightarrow> string \<Rightarrow> pyfloat \<Rightarrow> 'r user_env \<Rightarrow> bool" where
  "follows live tok t en \<longleftrightarrow> redis_laws (ue_redis en) live \<and> t \<le> ue_now en \<and> tok \<noteq> uuid_str (ue_uuid4 en)"

fun history :: "'r live \<Rightarrow> string \<Rightarrow> pyfloat \<Rightarrow> ('r user_env \<times> user_op) list \<Rightarrow> bool" where
  "history live tok t [] = True"
| "history live tok t ((en, _) # es) = (follows live tok t en \<and> history live tok (ue_now en) es)"

definition ttls_positive :: "user_settings \<Rightarrow> bool" where
  "ttls_positive cfg \<longleftrightarrow>
     0 < us_email_verification_token_ttl_seconds cfg \<and> 0 < us_password_reset_token_ttl_seconds cfg"

lemma dead_later: "dead t k live w \<Longrightarrow> t \<le> t' \<Longrightarrow> dead t' k live w"
  by (simp add: dead_def gone_later)

lemma dead_user_step:
  assumes "follows live tok t en" "ttls_positive cfg" "dead t (REFRESH_KEY_PREFIX @ tok) live w"
  shows "dead (ue_now en) (REFRESH_KEY_PREFIX @ tok) live (user_step cfg (en, op) w)"
proof -
  let ?k = "REFRESH_KEY_PREFIX @ tok"
  have laws: "redis_laws (ue_redis en) live" "0 < us_email_verification_token_ttl_seconds cfg"
      "0 < us_password_reset_token_ttl_seconds cfg" and fresh: "tok \<noteq> uuid_str (ue_uuid4 en)"
      and d: "dead (ue_now en) ?k live w"
    using assms by (auto simp: follows_def ttls_positive_def intro: dead_later)
  note b = buries_auth_routes [OF laws fresh] buries_still [OF buries_auth_routes(7) [OF laws fresh]]
    buries_still [OF buries_auth_routes(8) [OF laws fresh]]
    still_routes [THEN buries_still]
  note run = buries_respond [OF laws _ d]
  have "gone (ue_now en) ?k live (rc_server (snd (get_redis (ue_redis en) (ue_now en) (close_redis (uw_redis w)))))"
    using gone_get_redis [OF laws(1), of "ue_now en" ?k "close_redis (uw_redis w)"] d
    by (metis close_redis_def dead_def prod.collapse redis_client.select_convs(2) redis_client.surjective redis_client.update_convs(1))
  then show ?thesis by (cases op) (simp_all add: b run)
qed

lemma dead_history:
  "history live tok t es \<Longrightarrow> ttls_positive cfg \<Longrightarrow> dead t (REFRESH_KEY_PREFIX @ tok) live w \<Longrightarrow>
   \<exists>t'. dead t' (REFRESH_KEY_PREFIX @ tok) live (fold (user_step cfg) es w) \<and>
     (\<forall>en op. history live tok t (es @ [(en, op)]) \<longrightarrow> t' \<le> ue_now en)"
proof (induction es arbitrary: t w)
  case Nil
  then show ?case by (auto simp: follows_def)
next
  case (Cons e es)
  obtain en op where e: "e = (en, op)" by fastforce
  with Cons.prems have f: "follows live tok t en" "history live tok (ue_now en) es" by simp_all
  from Cons.IH [OF f(2) Cons.prems(2) dead_user_step [OF f(1) Cons.prems(2,3)], of op]
  show ?case by (simp add: e) blast
qed

lemma history_append: "history live tok t (es @ [(en, op)]) \<Longrightarrow> history live tok t es \<and> (\<exists>t'. follows live tok t' en)"
  by (induction live tok t es rule: history.induct) auto

definition refused :: "http_error + 'a \<Rightarrow> bool" where
  "refused x \<longleftrightarrow>
     x = Inl (HTTPException 401 ''Refresh token is invalid, expired, or already used'' []) \<or>
     (\<exists>e. x = Inl (ServerError e))"

lemma refresh_dead:
  assumes "redis_laws (ue_redis en) live" "dead t (REFRESH_KEY_PREFIX @ tok) live w" "t \<le> ue_now en"
  shows "refused (fst (refresh_token en cfg tok w))"
proof -
  obtain x w1 where c: "on_redis (consume_refresh_token (ue_redis en) (ue_now en) tok) w = (x, w1)" by fastforce
  have "x \<noteq> Inr (Some v)" for v
    using refresh.consume_gone [OF assms(1) _ assms(3), of tok "uw_redis w" v] assms(2) c
    by (auto simp: dead_def on_redis_def split: prod.splits)
  then show ?thesis by (cases x) (auto simp: refresh_token_def c Let_def refused_def split: option.split)
qed

lemma refresh_kills:
  assumes "redis_laws (ue_redis en) live" "tok \<noteq> uuid_str (ue_uuid4 en)"
    and "refresh_token en cfg tok w = (Inr tr, w')"
  shows "dead (ue_now en) (REFRESH_KEY_PREFIX @ tok) live w'"
proof -
  obtain x c where c: "consume_refresh_token (ue_redis en) (ue_now en) tok (uw_redis w) = (x, c)" by fastforce
  obtain v u where x: "x = Inr (Some v)"
      and i: "issue_token_response en cfg u (w\<lparr>uw_redis := c\<rparr>) = (Inr tr, w')"
    using assms(3) c
    by (auto simp: refresh_token_def on_redis_def Let_def dest!: fetch_oneD
        split: prod.splits sum.splits option.splits if_splits)
  have "dead (ue_now en) (REFRESH_KEY_PREFIX @ tok) live (w\<lparr>uw_redis := c\<rparr>)"
    using refresh.consume_keys [OF assms(1) c] x by simp
  from dead_issue [OF assms(1) this assms(2), of cfg u] i show ?thesis by simp
qed

lemma logout_kills:
  assumes "redis_laws (ue_redis en) live" "fst (get_redis (ue_redis en) (ue_now en) (uw_redis w))"
    and "logout en tok w = (Inr (), w')"
  shows "dead (ue_now en) (REFRESH_KEY_PREFIX @ tok) live w'"
proof -
  obtain c1 where g: "get_redis (ue_redis en) (ue_now en) (uw_redis w) = (True, c1)"
    using assms(2) by (metis prod.collapse)
  obtain ok r where d: "rd_delete (ue_redis en) (ue_now en) (REFRESH_KEY_PREFIX @ tok) (rc_server c1) = (ok, r)"
    by fastforce
  with assms(3) g have "ok" "w' = w\<lparr>uw_redis := c1\<lparr>rc_server := r\<rparr>\<rparr>"
    by (auto simp: logout_def on_redis_def revoke_refresh_token_def split: if_splits)
  moreover have "ok \<Longrightarrow> gone (ue_now en) (REFRESH_KEY_PREFIX @ tok) live r"
    using assms(1) d unfolding redis_laws_def by (metis fst_conv snd_conv)
  ultimately show ?thesis by simp
qed

text \<open>A request that ends the life of a token: it is exchanged, or revoked while Redis answers.\<close>

fun ends_token :: "user_settings \<Rightarrow> string \<Rightarrow> 'r user_env \<times> user_op \<Rightarrow> 'r user_world \<Rightarrow> bool" where
  "ends_token cfg tok (en, Refresh t) w =
     (t = tok \<and> (case fst (respond en cfg (refresh_token en cfg tok) w) of Inr _ \<Rightarrow> True | Inl _ \<Rightarrow> False))"
| "ends_token cfg tok (en, Logout t) w =
     (t = tok \<and> fst (get_redis (ue_redis en) (ue_now en) (uw_redis w)) \<and>
      fst (respond en cfg (logout en tok) w) = Inr ())"
| "ends_token cfg tok _ w = False"

lemma respond_kills:
  assumes laws: "redis_laws (ue_redis en) live" "0 < us_email_verification_token_ttl_seconds cfg"
    "0 < us_password_reset_token_ttl_seconds cfg"
    and f: "f (w\<lparr>uw_tasks := []\<rparr>) = (Inr x, w')" "dead (ue_now en) (REFRESH_KEY_PREFIX @ tok) live w'"
  shows "dead (ue_now en) (REFRESH_KEY_PREFIX @ tok) live (snd (respond en cfg f w))"
  using dead_task_list [OF laws, of tok "w'\<lparr>uw_tasks := []\<rparr>" "uw_tasks w'"] f
  by (simp add: respond_def in_session_def)

lemma respond_ok: "fst (respond en cfg f w) = Inr x \<Longrightarrow> \<exists>w'. f (w\<lparr>uw_tasks := []\<rparr>) = (Inr x, w')"
  by (auto simp: respond_def in_session_def split: prod.splits sum.splits)

lemma ends_token_dead:
  assumes "follows live tok t en" "ttls_positive cfg" "ends_token cfg tok (en, op) w"
  shows "dead (ue_now en) (REFRESH_KEY_PREFIX @ tok) live (user_step cfg (en, op) w)"
proof -
  have laws: "redis_laws (ue_redis en) live" "0 < us_email_verification_token_ttl_seconds cfg"
      "0 < us_password_reset_token_ttl_seconds cfg" and fresh: "tok \<noteq> uuid_str (ue_uuid4 en)"
    using assms(1,2) by (auto simp: follows_def ttls_positive_def)
  consider (refresh) tr where "op = Refresh tok" "fst (respond en cfg (refresh_token en cfg tok) w) = Inr tr"
    | (logout) "op = Logout tok" "fst (get_redis (ue_redis en) (ue_now en) (uw_redis w))"
        "fst (respond en cfg (logout en tok) w) = Inr ()"
    using assms(3) by (cases op) (auto split: sum.splits)
  then show ?thesis
  proof cases
    case refresh
    from respond_ok [OF refresh(2)] obtain w'
      where w': "refresh_token en cfg tok (w\<lparr>uw_tasks := []\<rparr>) = (Inr tr, w')" by blast
    show ?thesis
      using respond_kills [where f = "refresh_token en cfg tok", OF laws w' refresh_kills [OF laws(1) fresh w']] refresh(1) by simp
  next
    case logout
    from respond_ok [OF logout(3)] obtain w' where w': "logout en tok (w\<lparr>uw_tasks := []\<rparr>) = (Inr (), w')" by blast
    have "dead (ue_now en) (REFRESH_KEY_PREFIX @ tok) live w'"
      by (rule logout_kills [OF laws(1) _ w']) (simp add: logout(2))
    from respond_kills [where f = "logout en tok", OF laws w' this] logout(1) show ?thesis by simp
  qed
qed

text \<open>
  C21: No replay. Once a refresh token was exchanged, or revoked by a logout that reached Redis, no
  sequence of later requests and restarts of the service revives it: presenting it is refused with
  401, or fails inside the server when Redis does.
\<close>
theorem refresh_no_replay:
  assumes "history live tok t ((ea, oa) # es @ [(eb, ob)])" "ttls_positive cfg"
    and "ends_token cfg tok (ea, oa) w"
  shows "refused (fst (refresh_token eb cfg' tok (fold (user_step cfg) ((ea, oa) # es) w)))"
proof -
  have h: "follows live tok t ea" "history live tok (ue_now ea) (es @ [(eb, ob)])"
    using assms(1) by simp_all
  note es = history_append [OF h(2)]
  obtain t' where d: "dead t' (REFRESH_KEY_PREFIX @ tok) live (fold (user_step cfg) es (user_step cfg (ea, oa) w))"
      "t' \<le> ue_now eb"
    using dead_history [OF conjunct1 [OF es] assms(2) ends_token_dead [OF h(1) assms(2,3)]] h(2) by blast
  obtain s where "follows live tok s eb" using es by blast
  then have "redis_laws (ue_redis eb) live" by (simp add: follows_def)
  from refresh_dead [OF this d] show ?thesis by simp
qed

definition demo_session :: "mem_redis user_world" where
  "demo_session = (demo_world demo_rows)
     \<lparr>uw_redis := \<lparr>rc_connected = True, rc_server = [(''refresh:tok'', (uuid_str 1, 100))]\<rparr>\<rparr>"

lemma demo_refresh: "\<exists>tr w'. refresh_token (demo_user_env 5) demo_cfg ''tok'' demo_session = (Inr tr, w')"
  by (simp add: refresh_token_def demo_session_def demo_user_env_def demo_world_def demo_rows_def on_redis_def
      consume_refresh_token_def getdel_token_def get_redis_def mem_ops_def mem_live_def REFRESH_KEY_PREFIX_def
      fetch_one_def users_by_id_def scalar_one_or_none_def demo_user_def new_user_def issue_token_response_def
      create_access_jwt_def parse_keyring_def select_signing_key_def demo_cfg_def Let_def
      store_refresh_token_def setex_token_def)

lemma demo_tok_fresh: "''tok'' \<noteq> uuid_str 77"
proof
  assume "''tok'' = uuid_str 77"
  then have "uuid_parse ''tok'' = Some 77" by (metis uuid_parse_str)
  moreover have "uuid_parse ''tok'' = None" by code_simp
  ultimately show False by simp
qed

theorem refresh_no_replay_witness:
  "refused (fst (refresh_token (demo_user_env 9) demo_cfg ''tok''
     (fold (user_step demo_cfg) [(demo_user_env 5, Refresh ''tok''), (demo_user_env 7, Restart)] demo_session)))"
proof (rule refresh_no_replay [where live = mem_live and t = 0 and ob = Restart])
  from demo_tok_fresh show "history mem_live ''tok'' 0 ((demo_user_env 5, Refresh ''tok'') #
      [(demo_user_env 7, Restart)] @ [(demo_user_env 9, Restart)])"
    by (simp add: follows_def demo_user_env_def mem_redis_laws)
  show "ttls_positive demo_cfg" by (simp add: ttls_positive_def demo_cfg_def)
  obtain tr w' where r: "refresh_token (demo_user_env 5) demo_cfg ''tok'' demo_session = (Inr tr, w')"
    using demo_refresh by blast
  have "demo_session\<lparr>uw_tasks := []\<rparr> = demo_session" by (simp add: demo_session_def demo_world_def)
  with r show "ends_token demo_cfg ''tok'' (demo_user_env 5, Refresh ''tok'') demo_session"
    by (simp add: respond_def in_session_def)
qed



end
