(* ===== verification/Accounts.thy ===== *)
theory Accounts
  imports Sessions
begin

text \<open>
  What the password reset does to an account and its sessions, and the rules of the administration
  routes.
\<close>

section \<open>Password reset\<close>

text \<open>
  C23: A successful password reset consumes its token, which stood for an account of the table, and
  replaces the stored hash of exactly that account. It does not touch any other key: the refresh
  tokens of the account, which may be in the hands of whoever caused the reset, stay valid.
\<close>
theorem reset_keeps_sessions:
  assumes "redis_laws (ue_redis en) live" "reset_password en token new_password w = (Inr (), w')"
  shows "(\<exists>u s hashed. live (ue_now en) (rc_server (uw_redis w)) (RESET_KEY_PREFIX @ token) = Some s \<and>
      uuid_parse s = Some (u_id u) \<and> users_by_id (u_id u) (uw_users w) = [u] \<and>
      ue_hashpw en new_password = Some hashed \<and>
      uw_users w' = save_user (ue_now en) (u\<lparr>u_hashed_password := hashed\<rparr>) (uw_users w)) \<and>
    length_in 16 128 token \<and> password_ok new_password \<and>
    gone (ue_now en) (RESET_KEY_PREFIX @ token) live (rc_server (uw_redis w')) \<and>
    (\<forall>session. \<forall>t\<ge>ue_now en. live t (rc_server (uw_redis w')) (REFRESH_KEY_PREFIX @ session) =
       live t (rc_server (uw_redis w)) (REFRESH_KEY_PREFIX @ session))"
proof -
  obtain x c where c: "consume_password_reset_token (ue_redis en) (ue_now en) token (uw_redis w) = (x, c)"
    by fastforce
  let ?w1 = "w\<lparr>uw_redis := c\<rparr>"
  have ok: "length_in 16 128 token" "password_ok new_password"
    using assms(2) by (auto simp: reset_password_def split: if_splits)
  obtain y w2 where t: "token_user ''Reset token is invalid, expired, or already used'' x ?w1 = (y, w2)"
    by fastforce
  obtain u hashed where u: "y = Inr u" and h: "ue_hashpw en new_password = Some hashed"
      and w': "uw_users w' = save_user (ue_now en) (u\<lparr>u_hashed_password := hashed\<rparr>) (uw_users w2)"
        "uw_redis w' = uw_redis w2"
    using assms(2) ok
    by (auto simp: reset_password_def on_redis_def c t Let_def split: sum.splits option.splits)
  obtain s i where x: "x = Inr (Some s)" and i: "uuid_parse s = Some i"
      and f: "users_by_id i (uw_users w) = [u]" and w2: "w2 = ?w1"
    using t u by (auto simp: token_user_def Let_def dest!: fetch_oneD
        split: sum.splits option.splits prod.splits if_splits)
  have s: "uuid_parse s = Some (u_id u)" and q: "users_by_id (u_id u) (uw_users w) = [u]"
    using by_id_in [OF f] i f by auto
  from reset.consume_keys [OF assms(1) c] x w' w2 q s h ok show ?thesis
    by (auto simp: same_but_def)
qed

definition demo_reset :: "mem_redis user_world" where
  "demo_reset = (demo_world demo_rows)
     \<lparr>uw_redis := \<lparr>rc_connected = True,
        rc_server = [(''reset:0123456789abcdef'', (uuid_str 1, 100)), (''refresh:tok'', (uuid_str 1, 100))]\<rparr>\<rparr>"

lemma demo_password: "length_in 16 128 ''0123456789abcdef''" "password_ok ''Secret123''"
  by code_simp+

lemma demo_reset_runs: "\<exists>w'. reset_password (demo_user_env 5) ''0123456789abcdef'' ''Secret123'' demo_reset = (Inr (), w')"
  using demo_password
  by (simp add: reset_password_def demo_reset_def demo_user_env_def demo_world_def demo_rows_def on_redis_def
      consume_password_reset_token_def getdel_token_def get_redis_def mem_ops_def mem_live_def RESET_KEY_PREFIX_def
      token_user_def fetch_one_def users_by_id_def scalar_one_or_none_def demo_user_def new_user_def Let_def)

theorem reset_keeps_sessions_witness:
  "mem_live 6 (rc_server (uw_redis (snd (reset_password (demo_user_env 5) ''0123456789abcdef'' ''Secret123'' demo_reset))))
     ''refresh:tok'' = Some (uuid_str 1)"
proof -
  obtain w' where r: "reset_password (demo_user_env 5) ''0123456789abcdef'' ''Secret123'' demo_reset = (Inr (), w')"
    using demo_reset_runs by blast
  have "redis_laws (ue_redis (demo_user_env 5)) mem_live" by (simp add: demo_user_env_def mem_redis_laws)
  from reset_keeps_sessions [OF this r]
  have "\<forall>session. \<forall>t\<ge>5. mem_live t (rc_server (uw_redis w')) (REFRESH_KEY_PREFIX @ session) =
      mem_live t (rc_server (uw_redis demo_reset)) (REFRESH_KEY_PREFIX @ session)"
    by (simp add: demo_user_env_def)
  then have "mem_live 6 (rc_server (uw_redis w')) (REFRESH_KEY_PREFIX @ ''tok'') =
      mem_live 6 (rc_server (uw_redis demo_reset)) (REFRESH_KEY_PREFIX @ ''tok'')"
    by (meson le_numeral_simps(3) numeral_le_iff order.refl semiring_norm(69) semiring_norm(70) verit_comp_simplify)
  then have "mem_live 6 (rc_server (uw_redis w')) ''refresh:tok'' = Some (uuid_str 1)"
    by (simp add: demo_reset_def demo_world_def mem_live_def REFRESH_KEY_PREFIX_def)
  then show ?thesis by (simp add: r)
qed

section \<open>Administration\<close>

text \<open>What the six administration routes have in common.\<close>

datatype admin_op =
    ListUsers int int bool
  | ViewUser uuid
  | Promote uuid
  | Demote uuid
  | Remove uuid

fun admin_call :: "'r user_env \<Rightarrow> request \<Rightarrow> admin_op \<Rightarrow> 'r user_world \<Rightarrow> http_error option \<times> 'r user_world" where
  "admin_call en r (ListUsers l k a) w =
     (case admin_list_users r l k a w of (Inl e, w') \<Rightarrow> (Some e, w') | (Inr _, w') \<Rightarrow> (None, w'))"
| "admin_call en r (ViewUser i) w =
     (case admin_get_user r i w of (Inl e, w') \<Rightarrow> (Some e, w') | (Inr _, w') \<Rightarrow> (None, w'))"
| "admin_call en r (Promote i) w =
     (case admin_promote_user en r i w of (Inl e, w') \<Rightarrow> (Some e, w') | (Inr _, w') \<Rightarrow> (None, w'))"
| "admin_call en r (Demote i) w =
     (case admin_demote_user en r i w of (Inl e, w') \<Rightarrow> (Some e, w') | (Inr _, w') \<Rightarrow> (None, w'))"
| "admin_call en r (Remove i) w =
     (case admin_delete_user r i w of (Inl e, w') \<Rightarrow> (Some e, w') | (Inr _, w') \<Rightarrow> (None, w'))"

lemma not_admin: "''admin'' \<notin> roles_of (hget_or (req_headers r) ''X-User-Roles'' []) \<Longrightarrow>
    as_admin r f w = (Inl (HTTPException 403 ''Admin privileges required for this operation'' []), w)"
  by (simp add: as_admin_def require_admin_def)

lemma admin_caller: "''admin'' \<in> roles_of (hget_or (req_headers r) ''X-User-Roles'' []) \<Longrightarrow>
    parse_caller_id r = Inr c \<Longrightarrow> as_admin r f w = f c w"
  by (simp add: as_admin_def require_admin_def with_caller_def)

lemma admin_no_caller: "''admin'' \<in> roles_of (hget_or (req_headers r) ''X-User-Roles'' []) \<Longrightarrow>
    parse_caller_id r = Inl e \<Longrightarrow> as_admin r f w = (Inl e, w)"
  by (simp add: as_admin_def require_admin_def with_caller_def)

definition is_admin_row :: "uuid \<Rightarrow> user list \<Rightarrow> bool" where
  "is_admin_row i rows \<longleftrightarrow> (\<exists>u\<in>set rows. u_id u = i \<and> u_is_admin u)"

lemma admin_row_save:
  "is_admin_row i rows \<Longrightarrow> u_id v \<noteq> i \<or> u_is_admin v \<Longrightarrow> is_admin_row i (save_user now v rows)"
proof -
  assume row: "is_admin_row i rows" and v: "u_id v \<noteq> i \<or> u_is_admin v"
  let ?f = "\<lambda>x. if u_id x = u_id v then (if x = v then v else v\<lparr>u_updated_at := now\<rparr>) else x"
  obtain u where "u \<in> set rows" "u_id u = i" "u_is_admin u" using row by (auto simp: is_admin_row_def)
  then have "?f u \<in> set (save_user now v rows)" "u_id (?f u) = i" "u_is_admin (?f u)"
    using v by (auto simp: save_user_def)
  then show ?thesis unfolding is_admin_row_def by blast
qed

lemma admin_row_delete: "is_admin_row i rows \<Longrightarrow> j \<noteq> i \<Longrightarrow> is_admin_row i (delete_user j rows)"
  by (auto simp: is_admin_row_def delete_user_def)

lemma save_as_admin_users:
  "uw_users (snd (save_as_admin en u w)) = save_user (ue_now en) u (uw_users w)"
  using save_and_refresh_users [of "ue_now en" u w] by (auto simp: save_as_admin_def split: prod.splits sum.splits)

text \<open>What a call of one route answers and leaves, whichever of the two result types it has.\<close>

lemma admin_call_snd:
  "snd (admin_call en r (Promote i) w) = snd (admin_promote_user en r i w)"
  "snd (admin_call en r (Demote i) w) = snd (admin_demote_user en r i w)"
  "snd (admin_call en r (Remove i) w) = snd (admin_delete_user r i w)"
  "snd (admin_call en r (ListUsers l k a) w) = snd (admin_list_users r l k a w)"
  "snd (admin_call en r (ViewUser i) w) = snd (admin_get_user r i w)"
  by (auto split: prod.split sum.split)

lemma with_user_admin_row:
  assumes "is_admin_row c (uw_users w)"
    and "\<And>u. u \<in> set (uw_users w) \<Longrightarrow> u_id u = i \<Longrightarrow> is_admin_row c (uw_users (snd (f u w)))"
  shows "is_admin_row c (uw_users (snd (with_user i f w)))"
  using assms by (auto simp: with_user_def dest: get_user_or_404_cases split: prod.splits sum.splits)

lemma admin_call_keeps_caller:
  assumes adm: "''admin'' \<in> roles_of (hget_or (req_headers r) ''X-User-Roles'' [])"
    and c: "parse_caller_id r = Inr c" and row: "is_admin_row c (uw_users w)"
  shows "is_admin_row c (uw_users (snd (admin_call en r op w)))"
proof -
  note call = admin_caller [OF adm c]
  note keep = with_user_admin_row [OF row] admin_row_save [OF row] admin_row_delete [OF row]
  show ?thesis
  proof (cases op)
    case (ListUsers l k a)
    then show ?thesis unfolding ListUsers admin_call_snd by (simp add: admin_list_users_def call Let_def row)
  next
    case (ViewUser i)
    show ?thesis unfolding ViewUser admin_call_snd by (simp add: admin_get_user_def call keep(1) row)
  next
    case (Promote i)
    show ?thesis unfolding Promote admin_call_snd admin_promote_user_def call
      by (rule keep(1)) (simp add: save_as_admin_users keep(2) row)
  next
    case (Demote i)
    show ?thesis unfolding Demote admin_call_snd admin_demote_user_def call
      by (cases "i = c") (auto simp: row save_as_admin_users intro!: keep(1,2))
  next
    case (Remove i)
    show ?thesis unfolding Remove admin_call_snd admin_delete_user_def call
      by (cases "i = c") (auto simp: row intro!: keep(1,3))
  qed
qed

text \<open>
  C24: Administration. Without the admin role in the roles header every administration route answers
  403 and changes nothing. With it, no administrator can demote or delete the account that makes
  the request (400, nothing changes), and an administrator whose row is in the table is still an
  administrator after any administration request of their own, whatever its outcome.
\<close>
theorem admin_gate:
  "if ''admin'' \<notin> roles_of (hget_or (req_headers r) ''X-User-Roles'' [])
   then admin_call en r op w = (Some (HTTPException 403 ''Admin privileges required for this operation'' []), w)
   else case parse_caller_id r of
      Inl e \<Rightarrow> admin_call en r op w = (Some e, w)
    | Inr c \<Rightarrow>
        admin_call en r (Demote c) w = (Some (HTTPException 400 ''Admins cannot demote themselves'' []), w) \<and>
        admin_call en r (Remove c) w =
          (Some (HTTPException 400 ''Admins cannot delete their own account via admin endpoint'' []), w) \<and>
        (if is_admin_row c (uw_users w) then is_admin_row c (uw_users (snd (admin_call en r op w))) else True)"
proof (cases "''admin'' \<in> roles_of (hget_or (req_headers r) ''X-User-Roles'' [])")
  case False
  then show ?thesis
    by (cases op) (simp_all add: not_admin admin_list_users_def admin_get_user_def admin_promote_user_def
        admin_demote_user_def admin_delete_user_def)
next
  case True
  show ?thesis
  proof (cases "parse_caller_id r")
    case (Inl e)
    with True show ?thesis
      by (cases op) (simp_all add: admin_no_caller admin_list_users_def admin_get_user_def
          admin_promote_user_def admin_demote_user_def admin_delete_user_def)
  next
    case (Inr c)
    with True admin_call_keeps_caller [OF True Inr, of w en op] show ?thesis
      by (auto simp: admin_caller admin_demote_user_def admin_delete_user_def)
  qed
qed

end
