(* ===== verification/EndToEnd.thy ===== *)
theory EndToEnd
  imports Gateway Backends Accounts
begin

text \<open>
  The services together: the headers the gateway forwards, as a backend receives them, and a token of
  the user service on its way through the gateway to a backend.
\<close>

section \<open>On the wire\<close>

text \<open>
  What a backend's server hands on of the forwarded dict: every entry, in order, its name in lower
  case. A value that is no text makes the client library refuse the request.
\<close>

fun wire_headers :: "fwd_headers \<Rightarrow> headers option" where
  "wire_headers [] = Some []"
| "wire_headers ((k, v) # h) =
     (case (json_str v, wire_headers h) of
        (Some s, Some hs) \<Rightarrow> Some ((py_lower k, s) # hs)
      | _ \<Rightarrow> None)"

lemma json_str_iff: "json_str v = Some s \<longleftrightarrow> v = JStr s"
  by (cases v) auto

lemma wire_Cons: "wire_headers (kv # h) = Some hs \<longleftrightarrow>
    (\<exists>k s hs'. kv = (k, JStr s) \<and> wire_headers h = Some hs' \<and> hs = (py_lower k, s) # hs')"
  by (cases kv) (auto simp: json_str_iff split: option.splits)

lemma wire_text: "wire_headers h = Some hs \<Longrightarrow> (k, v) \<in> set h \<Longrightarrow> \<exists>s. v = JStr s"
  by (induction h arbitrary: hs) (auto simp: wire_Cons)

lemma hget_wire:
  assumes "wire_headers h = Some hs" "\<And>k v. (k, v) \<in> set h \<Longrightarrow> py_lower k = py_lower n \<Longrightarrow> v = JStr s"
  shows "hget hs n = (if \<exists>k\<in>fst ` set h. py_lower k = py_lower n then Some s else None)"
  using assms
proof (induction h arbitrary: hs)
  case (Cons kv h)
  then obtain k t hs' where kv: "kv = (k, JStr t)" "wire_headers h = Some hs'" "hs = (py_lower k, t) # hs'"
    by (auto simp: wire_Cons)
  have "hget hs' n = (if \<exists>k\<in>fst ` set h. py_lower k = py_lower n then Some s else None)"
    using Cons.prems(2) by (intro Cons.IH [OF kv(2)]) auto
  moreover have "py_lower k = py_lower n \<Longrightarrow> t = s" using Cons.prems(2) [of k "JStr t"] kv(1) by simp
  ultimately show ?case by (auto simp: kv hget_Cons)
qed simp

lemma strip_headers_names: "(k, v) \<in> set (strip_headers hs) \<Longrightarrow> k \<in> fst ` set hs"
proof -
  have "(k, v) \<in> set (fold (\<lambda>(k, v) d.
       if py_lower k \<notin> set HOP_BY_HOP \<and> py_lower k \<notin> set GATEWAY_OWNED
       then AList.update k (JStr v) d else d) hs d) \<Longrightarrow> k \<in> fst ` set hs \<or> (k, v) \<in> set d" for d
    by (induction hs arbitrary: d) (force dest: in_update split: if_splits)+
  then show "(k, v) \<in> set (strip_headers hs) \<Longrightarrow> k \<in> fst ` set hs" by (force simp: strip_headers_def)
qed

lemma hget_None_names: "hget hs n = None \<longleftrightarrow> (\<forall>k\<in>fst ` set hs. py_lower k \<noteq> py_lower n)"
proof (induction hs)
  case (Cons kv hs)
  then show ?case by (cases kv) (simp add: hget_Cons)
qed simp

section \<open>From the gateway to a backend\<close>

text \<open>The identity a backend reads is the one the gateway wrote.\<close>

lemma updates_keys: "fst ` set (updates kvs d) = fst ` set kvs \<union> fst ` set d"
proof (induction kvs arbitrary: d)
  case (Cons kv kvs)
  then show ?case by (cases kv) (simp only: updates_simps dom_update, simp)
qed simp

lemma forwarded_identity:
  assumes b: "build_forward_headers hmac fmt now cfg r = Inr h" and wh: "wire_headers h = Some hs"
    and u: "user_of r \<noteq> []"
  obtains roles email where
    "join_roles (or_else (st_user_roles r) (JArr [])) = Some roles"
    "or_else (st_user_email r) (JStr []) = JStr email"
    "hget hs ''X-User-Id'' = Some (user_of r)" "hget_or hs ''X-User-Email'' [] = email"
    "hget hs ''X-User-Roles'' = Some roles"
    "hget (req_headers r) IDENTITY_SIG_HEADER = None \<Longrightarrow> hget (req_headers r) IDENTITY_TS_HEADER = None \<Longrightarrow>
       hget hs IDENTITY_SIG_HEADER =
         Some (fst (sign_identity hmac now (interservice_hmac_secret cfg) (user_of r) email roles None)) \<and>
       hget hs IDENTITY_TS_HEADER = Some (str_int now)"
proof -
  obtain roles where j: "join_roles (or_else (st_user_roles r) (JArr [])) = Some roles"
    and h: "h = updates (origin_headers r @ identity_headers hmac fmt now cfg r roles @ request_id_header r)
        (strip_headers (req_headers r))"
    using b by (auto simp: forward_headers_chain simp del: updates_simps split: option.splits)
  let ?e = "or_else (st_user_email r) (JStr [])"
  let ?sig = "\<lambda>e. fst (sign_identity hmac now (interservice_hmac_secret cfg) (user_of r) e roles None)"
  have ident: "identity_headers hmac fmt now cfg r roles = [(''X-User-Id'', JStr (user_of r))] @
      (if truthy ?e then [(''X-User-Email'', ?e)] else []) @
      [(''X-User-Roles'', JStr roles), (IDENTITY_SIG_HEADER, JStr (?sig (email_text fmt ?e))),
       (IDENTITY_TS_HEADER, JStr (str_int now))]"
    using u by (simp add: identity_headers_def sign_identity_def Let_def)
  have names: "fst ` set h = fst ` set (origin_headers r @ identity_headers hmac fmt now cfg r roles @ request_id_header r) \<union>
      fst ` set (strip_headers (req_headers r))"
    unfolding h by (rule updates_keys)
  have src: "(k, v) \<in> set (identity_headers hmac fmt now cfg r roles) \<or> (k, v) \<in> set (strip_headers (req_headers r))"
    if "(k, v) \<in> set h" "py_lower k \<in> {''x-user-id'', ''x-user-email'', ''x-user-roles'', ''x-identity-signature'', ''x-identity-issued-at''}"
    for k v
    using in_updates [OF that(1) [unfolded h]] that(2) origin_header_names [of k v r] request_id_names [of k v r] by auto
  have own: "(k, v) \<in> set (identity_headers hmac fmt now cfg r roles)"
    if "(k, v) \<in> set h" "py_lower k \<in> {''x-user-id'', ''x-user-email'', ''x-user-roles''}" for k v
    using src [OF that(1)] that(2) clean_strip [of "req_headers r"] by (auto simp: clean_def GATEWAY_OWNED_def)
  obtain email where e: "?e = JStr email"
  proof (cases "truthy ?e")
    case True
    then have "''X-User-Email'' \<in> fst ` set h" unfolding names ident by simp
    then obtain v where v: "(''X-User-Email'', v) \<in> set h" by auto
    from own [OF v] have "v = ?e" unfolding ident
      by (auto simp: IDENTITY_SIG_HEADER_def IDENTITY_TS_HEADER_def)
    with wire_text [OF wh v] that show thesis by auto
  next
    case False
    then have "?e = JStr []" by (auto simp: or_else_def split: option.splits if_splits)
    with that show thesis by blast
  qed
  have uid: "hget hs ''X-User-Id'' = Some (user_of r)"
  proof -
    have "hget hs ''X-User-Id'' = (if \<exists>k\<in>fst ` set h. py_lower k = py_lower ''X-User-Id'' then Some (user_of r) else None)"
      by (rule hget_wire [OF wh]) (auto dest!: own simp: ident split: if_splits)
    moreover have "\<exists>k\<in>fst ` set h. py_lower k = py_lower ''X-User-Id''" unfolding names ident by auto
    ultimately show ?thesis by simp
  qed
  have ro: "hget hs ''X-User-Roles'' = Some roles"
  proof -
    have "hget hs ''X-User-Roles'' = (if \<exists>k\<in>fst ` set h. py_lower k = py_lower ''X-User-Roles'' then Some roles else None)"
      by (rule hget_wire [OF wh]) (auto dest!: own simp: ident split: if_splits)
    moreover have "\<exists>k\<in>fst ` set h. py_lower k = py_lower ''X-User-Roles''" unfolding names ident by auto
    ultimately show ?thesis by simp
  qed
  have em: "hget_or hs ''X-User-Email'' [] = email"
  proof -
    have "hget hs ''X-User-Email'' = (if \<exists>k\<in>fst ` set h. py_lower k = py_lower ''X-User-Email'' then Some email else None)"
      by (rule hget_wire [OF wh]) (auto dest!: own simp: ident e split: if_splits)
    moreover have "''X-User-Email'' \<in> fst ` set h" if "email \<noteq> []" using that unfolding names ident by (simp add: e)
    ultimately show ?thesis by (cases "email = []") (force simp: hget_or_def)+
  qed
  have sg: "hget hs IDENTITY_SIG_HEADER = Some (?sig email) \<and> hget hs IDENTITY_TS_HEADER = Some (str_int now)"
    if c: "hget (req_headers r) IDENTITY_SIG_HEADER = None" "hget (req_headers r) IDENTITY_TS_HEADER = None"
  proof -
    have m: "(k, v) \<in> set (identity_headers hmac fmt now cfg r roles)"
      if "(k, v) \<in> set h" "py_lower k \<in> {''x-identity-signature'', ''x-identity-issued-at''}" for k v
      using src [OF that(1)] that(2) c strip_headers_names [of k v "req_headers r"] by (auto simp: hget_None_names)
    have s: "hget hs IDENTITY_SIG_HEADER =
          (if \<exists>k\<in>fst ` set h. py_lower k = py_lower IDENTITY_SIG_HEADER then Some (?sig email) else None)"
      by (rule hget_wire [OF wh]) (auto dest!: m simp: ident e email_text_def split: if_splits)
    have t: "hget hs IDENTITY_TS_HEADER =
          (if \<exists>k\<in>fst ` set h. py_lower k = py_lower IDENTITY_TS_HEADER then Some (str_int now) else None)"
      by (rule hget_wire [OF wh]) (auto dest!: m simp: ident e split: if_splits)
    have "\<exists>k\<in>fst ` set h. py_lower k = py_lower IDENTITY_SIG_HEADER" "\<exists>k\<in>fst ` set h. py_lower k = py_lower IDENTITY_TS_HEADER"
      unfolding names ident by auto
    with s t show ?thesis by simp
  qed
  from that [OF j e uid em ro sg] show thesis by blast
qed

text \<open>The claims that \<^const>\<open>with_identity\<close> puts on a request.\<close>

lemma with_identity_sel [simp]:
  "req_headers ((with_identity u payload r)\<lparr>st_request_id := rid\<rparr>) = req_headers r"
  "user_of ((with_identity u payload r)\<lparr>st_request_id := rid\<rparr>) = uuid_str u"
  "st_user_email ((with_identity u payload r)\<lparr>st_request_id := rid\<rparr>) = map_of payload ''email''"
  "st_user_roles ((with_identity u payload r)\<lparr>st_request_id := rid\<rparr>) =
     Some (case map_of payload ''roles'' of Some v \<Rightarrow> v | None \<Rightarrow> JArr [])"
  by (simp_all add: with_identity_def user_of_def)

lemma signed_passes:
  assumes "hget hs ''X-User-Id'' = Some (uuid_str u)" "hget_or hs ''X-User-Email'' [] = email"
    and "hget hs ''X-User-Roles'' = Some roles"
    and "hget hs IDENTITY_SIG_HEADER = Some (fst (sign_identity hmac now secret (uuid_str u) email roles None))"
    and "hget hs IDENTITY_TS_HEADER = Some (str_int now)"
    and "\<And>k m. hmac k m \<noteq> []" "\<bar>now\<bar> < 10 ^ 20" "-5 \<le> now' - now" "now' - now \<le> 60"
    and "req_headers r = hs" "idm_secret idm = secret"
  shows "identity_dispatch hmac now' idm h r w = h r w"
proof -
  obtain sig ts where s: "sign_identity hmac now secret (uuid_str u) email roles None = (sig, ts)" by fastforce
  have "sig \<noteq> []" "ts = str_int now" "str_int now \<noteq> []"
    using s assms(6) by (auto simp: sign_identity_def Let_def str_int_def split: if_splits)
  moreover have "verify_identity hmac secret (uuid_str u) email roles ts sig IDENTITY_MAX_AGE_SECONDS now'"
    by (rule sign_then_verify [OF s refl]) (use assms(7-9) in \<open>simp_all add: IDENTITY_MAX_AGE_SECONDS_def\<close>)
  ultimately show ?thesis
    using assms s by (simp add: identity_dispatch_def hget_or_def Let_def)
qed

text \<open>
  C8: The caller a backend acts for is the subject of the token. Whatever headers a client sends, once
  the gateway has authenticated it as \<open>u\<close> and forwarded the request, a backend answers 401 or runs its
  route, and the route's caller is \<open>u\<close>. The route does run if the client has not sent signature headers of
  its own, the two services share the secret, and their clocks and the transport lie within the window of
  5 seconds ahead and 60 late. (The gateway does not strip the signature headers, see
  \<^verbatim>\<open>client_entries_survive\<close>: a client that sends its own only spoils its request.)
\<close>
theorem gateway_to_backend:
  assumes "authenticates unverified decode jcfg r u payload"
    and "build_forward_headers hmac fmt now cfg ((with_identity u payload r)\<lparr>st_request_id := rid\<rparr>) = Inr h"
    and "wire_headers h = Some (req_headers r')"
    and "\<And>k m. hmac k m \<noteq> []"
  shows "parse_caller_id r' = Inr u \<and>
    (backend_app hmac now' idm routes r' w = hardening_dispatch (route routes) r' w \<or>
       (\<exists>d. backend_app hmac now' idm routes r' w = (Inr (unauthorized d), w))) \<and>
    (hget (req_headers r) IDENTITY_SIG_HEADER = None \<and> hget (req_headers r) IDENTITY_TS_HEADER = None \<and>
     idm_secret idm = interservice_hmac_secret cfg \<and> \<bar>now\<bar> < 10 ^ 20 \<and> -5 \<le> now' - now \<and> now' - now \<le> 60 \<longrightarrow>
       backend_app hmac now' idm routes r' w = hardening_dispatch (route routes) r' w)"
proof -
  have u: "user_of ((with_identity u payload r)\<lparr>st_request_id := rid\<rparr>) \<noteq> []" by simp
  obtain roles email where f: "hget (req_headers r') ''X-User-Id'' = Some (uuid_str u)"
    "hget_or (req_headers r') ''X-User-Email'' [] = email" "hget (req_headers r') ''X-User-Roles'' = Some roles"
    "hget (req_headers r) IDENTITY_SIG_HEADER = None \<Longrightarrow> hget (req_headers r) IDENTITY_TS_HEADER = None \<Longrightarrow>
       hget (req_headers r') IDENTITY_SIG_HEADER =
         Some (fst (sign_identity hmac now (interservice_hmac_secret cfg) (uuid_str u) email roles None)) \<and>
       hget (req_headers r') IDENTITY_TS_HEADER = Some (str_int now)"
    by (rule forwarded_identity [OF assms(2,3) u], rule that) simp_all
  have "parse_caller_id r' = Inr u" using f(1) by (simp add: parse_caller_id_def)
  moreover have "backend_app hmac now' idm routes r' w = hardening_dispatch (route routes) r' w"
    if "hget (req_headers r) IDENTITY_SIG_HEADER = None" "hget (req_headers r) IDENTITY_TS_HEADER = None"
      "idm_secret idm = interservice_hmac_secret cfg" "\<bar>now\<bar> < 10 ^ 20" "-5 \<le> now' - now" "now' - now \<le> 60"
    unfolding backend_app_def using f that assms(4)
    by (intro signed_passes [OF f(1-3)]) auto
  ultimately show ?thesis
    using identity_dispatch_cases [of hmac now' idm "hardening_dispatch (route routes)" r' w]
    by (auto simp: backend_app_def)
qed

section \<open>From the login to a backend\<close>

text \<open>
  What the JWT library promises: a token it encodes is a text without blanks at its ends, shows the kid
  it was made with, and decodes, until its expiry, to the claims it was made of.
\<close>

definition jwt_contract ::
  "((string \<times> json) list \<Rightarrow> string \<Rightarrow> string \<Rightarrow> string \<Rightarrow> string option) \<Rightarrow> (string \<Rightarrow> header_result) \<Rightarrow>
   (string \<Rightarrow> string \<Rightarrow> string list \<Rightarrow> decode_result) \<Rightarrow> pyfloat \<Rightarrow> bool" where
  "jwt_contract encode unverified decode now \<longleftrightarrow>
     (\<forall>payload secret alg kid token e. encode payload secret alg kid = Some token \<longrightarrow>
        py_strip token = token \<and> unverified token = Kid (Some kid) \<and>
        (map_of payload ''exp'' = Some (JInt e) \<and> now < of_int e \<longrightarrow> decode token secret [alg] = Claims payload))"

lemma nested_ring_secret:
  assumes "printable_ring ring_v" "set ring_s \<subseteq> set ring_v" "select_signing_key ring_s kid = Inr (kid', secret)" "kid \<noteq> []"
  shows "select_verification_key ring_v (Some kid') = Some secret"
proof -
  have "kid' = kid" "map_of ring_s kid = Some secret"
    using assms(3) by (auto simp: select_signing_key_def split: option.splits)
  moreover have "distinct (map fst ring_v)" using assms(1) by (simp add: printable_ring_def)
  ultimately have "map_of ring_v kid = Some secret" using assms(2) by (auto dest: map_of_SomeD)
  then show ?thesis using assms(4) \<open>kid' = kid\<close> by (simp add: select_verification_key_def)
qed

lemma strip_headers_text: "(k, v) \<in> set (strip_headers hs) \<Longrightarrow> \<exists>s. v = JStr s"
proof -
  have "(k, v) \<in> set (fold (\<lambda>(k, v) d.
       if py_lower k \<notin> set HOP_BY_HOP \<and> py_lower k \<notin> set GATEWAY_OWNED
       then AList.update k (JStr v) d else d) hs d) \<Longrightarrow> (\<exists>s. v = JStr s) \<or> (k, v) \<in> set d" for d
    by (induction hs arbitrary: d) (force dest: in_update split: if_splits)+
  then show "(k, v) \<in> set (strip_headers hs) \<Longrightarrow> \<exists>s. v = JStr s" by (force simp: strip_headers_def)
qed

lemma wire_total: "(\<And>k v. (k, v) \<in> set h \<Longrightarrow> \<exists>s. v = JStr s) \<Longrightarrow> \<exists>hs. wire_headers h = Some hs"
proof (induction h)
  case (Cons kv h)
  obtain k s where kv: "kv = (k, JStr s)" using Cons.prems by (cases kv) force
  obtain hs where "wire_headers h = Some hs" using Cons by auto
  with kv show ?case by simp
qed simp

lemma forwarded_texts:
  assumes "join_roles (or_else (st_user_roles r) (JArr [])) = Some roles" "or_else (st_user_email r) (JStr []) = JStr email"
  shows "\<exists>h hs. build_forward_headers hmac fmt now cfg r = Inr h \<and> wire_headers h = Some hs"
proof -
  let ?kvs = "origin_headers r @ identity_headers hmac fmt now cfg r roles @ request_id_header r"
  let ?h = "updates ?kvs (strip_headers (req_headers r))"
  have "\<exists>s. v = JStr s" if "(k, v) \<in> set ?kvs" for k v
    using that assms(2)
    by (cases "st_request_id r"; cases "req_client r")
       (auto simp: origin_headers_def identity_headers_def request_id_header_def Let_def split: if_splits prod.splits)
  then have "\<exists>hs. wire_headers ?h = Some hs"
    using in_updates [of _ _ ?kvs "strip_headers (req_headers r)"] strip_headers_text
    by (intro wire_total) blast
  with assms(1) show ?thesis by (simp add: forward_headers_chain)
qed

text \<open>The token of a response, taken apart.\<close>

lemma issued_token:
  assumes "issue_token_response en ucfg usr w = (Inr tok, w1)"
  obtains ring kid secret e where
    "parse_keyring (us_jwt_secrets ucfg) (us_jwt_secret ucfg) ''default'' = Inr ring"
    "select_signing_key ring (us_jwt_current_kid ucfg) = Inr (kid, secret)"
    "e = \<lfloor>ue_now en + of_int (tr_expires_in tok)\<rfloor>"
    "ue_jwt_encode en
       [(''sub'', JStr (uuid_str (u_id usr))), (''email'', JStr (u_email usr)),
        (''roles'', JArr (if u_is_admin usr then [JStr ''admin'', JStr ''user''] else [JStr ''user''])),
        (''exp'', JInt e), (''iat'', JInt \<lfloor>ue_now en\<rfloor>)]
       secret (us_jwt_algorithm ucfg) kid = Some (tr_access_token tok)"
  using assms
  by (auto simp: issue_token_response_def create_access_jwt_def Let_def split: sum.splits option.splits prod.splits)

lemma bearer_header:
  assumes "hget hs ''Authorization'' = Some (''Bearer '' @ token)" "py_strip token = token"
  shows "starts_with ''bearer '' (py_lower (hget_or hs ''Authorization'' []))"
    and "py_strip (drop 7 (hget_or hs ''Authorization'' [])) = token"
proof -
  have l: "map py_lower_char ''Bearer '' = ''bearer ''" by code_simp
  have "py_lower (''Bearer '' @ token) = ''bearer '' @ py_lower token"
    unfolding py_lower_def map_append l by (rule refl)
  then show "starts_with ''bearer '' (py_lower (hget_or hs ''Authorization'' []))"
    using assms(1) by (simp add: hget_or_def starts_with_def)
  show "py_strip (drop 7 (hget_or hs ''Authorization'' [])) = token"
    using assms by (simp add: hget_or_def)
qed

lemma issued_authenticates:
  assumes "issue_token_response en ucfg usr w = (Inr tok, w1)"
    and "us_jwt_secrets ucfg = print_keyring ring_s" "printable_ring ring_s"
    and "cfg_jwt_secrets jcfg = print_keyring ring_v" "printable_ring ring_v" "set ring_s \<subseteq> set ring_v"
    and "cfg_jwt_algorithm jcfg = us_jwt_algorithm ucfg"
    and "jwt_contract (ue_jwt_encode en) unverified decode now"
    and "now < of_int \<lfloor>ue_now en + of_int (tr_expires_in tok)\<rfloor>"
    and "hget (req_headers r) ''Authorization'' = Some (''Bearer '' @ tr_access_token tok)"
  obtains payload where "authenticates unverified decode jcfg r (u_id usr) payload"
    "map_of payload ''email'' = Some (JStr (u_email usr))"
    "map_of payload ''roles'' =
       Some (JArr (if u_is_admin usr then [JStr ''admin'', JStr ''user''] else [JStr ''user'']))"
proof -
  obtain ring kid secret e where t:
    "parse_keyring (us_jwt_secrets ucfg) (us_jwt_secret ucfg) ''default'' = Inr ring"
    "select_signing_key ring (us_jwt_current_kid ucfg) = Inr (kid, secret)"
    "e = \<lfloor>ue_now en + of_int (tr_expires_in tok)\<rfloor>"
    and enc: "ue_jwt_encode en
       [(''sub'', JStr (uuid_str (u_id usr))), (''email'', JStr (u_email usr)),
        (''roles'', JArr (if u_is_admin usr then [JStr ''admin'', JStr ''user''] else [JStr ''user''])),
        (''exp'', JInt e), (''iat'', JInt \<lfloor>ue_now en\<rfloor>)]
       secret (us_jwt_algorithm ucfg) kid = Some (tr_access_token tok)" (is "ue_jwt_encode en ?p _ _ _ = _")
    by (rule issued_token [OF assms(1)])
  have ring: "ring = ring_s" using t(1) assms(2) parse_print_keyring [OF assms(3)] by simp
  then have kid: "kid = us_jwt_current_kid ucfg" "map_of ring_s kid = Some secret"
    using t(2) by (auto simp: select_signing_key_def split: option.splits)
  then have "kid \<noteq> []" using assms(3) by (force simp: printable_ring_def plain_text_def dest: map_of_SomeD)
  then have key: "select_verification_key ring_v (Some kid) = Some secret"
    using nested_ring_secret [OF assms(5,6)] t(2) ring kid(1) by simp
  have c: "py_strip (tr_access_token tok) = tr_access_token tok" "unverified (tr_access_token tok) = Kid (Some kid)"
    "decode (tr_access_token tok) secret [us_jwt_algorithm ucfg] = Claims ?p"
    using assms(8) enc assms(9) t(3) unfolding jwt_contract_def by fastforce+
  have "authenticates unverified decode jcfg r (u_id usr) ?p"
    unfolding authenticates_def
    using bearer_header [OF assms(10) c(1)] c(2,3) assms(4,7) parse_print_keyring [OF assms(5)] key
    by (intro exI [of _ "tr_access_token tok"] exI [of _ "Some kid"] exI [of _ ring_v] exI [of _ secret])
       (simp add: sub_uuid_def)
  then show thesis by (rule that) simp_all
qed

text \<open>
  Such a request as the gateway forwards it: it names the account as the caller, with its roles, and it
  is signed.
\<close>

lemma issued_forwarded:
  assumes "issue_token_response en ucfg usr w = (Inr tok, w1)"
    and "us_jwt_secrets ucfg = print_keyring ring_s" "printable_ring ring_s"
    and "cfg_jwt_secrets jcfg = print_keyring ring_v" "printable_ring ring_v" "set ring_s \<subseteq> set ring_v"
    and "cfg_jwt_algorithm jcfg = us_jwt_algorithm ucfg"
    and "jwt_contract (ue_jwt_encode en) unverified decode now"
    and "now < of_int \<lfloor>ue_now en + of_int (tr_expires_in tok)\<rfloor>"
    and "hget (req_headers r) ''Authorization'' = Some (''Bearer '' @ tr_access_token tok)"
    and "hget (req_headers r) IDENTITY_SIG_HEADER = None" "hget (req_headers r) IDENTITY_TS_HEADER = None"
    and "\<And>k m. hmac k m \<noteq> []" "\<bar>t\<bar> < 10 ^ 20" "-5 \<le> t' - t" "t' - t \<le> 60"
  obtains payload h hs where "authenticates unverified decode jcfg r (u_id usr) payload"
    "build_forward_headers hmac fmt t cfg ((with_identity (u_id usr) payload r)\<lparr>st_request_id := rid\<rparr>) = Inr h"
    "wire_headers h = Some hs"
    "\<And>r' idm (routes :: 'w handler) v'. req_headers r' = hs \<Longrightarrow> idm_secret idm = interservice_hmac_secret cfg \<Longrightarrow>
       backend_app hmac t' idm routes r' v' = hardening_dispatch (route routes) r' v'"
    "\<And>r'. req_headers r' = hs \<Longrightarrow> parse_caller_id r' = Inr (u_id usr)"
    "\<And>r' :: request. req_headers r' = hs \<Longrightarrow> ''admin'' \<in> roles_of (hget_or (req_headers r') ''X-User-Roles'' []) \<longleftrightarrow> u_is_admin usr"
proof -
  obtain payload where p: "authenticates unverified decode jcfg r (u_id usr) payload"
    "map_of payload ''email'' = Some (JStr (u_email usr))"
    "map_of payload ''roles'' =
       Some (JArr (if u_is_admin usr then [JStr ''admin'', JStr ''user''] else [JStr ''user'']))"
    by (rule issued_authenticates [OF assms(1-10)])
  let ?r = "(with_identity (u_id usr) payload r)\<lparr>st_request_id := rid\<rparr>"
  define roles where "roles = (if u_is_admin usr then ''admin,user'' else ''user'')"
  have j: "join_roles (or_else (st_user_roles ?r) (JArr [])) = Some roles"
    by (simp add: p(3) or_else_def join_roles_def roles_def)
  have e: "or_else (st_user_email ?r) (JStr []) = JStr (u_email usr)"
    by (simp add: p(2) or_else_def)
  obtain h hs where f: "build_forward_headers hmac fmt t cfg ?r = Inr h" "wire_headers h = Some hs"
    using forwarded_texts [OF j e] by blast
  have n: "user_of ?r \<noteq> []" by simp
  obtain roles' email where i: "roles' = roles" "email = u_email usr"
    "hget hs ''X-User-Id'' = Some (uuid_str (u_id usr))"
    "hget_or hs ''X-User-Email'' [] = email" "hget hs ''X-User-Roles'' = Some roles'"
    "hget hs IDENTITY_SIG_HEADER =
       Some (fst (sign_identity hmac t (interservice_hmac_secret cfg) (uuid_str (u_id usr)) email roles' None)) \<and>
     hget hs IDENTITY_TS_HEADER = Some (str_int t)"
    by (rule forwarded_identity [OF f n], rule that) (use j e assms(11,12) in simp_all)
  have ad: "(''admin'' \<in> roles_of roles) = u_is_admin usr"
  proof -
    have "''admin'' \<in> roles_of ''admin,user''" "''admin'' \<notin> roles_of ''user''" by code_simp+
    then show ?thesis by (simp add: roles_def)
  qed
  have c: "parse_caller_id r' = Inr (u_id usr)" if "req_headers r' = hs" for r'
    using i(3) that by (simp add: parse_caller_id_def)
  have a: "''admin'' \<in> roles_of (hget_or (req_headers r') ''X-User-Roles'' []) \<longleftrightarrow> u_is_admin usr"
    if "req_headers r' = hs" for r' :: request
    using i(1,5) that ad by (simp add: hget_or_def)
  have b: "backend_app hmac t' idm routes r' v' = hardening_dispatch (route routes) r' v'"
    if "req_headers r' = hs" "idm_secret idm = interservice_hmac_secret cfg" for r' idm and routes :: "'w handler" and v'
    unfolding backend_app_def
    by (rule signed_passes [OF i(3-5) _ _ assms(13-16) that]) (use i(6) in blast)+
  show thesis by (rule that [OF p(1) f b c a])
qed


section \<open>Instances\<close>

definition demo_payload_claims :: "(string \<times> json) list" where
  "demo_payload_claims = [(''sub'', JStr (uuid_str 7)), (''email'', JStr ''a@b.c'')]"

theorem gateway_to_backend_witness:
  "\<exists>h hs. build_forward_headers demo_mac (\<lambda>_. []) 1000 demo_proxy
       ((with_identity 7 demo_payload_claims demo_token_request)\<lparr>st_request_id := Some (uuid_str 1)\<rparr>) = Inr h \<and>
     wire_headers h = Some hs \<and>
     parse_caller_id (plain_request ''GET'' ''/api/v1/tasks'' hs) = Inr 7 \<and>
     backend_app demo_mac 1030 demo_idm (\<lambda>r n. (Inr (JSONResponse 200 JNull []), Suc n))
       (plain_request ''GET'' ''/api/v1/tasks'' hs) 0 =
     hardening_dispatch (route (\<lambda>r n. (Inr (JSONResponse 200 JNull []), Suc n)))
       (plain_request ''GET'' ''/api/v1/tasks'' hs) (0::nat)"
proof -
  let ?r = "(with_identity 7 demo_payload_claims demo_token_request)\<lparr>st_request_id := Some (uuid_str 1)\<rparr>"
  have "join_roles (or_else (st_user_roles ?r) (JArr [])) = Some []" "or_else (st_user_email ?r) (JStr []) = JStr ''a@b.c''"
    by (simp_all add: demo_payload_claims_def or_else_def join_roles_def)
  then obtain h hs where f: "build_forward_headers demo_mac (\<lambda>_. []) 1000 demo_proxy ?r = Inr h" "wire_headers h = Some hs"
    using forwarded_texts by blast
  have m: "demo_mac k m \<noteq> []" for k m by (simp add: demo_mac_def)
  have n: "hget (req_headers demo_token_request) IDENTITY_SIG_HEADER = None"
    "hget (req_headers demo_token_request) IDENTITY_TS_HEADER = None"
    by code_simp+
  have w: "wire_headers h = Some (req_headers (plain_request ''GET'' ''/api/v1/tasks'' hs))" using f(2) by simp
  show ?thesis
    using gateway_to_backend [OF demo_authenticates [folded demo_payload_claims_def] f(1) w m,
        of 1030 demo_idm "\<lambda>r n. (Inr (JSONResponse 200 JNull []), Suc n)" 0] f n
    by (auto simp: demo_idm_def demo_proxy_def)
qed

definition demo_claims :: "(string \<times> json) list" where
  "demo_claims = [(''sub'', JStr (uuid_str 1)), (''email'', JStr ''a@x''), (''roles'', JArr [JStr ''user'']),
     (''exp'', JInt 3605), (''iat'', JInt 5)]"

definition demo_encode :: "(string \<times> json) list \<Rightarrow> string \<Rightarrow> string \<Rightarrow> string \<Rightarrow> string option" where
  "demo_encode payload secret alg kid =
     (if payload = demo_claims \<and> secret = ''first-secret'' \<and> kid = ''2026a'' then Some ''t2'' else None)"

definition demo_verify :: "string \<Rightarrow> string \<Rightarrow> string list \<Rightarrow> decode_result" where
  "demo_verify token secret algs = (if token = ''t2'' \<and> secret = ''first-secret'' then Claims demo_claims else InvalidToken)"

definition demo_login_env :: "mem_redis user_env" where
  "demo_login_env = (demo_user_env 5)\<lparr>ue_jwt_encode := demo_encode\<rparr>"

definition demo_login_cfg :: user_settings where
  "demo_login_cfg = demo_cfg\<lparr>us_jwt_secrets := print_keyring [(''2026a'', ''first-secret'')], us_jwt_current_kid := ''2026a''\<rparr>"

lemma demo_rings: "printable_ring [(''2026a'', ''first-secret'')]" "printable_ring (demo_ring ''next'')"
  by (simp_all add: demo_ring_def printable_ring_def plain_text_def py_isspace_def)

lemma demo_issue:
  "\<exists>tok w1. issue_token_response demo_login_env demo_login_cfg (demo_user 1 ''a@x'' ''anna'') (demo_world demo_rows) = (Inr tok, w1) \<and>
     tr_access_token tok = ''t2'' \<and> tr_expires_in tok = 3600"
proof -
  have k: "parse_keyring (us_jwt_secrets demo_login_cfg) (us_jwt_secret demo_login_cfg) ''default'' = Inr [(''2026a'', ''first-secret'')]"
    using parse_print_keyring [OF demo_rings(1)] by (simp add: demo_login_cfg_def)
  have "create_access_jwt demo_login_env demo_login_cfg (demo_user 1 ''a@x'' ''anna'') = Inr (''t2'', 3600)"
    by (simp add: create_access_jwt_def k select_signing_key_def)
       (simp add: demo_login_env_def demo_login_cfg_def demo_user_env_def demo_cfg_def demo_user_def new_user_def demo_encode_def demo_claims_def)
  moreover have "\<exists>stored w1. on_redis (store_refresh_token (ue_redis demo_login_env) (ue_now demo_login_env)
      (uuid_str (ue_uuid4 demo_login_env)) (uuid_str (u_id (demo_user 1 ''a@x'' ''anna'')))) (demo_world demo_rows) = (Inr stored, w1)"
    by (simp add: demo_login_env_def demo_user_env_def demo_world_def demo_client_def on_redis_def store_refresh_token_def
        setex_token_def get_redis_def mem_ops_def Let_def; blast)
  ultimately show ?thesis by (auto simp: issue_token_response_def Let_def)
qed

lemma demo_contract: "jwt_contract (ue_jwt_encode demo_login_env) (\<lambda>_. Kid (Some ''2026a'')) demo_verify 100"
  by (auto simp: jwt_contract_def demo_login_env_def demo_encode_def demo_verify_def strip_by_none py_isspace_def split: if_splits)


end
