(* ===== verification/Queues.thy ===== *)
theory Queues
  imports Prelude
begin

text \<open>
  \<^verbatim>\<open>asyncio.Queue\<close> with a bound, as both event streams use it: \<^verbatim>\<open>put_nowait\<close> raises \<^verbatim>\<open>QueueFull\<close> at
  the bound, \<^verbatim>\<open>get\<close> takes the oldest element. The locale states what a stream relies on; its lemmas
  say that a reader gets what was accepted, in order, and that memory is bounded.
\<close>

definition put_nowait :: "nat \<Rightarrow> 'a \<Rightarrow> 'a list \<Rightarrow> 'a list option" where
  "put_nowait maxsize x q = (if maxsize \<le> length q then None else Some (q @ [x]))"

definition queue_get :: "'a list \<Rightarrow> ('a \<times> 'a list) option" where
  "queue_get q = (case q of [] \<Rightarrow> None | x # xs \<Rightarrow> Some (x, xs))"

datatype 'a queue_event = Offer 'a | Take

locale bounded_fifo =
  fixes cap :: nat
    and put :: "'a \<Rightarrow> 'q \<Rightarrow> 'q option"
    and take_first :: "'q \<Rightarrow> ('a \<times> 'q) option"
    and contents :: "'q \<Rightarrow> 'a list"
  assumes put_full: "put x q = None \<longleftrightarrow> cap \<le> length (contents q)"
    and put_last: "put x q = Some q' \<Longrightarrow> contents q' = contents q @ [x]"
    and take_none: "take_first q = None \<longleftrightarrow> contents q = []"
    and take_some: "take_first q = Some (x, q') \<Longrightarrow> contents q = x # contents q'"
begin

text \<open>A reader and a writer that drops what does not fit: what was accepted, what was read, the queue.\<close>

fun drive :: "'a queue_event list \<Rightarrow> 'q \<Rightarrow> 'a list \<times> 'a list \<times> 'q" where
  "drive [] q = ([], [], q)"
| "drive (Offer x # es) q =
     (case put x q of
        None \<Rightarrow> drive es q
      | Some q' \<Rightarrow> (case drive es q' of (accepted, got, r) \<Rightarrow> (x # accepted, got, r)))"
| "drive (Take # es) q =
     (case take_first q of
        None \<Rightarrow> drive es q
      | Some (x, q') \<Rightarrow> (case drive es q' of (accepted, got, r) \<Rightarrow> (accepted, x # got, r)))"

lemma drive_fifo:
  "drive es q = (accepted, got, r) \<Longrightarrow> contents q @ accepted = got @ contents r"
proof (induction es arbitrary: q accepted got r)
  case (Cons e es)
  show ?case
  proof (cases e)
    case (Offer x)
    show ?thesis
    proof (cases "put x q")
      case (Some q')
      obtain a g s where d: "drive es q' = (a, g, s)" by (cases "drive es q'")
      show ?thesis using Cons.prems Cons.IH [OF d] put_last [OF Some] d Some Offer by simp
    qed (use Cons Offer in simp)
  next
    case Take
    show ?thesis
    proof (cases "take_first q")
      case (Some p)
      obtain x q' where p: "p = (x, q')" by (cases p)
      obtain a g s where d: "drive es q' = (a, g, s)" by (cases "drive es q'")
      show ?thesis using Cons.prems Cons.IH [OF d] take_some [OF Some [unfolded p]] d Some p Take by auto
    qed (use Cons Take in simp)
  qed
qed simp

lemma put_bounded: "put x q = Some q' \<Longrightarrow> length (contents q') \<le> cap"
  using put_full [of x q] put_last [of x q q'] by (cases "cap \<le> length (contents q)") auto

lemma drive_bounded:
  "length (contents q) \<le> cap \<Longrightarrow> length (contents (snd (snd (drive es q)))) \<le> cap"
proof (induction es arbitrary: q)
  case (Cons e es)
  show ?case
  proof (cases e)
    case (Offer x)
    then show ?thesis using Cons put_bounded [of x q] by (auto simp: split_def split: option.splits)
  next
    case Take
    show ?thesis
    proof (cases "take_first q")
      case (Some p)
      obtain x q' where p: "p = (x, q')" by (cases p)
      have "length (contents q') \<le> cap" using take_some [OF Some [unfolded p]] Cons.prems by simp
      from Cons.IH [OF this] show ?thesis using Some p Take by (simp add: split_def)
    qed (use Cons Take in simp)
  qed
qed simp

lemma drive_append:
  "drive (es @ fs) q =
     (case drive es q of (a1, g1, q1) \<Rightarrow> case drive fs q1 of (a2, g2, q2) \<Rightarrow> (a1 @ a2, g1 @ g2, q2))"
  by (induction es q rule: drive.induct) (auto split: option.splits prod.splits)

text \<open>Enough reads reach every element that is waiting, whatever is offered in between.\<close>

lemma drive_delivers:
  "contents q = xs @ x # ys \<Longrightarrow> length xs < count_list es Take \<Longrightarrow> x \<in> set (fst (snd (drive es q)))"
proof (induction es arbitrary: q xs ys)
  case (Cons e es)
  show ?case
  proof (cases e)
    case (Offer y)
    show ?thesis
    proof (cases "put y q")
      case (Some q')
      from Cons.IH [of q' xs "ys @ [y]"] Cons.prems put_last [OF Some] show ?thesis
        using Offer Some by (simp add: split_def)
    qed (use Cons Offer in simp)
  next
    case Take
    have "take_first q \<noteq> None" using Cons.prems(1) take_none [of q] by simp
    then obtain z q' where s: "take_first q = Some (z, q')" by auto
    show ?thesis
    proof (cases xs)
      case Nil
      then show ?thesis using Take s take_some [OF s] Cons.prems(1) by (simp add: split_def)
    next
      case (Cons w ws)
      then show ?thesis using Take s take_some [OF s] Cons.prems Cons.IH [of q' ws ys]
        by (simp add: split_def)
    qed
  qed
qed simp

lemma offers_accepted:
  "length (contents q) + length xs \<le> cap \<Longrightarrow> \<exists>r. drive (map Offer xs) q = (xs, [], r)"
proof (induction xs arbitrary: q)
  case (Cons x xs)
  then obtain q' where q': "put x q = Some q'" using put_full [of x q] by (cases "put x q") auto
  with Cons.IH [of q'] Cons.prems put_last [OF q'] obtain r where "drive (map Offer xs) q' = (xs, [], r)" by auto
  with q' show ?case by simp
qed simp

end

interpretation asyncio_queue: bounded_fifo cap "put_nowait cap" queue_get "\<lambda>q. q" for cap
  by unfold_locales (auto simp: put_nowait_def queue_get_def split: if_splits list.splits)

end
