(* ===== verification/Broadcaster.thy ===== *)
theory Broadcaster
  imports Queues PyJson
begin

text \<open>
  The user-scoped event broadcaster of the notification service (\<^verbatim>\<open>broadcaster.py\<close>): a queue of at
  most 100 events per open stream, grouped by user. The text of the event is made once; the printed
  form of floats is a parameter.
\<close>

definition QUEUE_MAXSIZE :: nat where
  "QUEUE_MAXSIZE = 100"

type_synonym conns = "(nat, string list) dict"

record broadcaster =
  bc_queues :: "(string, conns) dict"
  bc_next_conn_id :: nat

definition Broadcaster :: broadcaster where
  "Broadcaster = \<lparr>bc_queues = [], bc_next_conn_id = 0\<rparr>"

definition user_conns :: "string \<Rightarrow> broadcaster \<Rightarrow> conns" where
  "user_conns user_id b = (case map_of (bc_queues b) user_id of Some d \<Rightarrow> d | None \<Rightarrow> [])"

text \<open>A full queue loses this event and stays registered; the handler for other exceptions never runs.\<close>

definition offer :: "string \<Rightarrow> string list \<Rightarrow> string list" where
  "offer payload q = (case put_nowait QUEUE_MAXSIZE payload q of Some q' \<Rightarrow> q' | None \<Rightarrow> q)"

definition deliver :: "string \<Rightarrow> string \<Rightarrow> broadcaster \<Rightarrow> broadcaster" where
  "deliver payload user_id b =
     (if user_conns user_id b = [] then b
      else b\<lparr>bc_queues := AList.update user_id (map (\<lambda>(c, q). (c, offer payload q)) (user_conns user_id b))
               (bc_queues b)\<rparr>)"

definition event_payload :: "(pyfloat \<Rightarrow> string) \<Rightarrow> json \<Rightarrow> json \<Rightarrow> string" where
  "event_payload fr event_type data = json_dumps fr (JObj [(''event_type'', event_type), (''data'', data)])"

text \<open>Only text can be the key of a bucket; a target of another type finds no connections.\<close>

definition text_targets :: "json list \<Rightarrow> string list" where
  "text_targets ts = concat (map (\<lambda>t. case t of JStr s \<Rightarrow> [s] | _ \<Rightarrow> []) ts)"

definition broadcast ::
  "(pyfloat \<Rightarrow> string) \<Rightarrow> json \<Rightarrow> json \<Rightarrow> json list \<Rightarrow> broadcaster \<Rightarrow> broadcaster" where
  "broadcast fr event_type data target_user_ids b =
     (if target_user_ids = [] then b
      else (let payload = event_payload fr event_type data
            in fold (deliver payload) (text_targets target_user_ids) b))"

section \<open>Streams\<close>

text \<open>
  \<^verbatim>\<open>subscribe\<close> as its phases: opening the connection, one turn of its loop (a queued event, or the
  keepalive when the wait timed out), and the \<^verbatim>\<open>finally\<close> block.
\<close>

definition subscribe_open :: "string \<Rightarrow> broadcaster \<Rightarrow> nat \<times> broadcaster" where
  "subscribe_open user_id b =
     (let conn_id = bc_next_conn_id b + 1
      in (conn_id, b\<lparr>bc_next_conn_id := conn_id,
                     bc_queues := AList.update user_id (AList.update conn_id [] (user_conns user_id b)) (bc_queues b)\<rparr>))"

definition data_chunk :: "string \<Rightarrow> string" where
  "data_chunk payload = ''data: '' @ payload @ [CHR 0x0A, CHR 0x0A]"

definition keepalive :: string where
  "keepalive = '': keepalive'' @ [CHR 0x0A, CHR 0x0A]"

definition queue_of :: "string \<Rightarrow> nat \<Rightarrow> broadcaster \<Rightarrow> string list option" where
  "queue_of user_id conn_id b = map_of (user_conns user_id b) conn_id"

definition subscribe_next :: "string \<Rightarrow> nat \<Rightarrow> broadcaster \<Rightarrow> string \<times> broadcaster" where
  "subscribe_next user_id conn_id b =
     (case Option.bind (queue_of user_id conn_id b) queue_get of
        Some (payload, q) \<Rightarrow>
          (data_chunk payload,
           b\<lparr>bc_queues := AList.update user_id (AList.update conn_id q (user_conns user_id b)) (bc_queues b)\<rparr>)
      | None \<Rightarrow> (keepalive, b))"

definition subscribe_close :: "string \<Rightarrow> nat \<Rightarrow> broadcaster \<Rightarrow> broadcaster" where
  "subscribe_close user_id conn_id b =
     (let d = AList.delete conn_id (user_conns user_id b)
      in b\<lparr>bc_queues := (if d = [] then AList.delete user_id (bc_queues b)
                         else AList.update user_id d (bc_queues b))\<rparr>)"

definition active_user_count :: "broadcaster \<Rightarrow> nat" where
  "active_user_count b = length (bc_queues b)"

definition active_connection_count :: "broadcaster \<Rightarrow> nat" where
  "active_connection_count b = sum_list (map (\<lambda>(_, d). length d) (bc_queues b))"

section \<open>Histories\<close>

text \<open>
  Everything that happens to the broadcaster, in the order the event loop runs it: an event is sent, a
  stream opens, takes a turn, or closes. A turn of a stream that is not open is not a step.
\<close>

datatype bc_op =
    Send json json "json list"
  | Open string
  | Turn string nat
  | Close string nat

fun bc_step :: "(pyfloat \<Rightarrow> string) \<Rightarrow> bc_op \<Rightarrow> broadcaster \<Rightarrow> string option \<times> broadcaster" where
  "bc_step fr (Send t d ts) b = (None, broadcast fr t d ts b)"
| "bc_step fr (Open u) b = (None, snd (subscribe_open u b))"
| "bc_step fr (Turn u c) b =
     (if queue_of u c b = None then (None, b)
      else (case subscribe_next u c b of (chunk, b') \<Rightarrow> (Some chunk, b')))"
| "bc_step fr (Close u c) b = (None, subscribe_close u c b)"

fun bc_run :: "(pyfloat \<Rightarrow> string) \<Rightarrow> bc_op list \<Rightarrow> broadcaster \<Rightarrow> broadcaster" where
  "bc_run fr [] b = b"
| "bc_run fr (op # ops) b = bc_run fr ops (snd (bc_step fr op b))"

text \<open>What a stream yields to its client.\<close>

fun chunks :: "(pyfloat \<Rightarrow> string) \<Rightarrow> string \<Rightarrow> nat \<Rightarrow> bc_op list \<Rightarrow> broadcaster \<Rightarrow> string list" where
  "chunks fr u c [] b = []"
| "chunks fr u c (op # ops) b =
     (case bc_step fr op b of
        (out, b') \<Rightarrow> (if op = Turn u c then (case out of Some s \<Rightarrow> [s] | None \<Rightarrow> []) else []) @ chunks fr u c ops b')"

text \<open>What a history means for one stream: an offer per naming of its user, a read per turn.\<close>

fun stream_events :: "(pyfloat \<Rightarrow> string) \<Rightarrow> string \<Rightarrow> nat \<Rightarrow> bc_op \<Rightarrow> string queue_event list" where
  "stream_events fr u c (Send t d ts) =
     map (\<lambda>_. Offer (event_payload fr t d)) (filter (\<lambda>x. x = u) (text_targets ts))"
| "stream_events fr u c (Turn v e) = (if v = u \<and> e = c then [Take] else [])"
| "stream_events fr u c _ = []"

section \<open>Each stream is a queue of its own\<close>

lemma user_conns_put [simp]:
  "user_conns v (b\<lparr>bc_queues := AList.update u d (bc_queues b)\<rparr>) = (if v = u then d else user_conns v b)"
  "user_conns v (b\<lparr>bc_next_conn_id := n, bc_queues := AList.update u d (bc_queues b)\<rparr>) =
     (if v = u then d else user_conns v b)"
  by (simp_all add: user_conns_def)

lemma queue_of_user: "user_conns u b' = user_conns u b \<Longrightarrow> queue_of u c b' = queue_of u c b"
  by (simp add: queue_of_def)

lemma map_of_offer: "map_of (map (\<lambda>(c, q). (c, f q)) d) c = map_option f (map_of d c)"
  by (induction d) auto

lemma queue_of_deliver:
  "queue_of u c (deliver p v b) = (if u = v then map_option (offer p) (queue_of u c b) else queue_of u c b)"
  by (auto simp: deliver_def queue_of_def map_of_offer)

lemma queue_of_delivers:
  "queue_of u c (fold (deliver p) vs b) =
     map_option (fold (\<lambda>_. offer p) (filter (\<lambda>x. x = u) vs)) (queue_of u c b)"
  by (induction vs arbitrary: b) (auto simp: queue_of_deliver option.map_comp comp_def option.map_id0)

lemma queue_of_broadcast:
  "queue_of u c (broadcast fr t d ts b) =
     map_option (fold (\<lambda>_. offer (event_payload fr t d)) (filter (\<lambda>x. x = u) (text_targets ts))) (queue_of u c b)"
  by (auto simp: broadcast_def Let_def queue_of_delivers text_targets_def option.map_id0)

lemma drive_offers:
  "snd (snd (asyncio_queue.drive QUEUE_MAXSIZE (map (\<lambda>_. Offer p) vs) q)) = fold (\<lambda>_. offer p) vs q"
  by (induction vs arbitrary: q) (auto simp: offer_def split_def split: option.splits)

lemma drive_offers_got: "fst (snd (asyncio_queue.drive n (map (\<lambda>_. Offer p) vs) q)) = []"
  by (induction vs arbitrary: q) (auto simp: split_def split: option.splits)

lemma next_conn_id_deliver [simp]: "bc_next_conn_id (fold (deliver p) vs b) = bc_next_conn_id b"
  by (induction vs arbitrary: b) (auto simp: deliver_def)

lemma next_conn_id_mono: "bc_next_conn_id b \<le> bc_next_conn_id (snd (bc_step fr op b))"
  by (cases op) (auto simp: broadcast_def Let_def subscribe_open_def subscribe_next_def subscribe_close_def
        split: option.splits prod.splits)

lemma chunk_not_keepalive [simp]: "data_chunk p \<noteq> keepalive"
  by (simp add: data_chunk_def keepalive_def)

lemma stream_step:
  assumes q: "queue_of u c b = Some q" and old: "c \<le> bc_next_conn_id b" and open': "op \<noteq> Close u c"
  shows "queue_of u c (snd (bc_step fr op b)) =
           Some (snd (snd (asyncio_queue.drive QUEUE_MAXSIZE (stream_events fr u c op) q)))"
proof (cases op)
  case (Send t d ts)
  then show ?thesis by (simp add: queue_of_broadcast q drive_offers)
next
  case (Open v)
  then show ?thesis using q old by (auto simp: subscribe_open_def queue_of_def Let_def)
next
  case (Turn v e)
  then show ?thesis using q
    by (cases "queue_of v e b"; cases q)
       (auto simp: subscribe_next_def queue_of_def queue_get_def split: option.splits list.splits)
next
  case (Close v e)
  have "map_of (AList.delete e (user_conns u b)) c = Some q" if "v = u"
    using q open' Close that by (auto simp: queue_of_def)
  then have "v = u \<Longrightarrow> AList.delete e (user_conns u b) \<noteq> []" by fastforce
  then show ?thesis using Close q open'
    by (auto simp: subscribe_close_def queue_of_def Let_def user_conns_def)
qed

lemma stream_chunk:
  assumes q: "queue_of u c b = Some q"
  shows "filter (\<lambda>s. s \<noteq> keepalive)
           (if op = Turn u c then (case fst (bc_step fr op b) of Some s \<Rightarrow> [s] | None \<Rightarrow> []) else []) =
         map data_chunk (fst (snd (asyncio_queue.drive QUEUE_MAXSIZE (stream_events fr u c op) q)))"
proof (cases op)
  case (Send t d ts)
  then show ?thesis by (simp add: drive_offers_got)
next
  case (Turn v e)
  show ?thesis
  proof (cases "v = u \<and> e = c")
    case True
    with Turn q show ?thesis by (cases q) (simp_all add: subscribe_next_def queue_get_def)
  next
    case False
    then have "op \<noteq> Turn u c" "stream_events fr u c op = []" using Turn by auto
    then show ?thesis by (simp only: if_False) simp
  qed
qed simp_all

lemma drive_concat:
  "asyncio_queue.drive n (es @ fs) q =
     (fst (asyncio_queue.drive n es q) @ fst (asyncio_queue.drive n fs (snd (snd (asyncio_queue.drive n es q)))),
      fst (snd (asyncio_queue.drive n es q)) @
        fst (snd (asyncio_queue.drive n fs (snd (snd (asyncio_queue.drive n es q))))),
      snd (snd (asyncio_queue.drive n fs (snd (snd (asyncio_queue.drive n es q))))))"
  by (simp add: asyncio_queue.drive_append split_def)

lemma stream_history:
  assumes "queue_of u c b = Some q" "c \<le> bc_next_conn_id b" "Close u c \<notin> set ops"
  shows "queue_of u c (bc_run fr ops b) =
           Some (snd (snd (asyncio_queue.drive QUEUE_MAXSIZE (concat (map (stream_events fr u c) ops)) q))) \<and>
         filter (\<lambda>s. s \<noteq> keepalive) (chunks fr u c ops b) =
           map data_chunk
             (fst (snd (asyncio_queue.drive QUEUE_MAXSIZE (concat (map (stream_events fr u c) ops)) q)))"
  using assms
proof (induction ops arbitrary: b q)
  case (Cons op ops)
  let ?b = "snd (bc_step fr op b)"
  let ?q = "snd (snd (asyncio_queue.drive QUEUE_MAXSIZE (stream_events fr u c op) q))"
  have step: "queue_of u c ?b = Some ?q" using Cons.prems by (intro stream_step) auto
  have old: "c \<le> bc_next_conn_id ?b" using Cons.prems(2) next_conn_id_mono order_trans by blast
  have IH: "queue_of u c (bc_run fr ops ?b) =
           Some (snd (snd (asyncio_queue.drive QUEUE_MAXSIZE (concat (map (stream_events fr u c) ops)) ?q)))"
       "filter (\<lambda>s. s \<noteq> keepalive) (chunks fr u c ops ?b) =
           map data_chunk
             (fst (snd (asyncio_queue.drive QUEUE_MAXSIZE (concat (map (stream_events fr u c) ops)) ?q)))"
    using Cons.IH [OF step old] Cons.prems(3) by auto
  have chunk: "filter (\<lambda>s. s \<noteq> keepalive) (chunks fr u c (op # ops) b) =
      map data_chunk (fst (snd (asyncio_queue.drive QUEUE_MAXSIZE (stream_events fr u c op) q))) @
      filter (\<lambda>s. s \<noteq> keepalive) (chunks fr u c ops ?b)"
    unfolding chunks.simps split_def filter_append stream_chunk [OF Cons.prems(1)] ..
  show ?case unfolding chunk IH(2) list.map concat.simps drive_concat bc_run.simps IH(1) by simp
qed simp

text \<open>
  C33: An open stream is a queue of its own. Whatever happens to the broadcaster - events for anyone,
  other streams opening, reading and closing - the stream's queue and the events it yields are those
  of a single first-in first-out queue with room for 100, offered the events that name its user and
  read at its own turns: nothing of another user gets in, nothing is reordered or invented, and only
  what finds the queue full is lost.
\<close>
theorem stream_refines_queue:
  assumes "queue_of u c b = Some q" and "c \<le> bc_next_conn_id b" and "Close u c \<notin> set ops"
    and "bounded_fifo.drive (put_nowait QUEUE_MAXSIZE) queue_get (concat (map (stream_events fr u c) ops)) q =
           (accepted, got, r)"
  shows "queue_of u c (bc_run fr ops b) = Some r \<and>
         filter (\<lambda>s. s \<noteq> keepalive) (chunks fr u c ops b) = map data_chunk got \<and>
         q @ accepted = got @ r \<and> (length q \<le> QUEUE_MAXSIZE \<longrightarrow> length r \<le> QUEUE_MAXSIZE)"
proof -
  note d = assms(4)
  have "length q \<le> QUEUE_MAXSIZE \<Longrightarrow> length r \<le> QUEUE_MAXSIZE"
    using asyncio_queue.drive_bounded [of q QUEUE_MAXSIZE "concat (map (stream_events fr u c) ops)"] d by simp
  then show ?thesis
    using stream_history [OF assms(1-3), of fr] asyncio_queue.drive_fifo [OF d] d by simp
qed

text \<open>
  An event reaches its users: a stream with room in its queue, whose user is among the targets,
  yields the event's chunk once it has taken one turn more than it had events waiting, in any history
  in which it is not closed.
\<close>
theorem event_reaches_stream:
  assumes open': "queue_of u c b = Some q" "c \<le> bc_next_conn_id b" "Close u c \<notin> set ops"
    and named: "JStr u \<in> set ts" and room: "length q < QUEUE_MAXSIZE"
    and turns: "length q < count_list ops (Turn u c)"
  shows "data_chunk (event_payload fr t d) \<in> set (chunks fr u c (Send t d ts # ops) b)"
proof -
  let ?p = "event_payload fr t d" and ?rest = "concat (map (stream_events fr u c) ops)"
  have "u \<in> set (text_targets ts)" using named unfolding text_targets_def by force
  then obtain vs where vs: "filter (\<lambda>x. x = u) (text_targets ts) = u # vs"
    by (cases "filter (\<lambda>x. x = u) (text_targets ts)") (auto simp: filter_empty_conv filter_eq_Cons_iff)
  have put: "put_nowait QUEUE_MAXSIZE ?p q = Some (q @ [?p])" using room by (simp add: put_nowait_def)
  have "count_list (stream_events fr u c op) Take = (if op = Turn u c then 1 else 0)" for op
    by (cases op) (auto simp: count_list_0_iff)
  then have "count_list ?rest Take = count_list ops (Turn u c)" by (induction ops) auto
  then have "length q < count_list (map (\<lambda>_. Offer ?p) vs @ ?rest) Take" using turns by simp
  then have "?p \<in> set (fst (snd (asyncio_queue.drive QUEUE_MAXSIZE (map (\<lambda>_. Offer ?p) vs @ ?rest) (q @ [?p]))))"
    by (intro asyncio_queue.drive_delivers [where xs = q and ys = "[]"]) simp_all
  then have "?p \<in> set (fst (snd (asyncio_queue.drive QUEUE_MAXSIZE
      (concat (map (stream_events fr u c) (Send t d ts # ops))) q)))"
    by (simp add: vs put split_def)
  moreover have "Close u c \<notin> set (Send t d ts # ops)" using open'(3) by simp
  ultimately have "data_chunk ?p \<in> set (filter (\<lambda>s. s \<noteq> keepalive) (chunks fr u c (Send t d ts # ops) b))"
    using stream_history [OF open'(1,2), of "Send t d ts # ops" fr] by simp
  then show ?thesis by simp
qed

end
