(* ===== verification/EventHub.thy ===== *)
theory EventHub
  imports Broadcaster
begin

text \<open>
  Configuration and event bus of the chaos controller (\<^verbatim>\<open>config.py\<close>, \<^verbatim>\<open>events.py\<close>). The hub keeps a
  bounded queue per subscriber; events are kept as JSON values, and a stream prints them. A float is
  printed by a parameter.
\<close>

section \<open>Settings\<close>

definition is_mock :: "string \<Rightarrow> bool" where
  "is_mock chaos_mode \<longleftrightarrow> py_lower chaos_mode = ''mock''"

definition allowed_origins_list :: "string \<Rightarrow> string list" where
  "allowed_origins_list allowed_origins =
     filter (\<lambda>s. s \<noteq> []) (map (py_strip) (py_split CHR '','' allowed_origins))"

text \<open>An entry without a number after its first colon raises, which \<^const>\<open>None\<close> stands for.\<close>

fun probe_entries :: "string list \<Rightarrow> (string \<times> int) list option" where
  "probe_entries [] = Some []"
| "probe_entries (raw # rest) =
     (let entry = py_strip raw in
      if entry = [] then probe_entries rest
      else if CHR '':'' \<in> set entry then
        (let host = takeWhile (\<lambda>c. c \<noteq> CHR '':'') entry;
             port = drop (Suc (length host)) entry
         in case py_int (py_strip port) of
              None \<Rightarrow> None
            | Some p \<Rightarrow> map_option ((#) (py_strip host, p)) (probe_entries rest))
      else map_option ((#) (entry, 80)) (probe_entries rest))"

definition probe_targets_list :: "string \<Rightarrow> (string \<times> int) list option" where
  "probe_targets_list probe_targets = probe_entries (py_split CHR '','' probe_targets)"

section \<open>The hub\<close>

text \<open>
  \<open>hb_queues\<close> holds every queue a stream still reads from, \<open>hb_subscribers\<close> the ones registered.
\<close>

record hub =
  hb_subscribers :: "nat list"
  hb_queues :: "(nat, json list) dict"
  hb_next :: nat

definition EventHub :: hub where
  "EventHub = \<lparr>hb_subscribers = [], hb_queues = [], hb_next = 0\<rparr>"

definition HUB_MAXSIZE :: nat where
  "HUB_MAXSIZE = 1000"

definition hub_queue :: "nat \<Rightarrow> hub \<Rightarrow> json list" where
  "hub_queue q h = (case map_of (hb_queues h) q of Some xs \<Rightarrow> xs | None \<Rightarrow> [])"

definition hub_subscribe :: "hub \<Rightarrow> nat \<times> hub" where
  "hub_subscribe h =
     (let q = hb_next h
      in (q, h\<lparr>hb_next := Suc q, hb_subscribers := hb_subscribers h @ [q],
               hb_queues := AList.update q [] (hb_queues h)\<rparr>))"

definition hub_unsubscribe :: "nat \<Rightarrow> hub \<Rightarrow> hub" where
  "hub_unsubscribe q h = h\<lparr>hb_subscribers := removeAll q (hb_subscribers h)\<rparr>"

definition hub_event :: "pyfloat \<Rightarrow> string \<Rightarrow> string \<Rightarrow> json \<Rightarrow> json" where
  "hub_event ts kind level payload =
     JObj [(''ts'', JFloat ts), (''kind'', JStr kind), (''level'', JStr level), (''payload'', payload)]"

text \<open>One subscriber: the event fits, or the subscriber is discarded.\<close>

definition hub_offer :: "json \<Rightarrow> nat \<Rightarrow> hub \<Rightarrow> hub" where
  "hub_offer event q h =
     (case put_nowait HUB_MAXSIZE event (hub_queue q h) of
        Some xs \<Rightarrow> h\<lparr>hb_queues := AList.update q xs (hb_queues h)\<rparr>
      | None \<Rightarrow> hub_unsubscribe q h)"

definition hub_publish :: "json \<Rightarrow> hub \<Rightarrow> hub" where
  "hub_publish event h = fold (hub_offer event) (hb_subscribers h) h"

text \<open>One turn of a stream's loop: the line of a queued event, or the keepalive after 15 seconds.\<close>

definition hub_stream :: "(pyfloat \<Rightarrow> string) \<Rightarrow> nat \<Rightarrow> hub \<Rightarrow> string \<times> hub" where
  "hub_stream fr q h =
     (case queue_get (hub_queue q h) of
        Some (event, xs) \<Rightarrow> (data_chunk (json_dumps fr event), h\<lparr>hb_queues := AList.update q xs (hb_queues h)\<rparr>)
      | None \<Rightarrow> (keepalive, h))"

section \<open>Subscribers\<close>

lemma hub_queue_put [simp]:
  "hub_queue p (h\<lparr>hb_queues := AList.update q xs (hb_queues h)\<rparr>) = (if p = q then xs else hub_queue p h)"
  by (simp add: hub_queue_def)

lemma hub_unsubscribe_queue [simp]: "hub_queue p (hub_unsubscribe q h) = hub_queue p h"
  by (simp add: hub_unsubscribe_def hub_queue_def)

lemma hub_offers_other:
  "p \<notin> set qs \<Longrightarrow> hub_queue p (fold (hub_offer e) qs h) = hub_queue p h \<and>
     (p \<in> set (hb_subscribers (fold (hub_offer e) qs h)) \<longleftrightarrow> p \<in> set (hb_subscribers h))"
  by (induction qs arbitrary: h) (auto simp: hub_offer_def hub_unsubscribe_def hub_queue_def split: option.splits)

lemma hub_offer_self:
  "hub_queue q (hub_offer e q h) = (if length (hub_queue q h) < HUB_MAXSIZE then hub_queue q h @ [e] else hub_queue q h)"
  "q \<in> set (hb_subscribers (hub_offer e q h)) \<longleftrightarrow> q \<in> set (hb_subscribers h) \<and> length (hub_queue q h) < HUB_MAXSIZE"
  by (auto simp: hub_offer_def put_nowait_def hub_unsubscribe_def hub_queue_def)

lemma hub_publish_queue:
  assumes "distinct (hb_subscribers h)"
  shows "hub_queue p (hub_publish e h) =
           (if p \<in> set (hb_subscribers h) \<and> length (hub_queue p h) < HUB_MAXSIZE then hub_queue p h @ [e] else hub_queue p h)"
    and "p \<in> set (hb_subscribers (hub_publish e h)) \<longleftrightarrow>
           p \<in> set (hb_subscribers h) \<and> length (hub_queue p h) < HUB_MAXSIZE"
proof -
  have "hub_queue p (fold (hub_offer e) qs h) =
           (if p \<in> set qs \<and> length (hub_queue p h) < HUB_MAXSIZE then hub_queue p h @ [e] else hub_queue p h) \<and>
        (p \<in> set (hb_subscribers (fold (hub_offer e) qs h)) \<longleftrightarrow>
           p \<in> set (hb_subscribers h) \<and> (p \<in> set qs \<longrightarrow> length (hub_queue p h) < HUB_MAXSIZE))"
    if "distinct qs" for qs h
    using that
  proof (induction qs arbitrary: h)
    case (Cons q qs)
    show ?case
    proof (cases "p = q")
      case True
      then have "p \<notin> set qs" using Cons.prems by simp
      from hub_offers_other [OF this, of e "hub_offer e q h"] hub_offer_self [of q e h] True show ?thesis
        by auto
    next
      case False
      then have "hub_queue p (hub_offer e q h) = hub_queue p h"
        "p \<in> set (hb_subscribers (hub_offer e q h)) \<longleftrightarrow> p \<in> set (hb_subscribers h)"
        using hub_offers_other [of p "[q]" e h] by auto
      with Cons False show ?thesis by simp
    qed
  qed simp
  from this [OF assms] show "hub_queue p (hub_publish e h) =
           (if p \<in> set (hb_subscribers h) \<and> length (hub_queue p h) < HUB_MAXSIZE then hub_queue p h @ [e] else hub_queue p h)"
    "p \<in> set (hb_subscribers (hub_publish e h)) \<longleftrightarrow> p \<in> set (hb_subscribers h) \<and> length (hub_queue p h) < HUB_MAXSIZE"
    unfolding hub_publish_def by auto
qed

lemma hub_publish_distinct: "distinct (hb_subscribers h) \<Longrightarrow> distinct (hb_subscribers (hub_publish e h))"
proof -
  have "distinct (hb_subscribers (fold (hub_offer e) qs h))" if "distinct (hb_subscribers h)" for qs
    using that
    by (induction qs arbitrary: h) (auto simp: hub_offer_def hub_unsubscribe_def distinct_removeAll split: option.splits)
  then show "distinct (hb_subscribers h) \<Longrightarrow> ?thesis" by (simp add: hub_publish_def)
qed

section \<open>A slow subscriber\<close>

datatype hub_op = Publish json | Read nat | Subscribe | Unsubscribe nat

fun hub_step :: "hub_op \<Rightarrow> hub \<Rightarrow> hub" where
  "hub_step (Publish e) h = hub_publish e h"
| "hub_step (Read q) h = snd (hub_stream (\<lambda>_. []) q h)"
| "hub_step Subscribe h = snd (hub_subscribe h)"
| "hub_step (Unsubscribe q) h = hub_unsubscribe q h"

text \<open>The events a stream yields during a history.\<close>

fun hub_yields :: "nat \<Rightarrow> hub_op list \<Rightarrow> hub \<Rightarrow> json list" where
  "hub_yields q [] h = []"
| "hub_yields q (op # ops) h =
     (if op = Read q then take 1 (hub_queue q h) else []) @ hub_yields q ops (hub_step op h)"

definition wf_hub :: "hub \<Rightarrow> bool" where
  "wf_hub h \<longleftrightarrow> distinct (hb_subscribers h) \<and> (\<forall>q\<in>set (hb_subscribers h). q < hb_next h)"

lemma hub_publish_next [simp]: "hb_next (hub_publish e h) = hb_next h"
proof -
  have "hb_next (fold (hub_offer e) qs h) = hb_next h" for qs
    by (induction qs arbitrary: h) (auto simp: hub_offer_def hub_unsubscribe_def split: option.splits)
  then show ?thesis by (simp add: hub_publish_def)
qed

lemma hub_step_wf: "wf_hub h \<Longrightarrow> wf_hub (hub_step op h)"
proof (cases op)
  case (Publish e)
  then show "wf_hub h \<Longrightarrow> wf_hub (hub_step op h)"
    using hub_publish_queue(2) [of h _ e] by (auto simp: wf_hub_def hub_publish_distinct)
qed (auto simp: wf_hub_def hub_stream_def hub_subscribe_def hub_unsubscribe_def Let_def distinct_removeAll
      less_Suc_eq split: option.splits prod.splits)

lemma hub_step_silent:
  assumes "wf_hub h" "q < hb_next h" "q \<notin> set (hb_subscribers h)"
  shows "q \<notin> set (hb_subscribers (hub_step op h)) \<and> q < hb_next (hub_step op h) \<and>
         hub_queue q (hub_step op h) = (if op = Read q then tl (hub_queue q h) else hub_queue q h)"
proof (cases op)
  case (Publish e)
  then show ?thesis using assms hub_publish_queue [of h q e] by (auto simp: wf_hub_def)
next
  case (Read p)
  then show ?thesis using assms
    by (auto simp: hub_stream_def queue_get_def split: option.splits list.splits)
next
  case Subscribe
  then show ?thesis using assms by (auto simp: hub_subscribe_def Let_def hub_queue_def)
next
  case (Unsubscribe p)
  then show ?thesis using assms by (auto simp: hub_unsubscribe_def hub_queue_def)
qed

lemma hub_silent_yields:
  assumes "wf_hub h" "q < hb_next h" "q \<notin> set (hb_subscribers h)"
  shows "hub_yields q ops h = take (count_list ops (Read q)) (hub_queue q h)"
  using assms
proof (induction ops arbitrary: h)
  case (Cons op ops)
  note s = hub_step_silent [OF Cons.prems, of op]
  have "hub_yields q ops (hub_step op h) = take (count_list ops (Read q)) (hub_queue q (hub_step op h))"
    using s by (intro Cons.IH hub_step_wf Cons.prems(1)) auto
  with s show ?case by (cases "hub_queue q h") auto
qed simp

text \<open>
  A subscriber whose queue is full when an event is published is not just spared that event, as
  the comment in \<^verbatim>\<open>publish\<close> says: it is discarded for good. Its stream yields the 1000 events that were
  waiting, and whatever is published afterwards, nothing else ever.
\<close>
theorem full_subscriber_goes_silent:
  assumes "wf_hub h" and "q \<in> set (hb_subscribers h)" and "length (hub_queue q h) = HUB_MAXSIZE"
  shows "hub_yields q (Publish e # ops) h = take (count_list ops (Read q)) (hub_queue q h)"
proof -
  have d: "distinct (hb_subscribers h)" "q < hb_next h" using assms(1,2) by (auto simp: wf_hub_def)
  have "q \<notin> set (hb_subscribers (hub_publish e h))" "hub_queue q (hub_publish e h) = hub_queue q h"
    using hub_publish_queue [OF d(1)] assms(3) by auto
  with hub_silent_yields [of "hub_publish e h" q ops] hub_step_wf [OF assms(1), of "Publish e"] d(2) show ?thesis
    by simp
qed

theorem full_subscriber_goes_silent_witness:
  "hub_yields 0 [Publish (JInt 1), Read 0, Subscribe]
     \<lparr>hb_subscribers = [0], hb_queues = [(0, replicate 1000 JNull)], hb_next = 1\<rparr> = [JNull]"
proof -
  have "take 1 (replicate 1000 JNull) = [JNull]" by (simp add: numeral_eq_Suc)
  then show ?thesis
    by (subst full_subscriber_goes_silent) (simp_all add: wf_hub_def hub_queue_def HUB_MAXSIZE_def)
qed

end
