(* ===== verification/Platform.thy ===== *)
theory Platform
  imports Routes EndToEnd Configuration
begin

text \<open>
  The gateway and the user service as one program: the gateway's HTTP client delivers a forwarded request
  to the application of the user service, and its response comes back through the proxy. The client and the
  network between them are arguments, with what the gateway relies on as a hypothesis; so is the text of
  a JSON document.
\<close>

section \<open>The wire between the services\<close>

definition upstream_request :: "string \<Rightarrow> up_request \<Rightarrow> headers \<Rightarrow> request" where
  "upstream_request base q hs =
     (let rest = drop (length base) (up_url q)
      in \<lparr>req_method = up_method q, req_path = takeWhile (\<lambda>c. c \<noteq> CHR ''?'') rest,
          req_query = drop 1 (dropWhile (\<lambda>c. c \<noteq> CHR ''?'') rest), req_scheme = ''http'', req_hostname = None,
          req_headers = hs, req_client = None, req_body = [up_body q], st_user_id = None, st_user_email = None,
          st_user_roles = None, st_request_id = None\<rparr>)"

definition wire_response :: "(json \<Rightarrow> string) \<Rightarrow> response \<Rightarrow> up_response" where
  "wire_response json_text resp =
     \<lparr>ur_status = resp_status resp, ur_headers = resp_headers resp,
      ur_content = (case resp_body resp of JSONBody j \<Rightarrow> json_text j | Bytes s \<Rightarrow> s | EventStream \<Rightarrow> [])\<rparr>"

text \<open>An exception that leaves the application is a 500 of its server.\<close>

definition send_to ::
  "string \<Rightarrow> (json \<Rightarrow> string) \<Rightarrow> 'u handler \<Rightarrow> up_request \<Rightarrow> registry \<times> 'u \<Rightarrow> outcome \<times> registry \<times> 'u"
where
  "send_to base json_text app q w =
     (case wire_headers (up_headers q) of
        None \<Rightarrow> (Raises ''TypeError'', w)
      | Some hs \<Rightarrow>
          (case app (upstream_request base q hs) (snd w) of
             (Inr resp, u) \<Rightarrow> (Answer (wire_response json_text resp), fst w, u)
           | (Inl e, u) \<Rightarrow>
               (Answer \<lparr>ur_status = 500, ur_headers = [], ur_content = ''Internal Server Error''\<rparr>, fst w, u)))"

definition wired_client :: "string \<Rightarrow> (json \<Rightarrow> string) \<Rightarrow> 'u handler \<Rightarrow> pyfloat \<Rightarrow> 'u http_client" where
  "wired_client base json_text app now =
     \<lparr>hc_send = send_to base json_text app, hc_sleep = (\<lambda>_ w. w), hc_now = (\<lambda>_. now)\<rparr>"

text \<open>
  What the gateway relies on of its HTTP client and the network, for a service that runs at \<open>base\<close>: a request
  whose headers can be encoded is delivered once, and the service's response comes back. The client above
  is one that does.
\<close>

definition delivers :: "'u http_client \<Rightarrow> string \<Rightarrow> (json \<Rightarrow> string) \<Rightarrow> 'u handler \<Rightarrow> bool" where
  "delivers client base json_text app \<longleftrightarrow>
     (\<forall>q hs reg u resp u'. wire_headers (up_headers q) = Some hs \<longrightarrow>
        app (upstream_request base q hs) u = (Inr resp, u') \<longrightarrow>
        hc_send client q (reg, u) = (Answer (wire_response json_text resp), reg, u'))"

lemma wired_delivers: "delivers (wired_client base json_text app now) base json_text app"
  by (auto simp: delivers_def wired_client_def send_to_def)

section \<open>One request through the proxy\<close>

lemma get_is_open_world: "snd (snd (get_is_open now name w)) = snd w"
  by (simp add: get_is_open_def Let_def split: prod.splits)

lemma on_breaker_world [simp]: "snd (on_breaker name f w) = snd w"
  by (simp add: on_breaker_def split: prod.splits option.splits)

lemma dispatch_first_answer:
  assumes "\<not> fst (get_is_open now name w)" "\<And>reg. send q (reg, snd w) = (Answer resp, reg, u)"
    and "ur_status resp \<notin> set RETRYABLE_STATUS"
  shows "\<exists>reg. dispatch_with_retry send sleep now q name w = (Inr resp, reg, u)"
proof -
  obtain reg where o: "get_is_open now name w = (False, reg, snd w)"
    using assms(1) get_is_open_world [of now name w] by (metis (full_types) prod.collapse)
  have "0 < attempts_for (up_method q)" by (simp add: attempts_for_def MAX_ATTEMPTS_def BACKOFF_SCHEDULE_def)
  from attempt_loop_step [OF this, of send q sleep "(reg, snd w)" "Answer resp" "(reg, u)"] assms(2,3)
  have "attempt_loop send sleep now q name (is_get (up_method q)) (attempts_for (up_method q)) 0 None (reg, snd w) =
      (Inr resp, on_breaker name record_success (reg, u))" by simp
  then show ?thesis
    unfolding dispatch_with_retry_def o by (cases "on_breaker name record_success (reg, u)")
      (use on_breaker_world [of name record_success "(reg, u)"] in auto)
qed

lemma upstream_url:
  assumes "CHR ''?'' \<notin> set (req_path r)"
  shows "req_path (upstream_request base \<lparr>up_method = m, up_url = target_url base r, up_headers = h, up_body = b\<rparr> hs) = req_path r"
    and "req_method (upstream_request base \<lparr>up_method = m, up_url = target_url base r, up_headers = h, up_body = b\<rparr> hs) = m"
    and "req_headers (upstream_request base \<lparr>up_method = m, up_url = target_url base r, up_headers = h, up_body = b\<rparr> hs) = hs"
  using assms by (simp_all add: upstream_request_def target_url_def Let_def takeWhile_append)

lemma proxy_answers:
  assumes "resolve_upstream cfg (req_path r) = Inr (base, p, name)"
    and "build_forward_headers hmac fmt t cfg r = Inr h" "wire_headers h = Some hs"
    and "\<not> starts_with ''text/event-stream'' (hget_or (req_headers r) ''accept'' [])"
    and "delivers client base json_text app" "\<not> fst (get_is_open (hc_now client) name (reg, u))" "CHR ''?'' \<notin> set (req_path r)"
    and "\<And>r'. req_headers r' = hs \<Longrightarrow> req_path r' = req_path r \<Longrightarrow> req_method r' = req_method r \<Longrightarrow> app r' u = (Inr resp, u')"
    and "resp_status resp \<notin> set RETRYABLE_STATUS"
  shows "\<exists>reg'. proxy hmac fmt t cfg (Some client) r (bs, reg, u) =
    (Inr (relay_response (wire_response json_text resp)), snd (read_body bs), reg', u')"
proof -
  obtain body bs' where b: "read_body bs = (body, bs')" by fastforce
  let ?q = "\<lparr>up_method = req_method r, up_url = target_url base r, up_headers = h, up_body = body\<rparr>"
  have a: "app (upstream_request base ?q hs) u = (Inr resp, u')"
    by (rule assms(8)) (simp_all add: upstream_url assms(7))
  have s: "hc_send client ?q (rg, u) = (Answer (wire_response json_text resp), rg, u')" for rg
    using assms(5) assms(3) a by (simp add: delivers_def)
  have "\<exists>rg. dispatch_with_retry (hc_send client) (hc_sleep client) (hc_now client) ?q name (reg, u) =
      (Inr (wire_response json_text resp), rg, u')"
    by (rule dispatch_first_answer) (use assms(6,9) s in \<open>simp_all add: wire_response_def\<close>)
  then show ?thesis
    using assms(1-4) b by (auto simp: proxy_def)
qed

section \<open>Layers around an answer\<close>

text \<open>The handler answers, and answer and state satisfy \<open>Q\<close>; one rule per layer of the gateway.\<close>

definition answers :: "'w handler \<Rightarrow> request \<Rightarrow> 'w \<Rightarrow> (response \<Rightarrow> 'w \<Rightarrow> bool) \<Rightarrow> bool" where
  "answers h r w Q \<longleftrightarrow> (\<exists>resp w'. h r w = (Inr resp, w') \<and> Q resp w')"

lemma answersI: "h r w = (Inr resp, w') \<Longrightarrow> Q resp w' \<Longrightarrow> answers h r w Q"
  by (auto simp: answers_def)

lemma answers_mono: "answers h r w Q \<Longrightarrow> (\<And>resp w'. Q resp w' \<Longrightarrow> R resp w') \<Longrightarrow> answers h r w R"
  by (auto simp: answers_def)

text \<open>
  What the middleware for cross-origin requests does to a request that is no preflight, by its documentation: it
  adds headers to the response.
\<close>

definition cors_transparent :: "('w handler \<Rightarrow> 'w handler) \<Rightarrow> bool" where
  "cors_transparent cors \<longleftrightarrow>
     (\<forall>h r w. req_method r \<noteq> ''OPTIONS'' \<longrightarrow>
        (\<exists>f. (\<forall>resp. resp_status (f resp) = resp_status resp \<and> resp_body (f resp) = resp_body resp) \<and>
           cors h r w = map_response f (h r w)))"

lemma answers_cors:
  assumes "cors_transparent cors" "req_method r \<noteq> ''OPTIONS''" "answers h r w Q"
    and "\<And>resp resp' w'. Q resp w' \<Longrightarrow> resp_status resp' = resp_status resp \<Longrightarrow> resp_body resp' = resp_body resp \<Longrightarrow> Q resp' w'"
  shows "answers (cors h) r w Q"
proof -
  obtain f where f: "\<And>resp. resp_status (f resp) = resp_status resp \<and> resp_body (f resp) = resp_body resp"
    "cors h r w = map_response f (h r w)"
    using assms(1,2) unfolding cors_transparent_def by blast
  then show ?thesis using assms(3,4) by (fastforce simp: answers_def map_response_def)
qed

lemma answers_security:
  assumes "answers h r w Q"
    and "\<And>resp resp' w'. Q resp w' \<Longrightarrow> resp_status resp' = resp_status resp \<Longrightarrow> resp_body resp' = resp_body resp \<Longrightarrow> Q resp' w'"
  shows "answers (security_dispatch h) r w Q"
proof -
  have "resp_status (secure_response p resp) = resp_status resp \<and> resp_body (secure_response p resp) = resp_body resp" for p resp
    by (simp add: secure_response_def SECURITY_HEADERS_def Let_def set_header_def)
  then show ?thesis using assms by (fastforce simp: answers_def security_dispatch_def map_response_def)
qed

lemma answers_route: "answers h r w Q \<Longrightarrow> answers (route h) r w Q"
  by (auto simp: answers_def route_def exception_response_def)

lemma limit_headers_same [simp]:
  "resp_status (limit_headers l k sc t resp) = resp_status resp" "resp_body (limit_headers l k sc t resp) = resp_body resp"
  by (simp_all add: limit_headers_def set_header_def)

text \<open>The limiter answers 429 and hands nothing on, or adds headers to the answer.\<close>

lemma answers_limiter:
  assumes "answers h r w Q"
    and "\<And>resp resp' w'. Q resp w' \<Longrightarrow> resp_status resp' = resp_status resp \<Longrightarrow> resp_body resp' = resp_body resp \<Longrightarrow> Q resp' w'"
  shows "answers (limiter_dispatch exec connect en h) r (rl, w)
    (\<lambda>resp (rl', w'). (resp_status resp = 429 \<and> w' = w) \<or> Q resp w')"
proof -
  obtain resp w' where h: "h r w = (Inr resp, w')" and q: "Q resp w'" using assms(1) by (auto simp: answers_def)
  show ?thesis
    using q assms(2) [OF q]
    by (auto simp: answers_def limiter_dispatch_def h map_response_def rate_limited_def Let_def split: prod.split)
qed

lemma answers_correlation:
  assumes "answers h (r\<lparr>st_request_id := Some (sanitize_or_generate fresh (hget (req_headers r) ''x-request-id''))\<rparr>) w Q"
    and "\<And>resp resp' w'. Q resp w' \<Longrightarrow> resp_status resp' = resp_status resp \<Longrightarrow> resp_body resp' = resp_body resp \<Longrightarrow> Q resp' w'"
  shows "answers (correlation_dispatch fresh h) r w (\<lambda>resp w'. Q resp w' \<and>
    hget (resp_headers resp) ''X-Request-ID'' = Some (sanitize_or_generate fresh (hget (req_headers r) ''x-request-id'')))"
  using assms by (fastforce simp: answers_def correlation_dispatch_def map_response_def Let_def set_header_def hget_hset)

text \<open>A body within the limit passes, if the layers inside read it as a whole or not at all.\<close>

definition body_fits :: "int \<Rightarrow> request \<Rightarrow> body_state \<Rightarrow> bool" where
  "body_fits max_bytes r bs \<longleftrightarrow> 0 < max_bytes \<and> int (length (concat (bs_chunks bs))) \<le> max_bytes \<and>
     (case hget (req_headers r) ''content-length'' of
        None \<Rightarrow> True | Some d \<Rightarrow> (case py_int d of None \<Rightarrow> True | Some n \<Rightarrow> n \<le> max_bytes))"

lemma answers_body_size:
  assumes "body_fits n r bs"
    and "\<And>bs. answers h r (a, bs, w) (\<lambda>resp (a', bs', w'). Q resp w' \<and> (bs' = bs \<or> bs' = snd (read_body bs)))"
  shows "answers (body_size_dispatch n h) r (a, bs, w) (\<lambda>resp (a', bs', w'). Q resp w')"
proof -
  let ?bs = "bs\<lparr>bs_limit := Some n, bs_received := 0, bs_oversize := False\<rparr>"
  have bs: "?bs = \<lparr>bs_chunks = bs_chunks bs, bs_limit = Some n, bs_received = 0, bs_oversize = False\<rparr>" by simp
  have o: "\<not> bs_oversize (snd (read_body ?bs))"
    unfolding bs using read_body_limited(2) [of n "bs_chunks bs"] assms(1) by (simp add: body_fits_def)
  obtain resp a' bs' w' where h: "h r (a, ?bs, w) = (Inr resp, a', bs', w')" "Q resp w'" "bs' = ?bs \<or> bs' = snd (read_body ?bs)"
    using assms(2) [of ?bs] by (auto simp: answers_def)
  have "\<not> bs_oversize bs'" using h(3) o by auto
  then have "wrap_receive n h r (a, bs, w) = (Inr resp, a', bs', w')" by (simp add: wrap_receive_def h(1))
  then have "body_size_dispatch n h r (a, bs, w) = (Inr resp, a', bs', w')"
    using assms(1) by (auto simp: body_size_dispatch_def body_fits_def Let_def split: option.splits)
  with h(2) show ?thesis by (auto simp: answers_def)
qed

lemma answers_metrics:
  assumes "answers h r w (\<lambda>resp (rl, bs, reg, m', u'). Q resp u' \<and> m' = m)"
    and "\<And>resp u'. Q resp u' \<Longrightarrow> Q (set_header ''X-Response-Time'' e resp) u'"
  shows "answers (record_metrics p e count_request h) r w
    (\<lambda>resp (rl, bs, reg, m', u'). Q resp u' \<and> m' = m @ [(req_method r, req_path r, resp_status resp)])"
  using assms(1) assms(2) by (auto simp: answers_def record_metrics_def count_request_def set_header_def)

text \<open>
  The whole gateway around an answer of its routes that changes neither the counter nor the state of the upstreams.
\<close>

lemma gateway_answers:
  assumes "\<not> is_exempt gateway_auth (req_path r)" "authenticates (ge_unverified en) (ge_decode en) (gs_jwt cfg) r i payload"
    and "rid = sanitize_or_generate (ge_fresh en) (hget (req_headers r) ''x-request-id'')"
    and "cors_transparent (ge_cors en)" "req_method r \<noteq> ''OPTIONS''" "body_fits (gs_max_body_bytes cfg) r bs"
    and "\<And>bs. answers (gateway_routes en cfg) ((with_identity i payload r)\<lparr>st_request_id := Some rid\<rparr>) (bs, reg, m, u)
      (\<lambda>resp (bs', reg', m', u'). P (resp_status resp) (resp_body resp) \<and> bs' = snd (read_body bs) \<and> m' = m \<and> u' = u)"
  shows "answers (gateway_app en cfg) r (rl, bs, reg, m, u)
    (\<lambda>resp (rl', bs', reg', m', u'). m' = m @ [(req_method r, req_path r, resp_status resp)] \<and> u' = u \<and>
      hget (resp_headers resp) ''X-Request-ID'' = Some rid \<and>
      (resp_status resp = 429 \<or> P (resp_status resp) (resp_body resp)))"
proof -
  let ?r = "with_identity i payload r"
  let ?r1 = "?r\<lparr>st_request_id := Some rid\<rparr>"
  have q: "req_method ?r1 \<noteq> ''OPTIONS''" "req_headers ?r = req_headers r" using assms(5) by (simp_all add: with_identity_def)
  let ?G = "\<lambda>BS resp (bs', reg', m', u'). P (resp_status resp) (resp_body resp) \<and> bs' = BS \<and> m' = m \<and> u' = u"
  have inner: "answers (inner_app en cfg) ?r1 (bs, reg, m, u) (?G (snd (read_body bs)))" for bs
    unfolding inner_app_def
    by (intro answers_cors [OF assms(4) q(1)] answers_security answers_route assms(7)) (auto split: prod.splits)
  let ?T = "\<lambda>resp (reg', m', u'). m' = m \<and> u' = u \<and> (resp_status resp = 429 \<or> P (resp_status resp) (resp_body resp))"
  have lim: "answers (limiter_dispatch (ge_exec en) (ge_connect en) (ge_limiter en) (inner_app en cfg)) ?r1 (rl, bs, reg, m, u)
      (\<lambda>resp (rl', bs', w'). ?T resp w' \<and> (bs' = bs \<or> bs' = snd (read_body bs)))" for bs
    by (rule answers_mono [OF answers_limiter [OF inner]]) (auto split: prod.splits)
  let ?I = "\<lambda>resp w'. ?T resp w' \<and> hget (resp_headers resp) ''X-Request-ID'' = Some rid"
  have cor: "answers (correlation_dispatch (ge_fresh en)
      (limiter_dispatch (ge_exec en) (ge_connect en) (ge_limiter en) (inner_app en cfg))) ?r (rl, bs, reg, m, u)
      (\<lambda>resp (rl', bs', w'). ?I resp w' \<and> (bs' = bs \<or> bs' = snd (read_body bs)))" for bs
    by (rule answers_mono [OF answers_correlation [OF lim [unfolded assms(3), folded q(2)]]])
      (use q(2) assms(3) in \<open>auto split: prod.splits\<close>)
  let ?auth = "auth_dispatch (ge_unverified en) (ge_decode en) (gs_jwt cfg) gateway_auth (correlation_dispatch (ge_fresh en)
      (limiter_dispatch (ge_exec en) (ge_connect en) (ge_limiter en) (inner_app en cfg)))"
  have auth: "answers ?auth r (rl, bs, reg, m, u) (\<lambda>resp (rl', bs', w'). ?I resp w' \<and> (bs' = bs \<or> bs' = snd (read_body bs)))" for bs
    using cor by (simp add: answers_def authenticates_passes [OF assms(1,2)])
  let ?R = "\<lambda>resp u'. u' = u \<and> hget (resp_headers resp) ''X-Request-ID'' = Some rid \<and>
      (resp_status resp = 429 \<or> P (resp_status resp) (resp_body resp))"
  have body: "answers (body_size_dispatch (gs_max_body_bytes cfg) ?auth) r (rl, bs, reg, m, u)
      (\<lambda>resp (rl', bs', reg', m', u'). ?R resp u' \<and> m' = m)"
    by (rule answers_mono [OF answers_body_size [OF assms(6) auth]]) (auto split: prod.splits)
  show ?thesis
    unfolding gateway_app_def
    by (rule answers_mono [OF answers_metrics [OF body]]) (auto simp: set_header_def hget_hset py_lower_def split: prod.splits)
qed

section \<open>The own profile\<close>

lemma me_route: "find_route user_table ''GET'' (path_parts ''/api/v1/users/me'') = Some (GetOwn, [])"
  by code_simp

text \<open>The answer to \<^verbatim>\<open>GET /api/v1/users/me\<close> for a caller: the stored account, or a 404 if it is gone.\<close>

definition profile_of :: "(pyfloat \<Rightarrow> string) \<Rightarrow> uuid \<Rightarrow> user list \<Rightarrow> nat \<times> json" where
  "profile_of js i rows =
     (case users_by_id i rows of
        [] \<Rightarrow> (404, detail_body ''User not found'')
      | u # _ \<Rightarrow> (200, user_json js (UserResponse u)))"

lemma users_by_id_cases:
  assumes "distinct (map u_id rows)"
  shows "users_by_id i rows = [] \<or> (\<exists>u. users_by_id i rows = [u])"
proof -
  have d: "distinct (map u_id (users_by_id i rows))"
    using assms by (simp add: users_by_id_def distinct_map_filter)
  have e: "u_id u = i" if "u \<in> set (users_by_id i rows)" for u using that by (simp add: users_by_id_def)
  show ?thesis
  proof (cases "users_by_id i rows")
    case (Cons u us)
    have "us = []"
    proof (rule ccontr)
      assume "us \<noteq> []"
      then obtain v vs where us: "us = v # vs" by (meson neq_Nil_conv)
      have "u_id u = i" "u_id v = i" using e [of u] e [of v] unfolding Cons us by simp_all
      with d show False unfolding Cons us by simp
    qed
    with Cons show ?thesis by blast
  qed blast
qed

lemma get_me_gone:
  "parse_caller_id r' = Inr i \<Longrightarrow> users_by_id i (uw_users w) = [] \<Longrightarrow>
   get_me r' w = (Inl (HTTPException 404 ''User not found'' []), w)"
  by (simp add: get_me_def with_caller_def with_user_def get_user_or_404_def fetch_one_def scalar_one_or_none_def)

lemma get_me_found:
  "parse_caller_id r' = Inr i \<Longrightarrow> users_by_id i (uw_users w) = [u] \<Longrightarrow> get_me r' w = (Inr (UserResponse u), w)"
  by (simp add: get_me_def with_caller_def with_user_def get_user_or_404_def fetch_one_def scalar_one_or_none_def)

lemma me_answers:
  assumes "req_path r' = ''/api/v1/users/me''" "req_method r' = ''GET''" "parse_caller_id r' = Inr i"
    and "distinct (map u_id (uw_users w))"
  shows "route (backend_routes n ready export (user_api fw en cfg other) rest) r' w =
    (Inr (case profile_of (fw_js_time fw) i (uw_users w) of (st, j) \<Rightarrow> JSONResponse st j []), w\<lparr>uw_tasks := []\<rparr>)"
proof -
  have p: "starts_with ''/api/v1/'' (req_path r')" by (simp add: assms(1) starts_with_def)
  have api: "user_api fw en cfg other r' w = replies 200 (user_json (fw_js_time fw)) (respond en cfg (get_me r')) w"
    using me_route
    by (simp add: user_api_def run_router_def assms(1-3) user_has_body_def user_depends_def needs_caller_def
        refused_by_def user_request_def Let_def)
  consider (gone) "users_by_id i (uw_users w) = []" | (one) u where "users_by_id i (uw_users w) = [u]"
    using users_by_id_cases [OF assms(4), of i] by blast
  then show ?thesis
  proof cases
    case gone
    then have "get_me r' (w\<lparr>uw_tasks := []\<rparr>) = (Inl (HTTPException 404 ''User not found'' []), w\<lparr>uw_tasks := []\<rparr>)"
      by (intro get_me_gone [OF assms(3)]) simp
    then show ?thesis
      using gone by (simp add: route_def backend_routes_def p api replies_def answered_def respond_def in_session_def
          exception_response_def profile_of_def)
  next
    case one
    then have "get_me r' (w\<lparr>uw_tasks := []\<rparr>) = (Inr (UserResponse u), w\<lparr>uw_tasks := []\<rparr>)"
      by (intro get_me_found [OF assms(3)]) simp
    then show ?thesis
      using one by (simp add: route_def backend_routes_def p api replies_def answered_def respond_def in_session_def
          exception_response_def profile_of_def)
  qed
qed

text \<open>The user service as a client with a state \<open>'m\<close> of its own sees it.\<close>

definition beside :: "'u handler \<Rightarrow> ('m \<times> 'u) handler" where
  "beside app r w = (case app r (snd w) of (x, u) \<Rightarrow> (x, fst w, u))"

text \<open>The answer of the proxy to a request for the own profile.\<close>

lemma profile_proxied:
  fixes uw :: "'r user_world"
  assumes "resolve_upstream cfg (req_path r) = Inr (user_service_url cfg, req_path r, name)"
    and "build_forward_headers hmac fmt t cfg r = Inr h" "wire_headers h = Some hs"
    and "req_method r = ''GET''" "req_path r = ''/api/v1/users/me''"
    and "\<not> starts_with ''text/event-stream'' (hget_or (req_headers r) ''accept'' [])"
    and "delivers client (user_service_url cfg) json_text (beside app)"
    and "\<not> fst (get_is_open (hc_now client) name (reg, m, uw))"
    and "\<And>r'. req_headers r' = hs \<Longrightarrow> parse_caller_id r' = Inr i"
    and "\<And>r' v'. req_headers r' = hs \<Longrightarrow>
      app r' v' = hardening_dispatch (route (backend_routes n ready export (user_api fw en ucfg other) rest)) r' v'"
    and "wf_users (uw_users uw)" "uw_tasks uw = []" "profile_of (fw_js_time fw) i (uw_users uw) = (st, j)"
  shows "answers (proxy hmac fmt t cfg (Some client)) r (bs, reg, m, uw)
    (\<lambda>resp (bs', reg', m', u'). (resp_status resp = st \<and> resp_body resp = Bytes (json_text j)) \<and>
      bs' = snd (read_body bs) \<and> m' = m \<and> u' = uw)"
proof -
  let ?resp = "hardened (JSONResponse st j [])"
  have st: "resp_status ?resp \<notin> set RETRYABLE_STATUS"
    using assms(13) by (auto simp: profile_of_def RETRYABLE_STATUS_def split: list.splits)
  have uw: "uw\<lparr>uw_tasks := []\<rparr> = uw" using assms(12) by simp
  have a: "beside app r' (m, uw) = (Inr ?resp, m, uw)"
    if "req_headers r' = hs" "req_path r' = req_path r" "req_method r' = req_method r" for r'
    using me_answers [of r' i uw] that assms(4,5,9,11,13) uw
    by (simp add: beside_def assms(10) hardening_dispatch_def map_response_def wf_users_def)
  have "\<exists>reg'. proxy hmac fmt t cfg (Some client) r (bs, reg, m, uw) =
      (Inr (relay_response (wire_response json_text ?resp)), snd (read_body bs), reg', m, uw)"
    by (rule proxy_answers [where app = "beside app" and resp = ?resp and u = "(m, uw)" and u' = "(m, uw)" and hs = hs,
          OF assms(1-3)]) (use assms(5-8) a st in simp_all)
  then show ?thesis by (auto simp: answers_def relay_response_def wire_response_def)
qed



section \<open>An instance\<close>

definition demo_service :: user_config where
  "demo_service = \<lparr>uc_settings = demo_login_cfg,
     uc_smtp = \<lparr>sm_email_sender = ''log'', sm_host = [], sm_port = 587, sm_username = [], sm_password = [], sm_from_address = []\<rparr>,
     uc_hmac_secret = replicate 32 CHR ''k'', uc_database_url = [], uc_redis_url = [], uc_pool = []\<rparr>"

definition demo_framework :: framework where
  "demo_framework = \<lparr>fw_body = (\<lambda>_. BadBody), fw_uuid = uuid_parse, fw_datetime = (\<lambda>_. None),
     fw_query = (\<lambda>_ _. None), fw_int = (\<lambda>_. None), fw_bool = (\<lambda>_. None), fw_js_time = (\<lambda>_. ''t'')\<rparr>"

definition demo_rest :: "mem_redis user_world handler" where
  "demo_rest r w = (Inr (JSONResponse 404 JNull []), w)"

definition demo_user_app :: "mem_redis user_world handler" where
  "demo_user_app = backend_app demo_mac 1030 \<lparr>idm_secret = replicate 32 CHR ''k'', idm_exempt = PROBE_PATHS\<rparr>
     (backend_routes ''user-service'' (database_readiness True) demo_rest
       (user_api demo_framework demo_login_env (uc_settings demo_service) demo_rest) demo_rest)"

definition demo_entry :: "(unit, mem_redis user_world) gateway_env" where
  "demo_entry =
     \<lparr>ge_unverified = \<lambda>_. Kid (Some ''2026a''), ge_decode = demo_verify, ge_hmac = demo_mac, ge_fmt = \<lambda>_. [],
      ge_cors = \<lambda>h. h, ge_exec = \<lambda>_ s. (None, s), ge_connect = \<lambda>_. None,
      ge_client = Some (wired_client ''http://user-service:8001'' (\<lambda>_. ''profile'') (beside demo_user_app) 0),
      ge_probe = \<lambda>_. True, ge_export = \<lambda>_. [], ge_other = \<lambda>r w. (Inl (HTTPException 404 ''Not Found'' []), w),
      ge_limiter = demo_env, ge_fresh = uuid_str 8, ge_elapsed = ''0.0100s'', ge_now = \<lambda>_. 0\<rparr>"

definition demo_entry_settings :: gateway_settings where
  "demo_entry_settings = \<lparr>gs_proxy = demo_proxy\<lparr>interservice_hmac_secret := replicate 32 CHR ''k''\<rparr>,
     gs_jwt = demo_jwt\<lparr>cfg_jwt_secrets := print_keyring (demo_ring ''next'')\<rparr>,
     gs_max_body_bytes = 1048576, gs_production = False\<rparr>"


end
