(* ===== verification/Consumer.thy ===== *)
theory Consumer
  imports Broadcaster TaskModel
begin

text \<open>
  The Service Bus consumer of the notification service (\<^verbatim>\<open>consumer.py\<close>): from the bytes of a message
  to notifications, targets, the settlement of the message and the event streams. Whether the
  library's \<^verbatim>\<open>complete_message\<close> and \<^verbatim>\<open>abandon_message\<close> raise is an argument.
\<close>

section \<open>Python values that came from JSON\<close>

definition truthy :: "json \<Rightarrow> bool" where
  "truthy j =
     (case j of
        JNull \<Rightarrow> False
      | JBool b \<Rightarrow> b
      | JInt i \<Rightarrow> i \<noteq> 0
      | JFloat q \<Rightarrow> q \<noteq> 0
      | JStr s \<Rightarrow> s \<noteq> []
      | JArr xs \<Rightarrow> xs \<noteq> []
      | JObj kvs \<Rightarrow> kvs \<noteq> [])"

definition hashable :: "json \<Rightarrow> bool" where
  "hashable j = (case j of JArr _ \<Rightarrow> False | JObj _ \<Rightarrow> False | _ \<Rightarrow> True)"

definition json_numeric :: "json \<Rightarrow> rat option" where
  "json_numeric j =
     (case j of
        JBool b \<Rightarrow> Some (if b then 1 else 0)
      | JInt i \<Rightarrow> Some (of_int i)
      | JFloat q \<Rightarrow> Some q
      | _ \<Rightarrow> None)"

text \<open>\<^verbatim>\<open>==\<close> on values that can be hashed: numbers and booleans compare by value.\<close>

definition py_eq :: "json \<Rightarrow> json \<Rightarrow> bool" where
  "py_eq a b \<longleftrightarrow> a = b \<or> (json_numeric a \<noteq> None \<and> json_numeric a = json_numeric b)"

text \<open>\<^verbatim>\<open>repr\<close> and \<^verbatim>\<open>str\<close>; the printed form of a float is a parameter.\<close>

definition repr_char :: "char \<Rightarrow> char \<Rightarrow> string" where
  "repr_char quote c =
     (let n = (of_char c :: nat); b = CHR 0x5C in
      if c = quote \<or> c = b then [b, c]
      else if n = 10 then [b, CHR ''n'']
      else if n = 13 then [b, CHR ''r'']
      else if n = 9 then [b, CHR ''t'']
      else if n < 32 \<or> 127 \<le> n \<and> n \<le> 160 \<or> n = 173 then b # CHR ''x'' # hex_pad 2 n
      else [c])"

definition repr_str :: "string \<Rightarrow> string" where
  "repr_str s =
     (let quote = (if CHR 0x27 \<in> set s \<and> CHR 0x22 \<notin> set s then CHR 0x22 else CHR 0x27)
      in quote # concat (map (repr_char quote) s) @ [quote])"

fun py_repr :: "(pyfloat \<Rightarrow> string) \<Rightarrow> json \<Rightarrow> string" where
  "py_repr fr JNull = ''None''"
| "py_repr fr (JBool b) = (if b then ''True'' else ''False'')"
| "py_repr fr (JInt i) = str_int i"
| "py_repr fr (JFloat q) = fr q"
| "py_repr fr (JStr s) = repr_str s"
| "py_repr fr (JArr xs) = ''['' @ py_join '', '' (map (py_repr fr) xs) @ '']''"
| "py_repr fr (JObj kvs) =
     ''{'' @ py_join '', '' (map (\<lambda>(k, v). repr_str k @ '': '' @ py_repr fr v) kvs) @ ''}''"

definition py_str :: "(pyfloat \<Rightarrow> string) \<Rightarrow> json \<Rightarrow> string" where
  "py_str fr j = (case j of JStr s \<Rightarrow> s | _ \<Rightarrow> py_repr fr j)"

text \<open>\<^verbatim>\<open>d.get(k, dflt)\<close>, which only dicts have.\<close>

definition dict_get :: "string \<Rightarrow> json \<Rightarrow> json \<Rightarrow> string + json" where
  "dict_get k dflt d =
     (case d of
        JObj kvs \<Rightarrow> Inr (case map_of kvs k of Some v \<Rightarrow> v | None \<Rightarrow> dflt)
      | _ \<Rightarrow> Inl ''AttributeError'')"

section \<open>Targets\<close>

fun collect_targets :: "json list \<Rightarrow> json list \<Rightarrow> string + json list" where
  "collect_targets seen [] = Inr seen"
| "collect_targets seen (uid # ids) =
     (if \<not> truthy uid then collect_targets seen ids
      else if \<not> hashable uid then Inl ''TypeError''
      else if list_ex (py_eq uid) seen then collect_targets seen ids
      else collect_targets (seen @ [uid]) ids)"

section \<open>Handlers\<close>

type_synonym notification = "string \<times> string \<times> string"

definition safe_title :: "string \<Rightarrow> string" where
  "safe_title raw_title =
     take 200 (py_replace [CHR 0x0D] '' '' (py_replace [CHR 0x0A] '' '' raw_title))"

definition on_task_created ::
  "(pyfloat \<Rightarrow> string) \<Rightarrow> json \<Rightarrow> (string + json list) \<times> notification list" where
  "on_task_created fr data =
     (case (dict_get ''assignee_id'' JNull data, dict_get ''creator_id'' JNull data,
            dict_get ''title'' (JStr []) data) of
        (Inr assignee_id, Inr creator_id, Inr title) \<Rightarrow>
          (collect_targets [] [assignee_id, creator_id],
           if truthy assignee_id
           then [(py_str fr assignee_id, ''You have been assigned a new task'',
                  ''Task '' @ [CHR 0x27] @ safe_title (py_str fr title) @ [CHR 0x27] @ '' has been assigned to you.'')]
           else [])
      | _ \<Rightarrow> (Inl ''AttributeError'', []))"

definition stakeholders :: "json \<Rightarrow> string + json list" where
  "stakeholders data =
     (case (dict_get ''creator_id'' JNull data, dict_get ''assignee_id'' JNull data) of
        (Inr creator_id, Inr assignee_id) \<Rightarrow> collect_targets [] [creator_id, assignee_id]
      | _ \<Rightarrow> Inl ''AttributeError'')"

definition on_task_status_changed :: "json \<Rightarrow> (string + json list) \<times> notification list" where
  "on_task_status_changed data = (stakeholders data, [])"

definition on_task_deleted :: "json \<Rightarrow> (string + json list) \<times> notification list" where
  "on_task_deleted data = (stakeholders data, [])"

definition event_handlers ::
  "(pyfloat \<Rightarrow> string) \<Rightarrow> (string \<times> (json \<Rightarrow> (string + json list) \<times> notification list)) list" where
  "event_handlers fr =
     [(''task.created'', on_task_created fr), (''task.status_changed'', on_task_status_changed),
      (''task.deleted'', on_task_deleted)]"

definition find_handler ::
  "(pyfloat \<Rightarrow> string) \<Rightarrow> json \<Rightarrow> string + (json \<Rightarrow> (string + json list) \<times> notification list) option" where
  "find_handler fr event_type =
     (if \<not> hashable event_type then Inl ''TypeError''
      else Inr (case event_type of JStr s \<Rightarrow> map_of (event_handlers fr) s | _ \<Rightarrow> None))"

section \<open>One message\<close>

datatype settlement = Completed | Abandoned

record consumer =
  cs_sent :: "notification list"
  cs_settled :: "settlement list"
  cs_metrics :: "(string \<times> string) list"
  cs_broadcaster :: broadcaster

definition settle_message :: "settlement \<Rightarrow> consumer \<Rightarrow> consumer" where
  "settle_message s w = w\<lparr>cs_settled := cs_settled w @ [s]\<rparr>"

definition count_event :: "string \<Rightarrow> string \<Rightarrow> consumer \<Rightarrow> consumer" where
  "count_event event_type status w = w\<lparr>cs_metrics := cs_metrics w @ [(event_type, status)]\<rparr>"

text \<open>
  The body of the \<^verbatim>\<open>try\<close>: the event type known so far, the exception that ended it, and the state. The
  broadcast cannot raise: its data came out of a JSON text, and its targets have been hashed.
\<close>

definition try_message ::
  "(pyfloat \<Rightarrow> string) \<Rightarrow> bool \<Rightarrow> string \<Rightarrow> consumer \<Rightarrow> json \<times> string option \<times> consumer" where
  "try_message fr complete_ok body w =
     (case json_loads_bytes body of
        None \<Rightarrow> (JStr ''unknown'', Some ''JSONDecodeError'', w)
      | Some b \<Rightarrow>
          (case (dict_get ''event_type'' (JStr ''unknown'') b, dict_get ''data'' (JObj []) b) of
             (Inr event_type, Inr data) \<Rightarrow>
               (case find_handler fr event_type of
                  Inl e \<Rightarrow> (event_type, Some e, w)
                | Inr h \<Rightarrow>
                    (case (case h of Some f \<Rightarrow> f data | None \<Rightarrow> (Inr [], [])) of
                       (Inl e, sent) \<Rightarrow> (event_type, Some e, w\<lparr>cs_sent := cs_sent w @ sent\<rparr>)
                     | (Inr target_user_ids, sent) \<Rightarrow>
                         (let w1 = w\<lparr>cs_sent := cs_sent w @ sent\<rparr> in
                          if \<not> complete_ok then (event_type, Some ''ServiceBusError'', w1)
                          else (event_type, None,
                                count_event (py_str fr event_type) ''success'' (settle_message Completed w1)
                                  \<lparr>cs_broadcaster := broadcast fr event_type data target_user_ids (cs_broadcaster w1)\<rparr>))))
           | _ \<Rightarrow> (JStr ''unknown'', Some ''AttributeError'', w)))"

definition process_message ::
  "(pyfloat \<Rightarrow> string) \<Rightarrow> bool \<Rightarrow> bool \<Rightarrow> string \<Rightarrow> consumer \<Rightarrow> string option \<times> consumer" where
  "process_message fr complete_ok abandon_ok body w =
     (case try_message fr complete_ok body w of
        (_, None, w') \<Rightarrow> (None, w')
      | (event_type, Some _, w') \<Rightarrow>
          if abandon_ok then (None, count_event (py_str fr event_type) ''failure'' (settle_message Abandoned w'))
          else (Some ''ServiceBusError'', w'))"

text \<open>
  The receiver of one topic, over the messages it hands out until it has been idle for five seconds,
  each with the fate of the two calls that settle_message it; an exception ends it.
\<close>

fun receive_from_topic ::
  "(pyfloat \<Rightarrow> string) \<Rightarrow> (string \<times> bool \<times> bool) list \<Rightarrow> consumer \<Rightarrow> string option \<times> consumer" where
  "receive_from_topic fr [] w = (None, w)"
| "receive_from_topic fr ((body, complete_ok, abandon_ok) # ms) w =
     (case process_message fr complete_ok abandon_ok body w of
        (None, w') \<Rightarrow> receive_from_topic fr ms w'
      | (Some e, w') \<Rightarrow> (Some e, w'))"

section \<open>The consumer task\<close>

text \<open>
  The endless loop of \<^verbatim>\<open>run\<close>, by what its rounds end with: one that returns or raises starts the next,
  after five seconds if it raised; only cancellation ends the task.
\<close>

datatype round_end = RoundReturns | RoundRaises string | RoundCancelled

datatype task_state = NotCreated | Running | Cancelled | Crashed string

fun consumer_run :: "round_end list \<Rightarrow> nat \<times> task_state" where
  "consumer_run [] = (0, Running)"
| "consumer_run (RoundReturns # rs) = consumer_run rs"
| "consumer_run (RoundRaises e # rs) = (case consumer_run rs of (slept, st) \<Rightarrow> (5 + slept, st))"
| "consumer_run (RoundCancelled # rs) = (0, Cancelled)"

definition consumer_readiness :: "task_state \<Rightarrow> http_error + json" where
  "consumer_readiness t =
     (case t of
        NotCreated \<Rightarrow> Inr (JObj [(''status'', JStr ''starting''), (''consumer'', JStr ''not_yet_created'')])
      | Cancelled \<Rightarrow> Inr (JObj [(''status'', JStr ''stopping''), (''consumer'', JStr ''cancelled'')])
      | Crashed e \<Rightarrow> Inl (HTTPException 503 ''Message consumer is unavailable'' [])
      | Running \<Rightarrow> Inr (JObj [(''status'', JStr ''ready''), (''consumer'', JStr ''running'')]))"

definition start_consumer :: "string \<Rightarrow> round_end list \<Rightarrow> task_state" where
  "start_consumer servicebus_connection_string rounds =
     (if servicebus_connection_string \<noteq> [] then snd (consumer_run rounds) else NotCreated)"

section \<open>The stream route\<close>

text \<open>The identity header is required; the stream itself is \<^const>\<open>subscribe_open\<close> and its turns.\<close>

definition notification_stream :: "request \<Rightarrow> broadcaster \<Rightarrow> (http_error + string \<times> nat \<times> response) \<times> broadcaster" where
  "notification_stream r b =
     (case hget (req_headers r) ''X-User-Id'' of
        None \<Rightarrow> (Inl unprocessable, b)
      | Some x_user_id \<Rightarrow>
          (case subscribe_open x_user_id b of
             (conn_id, b') \<Rightarrow>
               (Inr (x_user_id, conn_id,
                     \<lparr>resp_status = 200,
                      resp_headers = [(''Cache-Control'', ''no-cache''), (''X-Accel-Buffering'', ''no''),
                                      (''Connection'', ''keep-alive'')],
                      resp_body = EventStream\<rparr>), b')))"

end
