(* ===== verification/TaskReplay.thy ===== *)
theory TaskReplay
  imports TaskProps
begin

text \<open>
  Idempotency keys: as long as Redis answers, the answer to a creation is kept for a day, whatever
  requests come in between, and a repetition of the key gets it back and creates nothing.
\<close>

definition cache_up :: "'r redis \<Rightarrow> bool" where
  "cache_up rd \<longleftrightarrow>
     (\<forall>now r. fst (rd_ping rd now r)) \<and> (\<forall>now k r. fst (rd_get rd now k r) \<noteq> None) \<and>
     (\<forall>now k ttl v r. fst (rd_setex rd now k ttl v r))"

text \<open>Under \<open>k\<close> the server holds \<open>v\<close> from \<open>now\<close> until \<open>d\<close>.\<close>

definition holds_until :: "'r live \<Rightarrow> string \<Rightarrow> string \<Rightarrow> pyfloat \<Rightarrow> pyfloat \<Rightarrow> 'r redis_client \<Rightarrow> bool" where
  "holds_until live k v now d c \<longleftrightarrow> (\<forall>t. now \<le> t \<longrightarrow> t < d \<longrightarrow> live t (rc_server c) k = Some v)"

definition cached_text :: "json \<Rightarrow> string" where
  "cached_text body = json_dumps (\<lambda>_. []) (JObj [(''status_code'', JInt 201), (''body'', body)])"

lemma holds_later: "holds_until live k v now d c \<Longrightarrow> now \<le> now' \<Longrightarrow> holds_until live k v now' d c"
  by (simp add: holds_until_def)

lemma holds_same:
  "holds_until live k v now d c \<Longrightarrow> same_but now ks live (rc_server c) (rc_server c') \<Longrightarrow> k \<notin> ks \<Longrightarrow>
   holds_until live k v now d c'"
  by (simp add: holds_until_def same_but_def)

lemma client_up:
  assumes "redis_laws rd live" "cache_up rd"
  shows "\<exists>c1. idempotency_client rd now c = (True, c1) \<and> same_but now {} live (rc_server c) (rc_server c1)"
proof -
  have e: "idempotency_client rd now c = get_redis rd now c"
    by (simp add: idempotency_client_def get_redis_def)
  have "\<exists>c1. get_redis rd now c = (True, c1)"
    using assms(2) by (auto simp: get_redis_def cache_up_def split: prod.splits) (metis fst_conv)
  then show ?thesis using get_redis_same [OF assms(1)] e by metis
qed

lemma get_keys:
  assumes "redis_laws rd live" "cache_up rd" "get_cached_response rd now caller k c = (x, c')"
  shows "same_but now {} live (rc_server c) (rc_server c')"
proof -
  obtain c1 where c1: "idempotency_client rd now c = (True, c1)" "same_but now {} live (rc_server c) (rc_server c1)"
    using client_up [OF assms(1,2)] by blast
  obtain y r where r: "rd_get rd now (make_key caller k) (rc_server c1) = (y, r)" by fastforce
  have "same_but now {} live (rc_server c1) r" using redis_get [OF assms(1) r] by simp
  then show ?thesis using assms(3) c1 r by (auto simp: get_cached_response_def same_but_def)
qed

lemma get_hit:
  assumes "redis_laws rd live" "cache_up rd" "json_plain body"
    and "holds_until live (make_key caller k) (cached_text body) now d c" "now < d"
  shows "fst (get_cached_response rd now caller k c) = Some (JInt 201, body)"
proof -
  obtain c1 where c1: "idempotency_client rd now c = (True, c1)" "same_but now {} live (rc_server c) (rc_server c1)"
    using client_up [OF assms(1,2)] by blast
  obtain y r where r: "rd_get rd now (make_key caller k) (rc_server c1) = (y, r)" by fastforce
  have "y \<noteq> None" using assms(2) r unfolding cache_up_def by (metis fst_conv)
  then have y: "y = Some (live now (rc_server c1) (make_key caller k))"
    using redis_get [OF assms(1) r] by auto
  have "live now (rc_server c1) (make_key caller k) = Some (cached_text body)"
    using assms(4,5) c1(2) by (simp add: holds_until_def same_but_def)
  moreover have "json_loads (cached_text body) = Some (JObj [(''status_code'', JInt 201), (''body'', body)])"
  proof -
    have "(1::int) < 10 ^ int_digits \<and> (201::int) < 10 ^ int_digits"
    proof -
      have "(10::int) ^ 3 \<le> 10 ^ int_digits" by (intro power_increasing) (simp_all add: int_digits_def)
      then show ?thesis by simp
    qed
    then show ?thesis unfolding cached_text_def by (intro json_loads_dumps) (simp add: assms(3))
  qed
  ultimately show ?thesis using c1 r y by (simp add: get_cached_response_def json_get_def)
qed

lemma cache_keys:
  assumes "redis_laws rd live" "cache_up rd"
  shows "same_but now {make_key caller k} live (rc_server c) (rc_server (cache_response rd now caller k st body c))"
    and "st = 201 \<Longrightarrow> holds_until live (make_key caller k) (cached_text body) now
      (now + of_int IDEMPOTENCY_TTL_SECONDS) (cache_response rd now caller k st body c)"
proof -
  obtain c1 where c1: "idempotency_client rd now c = (True, c1)" "same_but now {} live (rc_server c) (rc_server c1)"
    using client_up [OF assms] by blast
  let ?K = "make_key caller k"
  let ?v = "json_dumps (\<lambda>_. []) (JObj [(''status_code'', JInt (int st)), (''body'', body)])"
  have ttl: "0 < IDEMPOTENCY_TTL_SECONDS" by (simp add: IDEMPOTENCY_TTL_SECONDS_def)
  have s: "same_but now {?K} live r (snd (rd_setex rd now ?K IDEMPOTENCY_TTL_SECONDS v r)) \<and>
      (\<forall>t\<ge>now. live t (snd (rd_setex rd now ?K IDEMPOTENCY_TTL_SECONDS v r)) ?K =
        (if t < now + of_int IDEMPOTENCY_TTL_SECONDS then Some v else None))" for v r
  proof -
    have up: "fst (rd_setex rd now ?K IDEMPOTENCY_TTL_SECONDS v r)"
      using assms(2) by (simp add: cache_up_def)
    have "\<forall>now k ttl v r. 0 < ttl \<longrightarrow> same_but now {k} live r (snd (rd_setex rd now k ttl v r)) \<and>
        (fst (rd_setex rd now k ttl v r) \<longrightarrow>
           (\<forall>t\<ge>now. live t (snd (rd_setex rd now k ttl v r)) k = (if t < now + of_int ttl then Some v else None)))"
      using assms(1) unfolding redis_laws_def by (elim conjE) assumption
    from this [rule_format, OF ttl, where now = now and k = ?K and v = v and r = r] up show ?thesis by simp
  qed
  show "same_but now {?K} live (rc_server c) (rc_server (cache_response rd now caller k st body c))"
    using c1 s [of "rc_server c1" ?v] by (simp add: cache_response_def Let_def same_but_def)
  show "st = 201 \<Longrightarrow> holds_until live ?K (cached_text body) now (now + of_int IDEMPOTENCY_TTL_SECONDS)
      (cache_response rd now caller k st body c)"
    using c1 s [of "rc_server c1" ?v] by (simp add: cache_response_def Let_def holds_until_def cached_text_def)
qed

section \<open>What a creation leaves in the cache\<close>

lemma task_plain: "json_plain (TaskResponse js t)"
  by (simp add: TaskResponse_def opt_text_def uuid_opt_def split: option.splits)

text \<open>The jobs of a creation: one event and, with a key, one entry of the cache.\<close>

lemma creation_jobs:
  assumes "normal_creation en c q k w = (Inr resp, w')"
  shows "\<exists>t. resp = JSONResponse 201 (TaskResponse (te_js_time en) t) [] \<and> tw_redis w' = tw_redis w \<and>
    tw_jobs w' = tw_jobs w @ PublishEvent ''task.created'' (created_event t) #
      (if k \<noteq> [] then [CacheResponse c k 201 (TaskResponse (te_js_time en) t)] else [])"
  using assms by (auto simp: normal_creation_def Let_def dest!: insert_task_cases split: sum.splits if_splits)

lemma run_job_redis: "tw_redis (run_job en (PublishEvent e d) w) = tw_redis w"
  by simp

definition idem_key :: "request \<Rightarrow> string" where
  "idem_key r = hget_or (req_headers r) ''Idempotency-Key'' []"

lemma create_cases:
  assumes "parse_caller_id r = Inr c" "TaskCreate p = Inr q" "idem_key r \<noteq> []"
  shows "create_task en r p w =
    (case get_cached_response (te_redis en) (te_now en) c (idem_key r) (tw_redis w) of
       (Some cached, cl) \<Rightarrow> (replayed cached, w\<lparr>tw_redis := cl\<rparr>)
     | (None, cl) \<Rightarrow> normal_creation en c q (idem_key r) (w\<lparr>tw_redis := cl\<rparr>))"
  using assms unfolding idem_key_def by (simp add: create_task_def as_caller_def Let_def)

text \<open>A first answer with status 201 and no replay header leaves its body in the cache for a day.\<close>

lemma first_creation:
  assumes laws: "redis_laws (te_redis en) live" "cache_up (te_redis en)"
    and call: "task_call en (CreateTask r p) w = (Inr (Reply resp), w1)"
    and c: "parse_caller_id r = Inr c" and k: "idem_key r \<noteq> []" and h: "resp_headers resp = []"
  shows "\<exists>body. json_plain body \<and> resp = JSONResponse 201 body [] \<and>
    holds_until live (make_key c (idem_key r)) (cached_text body) (te_now en) (te_now en + 86400) (tw_redis w1)"
proof -
  obtain w2 where route: "create_task en r p (w\<lparr>tw_jobs := []\<rparr>) = (Inr resp, w2)"
      and w1: "w1 = fold (run_job en) (tw_jobs w2) (w2\<lparr>tw_jobs := []\<rparr>)"
    using call by (auto simp: task_call_def task_respond_def answer_def split: prod.splits sum.splits)
  obtain q where q: "TaskCreate p = Inr q"
    using route c by (auto simp: create_task_def as_caller_def split: sum.splits)
  obtain found cl where g: "get_cached_response (te_redis en) (te_now en) c (idem_key r) (tw_redis w) = (found, cl)"
    by fastforce
  have "found = None"
    using route h g unfolding create_cases [OF c q k]
    by (auto simp: replayed_def split: option.splits prod.splits json.splits)
  with route g have n: "normal_creation en c q (idem_key r) (w\<lparr>tw_jobs := [], tw_redis := cl\<rparr>) = (Inr resp, w2)"
    unfolding create_cases [OF c q k] by simp
  obtain t where t: "resp = JSONResponse 201 (TaskResponse (te_js_time en) t) []"
      and red: "tw_redis w2 = cl"
      and jobs: "tw_jobs w2 = [PublishEvent ''task.created'' (created_event t),
        CacheResponse c (idem_key r) 201 (TaskResponse (te_js_time en) t)]"
    using creation_jobs [OF n] k by auto
  have "tw_redis w1 = cache_response (te_redis en) (te_now en) c (idem_key r) 201 (TaskResponse (te_js_time en) t) cl"
    using w1 jobs red by simp
  with cache_keys(2) [OF laws refl] t task_plain show ?thesis
    by (fastforce simp: IDEMPOTENCY_TTL_SECONDS_def)
qed

section \<open>A repetition\<close>

text \<open>One request keeps what the cache holds: it finds the entry, or it works on another key.\<close>

lemma redis_of_jobs:
  assumes laws: "redis_laws (te_redis en) live" "cache_up (te_redis en)"
    and "holds_until live K v (te_now en) d (tw_redis w)"
    and "\<forall>j\<in>set js. case j of CacheResponse c k _ _ \<Rightarrow> make_key c k \<noteq> K | _ \<Rightarrow> True"
  shows "holds_until live K v (te_now en) d (tw_redis (fold (run_job en) js w))"
  using assms(3,4)
proof (induction js arbitrary: w)
  case (Cons j js)
  show ?case
  proof (cases j)
    case (PublishEvent e x)
    with Cons show ?thesis by simp
  next
    case (CacheResponse c k st b)
    with Cons.prems have "K \<notin> {make_key c k}" by auto
    with Cons.prems(1) cache_keys(1) [OF laws]
    have "holds_until live K v (te_now en) d (cache_response (te_redis en) (te_now en) c k st b (tw_redis w))"
      by (rule holds_same)
    with Cons CacheResponse show ?thesis by simp
  qed
qed simp

lemma other_routes_redis:
  assumes "\<forall>r p. op \<noteq> CreateTask r p"
  shows "tw_redis (snd (task_route en op w)) = tw_redis w \<and>
    (\<forall>j\<in>set (tw_jobs (snd (task_route en op (w\<lparr>tw_jobs := []\<rparr>)))). case j of CacheResponse _ _ _ _ \<Rightarrow> False | _ \<Rightarrow> True)"
  using assms
  by (cases op)
     (auto simp: list_tasks_def get_task_def update_task_def delete_task_def create_project_def
        list_projects_def get_project_def delete_project_def as_caller_def Let_def
        split: prod.splits sum.splits option.splits if_splits)

lemma creation_effect:
  assumes "normal_creation en c q k w = (x, w')"
  shows "tw_redis w' = tw_redis w \<and>
    (\<forall>j\<in>set (tw_jobs w'). j \<in> set (tw_jobs w) \<or> (\<exists>e d. j = PublishEvent e d) \<or>
       k \<noteq> [] \<and> (\<exists>st b. j = CacheResponse c k st b))"
  using assms by (auto simp: normal_creation_def Let_def dest!: insert_task_cases split: sum.splits if_splits)

lemma create_keeps:
  assumes laws: "redis_laws (te_redis en) live" "cache_up (te_redis en)" and b: "json_plain body"
    and hold: "holds_until live K (cached_text body) (te_now en) d (tw_redis w)" "te_now en < d"
    and r: "create_task en r p w = (x, w')" "tw_jobs w = []"
  shows "holds_until live K (cached_text body) (te_now en) d (tw_redis w') \<and>
    (\<forall>j\<in>set (tw_jobs w'). case j of CacheResponse c k _ _ \<Rightarrow> make_key c k \<noteq> K | _ \<Rightarrow> True)"
proof (cases "parse_caller_id r")
  case (Inl e)
  with r hold show ?thesis by (simp add: create_task_def as_caller_def)
next
  case (Inr c)
  show ?thesis
  proof (cases "TaskCreate p")
    case (Inl e)
    with Inr r hold show ?thesis by (simp add: create_task_def as_caller_def)
  next
    case q: (Inr q)
    show ?thesis
    proof (cases "idem_key r = []")
      case True
      then have "normal_creation en c q [] w = (x, w')"
        using r(1) Inr q by (simp add: create_task_def as_caller_def idem_key_def Let_def)
      from creation_effect [OF this] hold r(2) show ?thesis by (auto split: task_job.split)
    next
      case False
      obtain found cl where g: "get_cached_response (te_redis en) (te_now en) c (idem_key r) (tw_redis w) = (found, cl)"
        by fastforce
      have h: "holds_until live K (cached_text body) (te_now en) d cl"
        using holds_same [OF hold(1) get_keys [OF laws g]] by simp
      note cr = r(1) [unfolded create_cases [OF Inr q False] g]
      show ?thesis
      proof (cases found)
        case (Some cached)
        with cr h r(2) show ?thesis by auto
      next
        case None
        have "make_key c (idem_key r) \<noteq> K"
          using get_hit [OF laws b _ hold(2), of c "idem_key r" "tw_redis w"] hold(1) g None by auto
        moreover have "normal_creation en c q (idem_key r) (w\<lparr>tw_redis := cl\<rparr>) = (x, w')" using cr None by simp
        ultimately show ?thesis using creation_effect h r(2) by (fastforce split: task_job.split)
      qed
    qed
  qed
qed

lemma step_keeps:
  assumes laws: "redis_laws (te_redis en) live" "cache_up (te_redis en)" and b: "json_plain body"
    and hold: "holds_until live K (cached_text body) (te_now en) d (tw_redis w)" "te_now en < d"
  shows "holds_until live K (cached_text body) (te_now en) d (tw_redis (task_step (en, op) w))"
proof -
  obtain x w1 where r: "task_route en op (w\<lparr>tw_jobs := []\<rparr>) = (x, w1)" by fastforce
  have "holds_until live K (cached_text body) (te_now en) d (tw_redis w1) \<and>
      (\<forall>j\<in>set (tw_jobs w1). case j of CacheResponse c k _ _ \<Rightarrow> make_key c k \<noteq> K | _ \<Rightarrow> True)"
  proof (cases "\<exists>rq p. op = CreateTask rq p")
    case True
    then obtain rq p where op: "op = CreateTask rq p" by blast
    obtain y where "create_task en rq p (w\<lparr>tw_jobs := []\<rparr>) = (y, w1)"
      using r op by (auto simp: answer_def split: prod.splits sum.splits)
    from create_keeps [OF laws b _ hold(2) this] hold(1) show ?thesis by simp
  next
    case False
    with other_routes_redis [of op en "w\<lparr>tw_jobs := []\<rparr>"] r hold(1) show ?thesis
      by (auto split: task_job.splits)
  qed
  with redis_of_jobs [OF laws, of K "cached_text body" d "w1\<lparr>tw_jobs := []\<rparr>" "tw_jobs w1"] show ?thesis
    by (cases x) (simp_all add: task_step_def task_call_def task_respond_def r)
qed

text \<open>Requests that share one Redis and one clock.\<close>

fun task_history :: "'r redis \<Rightarrow> pyfloat \<Rightarrow> ('r task_env \<times> task_op) list \<Rightarrow> bool" where
  "task_history rd t [] = True"
| "task_history rd t ((en, _) # es) = (te_redis en = rd \<and> t \<le> te_now en \<and> task_history rd (te_now en) es)"

lemma history_le: "task_history rd t (es @ [(en, op)]) \<Longrightarrow> te_redis en = rd \<and> t \<le> te_now en"
  by (induction es arbitrary: t) force+

lemma history_keeps:
  assumes "redis_laws rd live" "cache_up rd" "json_plain body"
    and "task_history rd t (es @ [(en, op)])" "te_now en < d"
    and "holds_until live K (cached_text body) t d (tw_redis w)"
  shows "holds_until live K (cached_text body) (te_now en) d (tw_redis (fold task_step es w))"
  using assms(4,6)
proof (induction es arbitrary: t w)
  case Nil
  then show ?case by (auto intro: holds_later)
next
  case (Cons e es)
  obtain en1 op1 where e: "e = (en1, op1)" by fastforce
  with Cons.prems(1) have h: "te_redis en1 = rd" "t \<le> te_now en1" "task_history rd (te_now en1) (es @ [(en, op)])"
    by simp_all
  have "te_now en1 < d" using history_le [OF h(3)] assms(5) by simp
  then have "holds_until live K (cached_text body) (te_now en1) d (tw_redis (task_step (en1, op1) w))"
    using Cons.prems(2) h assms(1-3) by (intro step_keeps) (auto intro: holds_later)
  from Cons.IH [OF h(3) this] show ?case by (simp add: e)
qed

text \<open>
  C28: Idempotent creation. Let a creation with an idempotency key be answered 201 by a service whose
  Redis answers. Whatever requests come after it, a request of the same caller with the same key
  (after trimming and cutting to 128 characters) and any valid body, less than 24 hours later, is
  answered with the same body, status 201 and the replay header; it creates nothing, changes no row
  and publishes no event.
\<close>
theorem creation_replayed:
  assumes "redis_laws rd live" "cache_up rd"
    and "task_history rd t ((ea, CreateTask ra pa) # es @ [(eb, CreateTask rb pb)])" "te_now eb < te_now ea + 86400"
    and "parse_caller_id ra = Inr c" "parse_caller_id rb = Inr c"
    and "idem_key ra \<noteq> []" "idem_key rb \<noteq> []" "make_key c (idem_key rb) = make_key c (idem_key ra)"
    and "fst (task_call ea (CreateTask ra pa) w) = Inr (Reply resp)" "resp_headers resp = []"
    and "TaskCreate pb = Inr q" "w' = fold task_step ((ea, CreateTask ra pa) # es) w"
  shows "\<exists>body w''. resp = JSONResponse 201 body [] \<and>
    task_call eb (CreateTask rb pb) w' =
      (Inr (Reply (JSONResponse 201 body [(''Idempotency-Key-Replay'', ''true'')])), w'') \<and>
    tw_tasks w'' = tw_tasks w' \<and> tw_projects w'' = tw_projects w' \<and> tw_bus w'' = tw_bus w'"
proof -
  have h: "te_redis ea = rd" "task_history rd (te_now ea) (es @ [(eb, CreateTask rb pb)])"
    using assms(3) by simp_all
  obtain w1 where call: "task_call ea (CreateTask ra pa) w = (Inr (Reply resp), w1)"
    using assms(10) by (metis prod.collapse)
  obtain body where body: "json_plain body" "resp = JSONResponse 201 body []"
      and hold: "holds_until live (make_key c (idem_key ra)) (cached_text body) (te_now ea) (te_now ea + 86400) (tw_redis w1)"
    using first_creation [OF _ _ call assms(5,7,11)] assms(1,2) h(1) by blast
  have w': "w' = fold task_step es w1" using assms(13) call by (simp add: task_step_def)
  have hb: "holds_until live (make_key c (idem_key rb)) (cached_text body) (te_now eb) (te_now ea + 86400) (tw_redis w')"
    using history_keeps [OF assms(1,2) body(1) h(2) assms(4) hold] assms(9) w' by simp
  have rb: "te_redis eb = rd" using history_le [OF h(2)] by simp
  obtain found cl where g: "get_cached_response (te_redis eb) (te_now eb) c (idem_key rb) (tw_redis w') = (found, cl)"
    by fastforce
  have "found = Some (JInt 201, body)" using get_hit [OF assms(1,2) body(1) hb assms(4)] g rb by simp
  then have "create_task eb rb pb (w'\<lparr>tw_jobs := []\<rparr>) =
      (Inr (JSONResponse 201 body [(''Idempotency-Key-Replay'', ''true'')]), w'\<lparr>tw_jobs := [], tw_redis := cl\<rparr>)"
    using g create_cases [OF assms(6,12,8), of eb "w'\<lparr>tw_jobs := []\<rparr>"] by (simp add: replayed_def)
  then have "task_call eb (CreateTask rb pb) w' =
      (Inr (Reply (JSONResponse 201 body [(''Idempotency-Key-Replay'', ''true'')])), w'\<lparr>tw_jobs := [], tw_redis := cl\<rparr>)"
    by (simp add: task_call_def task_respond_def answer_def)
  with body(2) show ?thesis
    by (intro exI [of _ body] exI [of _ "w'\<lparr>tw_jobs := [], tw_redis := cl\<rparr>"] conjI) simp_all
qed

section \<open>A concrete run\<close>

text \<open>Fractions as the text of a time.\<close>

definition demo_iso :: iso_time where
  "demo_iso = \<lparr>it_isoformat = \<lambda>t. py_join ''/'' [str_int (fst (quotient_of t)), str_int (snd (quotient_of t))],
     it_fromisoformat = \<lambda>s. (case py_split CHR ''/'' s of
        [a, b] \<Rightarrow> (case (split_sign a, num_body dec_val 10 b) of
            ((neg, u), Some d) \<Rightarrow> map_option (\<lambda>n. of_int (signed neg n) / of_nat d) (num_body dec_val 10 u)
          | _ \<Rightarrow> None)
      | _ \<Rightarrow> None)\<rparr>"

lemma str_int_slash: "CHR ''/'' \<notin> set (str_int i)"
proof
  assume "CHR ''/'' \<in> set (str_int i)"
  then obtain d where d: "d < 10" "CHR ''/'' = digit_char d"
    using str_nat_digits by (auto simp: str_int_def split: if_splits)
  have "(of_char (digit_char d) :: nat) = 48 + d" using d(1) by (simp add: of_char_digit)
  moreover have "(of_char (CHR ''/'') :: nat) = 47" by simp
  ultimately show False using d(2) by simp
qed

lemma demo_iso_reads: "reads_times demo_iso"
proof -
  have "it_fromisoformat demo_iso (it_isoformat demo_iso q) = Some q" for q
  proof -
    obtain a b where ab: "quotient_of q = (a, b)" by fastforce
    then have b: "0 < b" and q: "q = of_int a / of_int b"
      using quotient_of_denom_pos quotient_of_div by auto
    have s: "py_split CHR ''/'' (py_join ''/'' [str_int a, str_int b]) = [str_int a, str_int b]"
      by (rule py_split_join) (simp_all add: str_int_slash)
    have "num_body dec_val 10 (str_int b) = Some (nat b)" using b by (simp add: str_int_def str_nat_value)
    with ab b q s show ?thesis
      by (simp add: demo_iso_def split_sign_str_int str_nat_value signed_def)
  qed
  then show ?thesis by (simp add: reads_times_def)
qed

definition demo_task_env :: "pyfloat \<Rightarrow> uuid \<Rightarrow> mem_redis task_env" where
  "demo_task_env now i =
     \<lparr>te_redis = mem_ops, te_now = now, te_row_id = i, te_iso = demo_iso, te_js_time = \<lambda>_. ''now'',
      te_servicebus_connection_string = ''sb'', te_bus_connects = True, te_bus_accepts = True\<rparr>"

definition demo_caller :: string where
  "demo_caller = uuid_str 5"

definition demo_task_request :: request where
  "demo_task_request = plain_request ''POST'' ''/''
     [(''x-user-id'', demo_caller), (''idempotency-key'', ''k1'')]"

definition demo_project :: project where
  "demo_project = \<lparr>p_id = 3, p_name = ''p'', p_description = None, p_owner_id = 5, p_is_active = True,
     p_created_at = 0, p_updated_at = 0\<rparr>"

definition demo_task_world :: "mem_redis task_world" where
  "demo_task_world = \<lparr>tw_projects = [demo_project], tw_tasks = [],
     tw_redis = \<lparr>rc_connected = True, rc_server = []\<rparr>,
     tw_bus = \<lparr>sb_client = False, sb_sender = False, sb_topic = []\<rparr>, tw_jobs = []\<rparr>"

definition demo_payload :: task_create where
  "demo_payload = \<lparr>tc_title = ''a'', tc_description = None, tc_priority = MEDIUM, tc_project_id = 3,
     tc_assignee_id = Some 6, tc_due_date = None\<rparr>"

lemma mem_cache_up: "cache_up mem_ops"
  by (simp add: cache_up_def mem_ops_def)

lemma demo_task_caller: "parse_caller_id demo_task_request = Inr 5" "idem_key demo_task_request = ''k1''"
proof -
  have "py_lower ''X-User-Id'' = ''x-user-id''" "py_lower ''x-user-id'' = ''x-user-id''"
    "py_lower ''idempotency-key'' = ''idempotency-key''" "py_lower ''Idempotency-Key'' = ''idempotency-key''"
    by code_simp+
  then show "parse_caller_id demo_task_request = Inr 5" "idem_key demo_task_request = ''k1''"
    by (simp_all add: parse_caller_id_def demo_task_request_def hget_def hget_or_def demo_caller_def idem_key_def)
qed

lemma demo_payload_ok: "TaskCreate demo_payload = Inr demo_payload"
  by code_simp

lemma demo_creation:
  "fst (task_call (demo_task_env 1 7) (CreateTask demo_task_request demo_payload) demo_task_world) =
    Inr (Reply (JSONResponse 201 (TaskResponse (\<lambda>_. ''now'') (new_task (demo_task_env 1 7) 5 demo_payload)) []))"
proof -
  let ?en = "demo_task_env 1 7" and ?w = demo_task_world
  have g: "get_cached_response (te_redis ?en) (te_now ?en) 5 ''k1'' (tw_redis ?w) = (None, tw_redis ?w)"
    by (simp add: get_cached_response_def idempotency_client_def mem_ops_def mem_live_def demo_task_env_def
        demo_task_world_def)
  have "fst (normal_creation ?en 5 demo_payload ''k1'' ?w) =
      Inr (JSONResponse 201 (TaskResponse (te_js_time ?en) (new_task ?en 5 demo_payload)) [])"
    by (simp add: normal_creation_def get_owned_project_def demo_payload_def demo_project_def demo_task_world_def
        scalar_one_or_none_def insert_task_def new_task_def Let_def)
  moreover have "?w\<lparr>tw_jobs := []\<rparr> = ?w" "?w\<lparr>tw_redis := tw_redis ?w\<rparr> = ?w" "te_js_time ?en = (\<lambda>_. ''now'')"
    by (simp_all add: demo_task_world_def demo_task_env_def)
  ultimately have "fst (create_task ?en demo_task_request demo_payload (?w\<lparr>tw_jobs := []\<rparr>)) =
      Inr (JSONResponse 201 (TaskResponse (\<lambda>_. ''now'') (new_task ?en 5 demo_payload)) [])"
    using create_cases [OF demo_task_caller(1) demo_payload_ok, of ?en ?w] g demo_task_caller(2) by simp
  then show ?thesis
    by (auto simp: task_call_def task_respond_def answer_def split: prod.splits sum.splits)
qed

theorem creation_replayed_witness:
  "\<exists>body w''. task_call (demo_task_env 9 8) (CreateTask demo_task_request demo_payload)
       (fold task_step [(demo_task_env 1 7, CreateTask demo_task_request demo_payload),
          (demo_task_env 4 8, DeleteTask demo_task_request 7)] demo_task_world) =
     (Inr (Reply (JSONResponse 201 body [(''Idempotency-Key-Replay'', ''true'')])), w'')"
proof -
  have "task_history mem_ops 0 ((demo_task_env 1 7, CreateTask demo_task_request demo_payload) #
      [(demo_task_env 4 8, DeleteTask demo_task_request 7)] @
      [(demo_task_env 9 8, CreateTask demo_task_request demo_payload)])"
    by (simp add: demo_task_env_def)
  from creation_replayed [OF mem_redis_laws mem_cache_up this _ demo_task_caller(1) demo_task_caller(1) _ _ refl
      demo_creation _ demo_payload_ok refl] demo_task_caller(2)
  show ?thesis by (auto simp: demo_task_env_def)
qed

end
