(* ===== verification/TaskPrivacy.thy ===== *)
theory TaskPrivacy
  imports TaskReplay
begin

text \<open>
  Confidentiality of the task service: what a caller is answered depends only on the rows the caller
  may see. Also the concrete runs for the properties of the task tables.
\<close>

definition seen :: "uuid \<Rightarrow> task list \<Rightarrow> task list" where
  "seen c ts = filter (\<lambda>t. t_creator_id t = c \<or> t_assignee_id t = Some c) ts"

definition same_view :: "uuid \<Rightarrow> 'r task_world \<Rightarrow> 'r task_world \<Rightarrow> bool" where
  "same_view c w v \<longleftrightarrow>
     seen c (tw_tasks w) = seen c (tw_tasks v) \<and>
     own_projects c (tw_projects w) = own_projects c (tw_projects v) \<and>
     tw_redis w = tw_redis v \<and> tw_bus w = tw_bus v \<and> tw_jobs w = tw_jobs v"

definition fresh_row :: "uuid \<Rightarrow> 'r task_world \<Rightarrow> bool" where
  "fresh_row i w \<longleftrightarrow> (\<forall>t\<in>set (tw_tasks w). t_id t \<noteq> i) \<and> (\<forall>p\<in>set (tw_projects w). p_id p \<noteq> i)"

lemma filter_id_cases:
  assumes "distinct (map f xs)"
  shows "(filter (\<lambda>x. f x = i) xs = [] \<and> (\<forall>x\<in>set xs. f x \<noteq> i)) \<or>
    (\<exists>x\<in>set xs. f x = i \<and> filter (\<lambda>x. f x = i) xs = [x])"
proof (cases "\<exists>x\<in>set xs. f x = i")
  case True
  then obtain x where "x \<in> set xs" "f x = i" by blast
  with filter_single [OF assms] show ?thesis by auto
qed (auto simp: filter_empty_conv)

lemma authorized_seen:
  assumes "wf_tasks w"
  shows "get_authorized_task i c own w =
    (case filter (\<lambda>t. t_id t = i) (seen c (tw_tasks w)) of
       [] \<Rightarrow> Inl task_not_found
     | t # _ \<Rightarrow> if own \<and> t_creator_id t \<noteq> c
               then Inl (HTTPException 403 ''Only the task creator can perform this action'' []) else Inr t)"
proof -
  have d: "distinct (map t_id (tw_tasks w))" using assms by (simp add: wf_tasks_def)
  have s: "filter (\<lambda>t. t_id t = i) (seen c (tw_tasks w)) =
      filter (\<lambda>t. t_creator_id t = c \<or> t_assignee_id t = Some c) (filter (\<lambda>t. t_id t = i) (tw_tasks w))"
    by (simp add: seen_def conj_commute)
  from filter_id_cases [OF d, of i] show ?thesis
    unfolding s get_authorized_task_def get_task_or_404_def
    by (elim disjE bexE conjE) (auto simp: scalar_one_or_none_def Let_def)
qed

lemma owned_seen:
  assumes "wf_tasks w"
  shows "get_owned_project i c w =
    (case filter (\<lambda>p. p_id p = i) (own_projects c (tw_projects w)) of
       [] \<Rightarrow> Inl project_not_found | p # _ \<Rightarrow> Inr p)"
proof -
  have d: "distinct (map p_id (tw_projects w))" using assms by (simp add: wf_tasks_def)
  have s: "filter (\<lambda>p. p_id p = i) (own_projects c (tw_projects w)) =
      filter (\<lambda>p. p_owner_id p = c) (filter (\<lambda>p. p_id p = i) (tw_projects w))"
    by (simp add: own_projects_def conj_commute)
  from filter_id_cases [OF d, of i] show ?thesis
    unfolding s get_owned_project_def
    by (elim disjE bexE conjE) (auto simp: scalar_one_or_none_def)
qed

lemma project_seen:
  assumes "wf_tasks w"
  shows "(case get_project_or_404 i w of Inl e \<Rightarrow> Inl e
      | Inr p \<Rightarrow> if p_owner_id p \<noteq> c then Inl project_not_found else Inr p) = get_owned_project i c w"
  by (auto simp: get_project_or_404_def get_owned_project_def split: sum.splits option.splits)

lemma seen_save:
  assumes "distinct (map t_id ts)" "t \<in> set ts" "t_creator_id t = c" "t_id t' = t_id t" "t_creator_id t' = c"
  shows "seen c (save_task now t' ts) = save_task now t' (seen c ts)"
proof -
  have "t_creator_id x = c" if "x \<in> set ts" "t_id x = t_id t" for x
    using that assms by (metis distinct_map inj_onD)
  then show ?thesis
    using assms(4,5) unfolding seen_def save_task_def by (induction ts) auto
qed

lemma seen_delete: "seen c (delete_row i ts) = delete_row i (seen c ts)"
  by (simp add: seen_def delete_row_def conj_commute)

lemma seen_visible: "visible_tasks c i s ts = visible_tasks c i s (seen c ts)"
  unfolding visible_tasks_def seen_def filter_filter by (intro filter_cong) auto

lemma same_view_jobs:
  assumes "same_view c w v"
  shows "same_view c (add_job j w) (add_job j v)" "same_view c (w\<lparr>tw_redis := x\<rparr>) (v\<lparr>tw_redis := x\<rparr>)"
    "same_view c (w\<lparr>tw_jobs := js\<rparr>) (v\<lparr>tw_jobs := js\<rparr>)" "same_view c (run_job en j w) (run_job en j v)"
  using assms by (cases j; simp add: same_view_def)+

section \<open>Requests in two worlds that look alike\<close>

definition agree :: "uuid \<Rightarrow> (http_error + 'a) \<times> 'r task_world \<Rightarrow> (http_error + 'a) \<times> 'r task_world \<Rightarrow> bool" where
  "agree c x y \<longleftrightarrow> fst x = fst y \<and> same_view c (snd x) (snd y)"

lemma agreeI: "same_view c w v \<Longrightarrow> agree c (x, w) (x, v)"
  by (simp add: agree_def)

lemma agree_answer: "agree c (f w) (g v) \<Longrightarrow> agree c (answer h f w) (answer h g v)"
  by (cases "f w"; cases "g v") (auto simp: agree_def answer_def split: sum.splits)

lemma authorized_same:
  "wf_tasks w \<Longrightarrow> wf_tasks v \<Longrightarrow> same_view c w v \<Longrightarrow>
   get_authorized_task i c own w = get_authorized_task i c own v"
  by (simp add: authorized_seen same_view_def)

lemma owned_same:
  "wf_tasks w \<Longrightarrow> wf_tasks v \<Longrightarrow> same_view c w v \<Longrightarrow> get_owned_project i c w = get_owned_project i c v"
  by (simp add: owned_seen same_view_def)

lemma creation_same:
  assumes "wf_tasks w" "wf_tasks v" "same_view c w v" "fresh_row (te_row_id en) w" "fresh_row (te_row_id en) v"
  shows "agree c (normal_creation en c q k w) (normal_creation en c q k v)"
proof (cases "get_owned_project (tc_project_id q) c w")
  case (Inl e)
  with owned_same [OF assms(1-3)] assms(3) show ?thesis by (simp add: normal_creation_def agreeI)
next
  case (Inr p)
  let ?t = "new_task en c q"
  have p: "get_owned_project (tc_project_id q) c v = Inr p" using owned_same [OF assms(1-3)] Inr by simp
  have "insert_task ?t u = Inr (u\<lparr>tw_tasks := tw_tasks u @ [?t]\<rparr>)"
    if "get_owned_project (tc_project_id q) c u = Inr p" "fresh_row (te_row_id en) u" for u :: "'a task_world"
    using owned_cases [OF that(1)] that(2) by (auto simp: insert_task_def fresh_row_def new_task_def list_ex_iff)
  moreover have "same_view c (w\<lparr>tw_tasks := tw_tasks w @ [?t]\<rparr>) (v\<lparr>tw_tasks := tw_tasks v @ [?t]\<rparr>)"
    using assms(3) by (simp add: same_view_def seen_def)
  ultimately show ?thesis
    using Inr p assms(4,5) by (auto simp: normal_creation_def Let_def intro!: agreeI same_view_jobs)
qed

lemma create_same:
  assumes "wf_tasks w" "wf_tasks v" "same_view c w v" "fresh_row (te_row_id en) w" "fresh_row (te_row_id en) v"
    and c: "parse_caller_id r = Inr c"
  shows "agree c (create_task en r p w) (create_task en r p v)"
proof (cases "TaskCreate p")
  case (Inl e)
  with c assms(3) show ?thesis by (simp add: create_task_def as_caller_def agreeI)
next
  case q: (Inr q)
  show ?thesis
  proof (cases "idem_key r = []")
    case True
    with q c creation_same [OF assms(1-5), of q "[]"] show ?thesis
      by (simp add: create_task_def as_caller_def idem_key_def)
  next
    case False
    obtain found cl where g: "get_cached_response (te_redis en) (te_now en) c (idem_key r) (tw_redis w) = (found, cl)"
      by fastforce
    then have g': "get_cached_response (te_redis en) (te_now en) c (idem_key r) (tw_redis v) = (found, cl)"
      using assms(3) by (simp add: same_view_def)
    have "agree c (normal_creation en c q (idem_key r) (w\<lparr>tw_redis := cl\<rparr>))
        (normal_creation en c q (idem_key r) (v\<lparr>tw_redis := cl\<rparr>))"
      by (rule creation_same) (use assms in \<open>auto simp: wf_tasks_def fresh_row_def intro: same_view_jobs\<close>)
    with g g' same_view_jobs(2) [OF assms(3), of cl] show ?thesis
      unfolding create_cases [OF c q False] by (auto intro: agreeI split: option.split)
  qed
qed

lemma update_same:
  assumes "wf_tasks w" "wf_tasks v" "same_view c w v" and c: "parse_caller_id r = Inr c"
  shows "agree c (update_task en r i p w) (update_task en r i p v)"
proof (cases "TaskUpdate p")
  case (Inl e)
  with c assms(3) show ?thesis by (simp add: update_task_def as_caller_def agreeI)
next
  case q: (Inr q)
  show ?thesis
  proof (cases "get_authorized_task i c True w")
    case e: (Inl e)
    have "get_authorized_task i c True v = Inl e" using authorized_same [OF assms(1-3)] e by simp
    with e q c assms(3) show ?thesis by (simp add: update_task_def as_caller_def agreeI)
  next
    case t: (Inr t)
    have t': "get_authorized_task i c True v = Inr t" using authorized_same [OF assms(1-3)] t by simp
    note tw = authorized_cases [OF t] and tv = authorized_cases [OF t']
    show ?thesis
    proof (cases "apply_task_update q t")
      case (Inl e)
      with q c t t' assms(3) show ?thesis by (simp add: update_task_def as_caller_def agreeI)
    next
      case t1: (Inr t1)
      note k = apply_update_keys [OF t1]
      have "same_view c (w\<lparr>tw_tasks := save_task (te_now en) t1 (tw_tasks w)\<rparr>)
          (v\<lparr>tw_tasks := save_task (te_now en) t1 (tw_tasks v)\<rparr>)"
        using assms tw tv k seen_save [of "tw_tasks w" t c t1] seen_save [of "tw_tasks v" t c t1]
        by (simp add: same_view_def wf_tasks_def)
      with q c t t' t1 show ?thesis
        by (auto simp: update_task_def as_caller_def Let_def intro!: agreeI same_view_jobs)
    qed
  qed
qed

lemma delete_same:
  assumes "wf_tasks w" "wf_tasks v" "same_view c w v" and c: "parse_caller_id r = Inr c"
  shows "agree c (delete_task en r i w) (delete_task en r i v)"
proof -
  have "same_view c (w\<lparr>tw_tasks := delete_row j (tw_tasks w)\<rparr>) (v\<lparr>tw_tasks := delete_row j (tw_tasks v)\<rparr>)" for j
    using assms(3) by (simp add: same_view_def seen_delete)
  with c assms(3) authorized_same [OF assms(1-3), of i True] show ?thesis
    by (auto simp: delete_task_def as_caller_def Let_def intro!: agreeI same_view_jobs split: sum.split)
qed

lemma read_same:
  assumes "wf_tasks w" "wf_tasks v" "same_view c w v" and c: "parse_caller_id r = Inr c"
  shows "agree c (get_task en r i w) (get_task en r i v)"
    and "agree c (list_tasks en r j s l cu w) (list_tasks en r j s l cu v)"
    and "agree c (list_projects en r l cu w) (list_projects en r l cu v)"
    and "agree c (get_project en r i w) (get_project en r i v)"
proof -
  show "agree c (get_task en r i w) (get_task en r i v)"
    using authorized_same [OF assms(1-3), of i False] c assms(3)
    by (auto simp: get_task_def as_caller_def intro: agreeI split: sum.split)
  have "visible_tasks c j s (tw_tasks w) = visible_tasks c j s (tw_tasks v)"
    using assms(3) seen_visible [of c j s] by (metis same_view_def)
  with c assms(3) show "agree c (list_tasks en r j s l cu w) (list_tasks en r j s l cu v)"
    by (auto simp: list_tasks_def as_caller_def intro: agreeI split: option.split)
  have "active_projects c ps = filter p_is_active (own_projects c ps)" for ps
    by (simp add: active_projects_def own_projects_def conj_commute)
  with c assms(3) show "agree c (list_projects en r l cu w) (list_projects en r l cu v)"
    by (auto simp: list_projects_def as_caller_def same_view_def agree_def split: option.split)
  have g: "get_project en r i u = (case get_owned_project i c u of
      Inl e \<Rightarrow> (Inl e, u) | Inr p \<Rightarrow> (Inr (ProjectResponse (te_js_time en) p), u))" for u :: "'a task_world"
    using c by (auto simp: get_project_def as_caller_def get_project_or_404_def get_owned_project_def
        split: sum.split option.split)
  show "agree c (get_project en r i w) (get_project en r i v)"
    unfolding g using owned_same [OF assms(1-3), of i] assms(3) by (auto intro: agreeI split: sum.split)
qed

lemma create_project_same:
  assumes "same_view c w v" "fresh_row (te_row_id en) w" "fresh_row (te_row_id en) v" "parse_caller_id r = Inr c"
  shows "agree c (create_project en r p w) (create_project en r p v)"
  using assms
  by (auto simp: create_project_def as_caller_def fresh_row_def list_ex_iff same_view_def agree_def own_projects_def
      Let_def split: sum.split)

lemma route_same:
  assumes "wf_tasks w" "wf_tasks v" "same_view c w v" "fresh_row (te_row_id en) w" "fresh_row (te_row_id en) v"
    and "parse_caller_id (op_request op) = Inr c" "\<forall>r i. op \<noteq> DeleteProject r i"
  shows "agree c (task_route en op w) (task_route en op v)"
  using assms
  by (cases op) (auto intro!: agree_answer create_same update_same delete_same read_same create_project_same)

lemma jobs_same: "same_view c w v \<Longrightarrow> same_view c (fold (run_job en) js w) (fold (run_job en) js v)"
  by (induction js arbitrary: w v) (simp_all add: same_view_jobs)

lemma respond_same:
  assumes "same_view c w v" "agree c (f (w\<lparr>tw_jobs := []\<rparr>)) (f (v\<lparr>tw_jobs := []\<rparr>))"
  shows "agree c (task_respond en f w) (task_respond en f v)"
proof -
  obtain x w1 where f: "f (w\<lparr>tw_jobs := []\<rparr>) = (x, w1)" by fastforce
  obtain y v1 where g: "f (v\<lparr>tw_jobs := []\<rparr>) = (y, v1)" by fastforce
  have s: "x = y" "same_view c w1 v1" using assms(2) f g by (simp_all add: agree_def)
  have "same_view c (fold (run_job en) (tw_jobs w1) (w1\<lparr>tw_jobs := []\<rparr>))
      (fold (run_job en) (tw_jobs v1) (v1\<lparr>tw_jobs := []\<rparr>))"
    using jobs_same [OF same_view_jobs(3) [OF s(2), of "[]"]] s(2) by (simp add: same_view_def)
  with s assms(1) show ?thesis
    by (cases y) (simp_all add: task_respond_def f g agree_def same_view_def)
qed

text \<open>
  C27: Confidentiality. Take two states of the service in which a caller created or is assigned the
  same tasks and owns the same projects (with the same cache and bus), whatever else is in the
  tables. Every request of that caller except the deletion of a project gets the same answer in both,
  errors included, and leaves states that again look alike to the caller. So no answer tells whether
  a task or project of somebody else exists.
\<close>
theorem task_confidential:
  assumes "wf_tasks w" "wf_tasks v" "same_view c w v" "fresh_row (te_row_id en) w" "fresh_row (te_row_id en) v"
    and "parse_caller_id (op_request op) = Inr c" "\<forall>r i. op \<noteq> DeleteProject r i"
  shows "fst (task_call en op w) = fst (task_call en op v) \<and>
    same_view c (snd (task_call en op w)) (snd (task_call en op v))"
proof -
  have "agree c (task_route en op (w\<lparr>tw_jobs := []\<rparr>)) (task_route en op (v\<lparr>tw_jobs := []\<rparr>))"
    using assms by (intro route_same) (auto simp: wf_tasks_def fresh_row_def intro: same_view_jobs)
  from respond_same [OF assms(3) this, of en] show ?thesis by (simp add: task_call_def agree_def)
qed

text \<open>
  The exception. The deletion of a project tells a stranger whether the project exists: 403 if it
  does, 404 if not, where the route that reads a project answers 404 in both cases.
\<close>
theorem delete_project_discloses:
  assumes "wf_tasks w" "parse_caller_id r = Inr c" "\<forall>p\<in>set (tw_projects w). p_id p = i \<longrightarrow> p_owner_id p \<noteq> c"
  shows "fst (task_call en (DeleteProject r i) w) =
      Inl (if i \<in> p_id ` set (tw_projects w) then HTTPException 403 ''Not the project owner'' [] else project_not_found) \<and>
    fst (task_call en (GetProject r i) w) = Inl project_not_found"
proof -
  have d: "distinct (map p_id (tw_projects w))" using assms(1) by (simp add: wf_tasks_def)
  from filter_id_cases [OF d, of i] show ?thesis
    using assms(2,3)
    by (auto simp: task_call_def task_respond_def answer_def delete_project_def get_project_def as_caller_def
        get_project_or_404_def scalar_one_or_none_def)
qed

section \<open>Concrete runs\<close>

definition demo_task :: "uuid \<Rightarrow> pyfloat \<Rightarrow> task" where
  "demo_task i t = \<lparr>t_id = i, t_title = ''a'', t_description = None, t_status = TODO, t_priority = LOW,
     t_project_id = 3, t_creator_id = 5, t_assignee_id = Some 6, t_due_date = None, t_created_at = t,
     t_updated_at = t\<rparr>"

definition demo_tasks :: "mem_redis task_world" where
  "demo_tasks = demo_task_world\<lparr>tw_tasks := [demo_task 21 1, demo_task 22 2, demo_task 23 3]\<rparr>"

text \<open>A request of user 6, who is the assignee.\<close>

definition demo_other_request :: request where
  "demo_other_request = plain_request ''DELETE'' ''/'' [(''x-user-id'', uuid_str 6)]"

lemma demo_other_caller: "parse_caller_id demo_other_request = Inr 6"
proof -
  have "py_lower ''X-User-Id'' = ''x-user-id''" "py_lower ''x-user-id'' = ''x-user-id''" by code_simp+
  then show ?thesis by (simp add: parse_caller_id_def demo_other_request_def hget_def)
qed

lemma demo_tasks_wf: "wf_tasks demo_tasks" "wf_tasks demo_task_world"
  by (simp_all add: wf_tasks_def demo_tasks_def demo_task_world_def demo_task_def demo_project_def)

lemma demo_tasks_clean: "\<forall>t\<in>set (tw_tasks demo_tasks). clean_task t"
proof -
  have "strip_html ''a'' = ''a''" by code_simp
  then show ?thesis by (simp add: demo_tasks_def demo_task_world_def demo_task_def clean_task_def)
qed

theorem task_ownership_witness:
  "length (own_tasks 5 (tw_tasks (fold task_step [(demo_task_env 4 8, DeleteTask demo_other_request 21)] demo_tasks))) = 3"
proof -
  have "\<forall>(en, op)\<in>set [(demo_task_env 4 8, DeleteTask demo_other_request 21)]. parse_caller_id (op_request op) \<noteq> Inr 5"
    by (simp add: demo_other_caller)
  from task_ownership [OF demo_tasks_wf(1) this] show ?thesis
    by (simp add: own_tasks_def demo_tasks_def demo_task_def)
qed

theorem stored_texts_witness:
  "wf_tasks (fold task_step [(demo_task_env 4 8, CreateTask demo_task_request demo_payload)] demo_tasks)"
  using stored_texts [OF demo_tasks_wf(1) demo_tasks_clean] by blast

theorem pages_lose_tasks_witness:
  "follow_pages (task_pages (demo_task_env 4 8) demo_task_request None None 1 demo_tasks) 4 [] =
    map (TaskResponse (\<lambda>_. ''now'')) [demo_task 23 3, demo_task 21 1]"
proof -
  have "order_desc task_key (visible_tasks 5 None None (tw_tasks demo_tasks)) =
      [demo_task 23 3, demo_task 22 2, demo_task 21 1]"
    by (simp add: order_desc_def visible_tasks_def demo_tasks_def demo_task_def desc_key_def task_key_def)
  moreover have "reads_times (te_iso (demo_task_env 4 8))" "te_js_time (demo_task_env 4 8) = (\<lambda>_. ''now'')"
    by (simp_all add: demo_task_env_def demo_iso_reads)
  moreover have "distinct (map t_id (tw_tasks demo_tasks))" using demo_tasks_wf(1) by (simp add: wf_tasks_def)
  moreover have "length (tw_tasks demo_tasks) < 4" by (simp add: demo_tasks_def)
  ultimately show ?thesis
    using pages_lose_tasks [OF demo_task_caller(1), of 1 "demo_task_env 4 8" demo_tasks 4 None None]
    by (simp add: nths_Cons)
qed

lemma demo_delete_refused:
  "fst (task_call (demo_task_env 4 8) (DeleteProject demo_other_request 3) demo_tasks) =
    Inl (HTTPException 403 ''Not the project owner'' [])"
  by (simp add: task_call_def task_respond_def answer_def delete_project_def as_caller_def demo_other_caller
      get_project_or_404_def scalar_one_or_none_def demo_tasks_def demo_task_world_def demo_project_def)

theorem failed_request_inert_witness:
  "tw_bus (snd (task_call (demo_task_env 4 8) (DeleteProject demo_other_request 3) demo_tasks)) = tw_bus demo_tasks"
  using failed_request_inert [of "demo_task_env 4 8" "DeleteProject demo_other_request 3" demo_tasks
      "HTTPException 403 ''Not the project owner'' []" "snd (task_call (demo_task_env 4 8) (DeleteProject demo_other_request 3) demo_tasks)"]
    demo_delete_refused by (metis prod.collapse)

theorem task_confidential_witness:
  "fst (task_call (demo_task_env 4 8) (GetTask (demo_other_request\<lparr>req_path := ''/x''\<rparr>) 21)
      (demo_tasks\<lparr>tw_tasks := [demo_task 21 1, (demo_task 25 1)\<lparr>t_assignee_id := None\<rparr>]\<rparr>)) =
   fst (task_call (demo_task_env 4 8) (GetTask (demo_other_request\<lparr>req_path := ''/x''\<rparr>) 21)
      (demo_tasks\<lparr>tw_tasks := [demo_task 21 1]\<rparr>))"
proof -
  let ?w = "demo_tasks\<lparr>tw_tasks := [demo_task 21 1, (demo_task 25 1)\<lparr>t_assignee_id := None\<rparr>]\<rparr>"
    and ?v = "demo_tasks\<lparr>tw_tasks := [demo_task 21 1]\<rparr>" and ?op = "GetTask (demo_other_request\<lparr>req_path := ''/x''\<rparr>) 21"
  have "wf_tasks ?w" "wf_tasks ?v" "same_view 6 ?w ?v"
    by (simp_all add: wf_tasks_def same_view_def seen_def demo_tasks_def demo_task_world_def demo_task_def demo_project_def)
  moreover have "fresh_row (te_row_id (demo_task_env 4 8)) ?w" "fresh_row (te_row_id (demo_task_env 4 8)) ?v"
    by (simp_all add: fresh_row_def demo_task_env_def demo_tasks_def demo_task_world_def demo_task_def demo_project_def)
  moreover have "parse_caller_id (op_request ?op) = Inr 6"
    using demo_other_caller by (simp add: parse_caller_id_def)
  ultimately show ?thesis using task_confidential [of ?w ?v 6 "demo_task_env 4 8" ?op] by simp
qed

theorem delete_project_discloses_witness:
  "fst (task_call (demo_task_env 4 8) (DeleteProject demo_other_request 4) demo_tasks) = Inl project_not_found"
  using delete_project_discloses [OF demo_tasks_wf(1) demo_other_caller, of 4 "demo_task_env 4 8"]
  by (simp add: demo_tasks_def demo_task_world_def demo_project_def)

end
