(* ===== verification/Notify.thy ===== *)
theory Notify
  imports Consumer TaskPrivacy
begin

text \<open>
  Properties of the notification service, and of the task service and the notification service
  together: how a message is settled, and which streams hear of a task.
\<close>

section \<open>Targets\<close>

lemma collect_targets_hashed:
  "(\<exists>e. collect_targets acc ids = Inl e) \<longleftrightarrow> (\<exists>i\<in>set ids. truthy i \<and> \<not> hashable i)"
  by (induction acc ids rule: collect_targets.induct) auto

lemma collect_targets_texts:
  "collect_targets (map JStr vs) (map JStr us) =
     Inr (map JStr (fold (\<lambda>u acc. if u = [] \<or> u \<in> set acc then acc else acc @ [u]) us vs))"
proof (induction us arbitrary: vs)
  case (Cons u us)
  have "list_ex (py_eq (JStr u)) (map JStr vs) \<longleftrightarrow> u \<in> set vs"
    by (auto simp: list_ex_iff py_eq_def json_numeric_def)
  then show ?case using Cons [of vs] Cons [of "vs @ [u]"] by (simp add: truthy_def hashable_def)
qed simp

lemma text_targets_texts [simp]: "text_targets (map JStr us) = us"
  by (induction us) (simp_all add: text_targets_def)

section \<open>Settlement\<close>

text \<open>The messages a consumer can work through.\<close>

definition ids_hashable :: "json \<Rightarrow> bool" where
  "ids_hashable data =
     (case data of
        JObj kvs \<Rightarrow>
          list_all (\<lambda>k. case map_of kvs k of Some v \<Rightarrow> truthy v \<longrightarrow> hashable v | None \<Rightarrow> True)
            [''creator_id'', ''assignee_id'']
      | _ \<Rightarrow> False)"

definition readable :: "string \<Rightarrow> bool" where
  "readable body =
     (case json_loads_bytes body of
        Some (JObj kvs) \<Rightarrow>
          (let event_type = (case map_of kvs ''event_type'' of Some v \<Rightarrow> v | None \<Rightarrow> JStr ''unknown'');
               data = (case map_of kvs ''data'' of Some v \<Rightarrow> v | None \<Rightarrow> JObj [])
           in hashable event_type \<and>
              (event_type \<in> set [JStr ''task.created'', JStr ''task.status_changed'', JStr ''task.deleted'']
               \<longrightarrow> ids_hashable data))
      | _ \<Rightarrow> False)"

lemma dict_get_simps [simp]:
  "dict_get k d (JObj kvs) = Inr (case map_of kvs k of Some v \<Rightarrow> v | None \<Rightarrow> d)"
  "\<forall>kvs. j \<noteq> JObj kvs \<Longrightarrow> dict_get k d j = Inl ''AttributeError''"
  by (auto simp: dict_get_def split: json.splits)

lemma not_truthy_null [simp]: "\<not> truthy JNull"
  by (simp add: truthy_def)

lemma stakeholders_ok: "(\<exists>ts. stakeholders data = Inr ts) \<longleftrightarrow> ids_hashable data"
proof (cases "\<exists>kvs. data = JObj kvs")
  case True
  then obtain kvs where d: "data = JObj kvs" ..
  show ?thesis
    unfolding stakeholders_def d ids_hashable_def dict_get_simps
    by (auto simp: hashable_def split: option.splits)
qed (auto simp: stakeholders_def ids_hashable_def split: json.splits)

lemma created_ok: "(\<exists>ts ns. on_task_created fr data = (Inr ts, ns)) \<longleftrightarrow> ids_hashable data"
proof (cases "\<exists>kvs. data = JObj kvs")
  case True
  then obtain kvs where d: "data = JObj kvs" ..
  show ?thesis
    unfolding on_task_created_def d ids_hashable_def dict_get_simps
    by (auto simp: hashable_def split: option.splits)
qed (auto simp: on_task_created_def ids_hashable_def split: json.splits)

lemma find_handler_cases:
  "find_handler fr et =
     (if \<not> hashable et then Inl ''TypeError''
      else if et = JStr ''task.created'' then Inr (Some (on_task_created fr))
      else if et = JStr ''task.status_changed'' then Inr (Some on_task_status_changed)
      else if et = JStr ''task.deleted'' then Inr (Some on_task_deleted)
      else Inr None)"
  by (cases et) (simp_all add: find_handler_def event_handlers_def hashable_def)

definition runs_handler :: "(pyfloat \<Rightarrow> string) \<Rightarrow> json \<Rightarrow> json \<Rightarrow> ((string + json list) \<times> notification list) option" where
  "runs_handler fr et data =
     (case find_handler fr et of
        Inl _ \<Rightarrow> None
      | Inr h \<Rightarrow> Some (case h of Some f \<Rightarrow> f data | None \<Rightarrow> (Inr [], [])))"

lemma runs_handler_ok:
  "(\<exists>ts ns. runs_handler fr et data = Some (Inr ts, ns)) \<longleftrightarrow>
     hashable et \<and>
     (et \<in> set [JStr ''task.created'', JStr ''task.status_changed'', JStr ''task.deleted''] \<longrightarrow> ids_hashable data)"
  using created_ok [of fr data] stakeholders_ok [of data]
  by (auto simp: runs_handler_def find_handler_cases on_task_status_changed_def on_task_deleted_def)

lemma try_message_run:
  assumes "json_loads_bytes body = Some (JObj kvs)"
    and "et = (case map_of kvs ''event_type'' of Some v \<Rightarrow> v | None \<Rightarrow> JStr ''unknown'')"
    and "data = (case map_of kvs ''data'' of Some v \<Rightarrow> v | None \<Rightarrow> JObj [])"
  shows "try_message fr complete_ok body w =
     (case runs_handler fr et data of
        None \<Rightarrow> (et, Some ''TypeError'', w)
      | Some (Inl e, sent) \<Rightarrow> (et, Some e, w\<lparr>cs_sent := cs_sent w @ sent\<rparr>)
      | Some (Inr ts, sent) \<Rightarrow>
          (if \<not> complete_ok then (et, Some ''ServiceBusError'', w\<lparr>cs_sent := cs_sent w @ sent\<rparr>)
           else (et, None, w\<lparr>cs_sent := cs_sent w @ sent, cs_settled := cs_settled w @ [Completed],
                   cs_metrics := cs_metrics w @ [(py_str fr et, ''success'')],
                   cs_broadcaster := broadcast fr et data ts (cs_broadcaster w)\<rparr>)))"
proof -
  have g: "dict_get ''event_type'' (JStr ''unknown'') (JObj kvs) = Inr et" "dict_get ''data'' (JObj []) (JObj kvs) = Inr data"
    using assms(2,3) by simp_all
  have e: "find_handler fr et = Inl e \<Longrightarrow> e = ''TypeError''" for e
    by (auto simp: find_handler_cases split: if_splits)
  show ?thesis
  proof (cases "find_handler fr et")
    case (Inr h)
    obtain r sent where h: "(case h of Some f \<Rightarrow> f data | None \<Rightarrow> (Inr [], [])) = (r, sent)"
      by (cases "case h of Some f \<Rightarrow> f data | None \<Rightarrow> (Inr [], [])")
    show ?thesis
      unfolding try_message_def assms(1) option.case g sum.case prod.case runs_handler_def Inr h
      by (cases r) (simp_all add: count_event_def settle_message_def Let_def)
  qed (use e in \<open>simp add: try_message_def assms(1) g runs_handler_def del: dict_get_simps\<close>)
qed

lemma try_message_fails:
  "json_loads_bytes body = None \<or> (\<exists>b. json_loads_bytes body = Some b \<and> (\<forall>kvs. b \<noteq> JObj kvs)) \<Longrightarrow>
   \<exists>e. try_message fr complete_ok body w = (JStr ''unknown'', Some e, w)"
  unfolding try_message_def by auto

lemma readable_run:
  assumes "json_loads_bytes body = Some (JObj kvs)"
    and "et = (case map_of kvs ''event_type'' of Some v \<Rightarrow> v | None \<Rightarrow> JStr ''unknown'')"
    and "data = (case map_of kvs ''data'' of Some v \<Rightarrow> v | None \<Rightarrow> JObj [])"
  shows "readable body \<longleftrightarrow> (\<exists>ts ns. runs_handler fr et data = Some (Inr ts, ns))"
  unfolding runs_handler_ok readable_def assms(1) assms(2,3) [symmetric] by (simp add: Let_def assms(2,3))

text \<open>
  C34: Every message is settled exactly once, whatever its bytes are, as long as abandoning works: no
  exception leaves \<^verbatim>\<open>_process_message\<close>, the metrics gain one success or one failure, a message is
  completed exactly when it can be read and the bus accepts the completion, and an abandoned one
  touches no event stream.
\<close>
theorem message_settled_once:
  assumes "process_message fr complete_ok True body w = (e, w')"
  shows "e = None \<and>
         (\<exists>label. if complete_ok \<and> readable body
             then cs_settled w' = cs_settled w @ [Completed] \<and> cs_metrics w' = cs_metrics w @ [(label, ''success'')]
             else cs_settled w' = cs_settled w @ [Abandoned] \<and> cs_metrics w' = cs_metrics w @ [(label, ''failure'')] \<and>
                  cs_broadcaster w' = cs_broadcaster w)"
proof (cases "\<exists>kvs. json_loads_bytes body = Some (JObj kvs)")
  case True
  then obtain kvs where kvs: "json_loads_bytes body = Some (JObj kvs)" ..
  let ?et = "case map_of kvs ''event_type'' of Some v \<Rightarrow> v | None \<Rightarrow> JStr ''unknown''"
  let ?data = "case map_of kvs ''data'' of Some v \<Rightarrow> v | None \<Rightarrow> JObj []"
  note r = try_message_run [OF kvs refl refl] readable_run [OF kvs refl refl, of fr]
  show ?thesis
    using assms unfolding process_message_def r
    by (cases "runs_handler fr ?et ?data")
       (auto simp: count_event_def settle_message_def split: prod.splits sum.splits if_splits)
next
  case False
  then have f: "json_loads_bytes body = None \<or> (\<exists>b. json_loads_bytes body = Some b \<and> (\<forall>kvs. b \<noteq> JObj kvs))"
    by (cases "json_loads_bytes body") auto
  have "\<not> readable body" using False by (auto simp: readable_def split: option.splits json.splits)
  moreover obtain e' where "try_message fr complete_ok body w = (JStr ''unknown'', Some e', w)"
    using try_message_fails [OF f] by blast
  ultimately show ?thesis
    using assms by (auto simp: process_message_def count_event_def settle_message_def)
qed

section \<open>From the task service to the streams\<close>

text \<open>The events of a task.\<close>

definition task_event :: "task \<Rightarrow> string \<Rightarrow> json \<Rightarrow> bool" where
  "task_event t ev data \<longleftrightarrow>
     (ev, data) = (''task.created'', created_event t) \<or>
     (\<exists>s c. (ev, data) = (''task.status_changed'', status_event s c t)) \<or>
     (ev, data) = (''task.deleted'', deleted_event t)"

definition stakeholder_texts :: "task \<Rightarrow> string set" where
  "stakeholder_texts t = uuid_str ` insert (t_creator_id t) (set_option (t_assignee_id t))"

definition event_document :: "string \<Rightarrow> json \<Rightarrow> json" where
  "event_document ev data = JObj [(''event_type'', JStr ev), (''data'', data)]"

lemma task_event_plain: "task_event t ev data \<Longrightarrow> json_plain (event_document ev data)"
  by (auto simp: task_event_def event_document_def created_event_def status_event_def deleted_event_def
      uuid_opt_def split: option.splits)

lemma event_targets:
  assumes "task_event t ev data"
  shows "\<exists>us ns. runs_handler fr (JStr ev) data = Some (Inr (map JStr us), ns) \<and>
           distinct us \<and> set us = stakeholder_texts t"
proof -
  let ?c = "uuid_str (t_creator_id t)" and ?a = "uuid_opt (t_assignee_id t)"
  have pair: "\<exists>us. collect_targets [] xs = Inr (map JStr us) \<and> distinct us \<and> set us = stakeholder_texts t"
    if xs: "xs = [?a, JStr ?c] \<or> xs = [JStr ?c, ?a]" for xs
  proof (cases "t_assignee_id t")
    case None
    then show ?thesis using xs
      by (auto simp: uuid_opt_def stakeholder_texts_def truthy_def hashable_def intro!: exI [of _ "[?c]"])
  next
    case (Some a)
    have "xs = map JStr [uuid_str a, ?c] \<or> xs = map JStr [?c, uuid_str a]"
      using xs Some by (simp add: uuid_opt_def)
    then obtain us where us: "xs = map JStr us" "us = [uuid_str a, ?c] \<or> us = [?c, uuid_str a]" by blast
    let ?r = "fold (\<lambda>u acc. if u = [] \<or> u \<in> set acc then acc else acc @ [u]) us []"
    have "collect_targets [] xs = Inr (map JStr ?r)" using collect_targets_texts [of "[]" us] us(1) by simp
    moreover have "distinct ?r \<and> set ?r = stakeholder_texts t" 
      using us(2) Some by (auto simp: stakeholder_texts_def split: if_splits)
    ultimately show ?thesis by blast
  qed
  obtain us vs where us: "collect_targets [] [?a, JStr ?c] = Inr (map JStr us)" "distinct us" "set us = stakeholder_texts t"
    and vs: "collect_targets [] [JStr ?c, ?a] = Inr (map JStr vs)" "distinct vs" "set vs = stakeholder_texts t"
    using pair [of "[?a, JStr ?c]"] pair [of "[JStr ?c, ?a]"] by blast
  note route = runs_handler_def find_handler_cases hashable_def on_task_created_def on_task_status_changed_def
    on_task_deleted_def stakeholders_def
  have "\<exists>ns. runs_handler fr (JStr ''task.created'') (created_event t) = Some (Inr (map JStr us), ns)"
    using us(1) by (simp add: route created_event_def del: collect_targets.simps)
  moreover have "\<exists>ns. runs_handler fr (JStr ''task.status_changed'') (status_event st u t) = Some (Inr (map JStr vs), ns)" for st u
    using vs(1) by (simp add: route status_event_def del: collect_targets.simps)
  moreover have "\<exists>ns. runs_handler fr (JStr ''task.deleted'') (deleted_event t) = Some (Inr (map JStr vs), ns)"
    using vs(1) by (simp add: route deleted_event_def del: collect_targets.simps)
  ultimately show ?thesis using assms us(2,3) vs(2,3) unfolding task_event_def by blast
qed

lemma event_processed:
  assumes ev: "task_event t ev data"
    and msg: "process_message fr True abandon_ok (json_dumps gr (event_document ev data)) s = (e, s')"
  shows "queue_of u c (cs_broadcaster s') =
     (if u \<in> stakeholder_texts t then map_option (offer (event_payload fr (JStr ev) data)) (queue_of u c (cs_broadcaster s))
      else queue_of u c (cs_broadcaster s))"
proof -
  obtain us ns where us: "runs_handler fr (JStr ev) data = Some (Inr (map JStr us), ns)" "distinct us"
      "set us = stakeholder_texts t"
    using event_targets [OF ev] by blast
  have "json_loads_bytes (json_dumps gr (event_document ev data)) = Some (event_document ev data)"
    by (rule json_loads_bytes_dumps [OF task_event_plain [OF ev]])
  from try_message_run [OF this [unfolded event_document_def] refl refl, of fr True s] msg us(1)
  have "cs_broadcaster s' = broadcast fr (JStr ev) data (map JStr us) (cs_broadcaster s)"
    by (auto simp: process_message_def event_document_def)
  moreover have "filter (\<lambda>x. x = u) us = (if u \<in> set us then [u] else [])"
    using us(2) filter_single [of "\<lambda>x. x" us u] by (auto simp: filter_empty_conv)
  ultimately show ?thesis using us(3) by (simp add: queue_of_broadcast option.map_id0)
qed

text \<open>The jobs and the messages of one request.\<close>

lemma creation_events:
  assumes "normal_creation en c q k w = (x, w')" "tw_jobs w = []" "PublishEvent ev data \<in> set (tw_jobs w')"
  shows "\<exists>t\<in>set (tw_tasks w'). t_creator_id t = c \<and> task_event t ev data"
  using assms
  by (auto simp: normal_creation_def Let_def task_event_def new_task_def dest!: insert_task_cases
      split: sum.splits if_splits)

lemma refreshed_saved:
  assumes "t \<in> set ts" "t_id t' = t_id t"
  shows "refreshed now t t' \<in> set (save_task now t' ts)"
proof -
  have "refreshed now t t' = (if t_id t = t_id t' then (if t = t' then t' else t'\<lparr>t_updated_at := now\<rparr>) else t)"
    using assms(2) by (simp add: refreshed_def)
  then show ?thesis using assms(1) unfolding save_task_def by auto
qed

lemma route_events:
  assumes r: "task_route en op w = (Inr x, w')" "tw_jobs w = []" and j: "PublishEvent ev data \<in> set (tw_jobs w')"
  shows "\<exists>t\<in>set (tw_tasks w) \<union> set (tw_tasks w').
           parse_caller_id (op_request op) = Inr (t_creator_id t) \<and> task_event t ev data"
proof (cases op)
  case (CreateTask r p)
  obtain c where c: "parse_caller_id r = Inr c"
    using assms CreateTask by (auto simp: answer_def create_task_def as_caller_def split: sum.splits)
  obtain q where q: "TaskCreate p = Inr q"
    using assms CreateTask c by (auto simp: answer_def create_task_def as_caller_def split: sum.splits)
  obtain found cl where f: "get_cached_response (te_redis en) (te_now en) c (hget_or (req_headers r) ''Idempotency-Key'' [])
      (tw_redis w) = (found, cl)" by fastforce
  obtain y k v where "normal_creation en c q k v = (y, w')" "tw_jobs v = []"
    using r j CreateTask c q f
    by (auto simp: answer_def create_task_def as_caller_def Let_def split: prod.splits sum.splits if_splits option.splits)
  from creation_events [OF this j] show ?thesis using CreateTask c by auto
next
  case (UpdateTask r i p)
  then obtain c q t t1 where u: "parse_caller_id r = Inr c" "get_authorized_task i c True w = Inr t"
      "apply_task_update q t = Inr t1" "tw_tasks w' = save_task (te_now en) t1 (tw_tasks w)"
      "(ev, data) = (''task.status_changed'', status_event (t_status t) c (refreshed (te_now en) t t1))"
    using r j
    by (auto simp: answer_def update_task_def as_caller_def Let_def add_job_def split: prod.splits sum.splits if_splits)
  have t: "t \<in> set (tw_tasks w)" "t_creator_id t = c" using authorized_cases [OF u(2)] by auto
  have "refreshed (te_now en) t t1 \<in> set (tw_tasks w')" "t_creator_id (refreshed (te_now en) t t1) = c"
    using refreshed_saved [OF t(1)] apply_update_keys [OF u(3)] u(4) t(2) by (auto simp: refreshed_def)
  then show ?thesis using u(1,5) UpdateTask by (auto simp: task_event_def)
next
  case (DeleteTask r i)
  then obtain c t where u: "parse_caller_id r = Inr c" "get_authorized_task i c True w = Inr t"
      "(ev, data) = (''task.deleted'', deleted_event t)"
    using r j by (auto simp: answer_def delete_task_def as_caller_def Let_def add_job_def split: prod.splits sum.splits)
  then show ?thesis using authorized_cases [OF u(2)] DeleteTask by (auto simp: task_event_def)
qed (use r j in \<open>auto simp: answer_def list_tasks_def get_task_def create_project_def list_projects_def
      get_project_def delete_project_def as_caller_def Let_def split: prod.splits sum.splits option.splits if_splits\<close>)

lemma publish_topic:
  "\<exists>ms. sb_topic (publish_event en ev data b) = sb_topic b @ ms \<and>
     (\<forall>m\<in>set ms. bm_body m = json_dumps (\<lambda>_. []) (event_document ev data))"
  by (auto simp: publish_event_def get_sender_def reset_sender_def Let_def event_document_def split: sum.splits)

lemma jobs_topic:
  "\<exists>ms. sb_topic (tw_bus (fold (run_job en) js w)) = sb_topic (tw_bus w) @ ms \<and>
     (\<forall>m\<in>set ms. \<exists>ev data. PublishEvent ev data \<in> set js \<and>
        bm_body m = json_dumps (\<lambda>_. []) (event_document ev data))"
proof (induction js arbitrary: w)
  case (Cons j js)
  obtain as where as: "sb_topic (tw_bus (run_job en j w)) = sb_topic (tw_bus w) @ as"
      "\<forall>m\<in>set as. \<exists>ev data. j = PublishEvent ev data \<and> bm_body m = json_dumps (\<lambda>_. []) (event_document ev data)"
  proof (cases j)
    case (PublishEvent ev data)
    then show ?thesis using that publish_topic [of en ev data "tw_bus w"] by auto
  next
    case (CacheResponse c k st b)
    then show ?thesis using that [of "[]"] by simp
  qed
  obtain bs where bs: "sb_topic (tw_bus (fold (run_job en) js (run_job en j w))) = sb_topic (tw_bus (run_job en j w)) @ bs"
      "\<forall>m\<in>set bs. \<exists>ev data. PublishEvent ev data \<in> set js \<and> bm_body m = json_dumps (\<lambda>_. []) (event_document ev data)"
    using Cons by blast
  show ?case using as bs by (intro exI [of _ "as @ bs"]) fastforce
qed simp

text \<open>
  C32: From a request to the streams. Every message a request of the task service puts on the bus is
  about one task the caller created. When the notification service processes it, the streams of that
  task's creator and assignee are offered the event, once each, and no other stream changes.
\<close>
theorem event_stays_with_task:
  assumes "task_call en op w = (x, w')"
    and "sb_topic (tw_bus w') = sb_topic (tw_bus w) @ ms" and "m \<in> set ms"
    and "process_message fr True abandon_ok (bm_body m) s = (e, s')"
  shows "\<exists>t\<in>set (tw_tasks w) \<union> set (tw_tasks w'). parse_caller_id (op_request op) = Inr (t_creator_id t) \<and>
           (\<exists>payload. \<forall>u c. queue_of u c (cs_broadcaster s') =
              (if u \<in> stakeholder_texts t then map_option (offer payload) (queue_of u c (cs_broadcaster s))
               else queue_of u c (cs_broadcaster s)))"
proof -
  obtain y w1 where r: "task_route en op (w\<lparr>tw_jobs := []\<rparr>) = (y, w1)" by fastforce
  have bus: "tw_bus w1 = tw_bus w" using route_bus [of en op "w\<lparr>tw_jobs := []\<rparr>"] r by simp
  obtain a where y: "y = Inr a"
    using assms(1-3) r bus by (cases y) (auto simp: task_call_def task_respond_def)
  then have w': "w' = fold (run_job en) (tw_jobs w1) (w1\<lparr>tw_jobs := []\<rparr>)"
    using assms(1) r by (simp add: task_call_def task_respond_def)
  obtain ev data where j: "PublishEvent ev data \<in> set (tw_jobs w1)"
      "bm_body m = json_dumps (\<lambda>_. []) (event_document ev data)"
    using jobs_topic [of en "tw_jobs w1" "w1\<lparr>tw_jobs := []\<rparr>"] assms(2,3) w' bus by auto
  from route_events [OF r [unfolded y] _ this(1)]
  obtain t where t: "t \<in> set (tw_tasks w) \<union> set (tw_tasks w1)" "parse_caller_id (op_request op) = Inr (t_creator_id t)"
      "task_event t ev data" by auto
  have "tw_tasks w' = tw_tasks w1" using w' by simp
  then show ?thesis
    using t event_processed [OF t(3) assms(4) [unfolded j(2)]] by (intro bexI [of _ t]) auto
qed

section \<open>Concrete runs\<close>

definition demo_streams :: broadcaster where
  "demo_streams = bc_run (\<lambda>_. []) [Open ''u'', Open ''v''] Broadcaster"

lemma demo_streams_open: "queue_of ''u'' 1 demo_streams = Some []" "bc_next_conn_id demo_streams = 2"
  by code_simp+

theorem stream_refines_queue_witness:
  "filter (\<lambda>s. s \<noteq> keepalive)
     (chunks (\<lambda>_. []) ''u'' 1
        [Send (JStr ''e'') JNull [JStr ''v''], Turn ''u'' 1, Send (JStr ''f'') JNull [JStr ''u''], Close ''v'' 2, Turn ''u'' 1]
        demo_streams) = [data_chunk (event_payload (\<lambda>_. []) (JStr ''f'') JNull)]"
proof -
  let ?ops = "[Send (JStr ''e'') JNull [JStr ''v''], Turn ''u'' 1, Send (JStr ''f'') JNull [JStr ''u''], Close ''v'' 2, Turn ''u'' 1]"
  have "bounded_fifo.drive (put_nowait QUEUE_MAXSIZE) queue_get (concat (map (stream_events (\<lambda>_. []) ''u'' 1) ?ops)) [] =
      ([event_payload (\<lambda>_. []) (JStr ''f'') JNull], [event_payload (\<lambda>_. []) (JStr ''f'') JNull], [])"
    by (simp add: text_targets_def put_nowait_def queue_get_def QUEUE_MAXSIZE_def)
  from stream_refines_queue [OF demo_streams_open(1) _ _ this] demo_streams_open(2) show ?thesis by simp
qed

theorem event_reaches_stream_witness:
  "data_chunk (event_payload (\<lambda>_. []) (JStr ''f'') JNull) \<in>
     set (chunks (\<lambda>_. []) ''u'' 1 (Send (JStr ''f'') JNull [JStr ''v'', JStr ''u''] # [Close ''v'' 2, Turn ''u'' 1])
       demo_streams)"
  by (rule event_reaches_stream [OF demo_streams_open(1)]) (simp_all add: demo_streams_open(2) QUEUE_MAXSIZE_def)

definition demo_consumer :: consumer where
  "demo_consumer = \<lparr>cs_sent = [], cs_settled = [], cs_metrics = [],
     cs_broadcaster = snd (subscribe_open (uuid_str 6) Broadcaster)\<rparr>"

lemma demo_consumer_open: "queue_of (uuid_str 6) 1 (cs_broadcaster demo_consumer) = Some []"
  by (simp add: demo_consumer_def subscribe_open_def Broadcaster_def queue_of_def user_conns_def)

theorem message_settled_once_witness:
  "cs_settled (snd (process_message (\<lambda>_. []) True True ''[]'' demo_consumer)) = [Abandoned]"
proof -
  have "\<not> readable ''[]''" by code_simp
  then show ?thesis
    using message_settled_once [of "\<lambda>_. []" True "''[]''" demo_consumer] 
    by (cases "process_message (\<lambda>_. []) True True ''[]'' demo_consumer") (force simp: demo_consumer_def)
qed

lemma demo_deletion:
  "sb_topic (tw_bus (snd (task_call (demo_task_env 4 8) (DeleteTask demo_task_request 21) demo_tasks))) =
     [\<lparr>bm_body = json_dumps (\<lambda>_. []) (event_document ''task.deleted'' (deleted_event (demo_task 21 1))),
      bm_content_type = ''application/json'', bm_subject = ''task.deleted''\<rparr>]"
  by (simp add: task_call_def task_respond_def answer_def delete_task_def as_caller_def demo_task_caller
      get_authorized_task_def get_task_or_404_def scalar_one_or_none_def demo_tasks_def demo_task_world_def
      demo_task_def add_job_def publish_event_def get_sender_def demo_task_env_def event_document_def Let_def)

theorem event_stays_with_task_witness:
  "\<exists>payload. queue_of (uuid_str 6) 1 (cs_broadcaster (snd (process_message (\<lambda>_. []) True True
      (json_dumps (\<lambda>_. []) (event_document ''task.deleted'' (deleted_event (demo_task 21 1)))) demo_consumer))) =
     Some [payload]"
proof -
  let ?m = "\<lparr>bm_body = json_dumps (\<lambda>_. []) (event_document ''task.deleted'' (deleted_event (demo_task 21 1))),
      bm_content_type = ''application/json'', bm_subject = ''task.deleted''\<rparr>"
  obtain x w' where c: "task_call (demo_task_env 4 8) (DeleteTask demo_task_request 21) demo_tasks = (x, w')" by fastforce
  obtain e s' where p: "process_message (\<lambda>_. []) True True (bm_body ?m) demo_consumer = (e, s')" by fastforce
  have topic: "sb_topic (tw_bus w') = sb_topic (tw_bus demo_tasks) @ [?m]"
    using demo_deletion c by (simp add: demo_tasks_def demo_task_world_def)
  obtain t payload where t: "t \<in> set (tw_tasks demo_tasks) \<union> set (tw_tasks w')"
      and q: "\<And>u c. queue_of u c (cs_broadcaster s') =
        (if u \<in> stakeholder_texts t then map_option (offer payload) (queue_of u c (cs_broadcaster demo_consumer))
         else queue_of u c (cs_broadcaster demo_consumer))"
    using event_stays_with_task [OF c topic _ p] by auto
  have "set (tw_tasks w') \<subseteq> set (tw_tasks demo_tasks)"
    using c by (auto simp: task_call_def task_respond_def answer_def delete_task_def as_caller_def add_job_def
        delete_row_def split: prod.splits sum.splits)
  then have "uuid_str 6 \<in> stakeholder_texts t"
    using t by (auto simp: demo_tasks_def demo_task_def stakeholder_texts_def)
  then show ?thesis
    using q [of "uuid_str 6" 1] p demo_consumer_open by (simp add: offer_def put_nowait_def QUEUE_MAXSIZE_def)
qed

end
