(* ===== verification/Topics.thy ===== *)
theory Topics
  imports Notify
begin

text \<open>
  One round of the consumer over all its topics (\<^verbatim>\<open>_consume_all_topics\<close>): one receiver per topic, run
  concurrently by \<^verbatim>\<open>asyncio.gather\<close> with \<^verbatim>\<open>return_exceptions\<close>. A schedule is the order in which the
  receivers get on with their next message; a receiver that has nothing left, or whose message could not be
  settled, ends with a result of its own.
\<close>

type_synonym delivery = "string \<times> bool \<times> bool"

datatype receiver = Receiving "delivery list" | Ended "string option"

definition receiver_step ::
  "(pyfloat \<Rightarrow> string) \<Rightarrow> nat \<Rightarrow> receiver list \<times> consumer \<Rightarrow> receiver list \<times> consumer" where
  "receiver_step fr i s =
     (case s of (rs, w) \<Rightarrow>
        if i < length rs then
          (case rs ! i of
             Ended e \<Rightarrow> (rs, w)
           | Receiving [] \<Rightarrow> (rs[i := Ended None], w)
           | Receiving ((body, complete_ok, abandon_ok) # ms) \<Rightarrow>
               (case process_message fr complete_ok abandon_ok body w of
                  (None, w') \<Rightarrow> (rs[i := Receiving ms], w')
                | (Some e, w') \<Rightarrow> (rs[i := Ended (Some e)], w')))
        else (rs, w))"

definition consume_all_topics ::
  "(pyfloat \<Rightarrow> string) \<Rightarrow> nat list \<Rightarrow> delivery list list \<Rightarrow> consumer \<Rightarrow> receiver list \<times> consumer" where
  "consume_all_topics fr schedule topics w = fold (receiver_step fr) schedule (map Receiving topics, w)"

section \<open>Receivers do not disturb each other\<close>

text \<open>Whether a message ends its receiver depends on the message and the server, not on the state.\<close>

lemma try_message_verdict: "fst (snd (try_message fr c body w)) = fst (snd (try_message fr c body w'))"
  by (simp add: try_message_def Let_def split: option.splits sum.splits prod.splits)

lemma process_message_verdict:
  "fst (process_message fr c a body w) = fst (process_message fr c a body w')"
proof -
  have "fst (process_message fr c a body v) =
      (if fst (snd (try_message fr c body v)) = None \<or> a then None else Some ''ServiceBusError'')" for v
    by (simp add: process_message_def split: prod.splits option.splits)
  then show ?thesis using try_message_verdict [of fr c body w w'] by simp
qed

lemma receive_verdict: "fst (receive_from_topic fr ms w) = fst (receive_from_topic fr ms w')"
proof (induction ms arbitrary: w w')
  case (Cons m ms)
  obtain body c a where m: "m = (body, c, a)" by (cases m)
  have v: "fst (process_message fr c a body w) = fst (process_message fr c a body w')"
    by (rule process_message_verdict)
  obtain x v1 v2 where p: "process_message fr c a body w = (x, v1)" "process_message fr c a body w' = (x, v2)"
    using v by (metis prod.collapse)
  then show ?case using Cons.IH [of v1 v2] by (simp add: m split: option.split)
qed simp

fun verdict :: "(pyfloat \<Rightarrow> string) \<Rightarrow> consumer \<Rightarrow> receiver \<Rightarrow> string option" where
  "verdict fr w (Receiving ms) = fst (receive_from_topic fr ms w)"
| "verdict fr w (Ended e) = e"

fun turns :: "receiver \<Rightarrow> nat" where
  "turns (Receiving ms) = Suc (length ms)"
| "turns (Ended e) = 0"

lemma receiver_step_at:
  assumes "i < length rs" "receiver_step fr i (rs, w) = (rs', w')"
  shows "length rs' = length rs" "\<forall>j. j \<noteq> i \<longrightarrow> rs' ! j = rs ! j" "verdict fr v (rs' ! i) = verdict fr v (rs ! i)"
    "turns (rs' ! i) \<le> turns (rs ! i) - 1"
proof -
  have "length rs' = length rs \<and> (\<forall>j. j \<noteq> i \<longrightarrow> rs' ! j = rs ! j) \<and>
    verdict fr v (rs' ! i) = verdict fr v (rs ! i) \<and> turns (rs' ! i) \<le> turns (rs ! i) - 1"
  proof (cases "rs ! i")
    case (Receiving ms)
    show ?thesis
    proof (cases ms)
      case Nil
      with Receiving assms show ?thesis by (auto simp: receiver_step_def)
    next
      case (Cons m rest)
      obtain body c a where m: "m = (body, c, a)" by (cases m)
      obtain x w1 where p: "process_message fr c a body w = (x, w1)" by fastforce
      obtain v1 where q: "process_message fr c a body v = (x, v1)"
        using process_message_verdict [of fr c a body w v] p by (metis fst_conv prod.collapse)
      have "fst (receive_from_topic fr rest w1) = fst (receive_from_topic fr rest v1)" by (rule receive_verdict)
      moreover have "fst (receive_from_topic fr rest v) = fst (receive_from_topic fr rest v1)" by (rule receive_verdict)
      ultimately show ?thesis
        using assms Receiving Cons m p q by (cases x) (auto simp: receiver_step_def)
    qed
  qed (use assms in \<open>auto simp: receiver_step_def\<close>)
  then show "length rs' = length rs" "\<forall>j. j \<noteq> i \<longrightarrow> rs' ! j = rs ! j" "verdict fr v (rs' ! i) = verdict fr v (rs ! i)"
    "turns (rs' ! i) \<le> turns (rs ! i) - 1" by blast+
qed

lemma schedule_ends:
  assumes "fold (receiver_step fr) schedule (rs, w) = (rs', w')" "i < length rs"
    and "turns (rs ! i) \<le> count_list schedule i"
  shows "rs' ! i = Ended (verdict fr v (rs ! i))"
  using assms
proof (induction schedule arbitrary: rs w)
  case Nil
  then show ?case by (cases "rs ! i") auto
next
  case (Cons j schedule)
  obtain rs1 w1 where s: "receiver_step fr j (rs, w) = (rs1, w1)" by fastforce
  show ?case
  proof (cases "j < length rs")
    case True
    have l: "i < length rs1" using receiver_step_at(1) [OF True s] Cons.prems(2) by simp
    have t: "turns (rs1 ! i) \<le> count_list schedule i" and vd: "verdict fr v (rs1 ! i) = verdict fr v (rs ! i)"
      using receiver_step_at(2-4) [OF True s] Cons.prems(3) by (cases "i = j"; force)+
    have "fold (receiver_step fr) schedule (rs1, w1) = (rs', w')" using Cons.prems(1) s by simp
    from Cons.IH [OF this l t] vd show ?thesis by simp
  next
    case False
    then have "rs1 = rs" using s by (simp add: receiver_step_def)
    moreover have "j \<noteq> i" using False Cons.prems(2) by simp
    ultimately show ?thesis using Cons s by simp
  qed
qed

text \<open>
  C35: A round over the topics ends, and one failing topic does not hold up the others. Whatever the order
  in which the receivers take turns, a receiver that gets one turn more than it has messages has ended,
  and it ends as if it were alone: its result is the one \<^verbatim>\<open>_receive_from_topic\<close> gives for its messages,
  whatever the other topics deliver and however theirs fail.
\<close>
theorem topics_independent:
  assumes "i < length topics" and "length (topics ! i) < count_list schedule i"
  shows "fst (consume_all_topics fr schedule topics w) ! i = Ended (fst (receive_from_topic fr (topics ! i) v))"
proof -
  obtain rs' w' where f: "fold (receiver_step fr) schedule (map Receiving topics, w) = (rs', w')" by fastforce
  have "rs' ! i = Ended (verdict fr v (map Receiving topics ! i))"
    by (rule schedule_ends [OF f]) (use assms in auto)
  with f assms(1) show ?thesis by (simp add: consume_all_topics_def)
qed

theorem topics_independent_witness:
  "fst (consume_all_topics (\<lambda>_. []) [0, 1, 1, 0, 1] [[(''x'', True, False), (''{}'', True, True)], [(''{}'', True, True)]]
     demo_consumer) ! 1 = Ended None \<and>
   fst (consume_all_topics (\<lambda>_. []) [0, 1, 1, 0, 1] [[(''x'', True, False)], [(''{}'', True, True)]]
     demo_consumer) ! 0 = Ended (Some ''ServiceBusError'')"
proof -
  have r: "fst (receive_from_topic (\<lambda>_. []) [(''{}'', True, True)] demo_consumer) = None"
    "fst (receive_from_topic (\<lambda>_. []) [(''x'', True, False)] demo_consumer) = Some ''ServiceBusError''"
    by code_simp+
  have "fst (consume_all_topics (\<lambda>_. []) [0, 1, 1, 0, 1] [[(''x'', True, False), (''{}'', True, True)], [(''{}'', True, True)]]
     demo_consumer) ! 1 = Ended (fst (receive_from_topic (\<lambda>_. []) [(''{}'', True, True)] demo_consumer))"
    using topics_independent [where i = 1 and schedule = "[0, 1, 1, 0, 1]" and fr = "\<lambda>_. []" and w = demo_consumer and v = demo_consumer
        and topics = "[[(''x'', True, False), (''{}'', True, True)], [(''{}'', True, True)]]"] by simp
  moreover have "fst (consume_all_topics (\<lambda>_. []) [0, 1, 1, 0, 1] [[(''x'', True, False)], [(''{}'', True, True)]]
     demo_consumer) ! 0 = Ended (fst (receive_from_topic (\<lambda>_. []) [(''x'', True, False)] demo_consumer))"
    using topics_independent [where i = 0 and schedule = "[0, 1, 1, 0, 1]" and fr = "\<lambda>_. []" and w = demo_consumer and v = demo_consumer
        and topics = "[[(''x'', True, False)], [(''{}'', True, True)]]"] by simp
  ultimately show ?thesis by (simp only: r)
qed

end
