(* ===== verification/Cluster.thy ===== *)
theory Cluster
  imports EventHub
begin

text \<open>
  The simulated cluster of the chaos controller (\<^verbatim>\<open>cluster.py\<close>): services and pods, the events it
  publishes, and the instructions its coroutines are made of. The messages are those of the code, in
  ASCII: its check marks, arrows and dashes lie outside the 8-bit characters of the model and are
  written \<^verbatim>\<open>(ok)\<close>, \<^verbatim>\<open>->\<close> and \<^verbatim>\<open>--\<close>.
\<close>

section \<open>State\<close>

text \<open>\<open>ps_ref\<close> is the identity of the pod object, which the code's local variables hold on to.\<close>

record pod_state =
  ps_ref :: nat
  ps_name :: string
  ps_phase :: string
  ps_ready :: bool
  ps_age_sec :: pyfloat

record service_state =
  ss_name :: string
  ss_desired_replicas :: nat
  ss_pods :: "pod_state list"
  ss_healthy :: bool
  ss_latency_ms_p95 :: pyfloat
  ss_rps :: pyfloat
  ss_error_rate :: pyfloat

definition ServiceState :: "string \<Rightarrow> service_state" where
  "ServiceState name = \<lparr>ss_name = name, ss_desired_replicas = 3, ss_pods = [], ss_healthy = True,
     ss_latency_ms_p95 = 45, ss_rps = 80, ss_error_rate = 0.001\<rparr>"

text \<open>
  \<open>mk_choice\<close> and \<open>mk_uniform\<close> are the draws of the random module, by position; \<open>mk_draws\<close> counts
  them. \<open>mk_now\<close> is the wall clock, \<open>mk_refs\<close> the next object identity.
\<close>

record mock_cluster =
  mk_services :: "(string, service_state) dict"
  mk_t0_anchor :: "pyfloat option"
  mk_scenario_mode :: bool
  mk_hub :: hub
  mk_now :: pyfloat
  mk_choice :: "nat \<Rightarrow> nat"
  mk_uniform :: "nat \<Rightarrow> pyfloat"
  mk_draws :: nat
  mk_refs :: nat

text \<open>The local variables of a coroutine, next to the cluster they all share.\<close>

record frame = mock_cluster +
  lo_target :: pod_state
  lo_new :: pod_state
  lo_lat :: pyfloat
  lo_err :: pyfloat
  lo_lats :: "(string, pyfloat) dict"
  lo_errs :: "(string, pyfloat) dict"
  lo_killed :: nat

definition SERVICE_NAMES :: "string list" where
  "SERVICE_NAMES = [''api-gateway'', ''user-service'', ''task-service'', ''notification-service'']"

section \<open>Random draws\<close>

definition suffix_chars :: string where
  "suffix_chars = ''abcdefghjkmnpqrstvwxz23456789''"

definition rand_suffix :: "('a mock_cluster_scheme) \<Rightarrow> string" where
  "rand_suffix m = map (\<lambda>i. suffix_chars ! (mk_choice m (mk_draws m + i) mod length suffix_chars)) [0..<5]"

definition draw :: "nat \<Rightarrow> 'a mock_cluster_scheme \<Rightarrow> 'a mock_cluster_scheme" where
  "draw n m = m\<lparr>mk_draws := mk_draws m + n\<rparr>"

text \<open>\<open>u\<close> is a draw from [0, 1).\<close>

definition jittered :: "pyfloat \<Rightarrow> pyfloat \<Rightarrow> pyfloat" where
  "jittered u secs = secs * (1 + (- 0.15 + 0.3 * u))"

section \<open>Events\<close>

text \<open>\<^verbatim>\<open>round(x, n)\<close>: ties go to the even neighbour.\<close>

definition py_round :: "nat \<Rightarrow> rat \<Rightarrow> rat" where
  "py_round n x =
     (let y = x * 10 ^ n; f = \<lfloor>y\<rfloor>; r = y - of_int f;
          z = (if r < 1 / 2 then f else if r > 1 / 2 then f + 1 else if even f then f else f + 1)
      in of_int z / 10 ^ n)"

definition relative_ts :: "'a mock_cluster_scheme \<Rightarrow> pyfloat" where
  "relative_ts m = (case mk_t0_anchor m of None \<Rightarrow> 0 | Some t \<Rightarrow> mk_now m - t)"

definition publish :: "string \<Rightarrow> json \<Rightarrow> string \<Rightarrow> 'a mock_cluster_scheme \<Rightarrow> 'a mock_cluster_scheme" where
  "publish kind payload level m =
     m\<lparr>mk_hub := hub_publish (hub_event (mk_now m) kind level payload) (mk_hub m)\<rparr>"

definition anchor :: "string \<Rightarrow> 'a mock_cluster_scheme \<Rightarrow> 'a mock_cluster_scheme" where
  "anchor action_name m =
     publish ''action'' (JObj [(''action'', JStr action_name), (''started_at'', JFloat (mk_now m))]) ''info''
       (m\<lparr>mk_t0_anchor := Some (mk_now m)\<rparr>)"

definition k8s :: "string \<Rightarrow> string \<Rightarrow> 'a mock_cluster_scheme \<Rightarrow> 'a mock_cluster_scheme" where
  "k8s message level m =
     publish ''k8s'' (JObj [(''message'', JStr message), (''rel_t'', JFloat (py_round 2 (relative_ts m)))]) level m"

definition probe :: "string \<Rightarrow> bool \<Rightarrow> pyfloat \<Rightarrow> 'a mock_cluster_scheme \<Rightarrow> 'a mock_cluster_scheme" where
  "probe target ok latency_ms m =
     publish ''probe'' (JObj [(''target'', JStr target), (''ok'', JBool ok), (''latency_ms'', JFloat (py_round 1 latency_ms)),
         (''rel_t'', JFloat (py_round 2 (relative_ts m)))]) (if ok then ''info'' else ''warn'') m"

definition narration ::
  "string \<Rightarrow> pyfloat \<Rightarrow> pyfloat \<Rightarrow> bool \<Rightarrow> 'a mock_cluster_scheme \<Rightarrow> 'a mock_cluster_scheme" where
  "narration text low high matched m =
     publish ''narration'' (JObj [(''text'', JStr text), (''predicted'', JArr [JFloat low, JFloat high]),
         (''matched'', JBool matched), (''rel_t'', JFloat (py_round 2 (relative_ts m)))])
       (if matched then ''success'' else ''info'') m"

definition completed :: "string \<Rightarrow> 'a mock_cluster_scheme \<Rightarrow> 'a mock_cluster_scheme" where
  "completed action_name m =
     publish ''action'' (JObj [(''action'', JStr action_name), (''completed'', JBool True),
         (''duration_sec'', JFloat (py_round 1 (relative_ts m)))]) ''success'' m"

definition log_msg :: "string \<Rightarrow> string \<Rightarrow> 'a mock_cluster_scheme \<Rightarrow> 'a mock_cluster_scheme" where
  "log_msg msg level m = publish ''log'' (JObj [(''msg'', JStr msg)]) level m"

section \<open>Services and pods\<close>

definition known :: "string \<Rightarrow> 'a mock_cluster_scheme \<Rightarrow> bool" where
  "known service m \<longleftrightarrow> map_of (mk_services m) service \<noteq> None"

text \<open>\<^verbatim>\<open>self.services[name]\<close>, for a name that is there.\<close>

definition service_of :: "string \<Rightarrow> 'a mock_cluster_scheme \<Rightarrow> service_state" where
  "service_of name m = (case map_of (mk_services m) name of Some s \<Rightarrow> s | None \<Rightarrow> ServiceState name)"

definition each_service ::
  "(service_state \<Rightarrow> service_state) \<Rightarrow> 'a mock_cluster_scheme \<Rightarrow> 'a mock_cluster_scheme" where
  "each_service g m = m\<lparr>mk_services := map (\<lambda>(n, s). (n, g s)) (mk_services m)\<rparr>"

definition on_service ::
  "string \<Rightarrow> (service_state \<Rightarrow> service_state) \<Rightarrow> 'a mock_cluster_scheme \<Rightarrow> 'a mock_cluster_scheme" where
  "on_service name g m = m\<lparr>mk_services := map (\<lambda>(n, s). (n, if n = name then g s else s)) (mk_services m)\<rparr>"

definition set_healthy :: "string \<Rightarrow> bool \<Rightarrow> 'a mock_cluster_scheme \<Rightarrow> 'a mock_cluster_scheme" where
  "set_healthy name b = on_service name (ss_healthy_update (\<lambda>_. b))"

definition map_latency :: "string \<Rightarrow> (pyfloat \<Rightarrow> pyfloat) \<Rightarrow> 'a mock_cluster_scheme \<Rightarrow> 'a mock_cluster_scheme" where
  "map_latency name f = on_service name (ss_latency_ms_p95_update f)"

definition set_latency :: "string \<Rightarrow> pyfloat \<Rightarrow> 'a mock_cluster_scheme \<Rightarrow> 'a mock_cluster_scheme" where
  "set_latency name x = on_service name (ss_latency_ms_p95_update (\<lambda>_. x))"

definition scale_latency :: "string \<Rightarrow> pyfloat \<Rightarrow> 'a mock_cluster_scheme \<Rightarrow> 'a mock_cluster_scheme" where
  "scale_latency name k = on_service name (ss_latency_ms_p95_update (\<lambda>x. x * k))"

definition scale_rps :: "string \<Rightarrow> pyfloat \<Rightarrow> 'a mock_cluster_scheme \<Rightarrow> 'a mock_cluster_scheme" where
  "scale_rps name k = on_service name (ss_rps_update (\<lambda>x. x * k))"

definition set_errors :: "string \<Rightarrow> pyfloat \<Rightarrow> 'a mock_cluster_scheme \<Rightarrow> 'a mock_cluster_scheme" where
  "set_errors name x = on_service name (ss_error_rate_update (\<lambda>_. x))"

definition each_latency :: "(pyfloat \<Rightarrow> pyfloat) \<Rightarrow> 'a mock_cluster_scheme \<Rightarrow> 'a mock_cluster_scheme" where
  "each_latency f = each_service (ss_latency_ms_p95_update f)"

definition each_errors :: "(pyfloat \<Rightarrow> pyfloat) \<Rightarrow> 'a mock_cluster_scheme \<Rightarrow> 'a mock_cluster_scheme" where
  "each_errors f = each_service (ss_error_rate_update f)"

lemmas service_updates = set_healthy_def map_latency_def set_latency_def scale_latency_def scale_rps_def set_errors_def each_latency_def each_errors_def

definition has_pods :: "string \<Rightarrow> 'a mock_cluster_scheme \<Rightarrow> bool" where
  "has_pods name m \<longleftrightarrow> ss_pods (service_of name m) \<noteq> []"

definition add_pod :: "string \<Rightarrow> pod_state \<Rightarrow> 'a mock_cluster_scheme \<Rightarrow> 'a mock_cluster_scheme" where
  "add_pod name p = on_service name (ss_pods_update (\<lambda>ps. ps @ [p]))"

text \<open>Assigning to an attribute of a pod object, wherever it is listed.\<close>

definition on_pod ::
  "nat \<Rightarrow> (pod_state \<Rightarrow> pod_state) \<Rightarrow> 'a mock_cluster_scheme \<Rightarrow> 'a mock_cluster_scheme" where
  "on_pod r g = each_service (ss_pods_update (map (\<lambda>p. if ps_ref p = r then g p else p)))"

definition set_phase :: "pod_state \<Rightarrow> string \<Rightarrow> 'a mock_cluster_scheme \<Rightarrow> 'a mock_cluster_scheme" where
  "set_phase p phase = on_pod (ps_ref p) (ps_phase_update (\<lambda>_. phase))"

definition set_ready :: "pod_state \<Rightarrow> bool \<Rightarrow> 'a mock_cluster_scheme \<Rightarrow> 'a mock_cluster_scheme" where
  "set_ready p b = on_pod (ps_ref p) (ps_ready_update (\<lambda>_. b))"

definition fresh_pod :: "string \<Rightarrow> string \<Rightarrow> bool \<Rightarrow> 'a mock_cluster_scheme \<Rightarrow> pod_state" where
  "fresh_pod service phase ready m =
     \<lparr>ps_ref = mk_refs m, ps_name = service @ ''-'' @ rand_suffix m, ps_phase = phase, ps_ready = ready,
      ps_age_sec = 0\<rparr>"

definition allocated :: "'a mock_cluster_scheme \<Rightarrow> 'a mock_cluster_scheme" where
  "allocated m = (draw 5 m)\<lparr>mk_refs := Suc (mk_refs m)\<rparr>"

section \<open>Local variables\<close>

definition choose_target :: "string \<Rightarrow> frame \<Rightarrow> frame" where
  "choose_target name f = f\<lparr>lo_target := hd (ss_pods (service_of name f))\<rparr>"

definition create_pod :: "string \<Rightarrow> string \<Rightarrow> bool \<Rightarrow> frame \<Rightarrow> frame" where
  "create_pod service phase ready f = (allocated f)\<lparr>lo_new := fresh_pod service phase ready f\<rparr>"

definition remove_target :: "string \<Rightarrow> frame \<Rightarrow> frame" where
  "remove_target name f =
     on_service name (ss_pods_update (filter (\<lambda>p. ps_name p \<noteq> ps_name (lo_target f)))) f"

definition keep_latency :: "string \<Rightarrow> frame \<Rightarrow> frame" where
  "keep_latency name f = f\<lparr>lo_lat := ss_latency_ms_p95 (service_of name f)\<rparr>"

definition keep_errors :: "string \<Rightarrow> frame \<Rightarrow> frame" where
  "keep_errors name f = f\<lparr>lo_err := ss_error_rate (service_of name f)\<rparr>"

definition save_latency :: "string \<Rightarrow> frame \<Rightarrow> frame" where
  "save_latency name f =
     f\<lparr>lo_lats := AList.update name (ss_latency_ms_p95 (service_of name f)) (lo_lats f)\<rparr>"

definition save_errors :: "string \<Rightarrow> frame \<Rightarrow> frame" where
  "save_errors name f =
     f\<lparr>lo_errs := AList.update name (ss_error_rate (service_of name f)) (lo_errs f)\<rparr>"

definition saved :: "string \<Rightarrow> (string, pyfloat) dict \<Rightarrow> pyfloat" where
  "saved name d = (case map_of d name of Some x \<Rightarrow> x | None \<Rightarrow> 0)"

definition restore_latency :: "string \<Rightarrow> frame \<Rightarrow> frame" where
  "restore_latency name f = set_latency name (saved name (lo_lats f)) f"

definition restore_errors :: "string \<Rightarrow> frame \<Rightarrow> frame" where
  "restore_errors name f = set_errors name (saved name (lo_errs f)) f"

definition save_latencies :: "frame \<Rightarrow> frame" where
  "save_latencies f = f\<lparr>lo_lats := map (\<lambda>(n, s). (n, ss_latency_ms_p95 s)) (mk_services f)\<rparr>"

definition restore_latencies :: "frame \<Rightarrow> frame" where
  "restore_latencies f =
     f\<lparr>mk_services := map (\<lambda>(n, s). (n, s\<lparr>ss_latency_ms_p95 := saved n (lo_lats f)\<rparr>)) (mk_services f)\<rparr>"

section \<open>Coroutines\<close>

text \<open>
  A coroutine is the list of what it does between its suspension points. \<open>Wait\<close> is \<^verbatim>\<open>self._wait\<close>,
  \<open>Sleep\<close> a plain \<^verbatim>\<open>asyncio.sleep\<close>; \<open>Acquire\<close> enters \<^verbatim>\<open>self._lock()\<close>, which is left when the coroutine
  ends; \<open>Need\<close> returns early (or raises) when the condition fails. What lies between two suspension
  points is not interleaved with anything.
\<close>

datatype instr =
    Do "frame \<Rightarrow> frame"
  | Need "frame \<Rightarrow> bool"
  | Wait pyfloat
  | Sleep pyfloat
  | Acquire

end
