(* ===== verification/ChaosActions.thy ===== *)
theory ChaosActions
  imports Cluster
begin

text \<open>
  The 23 actions of the simulated cluster (\<^verbatim>\<open>MockCluster\<close> in \<^verbatim>\<open>cluster.py\<close>), statement by statement:
  a \<open>Do\<close> is one call or assignment of the code, a loop over services or pods is one function on the
  cluster.
\<close>

section \<open>Loops\<close>

definition warn_unknown :: "string \<Rightarrow> frame \<Rightarrow> frame" where
  "warn_unknown service f = (if known service f then f else log_msg (''unknown service '' @ service) ''warn'' f)"

text \<open>\<^verbatim>\<open>svc.pods[-2:]\<close> become ready.\<close>

definition ready_last_two :: "string \<Rightarrow> frame \<Rightarrow> frame" where
  "ready_last_two service =
     on_service service (ss_pods_update (\<lambda>ps.
       take (length ps - 2) ps @ map (\<lambda>p. p\<lparr>ps_phase := ''Running'', ps_ready := True\<rparr>) (drop (length ps - 2) ps)))"

text \<open>Every other pod of every service goes down, the first included.\<close>

fun cut_pods :: "pod_state list \<Rightarrow> pod_state list" where
  "cut_pods [] = []"
| "cut_pods [p] = [p\<lparr>ps_phase := ''Terminating'', ps_ready := False\<rparr>]"
| "cut_pods (p # q # ps) = p\<lparr>ps_phase := ''Terminating'', ps_ready := False\<rparr> # q # cut_pods ps"

definition cut_zone :: "frame \<Rightarrow> frame" where
  "cut_zone f =
     (each_service (\<lambda>s. s\<lparr>ss_pods := cut_pods (ss_pods s), ss_healthy := False, ss_rps := ss_rps s * 0.55,
                           ss_latency_ms_p95 := ss_latency_ms_p95 s * 1.5\<rparr>) f)
       \<lparr>lo_killed := sum_list (map (\<lambda>(_, s). (length (ss_pods s) + 1) div 2) (mk_services f))\<rparr>"

text \<open>The \<^verbatim>\<open>while\<close> loop that fills a service up, once per missing pod.\<close>

fun fill_up :: "nat \<Rightarrow> string \<Rightarrow> frame \<Rightarrow> frame" where
  "fill_up 0 name f = f"
| "fill_up (Suc k) name f =
     fill_up k name (add_pod name (fresh_pod (ss_name (service_of name f)) ''Running'' True f) (allocated f))"

definition rebuild_service :: "string \<Rightarrow> frame \<Rightarrow> frame" where
  "rebuild_service name f =
     (let f1 = on_service name (ss_pods_update (filter (\<lambda>p. ps_phase p \<noteq> ''Terminating''))) f;
          s = service_of name f1;
          f2 = fill_up (ss_desired_replicas s - length (ss_pods s)) name f1
      in on_service name (\<lambda>s. s\<lparr>ss_healthy := True, ss_rps := ss_rps s / 0.55,
                                ss_latency_ms_p95 := ss_latency_ms_p95 s / 1.5\<rparr>) f2)"

definition rebuild_services :: "frame \<Rightarrow> frame" where
  "rebuild_services f = fold rebuild_service (map fst (mk_services f)) f"

definition broken_pod_started :: "string \<Rightarrow> frame \<Rightarrow> frame" where
  "broken_pod_started service f =
     k8s (service @ ''-v1.2.4-'' @ rand_suffix f @ '': started -> ImagePullBackOff'') ''crit'' (draw 5 f)"

section \<open>Actions\<close>

definition kill_pod :: "string \<Rightarrow> instr list" where
  "kill_pod service =
     [Do (warn_unknown service),
      Need (known service),
      Acquire,
      Do (anchor (''kill_pod:'' @ service)),
      Do (\<lambda>f. if has_pods service f then f else k8s (service @ '': no pods to kill'') ''warn'' f),
      Need (has_pods service),
      Do (choose_target service),
      Do (\<lambda>f. narration (''Predicted: readiness probe fails on '' @ ps_name (lo_target f) @ '' at T+1-2s, traffic reroutes by T+2s, new pod ready by T+6-10s'') 1 10 False f),
      Do (\<lambda>f. k8s (''kubectl delete pod '' @ ps_name (lo_target f)) ''warn'' f),
      Wait 0.25,
      Do (\<lambda>f. set_phase (lo_target f) ''Terminating'' f),
      Do (\<lambda>f. k8s (ps_name (lo_target f) @ '': phase=Terminating'') ''warn'' f),
      Wait 0.2,
      Do (\<lambda>f. k8s (ps_name (lo_target f) @ '': kubelet SIGTERM sent'') ''info'' f),
      Wait 1,
      Do (\<lambda>f. set_ready (lo_target f) False f),
      Do (set_healthy service False),
      Do (\<lambda>f. k8s (ps_name (lo_target f) @ '': readinessProbe failed (connection refused)'') ''crit'' f),
      Do (narration ''(ok) readiness probe failure observed'' 1 2 True),
      Do (keep_latency service),
      Do (keep_errors service),
      Do (scale_latency service 2.8),
      Do (set_errors service 0.08),
      Do (scale_rps service 0.65),
      Wait 0.4,
      Do (\<lambda>f. k8s (''endpoint slice '' @ service @ '': removed '' @ ps_name (lo_target f)) ''warn'' f),
      Do (narration ''(ok) traffic rerouted away from failing pod'' 1.5 2.5 True),
      Wait 0.6,
      Do (create_pod service ''Pending'' False),
      Do (\<lambda>f. add_pod service (lo_new f) f),
      Do (\<lambda>f. k8s (''replicaset/'' @ service @ '': replicas='' @ str_int (int (length (ss_pods (service_of service f))) - 1) @ ''/'' @ str_nat (ss_desired_replicas (service_of service f)) @ '' -> scheduling pod '' @ ps_name (lo_new f)) ''info'' f),
      Wait 0.6,
      Do (\<lambda>f. set_phase (lo_new f) ''ContainerCreating'' f),
      Do (\<lambda>f. k8s (ps_name (lo_new f) @ '': scheduled to node aks-app-12345 -> ContainerCreating'') ''info'' f),
      Wait 0.3,
      Do (\<lambda>f. k8s (ps_name (lo_new f) @ '': container started (image cached, 0.2s)'') ''info'' f),
      Wait 2.4,
      Do (\<lambda>f. set_phase (lo_new f) ''Running'' f),
      Do (\<lambda>f. set_ready (lo_new f) True f),
      Do (\<lambda>f. k8s (ps_name (lo_new f) @ '': readinessProbe passed -> endpoint added'') ''success'' f),
      Do (narration ''(ok) new pod ready, traffic resumes'' 4 10 True),
      Do (remove_target service),
      Wait 0.3,
      Do (\<lambda>f. set_latency service (lo_lat f) f),
      Do (\<lambda>f. set_errors service (lo_err f) f),
      Do (scale_rps service (1 / 0.65)),
      Do (set_healthy service True),
      Do (\<lambda>f. k8s (''recovery complete: '' @ service @ '' back to '' @ str_nat (ss_desired_replicas (service_of service f)) @ ''/'' @ str_nat (ss_desired_replicas (service_of service f)) @ '' ready'') ''success'' f),
      Do (completed (''kill_pod:'' @ service))]"

definition cpu_pressure :: "string \<Rightarrow> rat \<Rightarrow> instr list" where
  "cpu_pressure service duration_sec =
     [Need (known service),
      Acquire,
      Do (anchor (''cpu_pressure:'' @ service)),
      Do (narration ''Predicted: latency spikes, HPA detects high CPU at T+15-30s, scales replicas, latency recovers'' 15 45 False),
      Do (k8s (''applied CPU pressure to '' @ service @ '' (target=85%)'') ''warn'')] @
     concat (replicate 6
       [Wait 0.5,
        Do (scale_latency service 1.18),
        Do (scale_rps service 0.92)]) @
     [Wait 2,
      Do (k8s (''HPA/'' @ service @ '': CPU 87% > 70% target -> scale 3 -> 5'') ''warn'')] @
     concat (replicate 2
       [Wait 1,
        Do (create_pod service ''Pending'' False),
        Do (\<lambda>f. add_pod service (lo_new f) f),
        Do (\<lambda>f. k8s (ps_name (lo_new f) @ '': scheduled (HPA scale-up)'') ''info'' f)]) @
     [Wait 3,
      Do (ready_last_two service),
      Do (k8s (service @ '': 5/5 ready, latency stabilizing'') ''success''),
      Do (narration ''(ok) HPA absorbed the load -- latency recovering'' 15 45 True)] @
     concat (replicate 8
       [Wait 0.4,
        Do (map_latency service (\<lambda>x. max 45 (x * 0.88)))]) @
     [Do (completed (''cpu_pressure:'' @ service))]"

definition network_partition :: "string \<Rightarrow> rat \<Rightarrow> instr list" where
  "network_partition service duration_sec =
     [Need (known service),
      Acquire,
      Do (anchor (''network_partition:'' @ service)),
      Do (narration (''Predicted: requests to '' @ service @ '' fail, circuit breaker trips by T+3-5s, fallback engages'') 3 8 False),
      Do (k8s (''applied NetworkPolicy: deny ingress to '' @ service) ''crit''),
      Do (keep_errors service),
      Do (keep_latency service),
      Do (set_healthy service False),
      Do (set_errors service 0.95),
      Do (set_latency service 30000),
      Wait 2,
      Do (k8s (''upstream gateway: connection timeouts to '' @ service) ''crit''),
      Wait 2.5,
      Do (k8s ''circuit-breaker/api-gateway: state=OPEN (threshold 5 failures hit)'' ''warn''),
      Do (narration ''(ok) circuit breaker opened -- requests fail fast now'' 3 8 True),
      Wait (max 0 (duration_sec - 4.5)),
      Do (k8s (''NetworkPolicy removed: ingress to '' @ service @ '' restored'') ''info''),
      Do (\<lambda>f. set_errors service (lo_err f) f),
      Do (\<lambda>f. set_latency service (lo_lat f) f),
      Do (set_healthy service True),
      Wait 3,
      Do (k8s ''circuit-breaker/api-gateway: state=HALF_OPEN -> CLOSED (probes succeed)'' ''success''),
      Do (narration ''(ok) circuit breaker closed -- traffic resumed'' 10 30 True),
      Do (completed (''network_partition:'' @ service))]"

definition expire_jwt :: "instr list" where
  "expire_jwt =
     [Acquire,
      Do (anchor ''expire_jwt''),
      Do (narration ''Predicted: requests with old kid return 401, clients re-auth with refresh, new kid issues fresh JWTs'' 0.5 4 False),
      Do (k8s ''jwt-keyring/user-service: rotated current_kid k1 -> k2'' ''warn''),
      Do (k8s ''jwt-keyring/api-gateway: removed kid k1 from trust list'' ''warn''),
      Do (keep_errors ''api-gateway''),
      Do (set_errors ''api-gateway'' 0.3),
      Do (set_healthy ''api-gateway'' False),
      Wait 0.8,
      Do (k8s ''api-gateway: 401 unauthorized -- kid=k1 not in trust list'' ''warn''),
      Wait 1.2,
      Do (k8s ''user-service/refresh: granted new JWT (kid=k2) to 47 clients'' ''info''),
      Do (narration ''(ok) clients re-auth via refresh token flow'' 0.5 4 True),
      Wait 1.5,
      Do (\<lambda>f. set_errors ''api-gateway'' (lo_err f) f),
      Do (set_healthy ''api-gateway'' True),
      Do (k8s ''api-gateway: error rate back to baseline -- rotation complete'' ''success''),
      Do (completed ''expire_jwt'')]"

definition region_outage :: "rat \<Rightarrow> instr list" where
  "region_outage duration_sec =
     [Acquire,
      Do (anchor ''region_outage''),
      Do (narration ''Predicted: half the pods unreachable, traffic shifts to surviving AZ within T+5s, no customer-visible errors'' 3 8 False),
      Do (k8s ''simulated AZ outage: aks-app-12345..47 (zone us-east-1a) marked NotReady'' ''crit''),
      Do cut_zone,
      Wait 2,
      Do (\<lambda>f. k8s (''endpoint slices updated: '' @ str_nat (lo_killed f) @ '' pods removed across all services'') ''warn'' f),
      Do (narration ''(ok) traffic shifting to zone us-east-1b'' 3 8 True),
      Wait 3,
      Do (k8s ''cluster-autoscaler: provisioning 3 replacement nodes in us-east-1b'' ''info''),
      Wait (duration_sec * 0.6),
      Do rebuild_services,
      Do (k8s ''all services back to desired replicas in surviving AZ'' ''success''),
      Do (narration ''(ok) failover complete -- outside customer impact under 4s'' 10 30 True),
      Do (completed ''region_outage'')]"

definition bad_deploy :: "string \<Rightarrow> instr list" where
  "bad_deploy service =
     [Need (known service),
      Acquire,
      Do (anchor (''bad_deploy:'' @ service)),
      Do (narration ''Predicted: new pods CrashLoopBackOff, readiness fails, rollout halts at maxSurge boundary, rolling back'' 5 15 False),
      Do (k8s (''kubectl rollout deploy/'' @ service @ '' -> v1.2.4 (broken)'') ''warn''),
      Wait 1.5,
      Do (broken_pod_started service),
      Do (narration ''(ok) new pod failed liveness -- RollingUpdate halted at maxUnavailable=0'' 3 8 True),
      Wait 2.5,
      Do (k8s (''deployment/'' @ service @ '': condition=Progressing reason=NewReplicaSetAvailable=false (new pod not Ready)'') ''warn''),
      Wait 2,
      Do (k8s (''kubectl rollout undo deploy/'' @ service @ '' -> reverting to v1.2.3'') ''info''),
      Do (narration ''(ok) automatic rollback triggered by progressDeadlineSeconds'' 8 20 True),
      Wait 2.5,
      Do (k8s (service @ '': rollback complete, all pods on v1.2.3, healthy'') ''success''),
      Do (completed (''bad_deploy:'' @ service))]"

definition redis_failure :: "rat \<Rightarrow> instr list" where
  "redis_failure duration_sec =
     [Acquire,
      Do (anchor ''redis_failure''),
      Do (narration ''Predicted: rate limiter falls back to in-memory, cached endpoints get slower, DB load increases, recovery on Redis return'' 1 4 False),
      Do (k8s ''redis-master/redis: pod terminated (simulated)'' ''crit''),
      Wait 0.8,
      Do (k8s ''api-gateway/rate-limiter: Redis connection refused -> fallback to in-memory mode'' ''warn''),
      Do (narration ''rate limiter degraded to in-memory (per-replica buckets)'' 1 3 True),
      Do save_latencies,
      Do (each_latency (\<lambda>x. x * 1.7)),
      Do (each_errors (\<lambda>e. min 0.05 (e + 0.005))),
      Wait 2,
      Do (k8s ''task-service: cache-miss rate 100% (Redis down) - DB qps +180%'' ''warn''),
      Do (narration ''requests fall through cache to database'' 2 6 True),
      Wait (max 0 (duration_sec - 3)),
      Do (k8s ''redis-master: pod replaced, accepting connections'' ''success''),
      Do restore_latencies,
      Do (each_errors (\<lambda>e. max 0.001 (e - 0.005))),
      Wait 2.5,
      Do (k8s ''api-gateway/rate-limiter: Redis healthy -> switched back to distributed mode'' ''success''),
      Do (narration ''cache warmed, latency back to baseline'' 15 30 True),
      Do (completed ''redis_failure'')]"

definition db_failure :: "rat \<Rightarrow> instr list" where
  "db_failure duration_sec =
     [Acquire,
      Do (anchor ''db_failure''),
      Do (narration ''Predicted: writes fail with 503, read replicas keep partial availability, pool reconnects on recovery'' 0.5 3 False),
      Do (k8s ''postgres-primary: connection refused (simulated outage)'' ''crit''),
      Do (save_latency ''user-service''),
      Do (save_errors ''user-service''),
      Do (set_healthy ''user-service'' False),
      Do (set_errors ''user-service'' 0.45),
      Do (scale_latency ''user-service'' 3.5),
      Do (save_latency ''task-service''),
      Do (save_errors ''task-service''),
      Do (set_healthy ''task-service'' False),
      Do (set_errors ''task-service'' 0.45),
      Do (scale_latency ''task-service'' 3.5),
      Wait 1.2,
      Do (k8s ''user-service: connection pool exhausted, returning 503'' ''crit''),
      Do (k8s ''task-service: connection pool exhausted, returning 503'' ''crit''),
      Do (narration ''writes fail fast with 503 + Retry-After'' 1 3 True),
      Wait 2.5,
      Do (k8s ''task-service: read path redirected to read-replica (degraded but available)'' ''info''),
      Do (narration ''reads degraded gracefully to replicas'' 3 8 True),
      Wait (max 0 (duration_sec - 4)),
      Do (k8s ''postgres-primary: pod replaced, accepting connections'' ''success''),
      Do (set_healthy ''user-service'' True),
      Do (restore_latency ''user-service''),
      Do (restore_errors ''user-service''),
      Do (set_healthy ''task-service'' True),
      Do (restore_latency ''task-service''),
      Do (restore_errors ''task-service''),
      Wait 2,
      Do (k8s ''connection pools reconnected, normal traffic resumed'' ''success''),
      Do (narration ''pools re-established, system back to baseline'' 15 30 True),
      Do (completed ''db_failure'')]"

definition slow_network :: "rat \<Rightarrow> instr list" where
  "slow_network duration_sec =
     [Acquire,
      Do (anchor ''slow_network''),
      Do (narration ''Predicted: all latency p95 spikes by +500ms, timeouts cascade, bulkheads protect critical paths'' 0.5 4 False),
      Do (k8s ''tc netem: +500ms latency injected on all inter-pod traffic'' ''crit''),
      Do save_latencies,
      Do (each_latency (\<lambda>x. x + 500)),
      Wait 2,
      Do (k8s ''connection pools filling, queue depths climbing'' ''warn''),
      Wait 3,
      Do (k8s ''api-gateway: bulkhead pool-task-service saturated (32/32)'' ''warn''),
      Do (narration ''bulkhead isolates the saturation - other pools still healthy'' 3 8 True),
      Wait 2,
      Do (each_errors (\<lambda>e. min 0.08 (e + 0.02))),
      Do (k8s ''scattered 504 Gateway Timeout responses across endpoints'' ''warn''),
      Wait (max 0 (duration_sec - 7)),
      Do (k8s ''tc netem: latency removed'' ''success''),
      Do restore_latencies,
      Do (each_errors (\<lambda>e. max 0.001 (e - 0.02))),
      Wait 1.5,
      Do (k8s ''queue depths normalizing, requests draining'' ''success''),
      Do (narration ''system back to baseline - no permanent damage'' 20 35 True),
      Do (completed ''slow_network'')]"

definition memory_leak :: "string \<Rightarrow> instr list" where
  "memory_leak service =
     [Need (known service),
      Acquire,
      Do (anchor (''memory_leak:'' @ service)),
      Do (narration ''Predicted: memory climbs over ~8s, container OOMKilled at limit, replicaset replaces, blast contained to one pod'' 8 16 False),
      Need (has_pods service),
      Do (choose_target service),
      Do (\<lambda>f. k8s (ps_name (lo_target f) @ '': memory_rss climbing (520MB / 512MB limit)'') ''warn'' f),
      Wait 2,
      Do (\<lambda>f. k8s (ps_name (lo_target f) @ '': memory_rss=620MB / 512MB limit (overcommitted)'') ''warn'' f),
      Do (keep_latency service),
      Do (scale_latency service 1.3),
      Wait 3,
      Do (\<lambda>f. k8s (ps_name (lo_target f) @ '': memory_rss=730MB / 512MB'') ''crit'' f),
      Wait 1.5,
      Do (\<lambda>f. k8s (ps_name (lo_target f) @ '': kernel OOMKilled container '' @ [CHR 0x27] @ ''app'' @ [CHR 0x27] @ '' (exit code 137)'') ''crit'' f),
      Do (narration ''OOM killer fired - blast contained to one pod'' 5 12 True),
      Do (\<lambda>f. set_phase (lo_target f) ''Terminating'' f),
      Do (\<lambda>f. set_ready (lo_target f) False f),
      Do (set_healthy service False),
      Wait 1,
      Do (\<lambda>f. k8s (''endpoint slice '' @ service @ '': removed '' @ ps_name (lo_target f)) ''warn'' f),
      Wait 1.5,
      Do (create_pod service ''Pending'' False),
      Do (\<lambda>f. add_pod service (lo_new f) f),
      Do (\<lambda>f. k8s (''replicaset/'' @ service @ '': scheduling replacement '' @ ps_name (lo_new f)) ''info'' f),
      Wait 2.5,
      Do (\<lambda>f. set_phase (lo_new f) ''Running'' f),
      Do (\<lambda>f. set_ready (lo_new f) True f),
      Do (remove_target service),
      Do (\<lambda>f. set_latency service (lo_lat f) f),
      Do (set_healthy service True),
      Do (\<lambda>f. k8s (ps_name (lo_new f) @ '': ready (memory_rss=85MB, healthy baseline)'') ''success'' f),
      Do (narration ''recovery complete - alerts fire so the leak gets fixed'' 10 20 True),
      Do (completed (''memory_leak:'' @ service))]"

definition cert_expiry :: "instr list" where
  "cert_expiry =
     [Acquire,
      Do (anchor ''cert_expiry''),
      Do (narration ''Predicted: x509 errors on new TLS connections, cert-manager renews, distributes, traffic resumes'' 1 6 False),
      Do (k8s ''tls-secret/internal-cert: expired (notAfter passed)'' ''crit''),
      Wait 1.5,
      Do (set_healthy ''api-gateway'' False),
      Do (keep_errors ''api-gateway''),
      Do (set_errors ''api-gateway'' 0.85),
      Do (k8s ''api-gateway: x509: certificate has expired (downstream TLS handshakes failing)'' ''crit''),
      Wait 2.5,
      Do (k8s ''cert-manager: certificate renewal triggered'' ''info''),
      Wait 2.5,
      Do (k8s (''cert-manager: new certificate issued by Let'' @ [CHR 0x27] @ ''s Encrypt'') ''success''),
      Do (narration ''cert-manager renewed automatically'' 3 8 True),
      Wait 1.5,
      Do (k8s ''tls-secret/internal-cert: distributed to all api-gateway replicas (rolling reload)'' ''info''),
      Wait 2,
      Do (\<lambda>f. set_errors ''api-gateway'' (lo_err f) f),
      Do (set_healthy ''api-gateway'' True),
      Do (k8s ''api-gateway: TLS handshakes succeeding, error rate baseline'' ''success''),
      Do (narration ''system recovered - moral: monitor cert age, not just liveness'' 10 18 True),
      Do (completed ''cert_expiry'')]"

definition dns_failure :: "rat \<Rightarrow> instr list" where
  "dns_failure duration_sec =
     [Acquire,
      Do (anchor ''dns_failure''),
      Do (narration ''Predicted: new DNS lookups SERVFAIL, established conns OK, NodeLocal DNSCache softens impact, CoreDNS recovers'' 1 4 False),
      Do (k8s ''coredns: pod terminated, no replicas available'' ''crit''),
      Wait 1.5,
      Do (k8s ''api-gateway: net/http: lookup user-service: server misbehaving (SERVFAIL)'' ''crit''),
      Do (each_errors (\<lambda>e. min 0.4 (e + 0.1))),
      Wait 2.5,
      Do (k8s ''node-local-dnscache: serving stale entries from cache (graceful degradation)'' ''info''),
      Do (narration ''NodeLocal DNSCache absorbing most of the impact'' 3 8 True),
      Wait (max 0 (duration_sec - 4)),
      Do (k8s ''coredns: pod scheduled and ready (2/2 replicas back)'' ''success''),
      Do (each_errors (\<lambda>e. max 0.001 (e - 0.1))),
      Do (narration ''DNS recovered - lesson: always run CoreDNS HA'' 15 25 True),
      Do (completed ''dns_failure'')]"

definition cascading_failure :: "instr list" where
  "cascading_failure =
     [Acquire,
      Do (anchor ''cascading_failure''),
      Do (narration ''Predicted: user-service dies, task-service degrades, api-gateway circuit breakers trip, outage contained to user-flow'' 3 10 False),
      Do (set_healthy ''user-service'' False),
      Do (set_errors ''user-service'' 0.92),
      Do (scale_latency ''user-service'' 4),
      Do (k8s ''user-service: all replicas crashed (simulated kernel panic)'' ''crit''),
      Wait 2,
      Do (set_errors ''task-service'' 0.35),
      Do (scale_latency ''task-service'' 2.2),
      Do (k8s ''task-service: depends on user-service for auth checks - timeouts cascading'' ''crit''),
      Do (narration ''failure spreading to dependent service'' 1 4 True),
      Wait 3,
      Do (k8s ''api-gateway/circuit-breaker:user-service -> OPEN (failure threshold hit)'' ''warn''),
      Do (k8s ''api-gateway/circuit-breaker:task-service -> OPEN'' ''warn''),
      Do (narration ''circuit breakers tripped - cascade contained at gateway'' 4 10 True),
      Do (set_errors ''api-gateway'' 0.15),
      Wait 8,
      Do (set_healthy ''user-service'' True),
      Do (set_errors ''user-service'' 0.001),
      Do (scale_latency ''user-service'' (1 / 4)),
      Do (set_errors ''task-service'' 0.001),
      Do (scale_latency ''task-service'' (1 / 2.2)),
      Do (set_errors ''api-gateway'' 0.001),
      Do (k8s ''user-service: pods recovered, readiness probes passing'' ''success''),
      Wait 2,
      Do (k8s ''circuit-breakers: HALF_OPEN -> CLOSED (probe requests succeeded)'' ''success''),
      Do (narration ''full recovery - blast radius bounded by breakers'' 15 30 True),
      Do (completed ''cascading_failure'')]"

definition disk_full :: "string \<Rightarrow> instr list" where
  "disk_full service =
     [Need (known service),
      Acquire,
      Do (anchor (''disk_full:'' @ service)),
      Do (narration ''Predicted: disk fills, writes fail, kubelet evicts under DiskPressure, replicaset replaces'' 4 12 False),
      Need (has_pods service),
      Do (choose_target service),
      Do (\<lambda>f. k8s (ps_name (lo_target f) @ '': ephemeral storage 75% (1.5G/2G)'') ''info'' f),
      Wait 1.5,
      Do (\<lambda>f. k8s (ps_name (lo_target f) @ '': ephemeral storage 92% (1.84G/2G)'') ''warn'' f),
      Do (keep_errors service),
      Do (set_errors service 0.3),
      Wait 1.5,
      Do (\<lambda>f. k8s (ps_name (lo_target f) @ '': write failures (ENOSPC) on log file rotation'') ''crit'' f),
      Do (narration ''write path returning 500s as disk fills'' 2 5 True),
      Wait 2,
      Do (k8s ''kubelet: node DiskPressure condition true (>85%)'' ''crit''),
      Wait 0.5,
      Do (\<lambda>f. k8s (''kubelet: evicting '' @ ps_name (lo_target f) @ '' (reason: DiskPressure)'') ''warn'' f),
      Do (\<lambda>f. set_phase (lo_target f) ''Terminating'' f),
      Do (\<lambda>f. set_ready (lo_target f) False f),
      Do (set_healthy service False),
      Wait 1.5,
      Do (create_pod service ''Pending'' False),
      Do (\<lambda>f. add_pod service (lo_new f) f),
      Do (\<lambda>f. k8s (''replicaset: scheduling '' @ ps_name (lo_new f) @ '' on a fresh disk'') ''info'' f),
      Wait 3,
      Do (\<lambda>f. set_phase (lo_new f) ''Running'' f),
      Do (\<lambda>f. set_ready (lo_new f) True f),
      Do (remove_target service),
      Do (\<lambda>f. set_errors service (lo_err f) f),
      Do (set_healthy service True),
      Do (\<lambda>f. k8s (ps_name (lo_new f) @ '': ready, disk 12% -- underlying log-rotation bug still needs fix'') ''success'' f),
      Do (narration ''recovery complete -- fix the cause, not just the symptom'' 8 15 True),
      Do (completed (''disk_full:'' @ service))]"

definition gc_pause :: "string \<Rightarrow> instr list" where
  "gc_pause service =
     [Need (known service),
      Acquire,
      Do (anchor (''gc_pause:'' @ service)),
      Do (narration ''Predicted: ~600ms latency spike on one pod, outlier detection routes around, recovery in seconds'' 1 4 False),
      Do (k8s (service @ '': full GC triggered on replica-1 (heap 91%)'') ''warn''),
      Do (keep_latency service),
      Do (scale_latency service 6),
      Wait 0.6,
      Do (k8s (service @ '': p99 latency spike to 3.2s (stop-the-world pause)'') ''warn''),
      Do (narration ''p99 spike observed -- long-tail latency from GC'' 0.5 2 True),
      Wait 1.5,
      Do (k8s ''envoy: outlier detection downweights replica-1 (consecutive 5xx)'' ''info''),
      Do (narration ''load balancer routing around the slow pod'' 2 5 True),
      Do (\<lambda>f. set_latency service (lo_lat f * 1.3) f),
      Wait 3,
      Do (k8s (service @ '': GC complete, replica-1 latency back to baseline'') ''success''),
      Do (narration ''replica re-admitted to pool gradually (slow-start)'' 4 8 True),
      Do (\<lambda>f. set_latency service (lo_lat f) f),
      Do (completed (''gc_pause:'' @ service))]"

definition thundering_herd :: "rat \<Rightarrow> instr list" where
  "thundering_herd duration_sec =
     [Acquire,
      Do (anchor ''thundering_herd''),
      Do (narration ''Predicted: brief upstream blip, all clients retry simultaneously, herd takes the service down a second time'' 2 6 False),
      Do (k8s ''user-service: brief 3-second blip (network glitch)'' ''warn''),
      Do (keep_errors ''user-service''),
      Do (set_errors ''user-service'' 0.5),
      Wait 3,
      Do (\<lambda>f. set_errors ''user-service'' (lo_err f) f),
      Do (k8s ''user-service: recovered, accepting connections'' ''success''),
      Wait 0.8,
      Do (k8s ''api-gateway: queued retries firing simultaneously (no jitter)'' ''crit''),
      Do (set_errors ''user-service'' 0.7),
      Do (scale_latency ''user-service'' 4),
      Do (scale_latency ''api-gateway'' 2),
      Do (narration ''herd arrived all at once -- service overwhelmed'' 3 6 True),
      Wait 3.5,
      Do (k8s ''user-service: adaptive concurrency limit kicks in, shedding load'' ''warn''),
      Do (narration ''backpressure stops the herd from compounding'' 5 10 True),
      Wait (max 0 (duration_sec - 7)),
      Do (\<lambda>f. set_errors ''user-service'' (lo_err f) f),
      Do (scale_latency ''user-service'' (1 / 4)),
      Do (scale_latency ''api-gateway'' (1 / 2)),
      Do (k8s ''traffic shaped -- system stable'' ''success''),
      Do (narration ''recovery -- moral: full jitter on every retry policy'' 10 20 True),
      Do (completed ''thundering_herd'')]"

definition noisy_neighbor :: "rat \<Rightarrow> instr list" where
  "noisy_neighbor duration_sec =
     [Acquire,
      Do (anchor ''noisy_neighbor''),
      Do (narration ''Predicted: a co-tenant pod hogs node CPU, neighbors degrade, scheduler eventually rebalances'' 3 10 False),
      Do (k8s (''node-12: pod '' @ [CHR 0x27] @ ''data-batch-7f3'' @ [CHR 0x27] @ '' consuming 87% of node CPU (no limits set)'') ''warn''),
      Do (save_latency ''task-service''),
      Do (scale_latency ''task-service'' 2.4),
      Do (save_latency ''notification-service''),
      Do (scale_latency ''notification-service'' 2.4),
      Wait 2,
      Do (k8s ''task-service: CPU throttled -- latency p95 climbing'' ''warn''),
      Do (narration ''co-tenant pods getting CPU-starved'' 3 8 True),
      Wait 4,
      Do (k8s ''operator applied resource limits to data-batch deployment'' ''info''),
      Wait 2,
      Do (k8s ''kernel cgroup: data-batch-7f3 throttled at 4 CPU limit'' ''success''),
      Do (narration ''limits applied -- noisy pod capped at its fair share'' 8 16 True),
      Do (restore_latency ''task-service''),
      Do (restore_latency ''notification-service''),
      Wait (max 0 (duration_sec - 8)),
      Do (k8s ''VPA recommends data-batch right-sized to 1 CPU -- moved to batch node pool'' ''success''),
      Do (completed ''noisy_neighbor'')]"

definition spot_reclaim :: "instr list" where
  "spot_reclaim =
     [Acquire,
      Do (anchor ''spot_reclaim''),
      Do (narration ''Predicted: 30s notice, node-termination-handler drains, PDB respected, pods reschedule, no user impact'' 0.5 4 False),
      Do (k8s ''aws-spot: termination notice for node aks-spot-9f4d (30s)'' ''warn''),
      Wait 1,
      Do (k8s ''node-termination-handler: cordoning aks-spot-9f4d'' ''info''),
      Wait 1.5,
      Do (k8s ''kubectl drain: evicting pods, respecting PDB (max-unavailable: 1)'' ''info''),
      Need (has_pods ''api-gateway''),
      Do (choose_target ''api-gateway''),
      Do (\<lambda>f. set_phase (lo_target f) ''Terminating'' f),
      Do (\<lambda>f. set_ready (lo_target f) False f),
      Wait 2,
      Do (\<lambda>f. k8s (ps_name (lo_target f) @ '': SIGTERM received, draining in-flight requests (terminationGracePeriodSeconds: 30)'') ''info'' f),
      Do (narration ''graceful shutdown -- in-flight requests finished'' 1.5 5 True),
      Wait 3,
      Do (\<lambda>f. k8s (ps_name (lo_target f) @ '': terminated cleanly'') ''success'' f),
      Do (create_pod ''api-gateway'' ''Pending'' False),
      Do (\<lambda>f. add_pod ''api-gateway'' (lo_new f) f),
      Do (\<lambda>f. k8s (''replicaset: scheduling replacement '' @ ps_name (lo_new f) @ '' on on-demand capacity'') ''info'' f),
      Wait 2.5,
      Do (\<lambda>f. set_phase (lo_new f) ''Running'' f),
      Do (\<lambda>f. set_ready (lo_new f) True f),
      Do (remove_target ''api-gateway''),
      Do (\<lambda>f. k8s (ps_name (lo_new f) @ '': ready, traffic resumed'') ''success'' f),
      Do (narration ''zero user impact -- spot interruption handled gracefully'' 8 15 True),
      Do (completed ''spot_reclaim'')]"

definition autoscaler_stuck :: "rat \<Rightarrow> instr list" where
  "autoscaler_stuck duration_sec =
     [Acquire,
      Do (anchor ''autoscaler_stuck''),
      Do (narration ''Predicted: pods Pending, cluster autoscaler unable to provision (capacity issue), fallback to alt instance family'' 5 15 False),
      Do (k8s ''cluster-autoscaler: 4 Pending pods, attempting to scale up'' ''warn''),
      Wait 2,
      Do (k8s ''cloud-api: InsufficientInstanceCapacity for m5.xlarge in us-east-1a'' ''crit''),
      Do (narration ''cloud-side capacity exhausted -- autoscaler stuck'' 2 5 True),
      Do (scale_latency ''api-gateway'' 1.8),
      Do (set_errors ''api-gateway'' 0.04),
      Wait 4,
      Do (k8s ''cluster-autoscaler: retry #3 -- still InsufficientInstanceCapacity'' ''warn''),
      Wait 3,
      Do (k8s ''priority-expander: failing over to m5a.xlarge node group'' ''info''),
      Do (narration ''alt instance family attempted'' 8 14 True),
      Wait 2.5,
      Do (k8s ''cloud-api: m5a.xlarge accepted -- provisioning 2 nodes'' ''success''),
      Wait 3,
      Do (k8s ''new nodes Ready, Pending pods scheduled'' ''success''),
      Do (scale_latency ''api-gateway'' (1 / 1.8)),
      Do (set_errors ''api-gateway'' 0.001),
      Wait (max 0 (duration_sec - 14.5)),
      Do (narration (''capacity restored -- moral: don'' @ [CHR 0x27] @ ''t depend on a single instance family'') 15 25 True),
      Do (completed ''autoscaler_stuck'')]"

definition api_throttle :: "rat \<Rightarrow> instr list" where
  "api_throttle duration_sec =
     [Acquire,
      Do (anchor ''api_throttle''),
      Do (narration ''Predicted: misbehaving controller hammers API server, APF rejects low-priority requests, workloads keep running'' 1 4 False),
      Do (k8s ''kube-apiserver: request queue depth at 800/1000'' ''warn''),
      Wait 1.5,
      Do (k8s ''kube-apiserver: 429 Too Many Requests on low-priority requests'' ''crit''),
      Do (k8s ''apf: workload-low priority being throttled'' ''warn''),
      Do (narration ''APF protecting system-critical requests'' 1 4 True),
      Wait 3,
      Do (k8s ''identified: third-party-controller-x making 12K LIST requests/min'' ''info''),
      Wait 2.5,
      Do (k8s ''operator: increased kube-apiserver replicas 3 -> 5'' ''info''),
      Wait (max 0 (duration_sec - 7)),
      Do (k8s ''kube-apiserver: queue depth normal, all priority levels healthy'' ''success''),
      Do (narration ''workloads were never affected -- APF did its job'' 15 25 True),
      Do (completed ''api_throttle'')]"

definition secret_leak :: "rat \<Rightarrow> instr list" where
  "secret_leak duration_sec =
     [Acquire,
      Do (anchor ''secret_leak''),
      Do (narration ''Predicted: secret rotated, projected volumes pick up new value within seconds, env-var pods need rolling restart'' 1 8 False),
      Do (k8s ''gitleaks: detected DB_PASSWORD in commit abcd1234 (public repo)'' ''crit''),
      Wait 2,
      Do (k8s ''security-team: rotating db-password secret'' ''info''),
      Wait 1.5,
      Do (k8s ''kubectl apply: secret/db-password updated'' ''info''),
      Wait 1,
      Do (k8s ''projected volume in task-service pods: hot-reloaded new secret'' ''success''),
      Do (narration ''projected volume picked up rotation in 5s'' 3 8 True),
      Wait 2,
      Do (k8s ''user-service uses env-var secret: needs rolling restart'' ''info''),
      Do (set_healthy ''user-service'' False),
      Wait 2.5,
      Do (k8s ''rolling restart: replicas 3/3 with new secret'' ''success''),
      Do (set_healthy ''user-service'' True),
      Do (narration ''env-var-based pods rotated via rolling restart'' 8 15 True),
      Wait 2,
      Do (k8s ''db: old credential revoked, all open connections re-authed'' ''success''),
      Wait (max 0 (duration_sec - 11)),
      Do (k8s ''postmortem action: add gitleaks pre-commit hook + External Secrets Operator'' ''info''),
      Do (completed ''secret_leak'')]"

definition service_mesh_crash :: "string \<Rightarrow> instr list" where
  "service_mesh_crash service =
     [Need (known service),
      Acquire,
      Do (anchor (''service_mesh_crash:'' @ service)),
      Do (narration ''Predicted: sidecar OOM, app keeps running but unreachable, sidecar restarts and resyncs xDS, total ~5s impact'' 2 8 False),
      Do (k8s (service @ '' pod replica-1: envoy sidecar memory 510MB / 512MB limit'') ''warn''),
      Wait 1,
      Do (k8s (service @ '' pod replica-1: envoy OOMKilled (exit 137) -- app container running'') ''crit''),
      Do (keep_errors service),
      Do (set_errors service 0.2),
      Wait 1.5,
      Do (k8s ''istio: removed pod replica-1 from EndpointSlice (sidecar not ready)'' ''warn''),
      Do (narration ''mesh routing around the pod with the dead sidecar'' 1.5 4 True),
      Wait 2,
      Do (k8s ''envoy: restarted, xDS sync from istiod in progress'' ''info''),
      Wait 2,
      Do (k8s ''envoy: xDS sync complete, listeners ready'' ''success''),
      Do (\<lambda>f. set_errors service (lo_err f) f),
      Do (narration ''sidecar back, pod re-admitted to mesh'' 5 10 True),
      Do (completed (''service_mesh_crash:'' @ service))]"

definition third_party_outage :: "rat \<Rightarrow> instr list" where
  "third_party_outage duration_sec =
     [Acquire,
      Do (anchor ''third_party_outage''),
      Do (narration ''Predicted: payment provider down, circuit breaker trips, orders queue for replay, no double-charges thanks to idempotency keys'' 1 5 False),
      Do (k8s ''upstream-monitor: api.stripe.com unreachable (5xx + timeouts)'' ''crit''),
      Do (set_errors ''task-service'' 0.18),
      Wait 2.5,
      Do (k8s ''task-service: circuit-breaker:stripe -> OPEN (5 consecutive failures)'' ''warn''),
      Do (narration ''circuit breaker trips -- fast-failing instead of hanging'' 2 5 True),
      Wait 2,
      Do (k8s (''checkout: degraded response -- '' @ [CHR 0x27] @ ''Payment will be processed shortly'' @ [CHR 0x27]) ''info''),
      Do (k8s ''order-queue: 47 orders enqueued for replay with idempotency keys'' ''info''),
      Do (narration ''orders accepted and queued -- customer experience preserved'' 4 10 True),
      Wait (max 0 (duration_sec - 6.5)),
      Do (k8s ''upstream-monitor: api.stripe.com responding normally'' ''success''),
      Do (k8s ''circuit-breaker:stripe -> HALF_OPEN (probe succeeded)'' ''success''),
      Wait 1.5,
      Do (k8s ''order-queue: replaying 47 queued operations with deduplication'' ''info''),
      Wait 1.5,
      Do (k8s ''order-queue: drained, 47 charges processed, 0 duplicates'' ''success''),
      Do (set_errors ''task-service'' 0.001),
      Do (narration ''queued orders processed -- moral: idempotency keys save lives'' 15 30 True),
      Do (completed ''third_party_outage'')]"

end
