(* ===== verification/ChaosLoop.thy ===== *)
theory ChaosLoop
  imports ChaosActions
begin

text \<open>
  The event loop the chaos actions run in: tasks that sleep, wait for the lock in first-in first-out
  order, or have ended; the scenario runner (\<^verbatim>\<open>run_scenario\<close>, \<^verbatim>\<open>_scenario_step\<close>) with its step table;
  and the ambient drift. Which task runs when is left open: every event is a step of its own.
\<close>

section \<open>Tasks\<close>

datatype run_status = Sleeping pyfloat | Queued | Ended

record chaos_task =
  ct_prog :: "instr list"
  ct_frame :: frame
  ct_status :: run_status

record chaos_loop =
  cl_mock :: mock_cluster
  cl_tasks :: "chaos_task list"
  cl_lock :: "nat list"

definition initial_frame :: "mock_cluster \<Rightarrow> frame" where
  "initial_frame m = mock_cluster.extend m
     (frame.fields (fresh_pod [] [] False m) (fresh_pod [] [] False m) 0 0 [] [] 0)"

text \<open>A task sees the shared cluster, at the time it runs, through its own local variables.\<close>

definition enter :: "pyfloat \<Rightarrow> mock_cluster \<Rightarrow> frame \<Rightarrow> frame" where
  "enter now m f = mock_cluster.extend (m\<lparr>mk_now := now\<rparr>) (mock_cluster.more f)"

text \<open>
  A task runs to its next suspension point. \<open>free\<close> tells whether the lock is; outside a scenario the
  task takes it, or queues for it. The result: whether it took the lock, how it stopped, what is left.
\<close>

fun advance :: "bool \<Rightarrow> instr list \<Rightarrow> frame \<Rightarrow> bool \<times> run_status \<times> instr list \<times> frame" where
  "advance free [] f = (False, Ended, [], f)"
| "advance free (Do g # is) f = advance free is (g f)"
| "advance free (Need p # is) f = (if p f then advance free is f else (False, Ended, [], f))"
| "advance free (Wait s # is) f =
     (False, Sleeping (mk_now f + max 0 (jittered (mk_uniform f (mk_draws f)) s)), is, draw 1 f)"
| "advance free (Sleep s # is) f = (False, Sleeping (mk_now f + max 0 s), is, f)"
| "advance free (Acquire # is) f =
     (if mk_scenario_mode f then advance free is f
      else if free then (case advance False is f of (_, r) \<Rightarrow> (True, r))
      else (False, Queued, is, f))"

definition runnable :: "nat \<Rightarrow> pyfloat \<Rightarrow> chaos_loop \<Rightarrow> bool" where
  "runnable i now L \<longleftrightarrow> i < length (cl_tasks L) \<and> mk_now (cl_mock L) \<le> now \<and>
     (case ct_status (cl_tasks L ! i) of
        Sleeping wake \<Rightarrow> wake \<le> now
      | Queued \<Rightarrow> cl_lock L \<noteq> [] \<and> hd (cl_lock L) = i
      | Ended \<Rightarrow> False)"

definition resume :: "nat \<Rightarrow> pyfloat \<Rightarrow> chaos_loop \<Rightarrow> chaos_loop" where
  "resume i now L =
     (if \<not> runnable i now L then L
      else
        (case advance (cl_lock L = []) (ct_prog (cl_tasks L ! i)) (enter now (cl_mock L) (ct_frame (cl_tasks L ! i))) of
           (took, st, prog, f) \<Rightarrow>
             L\<lparr>cl_mock := mock_cluster.truncate f,
               cl_tasks := (cl_tasks L)[i := \<lparr>ct_prog = prog, ct_frame = f, ct_status = st\<rparr>],
               cl_lock :=
                 (let lock = (if took \<or> st = Queued then cl_lock L @ [i] else cl_lock L)
                  in if st = Ended \<and> lock \<noteq> [] \<and> hd lock = i then tl lock else lock)\<rparr>))"

text \<open>\<^verbatim>\<open>asyncio.create_task\<close>: the task may run as soon as the loop gets to it.\<close>

definition spawn :: "instr list \<Rightarrow> chaos_loop \<Rightarrow> chaos_loop" where
  "spawn prog L = L\<lparr>cl_tasks := cl_tasks L @
     [\<lparr>ct_prog = prog, ct_frame = initial_frame (cl_mock L), ct_status = Sleeping (mk_now (cl_mock L))\<rparr>]\<rparr>"

definition on_mock :: "(mock_cluster \<Rightarrow> mock_cluster) \<Rightarrow> chaos_loop \<Rightarrow> chaos_loop" where
  "on_mock g L = L\<lparr>cl_mock := g (cl_mock L)\<rparr>"

section \<open>Actions by name\<close>

datatype chaos_action =
    KillPod string
  | CpuPressure string pyfloat
  | NetworkPartition string pyfloat
  | ExpireJwt
  | RegionOutage pyfloat
  | BadDeploy string
  | RedisFailure pyfloat
  | DbFailure pyfloat
  | SlowNetwork pyfloat
  | MemoryLeak string
  | CertExpiry
  | DnsFailure pyfloat
  | CascadingFailure
  | DiskFull string
  | GcPause string
  | ThunderingHerd pyfloat
  | NoisyNeighbor pyfloat
  | SpotReclaim
  | AutoscalerStuck pyfloat
  | ApiThrottle pyfloat
  | SecretLeak pyfloat
  | ServiceMeshCrash string
  | ThirdPartyOutage pyfloat

fun action_prog :: "chaos_action \<Rightarrow> instr list" where
  "action_prog (KillPod s) = kill_pod s"
| "action_prog (CpuPressure s d) = cpu_pressure s d"
| "action_prog (NetworkPartition s d) = network_partition s d"
| "action_prog ExpireJwt = expire_jwt"
| "action_prog (RegionOutage d) = region_outage d"
| "action_prog (BadDeploy s) = bad_deploy s"
| "action_prog (RedisFailure d) = redis_failure d"
| "action_prog (DbFailure d) = db_failure d"
| "action_prog (SlowNetwork d) = slow_network d"
| "action_prog (MemoryLeak s) = memory_leak s"
| "action_prog CertExpiry = cert_expiry"
| "action_prog (DnsFailure d) = dns_failure d"
| "action_prog CascadingFailure = cascading_failure"
| "action_prog (DiskFull s) = disk_full s"
| "action_prog (GcPause s) = gc_pause s"
| "action_prog (ThunderingHerd d) = thundering_herd d"
| "action_prog (NoisyNeighbor d) = noisy_neighbor d"
| "action_prog SpotReclaim = spot_reclaim"
| "action_prog (AutoscalerStuck d) = autoscaler_stuck d"
| "action_prog (ApiThrottle d) = api_throttle d"
| "action_prog (SecretLeak d) = secret_leak d"
| "action_prog (ServiceMeshCrash s) = service_mesh_crash s"
| "action_prog (ThirdPartyOutage d) = third_party_outage d"

section \<open>Scenarios\<close>

record scenario_step =
  st_at :: pyfloat
  st_action :: string
  st_service :: "string option"
  st_duration :: "pyfloat option"

record scenario =
  sc_name :: string
  sc_duration_sec :: pyfloat
  sc_description :: string
  sc_steps :: "scenario_step list"
  sc_takeaway :: string

text \<open>A step without a service where one is needed raises a \<^verbatim>\<open>KeyError\<close>, which the runner swallows.\<close>

definition scenario_action :: "scenario_step \<Rightarrow> chaos_action option" where
  "scenario_action st =
     (let action = st_action st; service = st_service st;
          duration = (\<lambda>d. case st_duration st of Some x \<Rightarrow> x | None \<Rightarrow> d)
      in if action = ''kill_pod'' then map_option KillPod service
         else if action = ''cpu_pressure'' then map_option (\<lambda>s. CpuPressure s (duration 12)) service
         else if action = ''network_partition'' then map_option (\<lambda>s. NetworkPartition s (duration 10)) service
         else if action = ''expire_jwt'' then Some ExpireJwt
         else if action = ''region_outage'' then Some (RegionOutage (duration 20))
         else if action = ''bad_deploy'' then map_option BadDeploy service
         else if action = ''redis_failure'' then Some (RedisFailure (duration 20))
         else if action = ''db_failure'' then Some (DbFailure (duration 18))
         else if action = ''slow_network'' then Some (SlowNetwork (duration 25))
         else if action = ''memory_leak'' then map_option MemoryLeak service
         else if action = ''cert_expiry'' then Some CertExpiry
         else if action = ''dns_failure'' then Some (DnsFailure (duration 18))
         else if action = ''cascading_failure'' then Some CascadingFailure
         else if action = ''disk_full'' then map_option DiskFull service
         else if action = ''gc_pause'' then map_option GcPause service
         else if action = ''thundering_herd'' then Some (ThunderingHerd (duration 18))
         else if action = ''noisy_neighbor'' then Some (NoisyNeighbor (duration 22))
         else if action = ''spot_reclaim'' then Some SpotReclaim
         else if action = ''autoscaler_stuck'' then Some (AutoscalerStuck (duration 20))
         else if action = ''api_throttle'' then Some (ApiThrottle (duration 20))
         else if action = ''secret_leak'' then Some (SecretLeak (duration 22))
         else if action = ''service_mesh_crash'' then map_option ServiceMeshCrash service
         else if action = ''third_party_outage'' then Some (ThirdPartyOutage (duration 25))
         else None)"

definition scenario_step_prog :: "scenario_step \<Rightarrow> instr list" where
  "scenario_step_prog st =
     Sleep (st_at st) # (case scenario_action st of Some a \<Rightarrow> action_prog a | None \<Rightarrow> [])"

definition scenario_event :: "string \<Rightarrow> scenario \<Rightarrow> bool \<Rightarrow> mock_cluster \<Rightarrow> mock_cluster" where
  "scenario_event scenario_id scn start =
     publish ''scenario''
       (JObj ([(''id'', JStr scenario_id), (''name'', JStr (sc_name scn))] @
          (if start then [(''started'', JBool True), (''duration'', JFloat (sc_duration_sec scn))]
           else [(''completed'', JBool True)])))
       (if start then ''info'' else ''success'')"

text \<open>
  \<^verbatim>\<open>run_scenario\<close> up to its \<^verbatim>\<open>gather\<close>: the mode is set and one task is created per step. The \<^verbatim>\<open>finally\<close>
  follows when those tasks have ended, whatever other scenario is still running.
\<close>

definition run_scenario :: "(string \<times> scenario) list \<Rightarrow> string \<Rightarrow> chaos_loop \<Rightarrow> chaos_loop" where
  "run_scenario SCENARIOS scenario_id L =
     (case map_of SCENARIOS scenario_id of
        None \<Rightarrow> on_mock (log_msg (''unknown scenario '' @ scenario_id) ''warn'') L
      | Some scn \<Rightarrow>
          fold (\<lambda>st. spawn (scenario_step_prog st)) (sc_steps scn)
            (on_mock (\<lambda>m. (scenario_event scenario_id scn True m)\<lparr>mk_scenario_mode := True\<rparr>) L))"

definition finish_scenario :: "string \<Rightarrow> scenario \<Rightarrow> nat list \<Rightarrow> chaos_loop \<Rightarrow> chaos_loop" where
  "finish_scenario scenario_id scn ids L =
     (if list_all (\<lambda>i. i < length (cl_tasks L) \<and> ct_status (cl_tasks L ! i) = Ended) ids
      then on_mock (\<lambda>m. scenario_event scenario_id scn False (m\<lparr>mk_scenario_mode := False\<rparr>)) L else L)"

section \<open>Ambient drift\<close>

text \<open>One round of \<^verbatim>\<open>_ambient_loop\<close>; \<open>gauss\<close> gives the normal draws, by service and position.\<close>

definition drifted :: "(string \<Rightarrow> nat \<Rightarrow> pyfloat) \<Rightarrow> service_state \<Rightarrow> service_state" where
  "drifted gauss s =
     (if \<not> ss_healthy s then s
      else s\<lparr>ss_latency_ms_p95 := max 20 (ss_latency_ms_p95 s + gauss (ss_name s) 0),
             ss_rps := max 10 (ss_rps s + gauss (ss_name s) 1),
             ss_error_rate := max 0 (min 0.01 (ss_error_rate s + gauss (ss_name s) 2))\<rparr>)"

definition pod_json :: "pod_state \<Rightarrow> json" where
  "pod_json p = JObj [(''name'', JStr (ps_name p)), (''phase'', JStr (ps_phase p)), (''ready'', JBool (ps_ready p)),
     (''age'', JFloat (py_round 1 (ps_age_sec p)))]"

definition service_json :: "service_state \<Rightarrow> json" where
  "service_json s = JObj
     [(''desired'', JInt (int (ss_desired_replicas s))),
      (''ready'', JInt (int (length (filter ps_ready (ss_pods s))))),
      (''pods'', JArr (map pod_json (ss_pods s))),
      (''healthy'', JBool (ss_healthy s)),
      (''latency_p95_ms'', JFloat (py_round 1 (ss_latency_ms_p95 s))),
      (''rps'', JFloat (py_round 1 (ss_rps s))),
      (''error_rate'', JFloat (py_round 4 (ss_error_rate s)))]"

definition snapshot :: "'a mock_cluster_scheme \<Rightarrow> json" where
  "snapshot m = JObj [(''services'', JObj (map (\<lambda>(n, s). (n, service_json s)) (mk_services m))),
     (''mode'', JStr ''mock'')]"

definition ambient_round :: "pyfloat \<Rightarrow> (string \<Rightarrow> nat \<Rightarrow> pyfloat) \<Rightarrow> mock_cluster \<Rightarrow> mock_cluster" where
  "ambient_round now gauss m =
     (let m1 = each_service (drifted gauss) (m\<lparr>mk_now := max (mk_now m) now\<rparr>)
      in publish ''metric'' (JObj [(''snapshot'', snapshot m1)]) ''info'' m1)"

section \<open>The cluster at start\<close>

text \<open>\<^verbatim>\<open>_init_services\<close>: three pods per service with random names and ages.\<close>

fun init_pods :: "nat \<Rightarrow> string \<Rightarrow> mock_cluster \<Rightarrow> mock_cluster" where
  "init_pods 0 name m = m"
| "init_pods (Suc k) name m =
     init_pods k name
       (draw 1 (add_pod name ((fresh_pod name ''Running'' True m)
          \<lparr>ps_age_sec := 200 + (3600 - 200) * mk_uniform m (mk_draws m + 5)\<rparr>) (allocated m)))"

definition MockCluster :: "(nat \<Rightarrow> nat) \<Rightarrow> (nat \<Rightarrow> pyfloat) \<Rightarrow> hub \<Rightarrow> pyfloat \<Rightarrow> mock_cluster" where
  "MockCluster choice uniform h now =
     fold (\<lambda>name m. init_pods (ss_desired_replicas (ServiceState name)) name
             (m\<lparr>mk_services := mk_services m @ [(name, ServiceState name)]\<rparr>))
       SERVICE_NAMES
       \<lparr>mk_services = [], mk_t0_anchor = None, mk_scenario_mode = False, mk_hub = h, mk_now = now,
        mk_choice = choice, mk_uniform = uniform, mk_draws = 0, mk_refs = 0\<rparr>"

end
