(* ===== verification/ChaosProps.thy ===== *)
theory ChaosProps
  imports ChaosLoop
begin

text \<open>
  What the chaos actions do to the cluster, and what becomes of them together: every action but one
  puts back what it disturbed, and the lock makes any number of manual triggers one after the other.
\<close>

section \<open>Rates\<close>

text \<open>What the charts show of a service: replicas wanted, health, latency, request rate, error rate.\<close>

type_synonym rates = "nat \<times> bool \<times> pyfloat \<times> pyfloat \<times> pyfloat"

definition rates :: "service_state \<Rightarrow> rates" where
  "rates s = (ss_desired_replicas s, ss_healthy s, ss_latency_ms_p95 s, ss_rps s, ss_error_rate s)"

definition chart :: "'a mock_cluster_scheme \<Rightarrow> string \<Rightarrow> rates option" where
  "chart m k = map_option rates (map_of (mk_services m) k)"

text \<open>A change of one service's rates, and of all.\<close>

definition at_name :: "string \<Rightarrow> (rates \<Rightarrow> rates) \<Rightarrow> (string \<Rightarrow> rates option) \<Rightarrow> string \<Rightarrow> rates option" where
  "at_name n h c k = (if k = n then map_option h (c k) else c k)"

definition at_all :: "(rates \<Rightarrow> rates) \<Rightarrow> (string \<Rightarrow> rates option) \<Rightarrow> string \<Rightarrow> rates option" where
  "at_all h c k = map_option h (c k)"

lemma map_of_on: "map_of (map (\<lambda>(n, s). (n, if n = name then g s else s)) d) k =
    (if k = name then map_option g (map_of d k) else map_of d k)"
  by (induction d) auto

lemma map_of_each: "map_of (map (\<lambda>(n, s). (n, g s)) d) k = map_option g (map_of d k)"
  by (induction d) auto

lemma map_of_named: "map_of (map (\<lambda>(n, s). (n, g n s)) d) k = map_option (g k) (map_of d k)"
  by (induction d) auto

lemmas shared_defs = publish_def anchor_def k8s_def narration_def completed_def log_msg_def draw_def
  on_service_def each_service_def

lemma chart_quiet [simp]:
  "chart (publish k p l m) = chart m" "chart (anchor a m) = chart m" "chart (k8s t l m) = chart m"
  "chart (narration t x y b m) = chart m" "chart (completed a m) = chart m" "chart (log_msg t l m) = chart m"
  "chart (draw n m) = chart m" "chart (allocated m) = chart m"
  by (simp_all add: chart_def shared_defs allocated_def fun_eq_iff)

lemma chart_locals [simp]:
  "chart (f\<lparr>lo_target := p\<rparr>) = chart f" "chart (f\<lparr>lo_new := p\<rparr>) = chart f" "chart (f\<lparr>lo_lat := x\<rparr>) = chart f"
  "chart (f\<lparr>lo_err := x\<rparr>) = chart f" "chart (f\<lparr>lo_lats := d\<rparr>) = chart f" "chart (f\<lparr>lo_errs := d\<rparr>) = chart f"
  "chart (f\<lparr>lo_killed := n\<rparr>) = chart f"
  by (simp_all add: chart_def fun_eq_iff)

lemma chart_on:
  "(\<And>s. rates (g s) = h (rates s)) \<Longrightarrow>
     chart (on_service name g m) = at_name name h (chart m)"
  by (auto simp: fun_eq_iff at_name_def chart_def on_service_def map_of_on option.map_comp comp_def)

lemma chart_each:
  "(\<And>s. rates (g s) = h (rates s)) \<Longrightarrow> chart (each_service g m) = at_all h (chart m)"
  by (auto simp: fun_eq_iff at_all_def chart_def each_service_def map_of_each option.map_comp comp_def)

lemma chart_pods: "(\<And>s. rates (g s) = rates s) \<Longrightarrow> chart (on_service name g m) = chart m"
  "(\<And>s. rates (g s) = rates s) \<Longrightarrow> chart (each_service g m) = chart m"
  by (simp_all add: chart_on [of g "\<lambda>x. x"] chart_each [of g "\<lambda>x. x"] option.map_ident fun_eq_iff at_name_def at_all_def)

lemma chart_changes [simp]:
  "chart (set_healthy n b m) = at_name n (\<lambda>(d, h, l, r, e). (d, b, l, r, e)) (chart m)"
  "chart (map_latency n f m) = at_name n (\<lambda>(d, h, l, r, e). (d, h, f l, r, e)) (chart m)"
  "chart (set_latency n x m) = at_name n (\<lambda>(d, h, l, r, e). (d, h, x, r, e)) (chart m)"
  "chart (scale_latency n x m) = at_name n (\<lambda>(d, h, l, r, e). (d, h, l * x, r, e)) (chart m)"
  "chart (scale_rps n x m) = at_name n (\<lambda>(d, h, l, r, e). (d, h, l, r * x, e)) (chart m)"
  "chart (set_errors n x m) = at_name n (\<lambda>(d, h, l, r, e). (d, h, l, r, x)) (chart m)"
  "chart (each_latency f m) = at_all (\<lambda>(d, h, l, r, e). (d, h, f l, r, e)) (chart m)"
  "chart (each_errors f m) = at_all (\<lambda>(d, h, l, r, e). (d, h, l, r, f e)) (chart m)"
  unfolding service_updates by (rule chart_on chart_each, simp add: rates_def)+

lemma chart_pod_changes [simp]:
  "chart (add_pod n p m) = chart m" "chart (set_phase p t m) = chart m" "chart (set_ready p b m) = chart m"
  "chart (remove_target n f) = chart f" "chart (ready_last_two n f) = chart f"
  "chart (choose_target n f) = chart f" "chart (create_pod n t b f) = chart f"
  "chart (keep_latency n f) = chart f" "chart (keep_errors n f) = chart f"
  "chart (save_latency n f) = chart f" "chart (save_errors n f) = chart f"
  "chart (save_latencies f) = chart f" "chart (broken_pod_started n f) = chart f" "chart (warn_unknown n f) = chart f"
  by (simp_all add: add_pod_def service_updates set_phase_def set_ready_def on_pod_def remove_target_def ready_last_two_def choose_target_def create_pod_def
      keep_latency_def keep_errors_def save_latency_def save_errors_def save_latencies_def broken_pod_started_def
      warn_unknown_def chart_pods rates_def)

definition latency_at :: "(string \<Rightarrow> rates option) \<Rightarrow> string \<Rightarrow> pyfloat" where
  "latency_at c n = (case c n of Some (_, _, l, _, _) \<Rightarrow> l | None \<Rightarrow> 45)"

definition errors_at :: "(string \<Rightarrow> rates option) \<Rightarrow> string \<Rightarrow> pyfloat" where
  "errors_at c n = (case c n of Some (_, _, _, _, e) \<Rightarrow> e | None \<Rightarrow> 0.001)"

lemma service_of_chart:
  "ss_latency_ms_p95 (service_of n m) = latency_at (chart m) n"
  "ss_error_rate (service_of n m) = errors_at (chart m) n"
  by (auto simp: service_of_def latency_at_def errors_at_def chart_def rates_def ServiceState_def split: option.splits)

lemma known_chart: "known s m \<longleftrightarrow> chart m s \<noteq> None"
  by (simp add: known_def chart_def)

definition at_each :: "(string \<Rightarrow> rates \<Rightarrow> rates) \<Rightarrow> (string \<Rightarrow> rates option) \<Rightarrow> string \<Rightarrow> rates option" where
  "at_each h c k = map_option (h k) (c k)"

text \<open>What no action changes: the names of the services and the scenario mode.\<close>

definition frozen :: "'a mock_cluster_scheme \<Rightarrow> string list \<times> bool" where
  "frozen m = (map fst (mk_services m), mk_scenario_mode m)"

lemma frozen_shared [simp]:
  "frozen (publish k p l m) = frozen m" "frozen (anchor a m) = frozen m" "frozen (k8s t l m) = frozen m"
  "frozen (narration t x y b m) = frozen m" "frozen (completed a m) = frozen m" "frozen (log_msg t l m) = frozen m"
  "frozen (draw i m) = frozen m" "frozen (allocated m) = frozen m" "frozen (on_service n g m) = frozen m"
  "frozen (each_service h m) = frozen m"
  by (simp_all add: frozen_def shared_defs allocated_def split_def comp_def)

lemma frozen_locals [simp]:
  "frozen (f\<lparr>lo_target := p\<rparr>) = frozen f" "frozen (f\<lparr>lo_new := p\<rparr>) = frozen f" "frozen (f\<lparr>lo_lat := x\<rparr>) = frozen f"
  "frozen (f\<lparr>lo_err := x\<rparr>) = frozen f" "frozen (f\<lparr>lo_lats := d\<rparr>) = frozen f" "frozen (f\<lparr>lo_errs := d\<rparr>) = frozen f"
  "frozen (f\<lparr>lo_killed := n\<rparr>) = frozen f"
  by (simp_all add: frozen_def)

lemma frozen_changes [simp]:
  "frozen (set_healthy n b m) = frozen m" "frozen (map_latency n q m) = frozen m" "frozen (set_latency n x m) = frozen m"
  "frozen (scale_latency n x m) = frozen m" "frozen (scale_rps n x m) = frozen m" "frozen (set_errors n x m) = frozen m"
  "frozen (each_latency q m) = frozen m" "frozen (each_errors q m) = frozen m"
  "frozen (add_pod n p m) = frozen m" "frozen (set_phase p t m) = frozen m" "frozen (set_ready p b m) = frozen m"
  "frozen (remove_target n f) = frozen f" "frozen (ready_last_two n f) = frozen f"
  "frozen (choose_target n f) = frozen f" "frozen (create_pod n t b f) = frozen f"
  "frozen (keep_latency n f) = frozen f" "frozen (keep_errors n f) = frozen f"
  "frozen (save_latency n f) = frozen f" "frozen (save_errors n f) = frozen f"
  "frozen (restore_latency n f) = frozen f" "frozen (restore_errors n f) = frozen f"
  "frozen (save_latencies f) = frozen f" "frozen (broken_pod_started n f) = frozen f" "frozen (warn_unknown n f) = frozen f"
  "frozen (cut_zone f) = frozen f"
  by (simp_all add: add_pod_def service_updates set_phase_def set_ready_def on_pod_def remove_target_def ready_last_two_def
      choose_target_def create_pod_def keep_latency_def keep_errors_def save_latency_def save_errors_def
      save_latencies_def broken_pod_started_def warn_unknown_def restore_latency_def restore_errors_def cut_zone_def)

lemma frozen_restore_latencies [simp]: "frozen (restore_latencies f) = frozen f"
  by (simp add: frozen_def restore_latencies_def split_def comp_def)

lemma fill_up_quiet [simp]: "chart (fill_up k n f) = chart f" "frozen (fill_up k n f) = frozen f"
  by (induction k n f rule: fill_up.induct) simp_all

lemma frozen_rebuild [simp]: "frozen (rebuild_service n f) = frozen f"
  by (simp add: rebuild_service_def Let_def)

lemma frozen_rebuilds [simp]: "frozen (rebuild_services f) = frozen f"
proof -
  have "frozen (fold rebuild_service ns f) = frozen f" for ns by (induction ns arbitrary: f) simp_all
  then show ?thesis by (simp add: rebuild_services_def)
qed

lemma chart_cut_zone [simp]:
  "chart (cut_zone f) = at_all (\<lambda>(d, h, l, r, e). (d, False, l * 1.5, r * 0.55, e)) (chart f)"
proof -
  have "chart (each_service (\<lambda>s. s\<lparr>ss_pods := cut_pods (ss_pods s), ss_healthy := False, ss_rps := ss_rps s * 0.55,
      ss_latency_ms_p95 := ss_latency_ms_p95 s * 1.5\<rparr>) f) =
    at_all (\<lambda>(d, h, l, r, e). (d, False, l * 1.5, r * 0.55, e)) (chart f)"
    by (rule chart_each) (simp add: rates_def)
  then show ?thesis by (simp add: cut_zone_def)
qed

abbreviation rebuilt :: "rates \<Rightarrow> rates" where
  "rebuilt \<equiv> \<lambda>(d, h, l, r, e). (d, True, l / 1.5, r / 0.55, e)"

lemma chart_rebuild: "chart (rebuild_service n f) = at_name n rebuilt (chart f)"
proof -
  have "chart (on_service n (\<lambda>s. s\<lparr>ss_healthy := True, ss_rps := ss_rps s / 0.55,
      ss_latency_ms_p95 := ss_latency_ms_p95 s / 1.5\<rparr>) g) = at_name n rebuilt (chart g)" for g :: frame
    by (rule chart_on) (simp add: rates_def)
  moreover have "chart (on_service n (ss_pods_update q) f) = chart f" for q by (rule chart_pods) (simp add: rates_def)
  ultimately show ?thesis by (simp add: rebuild_service_def Let_def)
qed

lemma chart_rebuilds:
  assumes "distinct (fst (frozen f))"
  shows "chart (rebuild_services f) = at_all rebuilt (chart f)"
proof -
  have "distinct ns \<Longrightarrow> chart (fold rebuild_service ns f) k = (if k \<in> set ns then map_option rebuilt (chart f k) else chart f k)"
    for ns k
    by (induction ns arbitrary: f) (auto simp: chart_rebuild at_name_def)
  moreover have "chart f k = None" if "k \<notin> set (fst (frozen f))" for k
    using that by (simp add: chart_def frozen_def map_of_eq_None_iff)
  ultimately show ?thesis
    using assms by (auto simp: fun_eq_iff at_all_def rebuild_services_def frozen_def)
qed

text \<open>The values a coroutine keeps in its local variables.\<close>

definition kept :: "frame \<Rightarrow> pyfloat \<times> pyfloat \<times> (string, pyfloat) dict \<times> (string, pyfloat) dict" where
  "kept f = (lo_lat f, lo_err f, lo_lats f, lo_errs f)"

lemma kept_shared [simp]:
  "kept (publish k p l f) = kept f" "kept (anchor a f) = kept f" "kept (k8s t l f) = kept f"
  "kept (narration t x y b f) = kept f" "kept (completed a f) = kept f" "kept (log_msg t l f) = kept f"
  "kept (draw i f) = kept f" "kept (allocated f) = kept f" "kept (on_service n g f) = kept f"
  "kept (each_service g f) = kept f"
  by (simp_all add: kept_def shared_defs allocated_def)

lemma kept_locals [simp]: "kept (f\<lparr>lo_target := p\<rparr>) = kept f" "kept (f\<lparr>lo_new := p\<rparr>) = kept f"
  by (simp_all add: kept_def)

lemma kept_changes [simp]:
  "kept (set_healthy n b f) = kept f" "kept (map_latency n g f) = kept f" "kept (set_latency n x f) = kept f"
  "kept (scale_latency n x f) = kept f" "kept (scale_rps n x f) = kept f" "kept (set_errors n x f) = kept f"
  "kept (each_latency g f) = kept f" "kept (each_errors g f) = kept f"
  "kept (add_pod n p f) = kept f" "kept (set_phase p t f) = kept f" "kept (set_ready p b f) = kept f"
  "kept (remove_target n f) = kept f" "kept (ready_last_two n f) = kept f"
  "kept (choose_target n f) = kept f" "kept (create_pod n t b f) = kept f"
  "kept (broken_pod_started n f) = kept f" "kept (warn_unknown n f) = kept f"
  by (simp_all add: add_pod_def service_updates set_phase_def set_ready_def on_pod_def remove_target_def ready_last_two_def choose_target_def create_pod_def
      broken_pod_started_def warn_unknown_def)

lemma kept_keeps [simp]:
  "kept (keep_latency n f) = (latency_at (chart f) n, snd (kept f))"
  "kept (keep_errors n f) = (fst (kept f), errors_at (chart f) n, snd (snd (kept f)))"
  "kept (save_latency n f) =
     (fst (kept f), fst (snd (kept f)), AList.update n (latency_at (chart f) n) (fst (snd (snd (kept f)))), snd (snd (snd (kept f))))"
  "kept (save_errors n f) =
     (fst (kept f), fst (snd (kept f)), fst (snd (snd (kept f))), AList.update n (errors_at (chart f) n) (snd (snd (snd (kept f)))))"
  by (simp_all add: kept_def keep_latency_def keep_errors_def save_latency_def save_errors_def service_of_chart)

lemma lo_kept: "lo_lat f = fst (kept f)" "lo_err f = fst (snd (kept f))"
  "lo_lats f = fst (snd (snd (kept f)))" "lo_errs f = snd (snd (snd (kept f)))"
  by (simp_all add: kept_def)

lemma chart_restore [simp]:
  "chart (restore_latency n f) = chart (set_latency n (saved n (lo_lats f)) f)"
  "chart (restore_errors n f) = chart (set_errors n (saved n (lo_errs f)) f)"
  "kept (restore_latency n f) = kept f" "kept (restore_errors n f) = kept f"
  by (simp_all add: restore_latency_def restore_errors_def)

text \<open>Changes of one service combine, and those of different services commute.\<close>

lemma at_name_join: "at_name n h (at_name n g c) = at_name n (\<lambda>x. h (g x)) c"
  by (auto simp: at_name_def fun_eq_iff option.map_comp comp_def)

lemma at_name_swap: "m \<noteq> n \<Longrightarrow> at_name m h (at_name n g c) = at_name n g (at_name m h c)"
  by (auto simp: at_name_def fun_eq_iff)

lemma at_name_id: "(\<And>x. c n = Some x \<Longrightarrow> h x = x) \<Longrightarrow> at_name n h c = c"
  by (auto simp: at_name_def fun_eq_iff split: option.splits) (case_tac "c n", auto)

definition latencies :: "frame \<Rightarrow> (string, pyfloat) dict" where
  "latencies f = map (\<lambda>(n, s). (n, ss_latency_ms_p95 s)) (mk_services f)"

lemma saved_latencies: "saved k (latencies f) = (case chart f k of Some (_, _, l, _, _) \<Rightarrow> l | None \<Rightarrow> 0)"
  by (auto simp: saved_def latencies_def chart_def map_of_each rates_def split: option.splits)

lemma kept_save_latencies [simp]:
  "kept (save_latencies f) = (fst (kept f), fst (snd (kept f)), latencies f, snd (snd (snd (kept f))))"
  by (simp add: kept_def save_latencies_def latencies_def)

lemma chart_restore_latencies [simp]:
  "chart (restore_latencies f) = at_each (\<lambda>k (d, h, l, r, e). (d, h, saved k (lo_lats f), r, e)) (chart f)"
  "kept (restore_latencies f) = kept f"
  by (auto simp: fun_eq_iff at_each_def chart_def restore_latencies_def kept_def map_of_named option.map_comp comp_def
      rates_def)

section \<open>What an action leaves behind\<close>

text \<open>
  \<open>wp R I P prog f\<close>: \<open>I\<close> holds wherever the coroutine is suspended; there others may change the cluster
  by \<open>R\<close>; whatever they do, \<open>P\<close> holds when it ends.
\<close>

fun wp ::
  "(frame \<Rightarrow> frame \<Rightarrow> bool) \<Rightarrow> (frame \<Rightarrow> bool) \<Rightarrow> (frame \<Rightarrow> bool) \<Rightarrow> instr list \<Rightarrow> frame \<Rightarrow> bool"
where
  "wp R I P [] f = P f"
| "wp R I P (Do g # is) f = wp R I P is (g f)"
| "wp R I P (Need p # is) f = (if p f then wp R I P is f else P f)"
| "wp R I P (Wait s # is) f = (I f \<and> (\<forall>f'. R f f' \<longrightarrow> wp R I P is f'))"
| "wp R I P (Sleep s # is) f = (I f \<and> (\<forall>f'. R f f' \<longrightarrow> wp R I P is f'))"
| "wp R I P (Acquire # is) f = (I f \<and> (\<forall>f'. R f f' \<longrightarrow> wp R I P is f'))"

definition leaves_rates :: "frame \<Rightarrow> frame \<Rightarrow> bool" where
  "leaves_rates f f' \<longleftrightarrow> chart f' = chart f \<and> kept f' = kept f \<and> frozen f' = frozen f"

text \<open>A baseline: healthy services with the default error rate.\<close>

definition calm :: "(string \<Rightarrow> rates option) \<Rightarrow> bool" where
  "calm base \<longleftrightarrow> (\<forall>k n h l r e. base k = Some (n, h, l, r, e) \<longrightarrow> h \<and> e = 0.001)"

definition at_baseline :: "(string \<Rightarrow> rates option) \<Rightarrow> string list \<Rightarrow> 'a mock_cluster_scheme \<Rightarrow> bool" where
  "at_baseline base ns m \<longleftrightarrow> chart m = base \<and> frozen m = (ns, False) \<and> distinct ns"

definition manual_mode :: "string list \<Rightarrow> 'a mock_cluster_scheme \<Rightarrow> bool" where
  "manual_mode ns m \<longleftrightarrow> frozen m = (ns, False)"

abbreviation restores :: "(string \<Rightarrow> rates option) \<Rightarrow> string list \<Rightarrow> instr list \<Rightarrow> frame \<Rightarrow> bool" where
  "restores base ns \<equiv> wp leaves_rates (manual_mode ns) (at_baseline base ns)"

lemma calmD: "calm base \<Longrightarrow> base k = Some (n, h, l, r, e) \<Longrightarrow> h \<and> e = 0.001"
  unfolding calm_def by blast

lemma chart_eqI:
  assumes "\<And>k. c k = None \<Longrightarrow> c' k = None"
    and "\<And>k n h l r e. c k = Some (n, h, l, r, e) \<Longrightarrow> c' k = Some (n, h, l, r, e)"
  shows "c' = c"
proof
  fix k
  show "c' k = c k" using assms [of k] by (cases "c k") auto
qed

lemmas run_defs = leaves_rates_def lo_kept at_baseline_def manual_mode_def
lemmas cell_defs = at_name_def at_all_def latency_at_def errors_at_def saved_def at_each_def

lemma kill_pod_restores:
  "calm base \<Longrightarrow> at_baseline base ns f \<Longrightarrow> restores base ns (kill_pod s) f"
  unfolding kill_pod_def by (auto simp: run_defs)
    ((rule chart_eqI; auto simp: cell_defs simp del: map_option_eq_Some dest: calmD)+)

lemma network_partition_restores:
  "calm base \<Longrightarrow> at_baseline base ns f \<Longrightarrow> restores base ns (network_partition s d) f"
  unfolding network_partition_def by (auto simp: run_defs)
    ((rule chart_eqI; auto simp: cell_defs simp del: map_option_eq_Some dest: calmD)+)

lemma expire_jwt_restores:
  "calm base \<Longrightarrow> at_baseline base ns f \<Longrightarrow> restores base ns expire_jwt f"
  unfolding expire_jwt_def by (auto simp: run_defs)
    ((rule chart_eqI; auto simp: cell_defs simp del: map_option_eq_Some dest: calmD)+)

lemma region_outage_restores:
  "calm base \<Longrightarrow> at_baseline base ns f \<Longrightarrow> restores base ns (region_outage d) f"
  unfolding region_outage_def by (auto simp: run_defs chart_rebuilds saved_latencies)
    ((rule chart_eqI; auto simp: cell_defs simp del: map_option_eq_Some dest: calmD)+)

lemma bad_deploy_restores:
  "calm base \<Longrightarrow> at_baseline base ns f \<Longrightarrow> restores base ns (bad_deploy s) f"
  unfolding bad_deploy_def by (auto simp: run_defs)

lemma redis_failure_restores:
  "calm base \<Longrightarrow> at_baseline base ns f \<Longrightarrow> restores base ns (redis_failure d) f"
  unfolding redis_failure_def by (auto simp: run_defs chart_rebuilds saved_latencies)
    ((rule chart_eqI; auto simp: cell_defs simp del: map_option_eq_Some dest: calmD)+)

lemma db_failure_restores:
  "calm base \<Longrightarrow> at_baseline base ns f \<Longrightarrow> restores base ns (db_failure d) f"
  unfolding db_failure_def by (auto simp: run_defs)
    ((rule chart_eqI; auto simp: cell_defs simp del: map_option_eq_Some dest: calmD)+)

lemma slow_network_restores:
  "calm base \<Longrightarrow> at_baseline base ns f \<Longrightarrow> restores base ns (slow_network d) f"
  unfolding slow_network_def by (auto simp: run_defs chart_rebuilds saved_latencies)
    ((rule chart_eqI; auto simp: cell_defs simp del: map_option_eq_Some dest: calmD)+)

lemma memory_leak_restores:
  "calm base \<Longrightarrow> at_baseline base ns f \<Longrightarrow> restores base ns (memory_leak s) f"
  unfolding memory_leak_def by (auto simp: run_defs)
    ((rule chart_eqI; auto simp: cell_defs simp del: map_option_eq_Some dest: calmD)+)

lemma cert_expiry_restores:
  "calm base \<Longrightarrow> at_baseline base ns f \<Longrightarrow> restores base ns cert_expiry f"
  unfolding cert_expiry_def by (auto simp: run_defs)
    ((rule chart_eqI; auto simp: cell_defs simp del: map_option_eq_Some dest: calmD)+)

lemma dns_failure_restores:
  "calm base \<Longrightarrow> at_baseline base ns f \<Longrightarrow> restores base ns (dns_failure d) f"
  unfolding dns_failure_def by (auto simp: run_defs)
    ((rule chart_eqI; auto simp: cell_defs simp del: map_option_eq_Some dest: calmD)+)

lemma at_name_calm:
  assumes "calm c"
  shows "at_name n (\<lambda>x. (fst x, True, fst (snd (snd x)), fst (snd (snd (snd x))), 1 / 1000)) c = c"
    and "at_name n (\<lambda>x. (fst x, fst (snd x), fst (snd (snd x)), fst (snd (snd (snd x))), 1 / 1000)) c = c"
  by (rule at_name_id, use assms in \<open>auto dest: calmD\<close>)+

lemma cascading_failure_restores:
  "calm base \<Longrightarrow> at_baseline base ns f \<Longrightarrow> restores base ns cascading_failure f"
  unfolding cascading_failure_def
  by (auto simp: run_defs at_name_join at_name_swap [of "''api-gateway''" "''user-service''"]
      at_name_swap [of "''api-gateway''" "''task-service''"] at_name_swap [of "''task-service''" "''user-service''"]
      at_name_calm split_def)

lemma disk_full_restores:
  "calm base \<Longrightarrow> at_baseline base ns f \<Longrightarrow> restores base ns (disk_full s) f"
  unfolding disk_full_def by (auto simp: run_defs)
    ((rule chart_eqI; auto simp: cell_defs simp del: map_option_eq_Some dest: calmD)+)

lemma gc_pause_restores:
  "calm base \<Longrightarrow> at_baseline base ns f \<Longrightarrow> restores base ns (gc_pause s) f"
  unfolding gc_pause_def by (auto simp: run_defs)
    ((rule chart_eqI; auto simp: cell_defs simp del: map_option_eq_Some dest: calmD)+)

lemma thundering_herd_restores:
  "calm base \<Longrightarrow> at_baseline base ns f \<Longrightarrow> restores base ns (thundering_herd d) f"
  unfolding thundering_herd_def by (auto simp: run_defs)
    ((rule chart_eqI; auto simp: cell_defs simp del: map_option_eq_Some dest: calmD)+)

lemma noisy_neighbor_restores:
  "calm base \<Longrightarrow> at_baseline base ns f \<Longrightarrow> restores base ns (noisy_neighbor d) f"
  unfolding noisy_neighbor_def by (auto simp: run_defs)
    ((rule chart_eqI; auto simp: cell_defs simp del: map_option_eq_Some dest: calmD)+)

lemma spot_reclaim_restores:
  "calm base \<Longrightarrow> at_baseline base ns f \<Longrightarrow> restores base ns spot_reclaim f"
  unfolding spot_reclaim_def by (auto simp: run_defs)

lemma autoscaler_stuck_restores:
  "calm base \<Longrightarrow> at_baseline base ns f \<Longrightarrow> restores base ns (autoscaler_stuck d) f"
  unfolding autoscaler_stuck_def by (auto simp: run_defs)
    ((rule chart_eqI; auto simp: cell_defs simp del: map_option_eq_Some dest: calmD)+)

lemma api_throttle_restores:
  "calm base \<Longrightarrow> at_baseline base ns f \<Longrightarrow> restores base ns (api_throttle d) f"
  unfolding api_throttle_def by (auto simp: run_defs)

lemma secret_leak_restores:
  "calm base \<Longrightarrow> at_baseline base ns f \<Longrightarrow> restores base ns (secret_leak d) f"
  unfolding secret_leak_def by (auto simp: run_defs)
    ((rule chart_eqI; auto simp: cell_defs simp del: map_option_eq_Some dest: calmD)+)

lemma service_mesh_crash_restores:
  "calm base \<Longrightarrow> at_baseline base ns f \<Longrightarrow> restores base ns (service_mesh_crash s) f"
  unfolding service_mesh_crash_def by (auto simp: run_defs)
    ((rule chart_eqI; auto simp: cell_defs simp del: map_option_eq_Some dest: calmD)+)

lemma third_party_outage_restores:
  "calm base \<Longrightarrow> at_baseline base ns f \<Longrightarrow> restores base ns (third_party_outage d) f"
  unfolding third_party_outage_def by (auto simp: run_defs)
    ((rule chart_eqI; auto simp: cell_defs simp del: map_option_eq_Some dest: calmD)+)

section \<open>Any action\<close>

fun scales_up :: "chaos_action \<Rightarrow> bool" where
  "scales_up (CpuPressure s d) = True"
| "scales_up a = False"

lemma action_restores:
  "calm base \<Longrightarrow> at_baseline base ns f \<Longrightarrow> \<not> scales_up a \<Longrightarrow> restores base ns (action_prog a) f"
  by (cases a)
     (simp_all add: kill_pod_restores network_partition_restores expire_jwt_restores region_outage_restores
        bad_deploy_restores redis_failure_restores db_failure_restores slow_network_restores memory_leak_restores
        cert_expiry_restores dns_failure_restores cascading_failure_restores disk_full_restores gc_pause_restores
        thundering_herd_restores noisy_neighbor_restores spot_reclaim_restores autoscaler_stuck_restores
        api_throttle_restores secret_leak_restores service_mesh_crash_restores third_party_outage_restores)

lemmas action_defs = kill_pod_def cpu_pressure_def network_partition_def expire_jwt_def region_outage_def
  bad_deploy_def redis_failure_def db_failure_def slow_network_def memory_leak_def cert_expiry_def dns_failure_def
  cascading_failure_def disk_full_def gc_pause_def thundering_herd_def noisy_neighbor_def spot_reclaim_def
  autoscaler_stuck_def api_throttle_def secret_leak_def service_mesh_crash_def third_party_outage_def

text \<open>Every action takes the lock once, after at most a check of the service's name.\<close>

fun guard_of :: "chaos_action \<Rightarrow> string option" where
  "guard_of (KillPod s) = Some s"
| "guard_of (CpuPressure s d) = Some s"
| "guard_of (NetworkPartition s d) = Some s"
| "guard_of (BadDeploy s) = Some s"
| "guard_of (MemoryLeak s) = Some s"
| "guard_of (DiskFull s) = Some s"
| "guard_of (GcPause s) = Some s"
| "guard_of (ServiceMeshCrash s) = Some s"
| "guard_of a = None"

definition checked :: "chaos_action \<Rightarrow> instr list" where
  "checked a =
     (case guard_of a of
        None \<Rightarrow> []
      | Some s \<Rightarrow> (case a of KillPod _ \<Rightarrow> [Do (warn_unknown s)] | _ \<Rightarrow> []) @ [Need (known s)])"

definition locked_part :: "chaos_action \<Rightarrow> instr list" where
  "locked_part a = drop (Suc (length (checked a))) (action_prog a)"

lemma action_shape: "action_prog a = checked a @ Acquire # locked_part a"
  by (cases a) (simp_all add: checked_def locked_part_def action_defs)

lemma locked_once: "Acquire \<notin> set (locked_part a)"
  by (cases a) (simp_all add: checked_def locked_part_def action_defs)

end
