(* ===== verification/ChaosManual.thy ===== *)
theory ChaosManual
  imports ChaosProps
begin

text \<open>
  Manual triggers under the lock: in any interleaving at most one action is under way, and whenever
  none is, every chart is back where it was.
\<close>

section \<open>One task\<close>

lemma known_frozen: "known s m \<longleftrightarrow> s \<in> set (fst (frozen m))"
  by (auto simp: known_def frozen_def map_of_eq_None_iff)

definition passes :: "string list \<Rightarrow> chaos_action \<Rightarrow> bool" where
  "passes ns a \<longleftrightarrow> (case guard_of a of None \<Rightarrow> True | Some s \<Rightarrow> s \<in> set ns)"

lemma leaves_refl: "leaves_rates f f"
  by (simp add: leaves_rates_def)

lemma locked_restores:
  assumes "calm base" "at_baseline base ns f" "\<not> scales_up a" "passes ns a"
  shows "restores base ns (locked_part a) f"
proof -
  have k: "known s f" if "guard_of a = Some s" for s
    using assms(2,4) that by (simp add: known_frozen at_baseline_def passes_def)
  have "restores base ns (checked a @ Acquire # locked_part a) f"
    using action_restores [OF assms(1-3)] by (simp add: action_shape)
  with k leaves_refl [of f] show ?thesis
    by (auto simp: checked_def warn_unknown_def split: option.splits chaos_action.splits)
qed

lemma advance_checked:
  assumes "passes (fst (frozen f)) a"
  shows "advance free (checked a @ is) f = advance free is f"
  using assms
  by (auto simp: checked_def passes_def known_frozen warn_unknown_def split: option.splits chaos_action.splits)

lemma advance_unchecked:
  assumes "\<not> passes (fst (frozen f)) a"
  shows "\<exists>f'. advance free (checked a @ is) f = (False, Ended, [], f') \<and> chart f' = chart f \<and> frozen f' = frozen f"
  using assms
  by (auto simp: checked_def passes_def known_frozen split: option.splits chaos_action.splits)

lemma advance_locked:
  assumes "advance free prog f = (took, st, prog', f')" "Acquire \<notin> set prog" "restores base ns prog f"
  shows "\<not> took \<and> st \<noteq> Queued \<and> Acquire \<notin> set prog' \<and> (st = Ended \<longrightarrow> at_baseline base ns f') \<and>
    (\<forall>w. st = Sleeping w \<longrightarrow> manual_mode ns f' \<and> (\<forall>f''. leaves_rates f' f'' \<longrightarrow> restores base ns prog' f''))"
  using assms
proof (induction free prog f arbitrary: took st prog' f' rule: advance.induct)
  case (3 free p "is" f)
  then show ?case by (auto split: if_splits)
next
  case (4 free s "is" f)
  then show ?case by (auto simp: leaves_rates_def manual_mode_def)
qed (auto simp: leaves_rates_def manual_mode_def)

section \<open>The loop\<close>

lemma enter_simps [simp]:
  "chart (enter now m f) = chart m" "frozen (enter now m f) = frozen m" "mk_scenario_mode (enter now m f) = mk_scenario_mode m"
  by (simp_all add: enter_def chart_def frozen_def kept_def mock_cluster.defs frame.defs fun_eq_iff)

lemma enter_kept [simp]: "kept (enter now m f) = kept f"
  by (cases f) (simp add: enter_def kept_def mock_cluster.defs)

lemma truncate_simps [simp]:
  "chart (mock_cluster.truncate f) = chart f" "frozen (mock_cluster.truncate f) = frozen f"
  by (simp_all add: chart_def frozen_def mock_cluster.defs fun_eq_iff)

text \<open>An action is under way when it has the lock and has not ended.\<close>

definition under_way :: "chaos_task \<Rightarrow> bool" where
  "under_way T \<longleftrightarrow> (\<exists>w. ct_status T = Sleeping w) \<and> Acquire \<notin> set (ct_prog T)"

definition waiting_body :: "string list \<Rightarrow> instr list \<Rightarrow> bool" where
  "waiting_body ns prog \<longleftrightarrow> (\<exists>a. \<not> scales_up a \<and> passes ns a \<and> prog = locked_part a)"

definition task_ok ::
  "(string \<Rightarrow> rates option) \<Rightarrow> string list \<Rightarrow> mock_cluster \<Rightarrow> nat list \<Rightarrow> nat \<Rightarrow> chaos_task \<Rightarrow> bool"
where
  "task_ok base ns m lock i T \<longleftrightarrow>
     (case ct_status T of
        Ended \<Rightarrow> i \<notin> set lock
      | Queued \<Rightarrow> i \<in> set lock \<and> waiting_body ns (ct_prog T)
      | Sleeping w \<Rightarrow>
          i \<notin> set lock \<and> (\<exists>a. \<not> scales_up a \<and> ct_prog T = action_prog a) \<or>
          lock \<noteq> [] \<and> hd lock = i \<and> Acquire \<notin> set (ct_prog T) \<and>
          (\<forall>f. chart f = chart m \<and> frozen f = frozen m \<and> kept f = kept (ct_frame T) \<longrightarrow>
             restores base ns (ct_prog T) f))"

definition loop_ok :: "(string \<Rightarrow> rates option) \<Rightarrow> string list \<Rightarrow> chaos_loop \<Rightarrow> bool" where
  "loop_ok base ns L \<longleftrightarrow>
     frozen (cl_mock L) = (ns, False) \<and> distinct ns \<and> distinct (cl_lock L) \<and>
     (\<forall>i\<in>set (cl_lock L). i < length (cl_tasks L)) \<and>
     (\<forall>i<length (cl_tasks L). task_ok base ns (cl_mock L) (cl_lock L) i (cl_tasks L ! i)) \<and>
     (cl_lock L = [] \<or> ct_status (cl_tasks L ! hd (cl_lock L)) = Queued \<longrightarrow> at_baseline base ns (cl_mock L))"

text \<open>What a task that is not the one running keeps when the cluster and the lock change.\<close>

lemma task_ok_others:
  assumes "task_ok base ns m lock j T" "j \<in> set lock' \<longleftrightarrow> j \<in> set lock"
    and "lock \<noteq> [] \<and> hd lock = j \<longrightarrow> lock' \<noteq> [] \<and> hd lock' = j \<and> chart m' = chart m \<and> frozen m' = frozen m"
  shows "task_ok base ns m' lock' j T"
  using assms unfolding task_ok_def by (cases "ct_status T") auto

lemma task_ok_same:
  "chart m' = chart m \<Longrightarrow> frozen m' = frozen m \<Longrightarrow> task_ok base ns m' lock j T = task_ok base ns m lock j T"
  by (cases "ct_status T") (simp_all add: task_ok_def)

lemma body_in_lock:
  assumes ok: "loop_ok base ns L" and i: "cl_lock L \<noteq> []" "hd (cl_lock L) = i"
    and body: "restores base ns prog (enter now (cl_mock L) f)" "Acquire \<notin> set prog"
    and run: "advance free prog (enter now (cl_mock L) f) = (took, st, prog', f')"
  shows "loop_ok base ns (L\<lparr>cl_mock := mock_cluster.truncate f',
      cl_tasks := (cl_tasks L)[i := \<lparr>ct_prog = prog', ct_frame = f', ct_status = st\<rparr>],
      cl_lock := (let lock = (if took \<or> st = Queued then cl_lock L @ [i] else cl_lock L)
                  in if st = Ended \<and> lock \<noteq> [] \<and> hd lock = i then tl lock else lock)\<rparr>)"
    (is "loop_ok base ns ?L'")
proof -
  note a = advance_locked [OF run body(2,1)]
  obtain rest where lock: "cl_lock L = i # rest" using i by (cases "cl_lock L") auto
  have il: "i < length (cl_tasks L)" using ok lock by (auto simp: loop_ok_def)
  have d: "i \<notin> set rest" "distinct rest" using ok lock by (auto simp: loop_ok_def)
  have tasks: "task_ok base ns (cl_mock L) (cl_lock L) j (cl_tasks L ! j)" if "j < length (cl_tasks L)" for j
    using ok that by (simp add: loop_ok_def)
  show ?thesis
  proof (cases st)
    case Ended
    then have base: "at_baseline base ns f'" using a by blast
    have "task_ok base ns (mock_cluster.truncate f') rest j (cl_tasks ?L' ! j)" if "j < length (cl_tasks L)" for j
    proof (cases "j = i")
      case True
      then show ?thesis using that d Ended by (simp add: task_ok_def)
    next
      case False
      then show ?thesis using tasks [OF that] lock by (auto intro!: task_ok_others [OF tasks [OF that]])
    qed
    then show ?thesis
      using ok base a Ended lock d by (auto simp: loop_ok_def at_baseline_def)
  next
    case (Sleeping w)
    then have m: "frozen f' = (ns, False)" "\<And>f''. leaves_rates f' f'' \<Longrightarrow> restores base ns prog' f''"
      using a by (auto simp: manual_mode_def)
    have "task_ok base ns (mock_cluster.truncate f') (i # rest) j (cl_tasks ?L' ! j)" if "j < length (cl_tasks L)" for j
    proof (cases "j = i")
      case True
      then show ?thesis using that a Sleeping m(2) by (simp add: task_ok_def leaves_rates_def)
    next
      case False
      then show ?thesis using tasks [OF that] lock by (auto intro!: task_ok_others [OF tasks [OF that]])
    qed
    then show ?thesis using ok a Sleeping lock d il m by (auto simp: loop_ok_def)
  qed (use a in simp)
qed

lemma resume_fresh:
  assumes calm: "calm base" and ok: "loop_ok base ns L" and il: "i < length (cl_tasks L)"
    and fresh: "i \<notin> set (cl_lock L)" "\<not> scales_up a"
    and run: "advance (cl_lock L = []) (action_prog a) (enter now (cl_mock L) f) = (took, st, prog', f')"
  shows "loop_ok base ns (L\<lparr>cl_mock := mock_cluster.truncate f',
      cl_tasks := (cl_tasks L)[i := \<lparr>ct_prog = prog', ct_frame = f', ct_status = st\<rparr>],
      cl_lock := (let lock = (if took \<or> st = Queued then cl_lock L @ [i] else cl_lock L)
                  in if st = Ended \<and> lock \<noteq> [] \<and> hd lock = i then tl lock else lock)\<rparr>)"
    (is "loop_ok base ns ?L'")
proof -
  let ?f = "enter now (cl_mock L) f"
  have fz: "frozen (cl_mock L) = (ns, False)" using ok by (simp add: loop_ok_def)
  then have mode: "\<not> mk_scenario_mode (cl_mock L)" by (simp add: frozen_def)
  have hd: "hd (cl_lock L) \<noteq> i" if "cl_lock L \<noteq> []" using that fresh(1) by (metis hd_in_set)
  have tasks: "task_ok base ns (cl_mock L) (cl_lock L) j (cl_tasks L ! j)" if "j < length (cl_tasks L)" for j
    using ok that by (simp add: loop_ok_def)
  have quiet: ?thesis if e: "took = False" "st = Ended" "chart f' = chart (cl_mock L)" "frozen f' = frozen (cl_mock L)"
  proof -
    have "task_ok base ns (mock_cluster.truncate f') (cl_lock L) j (cl_tasks ?L' ! j)" if "j < length (cl_tasks L)" for j
    proof (cases "j = i")
      case False
      then show ?thesis using e by (auto intro!: task_ok_others [OF tasks [OF that]])
    qed (use that fresh e in \<open>simp add: task_ok_def\<close>)
    moreover have "(let lock = (if took \<or> st = Queued then cl_lock L @ [i] else cl_lock L)
        in if st = Ended \<and> lock \<noteq> [] \<and> hd lock = i then tl lock else lock) = cl_lock L"
      using e hd by (auto simp: Let_def)
    ultimately show ?thesis using ok e hd by (auto simp: loop_ok_def at_baseline_def nth_list_update)
  qed
  show ?thesis
  proof (cases "passes ns a")
    case False
    then have "\<not> passes (fst (frozen ?f)) a" using fz by simp
    from advance_unchecked [OF this, of "cl_lock L = []" "Acquire # locked_part a"] run show ?thesis
      by (intro quiet) (auto simp: action_shape)
  next
    case True
    then have "passes (fst (frozen ?f)) a" using fz by simp
    note r = run [unfolded action_shape advance_checked [OF this]]
    show ?thesis
    proof (cases "cl_lock L = []")
      case True
      then have "at_baseline base ns ?f" using ok by (auto simp: loop_ok_def at_baseline_def)
      from locked_restores [OF calm this fresh(2)] \<open>passes ns a\<close>
      have body: "restores base ns (locked_part a) ?f" by simp
      obtain t where run': "advance False (locked_part a) ?f = (t, st, prog', f')" and took: took
        using r True mode by (auto split: prod.splits)
      note a = advance_locked [OF run' locked_once body]
      show ?thesis
      proof (cases st)
        case Ended
        then have "at_baseline base ns f'" using a by blast
        then have "chart f' = chart (cl_mock L)" "frozen f' = frozen (cl_mock L)"
          using \<open>at_baseline base ns ?f\<close> by (auto simp: at_baseline_def)
        then have "task_ok base ns (mock_cluster.truncate f') [] j (cl_tasks ?L' ! j)" if "j < length (cl_tasks L)" for j
          using tasks [OF that] that True Ended by (cases "j = i") (auto simp: task_ok_def split: run_status.splits)
        then show ?thesis using ok True took Ended \<open>at_baseline base ns f'\<close> by (auto simp: loop_ok_def at_baseline_def)
      next
        case (Sleeping w)
        then have m: "frozen f' = (ns, False)" "\<And>f''. leaves_rates f' f'' \<Longrightarrow> restores base ns prog' f''"
          using a by (auto simp: manual_mode_def)
        have "task_ok base ns (mock_cluster.truncate f') [i] j (cl_tasks ?L' ! j)" if "j < length (cl_tasks L)" for j
        proof (cases "j = i")
          case True
          then show ?thesis using that a Sleeping m(2) by (simp add: task_ok_def leaves_rates_def)
        next
          case False
          then show ?thesis using True by (auto intro!: task_ok_others [OF tasks [OF that]])
        qed
        then show ?thesis using ok a Sleeping True took il m by (auto simp: loop_ok_def)
      qed (use a in simp)
    next
      case False
      then have q: "took = False" "st = Queued" "prog' = locked_part a" "f' = ?f" using r mode by auto
      have "task_ok base ns (cl_mock L) (cl_lock L @ [i]) j (cl_tasks ?L' ! j)" if "j < length (cl_tasks L)" for j
      proof (cases "j = i")
        case True
        then show ?thesis using that q \<open>passes ns a\<close> fresh(2) by (auto simp: task_ok_def waiting_body_def)
      next
        case False
        then show ?thesis using \<open>cl_lock L \<noteq> []\<close> by (auto intro!: task_ok_others [OF tasks [OF that]])
      qed
      then have "task_ok base ns (mock_cluster.truncate ?f) (cl_lock L @ [i]) j (cl_tasks ?L' ! j)"
        if "j < length (cl_tasks L)" for j
        using that task_ok_same [of "mock_cluster.truncate ?f" "cl_mock L"] by simp
      then show ?thesis
        using ok q False hd fresh(1) il by (auto simp: loop_ok_def at_baseline_def nth_list_update)
    qed
  qed
qed

lemma resume_ok:
  assumes calm: "calm base" and ok: "loop_ok base ns L"
  shows "loop_ok base ns (resume i now L)"
proof (cases "runnable i now L")
  case True
  let ?T = "cl_tasks L ! i"
  have il: "i < length (cl_tasks L)" using True by (simp add: runnable_def)
  then have T: "task_ok base ns (cl_mock L) (cl_lock L) i ?T" using ok by (simp add: loop_ok_def)
  obtain took st prog' f' where run: "advance (cl_lock L = []) (ct_prog ?T) (enter now (cl_mock L) (ct_frame ?T)) =
      (took, st, prog', f')" by (cases "advance (cl_lock L = []) (ct_prog ?T) (enter now (cl_mock L) (ct_frame ?T))") auto
  have "loop_ok base ns (L\<lparr>cl_mock := mock_cluster.truncate f',
      cl_tasks := (cl_tasks L)[i := \<lparr>ct_prog = prog', ct_frame = f', ct_status = st\<rparr>],
      cl_lock := (let lock = (if took \<or> st = Queued then cl_lock L @ [i] else cl_lock L)
                  in if st = Ended \<and> lock \<noteq> [] \<and> hd lock = i then tl lock else lock)\<rparr>)"
  proof (cases "ct_status ?T")
    case (Sleeping w)
    then consider a where "i \<notin> set (cl_lock L)" "\<not> scales_up a" "ct_prog ?T = action_prog a"
      | "cl_lock L \<noteq> []" "hd (cl_lock L) = i" "Acquire \<notin> set (ct_prog ?T)"
        "\<And>f. chart f = chart (cl_mock L) \<Longrightarrow> frozen f = frozen (cl_mock L) \<Longrightarrow> kept f = kept (ct_frame ?T) \<Longrightarrow>
           restores base ns (ct_prog ?T) f"
      using T by (auto simp: task_ok_def)
    then show ?thesis
    proof cases
      case 1
      then show ?thesis using resume_fresh [OF calm ok il 1(1,2)] run by simp
    next
      case 2
      then show ?thesis using body_in_lock [OF ok 2(1,2) _ 2(3) run] by simp
    qed
  next
    case Queued
    then have q: "cl_lock L \<noteq> []" "hd (cl_lock L) = i" using True by (auto simp: runnable_def)
    then have "at_baseline base ns (cl_mock L)" using ok Queued by (auto simp: loop_ok_def)
    then have b: "at_baseline base ns (enter now (cl_mock L) (ct_frame ?T))" by (simp add: at_baseline_def)
    obtain a where a: "\<not> scales_up a" "passes ns a" "ct_prog ?T = locked_part a"
      using T Queued by (auto simp: task_ok_def waiting_body_def)
    show ?thesis
      using body_in_lock [OF ok q _ _ run] locked_restores [OF calm b a(1,2)] locked_once [of a] a(3) by simp
  qed (use True in \<open>simp add: runnable_def\<close>)
  then show ?thesis using True run by (simp add: resume_def)
qed (use ok in \<open>simp add: resume_def\<close>)

lemma spawn_ok:
  assumes ok: "loop_ok base ns L" and a: "\<not> scales_up a"
  shows "loop_ok base ns (spawn (action_prog a) L)"
proof -
  have "length (cl_tasks L) \<notin> set (cl_lock L)" using ok by (auto simp: loop_ok_def)
  moreover have "hd (cl_lock L) < length (cl_tasks L)" if "cl_lock L \<noteq> []" using ok that by (auto simp: loop_ok_def)
  ultimately show ?thesis
    using ok a by (auto simp: loop_ok_def spawn_def nth_append task_ok_def less_Suc_eq)
qed

section \<open>Manual triggers\<close>

datatype manual_event = Trigger chaos_action | Resume nat pyfloat

fun manual_step :: "manual_event \<Rightarrow> chaos_loop \<Rightarrow> chaos_loop" where
  "manual_step (Trigger a) L = spawn (action_prog a) L"
| "manual_step (Resume i now) L = resume i now L"

lemma manual_ok:
  assumes "calm base" "\<forall>a. Trigger a \<in> set es \<longrightarrow> \<not> scales_up a" "loop_ok base ns L"
  shows "loop_ok base ns (fold manual_step es L)"
  using assms(2,3)
proof (induction es arbitrary: L)
  case (Cons e es)
  then have "loop_ok base ns (manual_step e L)"
    by (cases e) (auto intro: spawn_ok resume_ok [OF assms(1)])
  with Cons show ?case by simp
qed simp

lemma under_way_head:
  assumes "loop_ok base ns L" "i < length (cl_tasks L)" "under_way (cl_tasks L ! i)"
  shows "cl_lock L \<noteq> [] \<and> hd (cl_lock L) = i"
proof -
  have "task_ok base ns (cl_mock L) (cl_lock L) i (cl_tasks L ! i)" using assms by (simp add: loop_ok_def)
  with assms(3) show ?thesis by (auto simp: task_ok_def under_way_def action_shape)
qed


definition demo_cluster :: mock_cluster where
  "demo_cluster =
     \<lparr>mk_services = [(''api-gateway'', ServiceState ''api-gateway''), (''user-service'', ServiceState ''user-service'')],
      mk_t0_anchor = None, mk_scenario_mode = False, mk_hub = EventHub, mk_now = 0, mk_choice = (\<lambda>_. 0),
      mk_uniform = (\<lambda>_. 1 / 2), mk_draws = 0, mk_refs = 0\<rparr>"

text \<open>A second rotation waits for the one that holds the lock, and both run to their end.\<close>

definition demo_events :: "manual_event list" where
  "demo_events = [Trigger ExpireJwt, Trigger (KillPod ''billing''), Resume 0 0, Resume 1 0, Resume 0 0.8, Trigger ExpireJwt,
     Resume 2 1, Resume 0 2, Resume 0 3.5, Resume 2 3.5, Resume 2 4.5, Resume 2 6, Resume 2 8]"


end
