(* ===== verification/ChaosMain.thy ===== *)
theory ChaosMain
  imports ChaosManual
begin

text \<open>
  The scenarios of the chaos controller (\<^verbatim>\<open>SCENARIOS\<close> in \<^verbatim>\<open>explainers.py\<close>, arrows and dashes in ASCII, without the icons)
  and its endpoints (\<^verbatim>\<open>main.py\<close>): every action endpoint starts a task and answers at once.
\<close>

section \<open>Scenarios\<close>

abbreviation step :: "pyfloat \<Rightarrow> string \<Rightarrow> string option \<Rightarrow> pyfloat option \<Rightarrow> scenario_step" where
  "step t action service duration \<equiv>
     \<lparr>st_at = t, st_action = action, st_service = service, st_duration = duration\<rparr>"

definition black_friday :: scenario where
  "black_friday = \<lparr>sc_name = ''Black Friday'', sc_duration_sec = 90,
     sc_description =
       ''Sustained traffic spike across all services. Watch HPA scale, latency climb, and the '' @
       ''system absorb it.'',
     sc_steps =
       [step 0 ''cpu_pressure'' (Some ''api-gateway'') (Some 30),
        step 5 ''cpu_pressure'' (Some ''task-service'') (Some 35),
        step 12 ''cpu_pressure'' (Some ''user-service'') (Some 25),
        step 30 ''kill_pod'' (Some ''api-gateway'') None],
     sc_takeaway =
       ''A real load event is rarely one thing. CPU pressure + occasional pod losses + sustained '' @
       ''duration is the realistic shape.''\<rparr>"

definition region_disaster :: scenario where
  "region_disaster = \<lparr>sc_name = ''Region Disaster'', sc_duration_sec = 60,
     sc_description =
       ''Full AZ outage with sustained recovery. Half the cluster vanishes, autoscaler '' @
       ''provisions new capacity.'',
     sc_steps =
       [step 0 ''region_outage'' None (Some 30),
        step 35 ''cpu_pressure'' (Some ''api-gateway'') (Some 15)],
     sc_takeaway =
       ''Surviving an AZ outage requires the workload to be multi-AZ at the pod level -- not '' @
       ''just the cluster level.''\<rparr>"

definition bad_deploy_day :: scenario where
  "bad_deploy_day = \<lparr>sc_name = ''Bad Deploy Day'', sc_duration_sec = 70,
     sc_description =
       ''Three deployments in a row, two of them broken. Watch RollingUpdate and rollback save '' @
       ''the system.'',
     sc_steps =
       [step 0 ''bad_deploy'' (Some ''task-service'') None,
        step 20 ''bad_deploy'' (Some ''user-service'') None,
        step 45 ''kill_pod'' (Some ''notification-service'') None],
     sc_takeaway =
       ''Multiple bad deploys in a single day is the realistic case. RollingUpdate with '' @
       ''maxUnavailable=0 means each one fails safely.''\<rparr>"

definition security_incident :: scenario where
  "security_incident = \<lparr>sc_name = ''Security Incident'', sc_duration_sec = 50,
     sc_description =
       ''Suspected breach. Rotate keys. Isolate a service. Watch the system stay up through both '' @
       ''events.'',
     sc_steps =
       [step 0 ''expire_jwt'' None None,
        step 12 ''network_partition'' (Some ''task-service'') (Some 20)],
     sc_takeaway =
       ''Security response is also an availability test. Key rotation + service isolation should '' @
       ''not cause user-visible downtime.''\<rparr>"

definition cache_cascade :: scenario where
  "cache_cascade = \<lparr>sc_name = ''Cache -> DB Cascade'', sc_duration_sec = 55,
     sc_description =
       ''Redis dies, the DB gets hit harder than ever, then the DB dies too. Cascading failure '' @
       ''mode.'',
     sc_steps =
       [step 0 ''redis_failure'' None (Some 25),
        step 10 ''db_failure'' None (Some 20),
        step 30 ''cpu_pressure'' (Some ''api-gateway'') (Some 15)],
     sc_takeaway =
       ''Caches protect databases. When the cache dies, the DB takes its full unprotected load. '' @
       ''Plan for it.''\<rparr>"

definition friday_evening :: scenario where
  "friday_evening = \<lparr>sc_name = ''Friday 4:55 PM Deploy'', sc_duration_sec = 80,
     sc_description =
       ''Someone shipped a deploy 5 minutes before the weekend. The on-call rotation is already '' @
       ''at the bar. Watch the system save itself.'',
     sc_steps =
       [step 0 ''bad_deploy'' (Some ''task-service'') None,
        step 18 ''cpu_pressure'' (Some ''user-service'') (Some 25),
        step 35 ''thundering_herd'' None (Some 18)],
     sc_takeaway =
       ''Auto-rollback exists precisely so on-call doesn'' @ [CHR 0x27] @
       ''t have to be at the laptop. The system should save itself when the team can'' @ [CHR 0x27] @
       ''t.''\<rparr>"

definition christmas_eve :: scenario where
  "christmas_eve = \<lparr>sc_name = ''Christmas Eve'', sc_duration_sec = 100,
     sc_description =
       ''Peak holiday traffic. Half the team is on PTO. The senior SRE is offline. Everything '' @
       ''that could break, breaks.'',
     sc_steps =
       [step 0 ''cpu_pressure'' (Some ''api-gateway'') (Some 35),
        step 12 ''redis_failure'' None (Some 28),
        step 25 ''kill_pod'' (Some ''task-service'') None,
        step 45 ''third_party_outage'' None (Some 25)],
     sc_takeaway =
       ''The systems you build are tested by the moments when humans can'' @ [CHR 0x27] @
       ''t intervene. Resilience is paid for in advance.''\<rparr>"

definition the_audit :: scenario where
  "the_audit = \<lparr>sc_name = ''The Audit'', sc_duration_sec = 75,
     sc_description =
       ''External auditors are pulling evidence during normal operations. Chaos must continue '' @
       ''without affecting compliance posture.'',
     sc_steps =
       [step 0 ''expire_jwt'' None None,
        step 15 ''secret_leak'' None (Some 20),
        step 35 ''cert_expiry'' None None,
        step 55 ''kill_pod'' (Some ''user-service'') None],
     sc_takeaway =
       ''Compliance is an availability property, not a separate axis. The audit doesn'' @ [CHR 0x27] @
       ''t pause your incidents.''\<rparr>"

definition active_breach :: scenario where
  "active_breach = \<lparr>sc_name = ''Active Breach'', sc_duration_sec = 70,
     sc_description =
       ''Security signals indicate intrusion. Segment compromised services. Rotate credentials. '' @
       ''Don'' @ [CHR 0x27] @ ''t take the whole system down.'',
     sc_steps =
       [step 0 ''secret_leak'' None (Some 25),
        step 10 ''network_partition'' (Some ''task-service'') (Some 25),
        step 30 ''expire_jwt'' None None,
        step 45 ''cascading_failure'' None None],
     sc_takeaway =
       ''Incident response is also an availability test. Containment without total shutdown is '' @
       ''the goal.''\<rparr>"

definition upgrade_gone_wrong :: scenario where
  "upgrade_gone_wrong = \<lparr>sc_name = ''Upgrade Gone Wrong'', sc_duration_sec = 90,
     sc_description =
       ''A Kubernetes minor-version upgrade introduced subtle scheduling regressions. The '' @
       ''cluster is under pressure during the migration.'',
     sc_steps =
       [step 0 ''api_throttle'' None (Some 25),
        step 20 ''autoscaler_stuck'' None (Some 22),
        step 40 ''noisy_neighbor'' None (Some 28),
        step 65 ''kill_pod'' (Some ''api-gateway'') None],
     sc_takeaway =
       ''Cluster upgrades are deployments too. Test them in staging, watch them in production, '' @
       ''and have rollback paths.''\<rparr>"

definition SCENARIOS :: "(string \<times> scenario) list" where
  "SCENARIOS =
     [(''black_friday'', black_friday),
      (''region_disaster'', region_disaster),
      (''bad_deploy_day'', bad_deploy_day),
      (''security_incident'', security_incident),
      (''cache_cascade'', cache_cascade),
      (''friday_evening'', friday_evening),
      (''christmas_eve'', christmas_eve),
      (''the_audit'', the_audit),
      (''active_breach'', active_breach),
      (''upgrade_gone_wrong'', upgrade_gone_wrong)]"

section \<open>The controller\<close>

text \<open>
  \<^verbatim>\<open>make_cluster\<close>: the simulation, or the live cluster, whose actions are the empty ones of \<^verbatim>\<open>BaseCluster\<close>;
  whether the Kubernetes client can be set up is an argument.
\<close>

datatype cluster = Mock chaos_loop | Live hub bool

definition hub_log :: "string \<Rightarrow> string \<Rightarrow> pyfloat \<Rightarrow> hub \<Rightarrow> hub" where
  "hub_log msg level now h = hub_publish (hub_event now ''log'' level (JObj [(''msg'', JStr msg)])) h"

definition LiveCluster :: "string option \<Rightarrow> pyfloat \<Rightarrow> hub \<Rightarrow> cluster" where
  "LiveCluster setup_error now h =
     (case setup_error of
        None \<Rightarrow> Live h True
      | Some e \<Rightarrow> Live (hub_log (''LiveCluster disabled: '' @ e) ''warn'' now h) False)"

definition make_cluster ::
  "string \<Rightarrow> string option \<Rightarrow> (nat \<Rightarrow> nat) \<Rightarrow> (nat \<Rightarrow> pyfloat) \<Rightarrow> pyfloat \<Rightarrow> hub \<Rightarrow> cluster"
where
  "make_cluster chaos_mode setup_error choice uniform now h =
     (if is_mock chaos_mode then Mock \<lparr>cl_mock = MockCluster choice uniform h now, cl_tasks = [], cl_lock = []\<rparr>
      else LiveCluster setup_error now h)"

definition cluster_hub :: "cluster \<Rightarrow> hub" where
  "cluster_hub c = (case c of Mock L \<Rightarrow> mk_hub (cl_mock L) | Live h _ \<Rightarrow> h)"

definition with_hub :: "(hub \<Rightarrow> hub) \<Rightarrow> cluster \<Rightarrow> cluster" where
  "with_hub g c = (case c of Mock L \<Rightarrow> Mock (on_mock (\<lambda>m. m\<lparr>mk_hub := g (mk_hub m)\<rparr>) L) | Live h r \<Rightarrow> Live (g h) r)"

definition cluster_snapshot :: "cluster \<Rightarrow> json" where
  "cluster_snapshot c =
     (case c of
        Mock L \<Rightarrow> snapshot (cl_mock L)
      | Live _ _ \<Rightarrow> JObj [(''services'', JObj []), (''mode'', JStr ''live'')])"

text \<open>The lifespan up to its \<^verbatim>\<open>yield\<close>; the ambient rounds are steps of their own.\<close>

definition start_controller ::
  "string \<Rightarrow> string option \<Rightarrow> (nat \<Rightarrow> nat) \<Rightarrow> (nat \<Rightarrow> pyfloat) \<Rightarrow> pyfloat \<Rightarrow> hub \<Rightarrow> cluster"
where
  "start_controller chaos_mode setup_error choice uniform now h =
     (let c = make_cluster chaos_mode setup_error choice uniform now h;
          c1 = (case c of Mock _ \<Rightarrow> c | Live _ _ \<Rightarrow>
                  with_hub (hub_log ''LiveCluster started (data sources not yet wired in this MVP)'' ''info'' now) c)
      in with_hub (hub_publish (hub_event now ''log'' ''success''
           (JObj [(''msg'', JStr (''chaos-controller online (mode='' @ chaos_mode @ '')'')),
                  (''snapshot'', cluster_snapshot c1)]))) c1)"

section \<open>Endpoints\<close>

type_synonym endpoint = "cluster option \<Rightarrow> (http_error + json) \<times> cluster option"

definition ensure_cluster :: "(cluster \<Rightarrow> json \<times> cluster) \<Rightarrow> endpoint" where
  "ensure_cluster f c =
     (case c of
        None \<Rightarrow> (Inl (HTTPException 503 ''cluster not initialised'' []), None)
      | Some x \<Rightarrow> (case f x of (j, x') \<Rightarrow> (Inr j, Some x')))"

definition trigger :: "chaos_action \<Rightarrow> string \<Rightarrow> (string \<times> json) list \<Rightarrow> endpoint" where
  "trigger a name echoed =
     ensure_cluster (\<lambda>c. (JObj ((''queued'', JStr name) # echoed),
       case c of Mock L \<Rightarrow> Mock (spawn (action_prog a) L) | Live _ _ \<Rightarrow> c))"

text \<open>
  Defaults of the bodies: a \<^verbatim>\<open>ServiceDurationBody\<close> has duration 10; a \<^verbatim>\<open>DurationBody\<close> that is sent has 20,
  and each endpoint has its own for a body that is not.
\<close>

definition body_or :: "pyfloat \<Rightarrow> pyfloat option \<Rightarrow> pyfloat" where
  "body_or d x = (case x of Some v \<Rightarrow> v | None \<Rightarrow> d)"

definition duration_or :: "pyfloat \<Rightarrow> pyfloat option option \<Rightarrow> pyfloat" where
  "duration_or d body = (case body of None \<Rightarrow> d | Some x \<Rightarrow> body_or 20 x)"

definition chaos_health :: "string \<Rightarrow> json" where
  "chaos_health chaos_mode = JObj [(''status'', JStr ''ok''), (''service'', JStr ''chaos-controller''), (''mode'', JStr chaos_mode)]"

definition get_snapshot :: endpoint where
  "get_snapshot c =
     (case c of
        None \<Rightarrow> (Inl (HTTPException 503 ''cluster not ready'' []), None)
      | Some x \<Rightarrow> (Inr (cluster_snapshot x), c))"

text \<open>
  The stream: its queue is registered when the request arrives; a connected event and a snapshot come
  before the hub's events.
\<close>

definition open_stream :: "cluster \<Rightarrow> nat \<times> json list \<times> cluster" where
  "open_stream c =
     (case hub_subscribe (cluster_hub c) of
        (q, h) \<Rightarrow>
          (q, [JObj [(''ts'', JInt 0), (''kind'', JStr ''log''), (''level'', JStr ''success''),
                     (''payload'', JObj [(''msg'', JStr ''stream connected'')])],
               JObj [(''ts'', JInt 0), (''kind'', JStr ''metric''), (''level'', JStr ''info''),
                     (''payload'', JObj [(''snapshot'', cluster_snapshot c)])]],
           with_hub (\<lambda>_. h) c))"

definition close_stream :: "nat \<Rightarrow> cluster \<Rightarrow> cluster" where
  "close_stream q c = with_hub (hub_unsubscribe q) c"

text \<open>The first section of \<^verbatim>\<open>run_scenario\<close>, which runs as a task of its own, is taken to run at once.\<close>

definition post_scenario :: "string \<Rightarrow> endpoint" where
  "post_scenario i =
     ensure_cluster (\<lambda>c. (JObj [(''queued'', JStr ''scenario''), (''id'', JStr i)],
       case c of Mock L \<Rightarrow> Mock (run_scenario SCENARIOS i L) | Live _ _ \<Rightarrow> c))"

definition post_kill_pod :: "string \<Rightarrow> endpoint" where
  "post_kill_pod service = trigger (KillPod service) ''kill_pod'' [(''service'', JStr service)]"

definition post_cpu_pressure :: "string \<Rightarrow> pyfloat option \<Rightarrow> endpoint" where
  "post_cpu_pressure service duration =
     trigger (CpuPressure service (body_or 10 duration)) ''cpu_pressure'' [(''service'', JStr service)]"

definition post_network_partition :: "string \<Rightarrow> pyfloat option \<Rightarrow> endpoint" where
  "post_network_partition service duration =
     trigger (NetworkPartition service (body_or 10 duration)) ''network_partition'' [(''service'', JStr service)]"

definition post_expire_jwt :: endpoint where
  "post_expire_jwt = trigger ExpireJwt ''expire_jwt'' []"

definition post_region_outage :: "pyfloat option option \<Rightarrow> endpoint" where
  "post_region_outage body =
     (let duration = duration_or 20 body
      in trigger (RegionOutage duration) ''region_outage'' [(''duration'', JFloat duration)])"

definition post_bad_deploy :: "string \<Rightarrow> endpoint" where
  "post_bad_deploy service = trigger (BadDeploy service) ''bad_deploy'' [(''service'', JStr service)]"

definition post_redis_failure :: "pyfloat option option \<Rightarrow> endpoint" where
  "post_redis_failure body =
     (let duration = duration_or 20 body
      in trigger (RedisFailure duration) ''redis_failure'' [(''duration'', JFloat duration)])"

definition post_db_failure :: "pyfloat option option \<Rightarrow> endpoint" where
  "post_db_failure body =
     (let duration = duration_or 18 body
      in trigger (DbFailure duration) ''db_failure'' [(''duration'', JFloat duration)])"

definition post_slow_network :: "pyfloat option option \<Rightarrow> endpoint" where
  "post_slow_network body =
     (let duration = duration_or 25 body
      in trigger (SlowNetwork duration) ''slow_network'' [(''duration'', JFloat duration)])"

definition post_memory_leak :: "string \<Rightarrow> endpoint" where
  "post_memory_leak service = trigger (MemoryLeak service) ''memory_leak'' [(''service'', JStr service)]"

definition post_cert_expiry :: endpoint where
  "post_cert_expiry = trigger CertExpiry ''cert_expiry'' []"

definition post_dns_failure :: "pyfloat option option \<Rightarrow> endpoint" where
  "post_dns_failure body =
     (let duration = duration_or 18 body
      in trigger (DnsFailure duration) ''dns_failure'' [(''duration'', JFloat duration)])"

definition post_cascading_failure :: endpoint where
  "post_cascading_failure = trigger CascadingFailure ''cascading_failure'' []"

definition post_disk_full :: "string \<Rightarrow> endpoint" where
  "post_disk_full service = trigger (DiskFull service) ''disk_full'' [(''service'', JStr service)]"

definition post_gc_pause :: "string \<Rightarrow> endpoint" where
  "post_gc_pause service = trigger (GcPause service) ''gc_pause'' [(''service'', JStr service)]"

definition post_thundering_herd :: "pyfloat option option \<Rightarrow> endpoint" where
  "post_thundering_herd body =
     (let duration = duration_or 18 body
      in trigger (ThunderingHerd duration) ''thundering_herd'' [(''duration'', JFloat duration)])"

definition post_noisy_neighbor :: "pyfloat option option \<Rightarrow> endpoint" where
  "post_noisy_neighbor body =
     (let duration = duration_or 22 body
      in trigger (NoisyNeighbor duration) ''noisy_neighbor'' [(''duration'', JFloat duration)])"

definition post_spot_reclaim :: endpoint where
  "post_spot_reclaim = trigger SpotReclaim ''spot_reclaim'' []"

definition post_autoscaler_stuck :: "pyfloat option option \<Rightarrow> endpoint" where
  "post_autoscaler_stuck body =
     (let duration = duration_or 20 body
      in trigger (AutoscalerStuck duration) ''autoscaler_stuck'' [(''duration'', JFloat duration)])"

definition post_api_throttle :: "pyfloat option option \<Rightarrow> endpoint" where
  "post_api_throttle body =
     (let duration = duration_or 20 body
      in trigger (ApiThrottle duration) ''api_throttle'' [(''duration'', JFloat duration)])"

definition post_secret_leak :: "pyfloat option option \<Rightarrow> endpoint" where
  "post_secret_leak body =
     (let duration = duration_or 22 body
      in trigger (SecretLeak duration) ''secret_leak'' [(''duration'', JFloat duration)])"

definition post_service_mesh_crash :: "string \<Rightarrow> endpoint" where
  "post_service_mesh_crash service = trigger (ServiceMeshCrash service) ''service_mesh_crash'' [(''service'', JStr service)]"

definition post_third_party_outage :: "pyfloat option option \<Rightarrow> endpoint" where
  "post_third_party_outage body =
     (let duration = duration_or 25 body
      in trigger (ThirdPartyOutage duration) ''third_party_outage'' [(''duration'', JFloat duration)])"

section \<open>The step table\<close>

text \<open>Every step of every scenario names an action of the dispatcher, with the service it needs.\<close>

definition step_valid :: "scenario_step \<Rightarrow> bool" where
  "step_valid st =
     (case scenario_action st of
        None \<Rightarrow> False
      | Some a \<Rightarrow> (case guard_of a of None \<Rightarrow> True | Some s \<Rightarrow> s \<in> set SERVICE_NAMES))"

lemma scenarios_valid: "list_all (\<lambda>(_, sc). list_all step_valid (sc_steps sc)) SCENARIOS"
  by code_simp

end
