(* ===== verification/ChaosTime.thy ===== *)
theory ChaosTime
  imports ChaosMain
begin

text \<open>
  Time: every action ends, within its nominal duration plus the jitter of 15 percent.
\<close>

section \<open>What the statements of an action leave alone\<close>

definition clock :: "'a mock_cluster_scheme \<Rightarrow> pyfloat \<times> (nat \<Rightarrow> pyfloat) \<times> bool" where
  "clock m = (mk_now m, mk_uniform m, mk_scenario_mode m)"

lemma clock_shared [simp]:
  "clock (publish k p l m) = clock m" "clock (anchor a m) = clock m" "clock (k8s t l m) = clock m"
  "clock (narration t x y b m) = clock m" "clock (completed a m) = clock m" "clock (log_msg t l m) = clock m"
  "clock (draw i m) = clock m" "clock (allocated m) = clock m" "clock (on_service n g m) = clock m"
  "clock (each_service h m) = clock m"
  by (simp_all add: clock_def shared_defs allocated_def)

lemma clock_locals [simp]:
  "clock (f\<lparr>lo_target := p\<rparr>) = clock f" "clock (f\<lparr>lo_new := p\<rparr>) = clock f" "clock (f\<lparr>lo_lat := x\<rparr>) = clock f"
  "clock (f\<lparr>lo_err := x\<rparr>) = clock f" "clock (f\<lparr>lo_lats := d\<rparr>) = clock f" "clock (f\<lparr>lo_errs := d\<rparr>) = clock f"
  "clock (f\<lparr>lo_killed := n\<rparr>) = clock f"
  by (simp_all add: clock_def)

lemma clock_changes [simp]:
  "clock (set_healthy n b m) = clock m" "clock (map_latency n q m) = clock m" "clock (set_latency n x m) = clock m"
  "clock (scale_latency n x m) = clock m" "clock (scale_rps n x m) = clock m" "clock (set_errors n x m) = clock m"
  "clock (each_latency q m) = clock m" "clock (each_errors q m) = clock m"
  "clock (add_pod n p m) = clock m" "clock (set_phase p t m) = clock m" "clock (set_ready p b m) = clock m"
  "clock (remove_target n f) = clock f" "clock (ready_last_two n f) = clock f"
  "clock (choose_target n f) = clock f" "clock (create_pod n t b f) = clock f"
  "clock (keep_latency n f) = clock f" "clock (keep_errors n f) = clock f"
  "clock (save_latency n f) = clock f" "clock (save_errors n f) = clock f"
  "clock (restore_latency n f) = clock f" "clock (restore_errors n f) = clock f"
  "clock (save_latencies f) = clock f" "clock (broken_pod_started n f) = clock f" "clock (warn_unknown n f) = clock f"
  "clock (cut_zone f) = clock f"
  by (simp_all add: add_pod_def service_updates set_phase_def set_ready_def on_pod_def remove_target_def ready_last_two_def
      choose_target_def create_pod_def keep_latency_def keep_errors_def save_latency_def save_errors_def
      save_latencies_def broken_pod_started_def warn_unknown_def restore_latency_def restore_errors_def cut_zone_def)

lemma clock_restore_latencies [simp]: "clock (restore_latencies f) = clock f"
  by (simp add: clock_def restore_latencies_def)

lemma fill_up_clock [simp]: "clock (fill_up k n f) = clock f"
  by (induction k n f rule: fill_up.induct) simp_all

lemma clock_rebuild [simp]: "clock (rebuild_service n f) = clock f"
  by (simp add: rebuild_service_def Let_def)

lemma clock_rebuilds [simp]: "clock (rebuild_services f) = clock f"
proof -
  have "clock (fold rebuild_service ns f) = clock f" for ns by (induction ns arbitrary: f) simp_all
  then show ?thesis by (simp add: rebuild_services_def)
qed

definition steady :: "instr list \<Rightarrow> bool" where
  "steady prog \<longleftrightarrow> (\<forall>g. Do g \<in> set prog \<longrightarrow> (\<forall>f. clock (g f) = clock f))"

lemma steady_Cons: "steady (x # xs) \<longleftrightarrow> (\<forall>g. x = Do g \<longrightarrow> (\<forall>f. clock (g f) = clock f)) \<and> steady xs"
  by (auto simp: steady_def)

lemma action_steady: "steady (action_prog a)"
  by (cases a) (auto simp: steady_def action_defs)

section \<open>Nominal durations\<close>

fun nominal :: "instr list \<Rightarrow> pyfloat" where
  "nominal [] = 0"
| "nominal (Wait s # is) = max 0 s + nominal is"
| "nominal (Sleep s # is) = max 0 s + nominal is"
| "nominal (i # is) = nominal is"

lemma nominal_nonneg: "0 \<le> nominal prog"
  by (induction prog rule: nominal.induct) auto

lemma nominal_append: "nominal (xs @ ys) = nominal xs + nominal ys"
  by (induction xs rule: nominal.induct) auto

definition fair_jitter :: "'a mock_cluster_scheme \<Rightarrow> bool" where
  "fair_jitter m \<longleftrightarrow> (\<forall>n. 0 \<le> mk_uniform m n \<and> mk_uniform m n < 1)"

lemma jittered_bound:
  assumes "0 \<le> u" "u < 1"
  shows "max 0 (jittered u s) \<le> 1.15 * max 0 s"
proof (cases "0 \<le> s")
  case True
  have "s * (1 + (- 0.15 + 0.3 * u)) \<le> s * 1.15" using assms True by (intro mult_left_mono) auto
  then show ?thesis using True by (simp add: jittered_def)
next
  case False
  have "0 \<le> 1 + (- 0.15 + 0.3 * u)" using assms by simp
  then have "s * (1 + (- 0.15 + 0.3 * u)) \<le> 0" using False by (intro mult_nonpos_nonneg) auto
  then show ?thesis using False by (simp add: jittered_def)
qed

text \<open>One section: the task ends, or it sleeps until a time that the rest of its budget covers.\<close>

lemma advance_budget:
  assumes "advance free prog f = (took, st, prog', f')" "steady prog" "Acquire \<notin> set prog" "fair_jitter f"
  shows "\<not> took \<and> clock f' = clock f \<and> steady prog' \<and> Acquire \<notin> set prog' \<and>
    (st = Ended \<or>
     (\<exists>w. st = Sleeping w \<and> mk_now f \<le> w \<and> w + 1.15 * nominal prog' \<le> mk_now f + 1.15 * nominal prog \<and>
        length prog' < length prog))"
  using assms
proof (induction free prog f arbitrary: took st prog' f' rule: advance.induct)
  case (2 free g "is" f)
  have c: "clock (g f) = clock f" using "2.prems"(2) by (simp add: steady_Cons)
  then have n: "mk_now (g f) = mk_now f" "fair_jitter (g f)" using "2.prems"(4) by (auto simp: clock_def fair_jitter_def)
  have "advance free is (g f) = (took, st, prog', f')" "steady is" "Acquire \<notin> set is"
    using "2.prems" by (auto simp: steady_Cons)
  from "2.IH" [OF this n(2)] show ?case using c n(1) by auto
next
  case (3 free p "is" f)
  show ?case
  proof (cases "p f")
    case True
    have "advance free is f = (took, st, prog', f')" "steady is" "Acquire \<notin> set is"
      using "3.prems" True by (auto simp: steady_Cons)
    from "3.IH" [OF True this "3.prems"(4)] show ?thesis by auto
  next
    case False
    then show ?thesis using "3.prems"(1) by (auto simp: steady_def)
  qed
next
  case (4 free s "is" f)
  have "max 0 (jittered (mk_uniform f (mk_draws f)) s) \<le> 1.15 * max 0 s"
    using "4.prems"(4) by (intro jittered_bound) (auto simp: fair_jitter_def)
  then show ?case using "4.prems" by (auto simp: steady_Cons distrib_left)
next
  case (5 free s "is" f)
  have "max 0 s \<le> 1.15 * max 0 s" by (simp add: max_def)
  then show ?case using "5.prems" by (auto simp: steady_Cons distrib_left)
qed (auto simp: steady_def)

section \<open>Every action ends\<close>

lemma truncate_clock [simp]: "clock (mock_cluster.truncate f) = clock f"
  by (simp add: clock_def mock_cluster.defs)

lemma enter_clock [simp]: "clock (enter now m f) = (now, snd (clock m))"
  by (simp add: clock_def enter_def mock_cluster.defs)

lemma fair_clock: "fair_jitter m \<longleftrightarrow> (\<forall>n. 0 \<le> fst (snd (clock m)) n \<and> fst (snd (clock m)) n < 1)"
  by (simp add: fair_jitter_def clock_def)

lemma now_clock: "mk_now m = fst (clock m)" "mk_scenario_mode m = snd (snd (clock m))"
  by (simp_all add: clock_def)

text \<open>The task that holds the lock, resumed whenever it is due.\<close>

lemma holder_ends:
  assumes "i < length (cl_tasks L)" "ct_status (cl_tasks L ! i) = Sleeping w" "cl_lock L = [i]"
    and "steady (ct_prog (cl_tasks L ! i))" "Acquire \<notin> set (ct_prog (cl_tasks L ! i))"
    and "fair_jitter (cl_mock L)" "mk_now (cl_mock L) \<le> w"
  shows "\<exists>ts. (let L' = fold (resume i) ts L in
           ct_status (cl_tasks L' ! i) = Ended \<and> cl_lock L' = [] \<and>
           mk_now (cl_mock L') \<le> w + 1.15 * nominal (ct_prog (cl_tasks L ! i)))"
  using assms
proof (induction "length (ct_prog (cl_tasks L ! i))" arbitrary: L w rule: less_induct)
  case less
  let ?T = "cl_tasks L ! i" and ?f = "enter w (cl_mock L) (ct_frame (cl_tasks L ! i))"
  obtain took st prog' f' where run: "advance (cl_lock L = []) (ct_prog ?T) ?f = (took, st, prog', f')"
    by (cases "advance (cl_lock L = []) (ct_prog ?T) ?f") auto
  have r: "runnable i w L" using less.prems by (simp add: runnable_def)
  have fair: "fair_jitter ?f" using less.prems(6) by (simp add: fair_clock)
  have now: "mk_now ?f = w" by (simp add: now_clock)
  note a = advance_budget [OF run less.prems(4,5) fair, unfolded now]
  let ?L = "resume i w L"
  have clk: "clock (cl_mock ?L) = (w, snd (clock (cl_mock L)))"
    using r run a by (simp add: resume_def)
  show ?case
  proof (cases "st = Ended")
    case True
    have "ct_status (cl_tasks ?L ! i) = Ended \<and> cl_lock ?L = []"
      using r run a True less.prems(1,3) by (simp add: resume_def Let_def)
    moreover have "mk_now (cl_mock ?L) \<le> w + 1.15 * nominal (ct_prog ?T)"
      using clk nominal_nonneg [of "ct_prog ?T"] by (simp add: now_clock)
    ultimately show ?thesis by (intro exI [of _ "[w]"]) simp
  next
    case False
    then obtain v where v: "st = Sleeping v" "w \<le> v" "v + 1.15 * nominal prog' \<le> w + 1.15 * nominal (ct_prog ?T)"
        "length prog' < length (ct_prog ?T)" using a by auto
    have L: "cl_tasks ?L ! i = \<lparr>ct_prog = prog', ct_frame = f', ct_status = Sleeping v\<rparr>" "cl_lock ?L = [i]"
        "i < length (cl_tasks ?L)"
      using r run a v(1) less.prems(1,3) by (simp_all add: resume_def Let_def)
    have "\<exists>ts. (let L' = fold (resume i) ts ?L in
           ct_status (cl_tasks L' ! i) = Ended \<and> cl_lock L' = [] \<and>
           mk_now (cl_mock L') \<le> v + 1.15 * nominal (ct_prog (cl_tasks ?L ! i)))"
      using L a v less.prems(6) clk by (intro less.hyps) (auto simp: fair_clock now_clock)
    then obtain ts where "(let L' = fold (resume i) ts ?L in
           ct_status (cl_tasks L' ! i) = Ended \<and> cl_lock L' = [] \<and>
           mk_now (cl_mock L') \<le> v + 1.15 * nominal prog')" using L(1) by auto
    then show ?thesis using v(3) by (intro exI [of _ "w # ts"]) (auto simp: Let_def)
  qed
qed

lemma clock_warn: "clock (warn_unknown s f) = clock f"
  by simp

lemma advance_unchecked_clock:
  assumes "advance free (checked a @ is) f = (took, st, prog', f')" "\<not> passes (fst (frozen f)) a"
  shows "took = False \<and> st = Ended \<and> clock f' = clock f"
  using assms by (auto simp: checked_def passes_def known_frozen split: option.splits chaos_action.splits)

lemma nominal_checked: "nominal (action_prog a) = nominal (locked_part a)"
proof -
  have "nominal (checked a) = 0" by (auto simp: checked_def split: option.splits chaos_action.splits)
  then show ?thesis by (simp add: action_shape nominal_append)
qed

text \<open>
  C37: Every action ends. With the lock free and no scenario running, an action that is triggered and
  resumed whenever it is due ends after finitely many resumptions, gives the lock back, and has taken
  at most its nominal duration - the sum of its waits - plus 15 percent, for any jitter drawn.
\<close>
theorem action_terminates:
  assumes "cl_lock L = []" and "\<not> mk_scenario_mode (cl_mock L)" and "fair_jitter (cl_mock L)"
    and "i = length (cl_tasks L)"
  shows "\<exists>ts. (let L' = fold (resume i) ts (spawn (action_prog a) L) in
           ct_status (cl_tasks L' ! i) = Ended \<and> cl_lock L' = [] \<and>
           mk_now (cl_mock L') \<le> mk_now (cl_mock L) + 1.15 * nominal (action_prog a))"
proof -
  let ?S = "spawn (action_prog a) L" and ?now = "mk_now (cl_mock L)"
  let ?f = "enter ?now (cl_mock L) (initial_frame (cl_mock L))"
  have S: "i < length (cl_tasks ?S)" "cl_mock ?S = cl_mock L" "cl_lock ?S = []"
      "cl_tasks ?S ! i = \<lparr>ct_prog = action_prog a, ct_frame = initial_frame (cl_mock L), ct_status = Sleeping ?now\<rparr>"
    using assms(1,4) by (simp_all add: spawn_def)
  then have r: "runnable i ?now ?S" by (simp add: runnable_def)
  obtain took st prog' f' where run: "advance True (action_prog a) ?f = (took, st, prog', f')"
    by (cases "advance True (action_prog a) ?f") auto
  let ?R = "resume i ?now ?S"
  have R: "cl_tasks ?R ! i = \<lparr>ct_prog = prog', ct_frame = f', ct_status = st\<rparr>" "cl_mock ?R = mock_cluster.truncate f'"
      "cl_lock ?R = (let lock = (if took \<or> st = Queued then [i] else []) in if st = Ended \<and> lock \<noteq> [] then [] else lock)"
      "i < length (cl_tasks ?R)"
    using S r run by (auto simp: resume_def Let_def)
  show ?thesis
  proof (cases "passes (fst (frozen ?f)) a")
    case False
    with run have "took = False \<and> st = Ended \<and> clock f' = clock ?f"
      unfolding action_shape by (intro advance_unchecked_clock)
    then have "ct_status (cl_tasks ?R ! i) = Ended \<and> cl_lock ?R = [] \<and> mk_now (cl_mock ?R) \<le> ?now + 1.15 * nominal (action_prog a)"
      using R nominal_nonneg [of "action_prog a"] by (simp add: now_clock)
    then show ?thesis by (intro exI [of _ "[?now]"]) simp
  next
    case True
    obtain t where run': "advance False (locked_part a) ?f = (t, st, prog', f')" and took: took
      using run assms(2) unfolding action_shape advance_checked [OF True] by (auto split: prod.splits)
    have "steady (locked_part a)" using action_steady [of a] unfolding action_shape by (auto simp: steady_def)
    moreover have "fair_jitter ?f" using assms(3) by (simp add: fair_clock)
    ultimately have b: "clock f' = clock ?f \<and> steady prog' \<and> Acquire \<notin> set prog' \<and>
        (st = Ended \<or> (\<exists>w. st = Sleeping w \<and> ?now \<le> w \<and>
           w + 1.15 * nominal prog' \<le> ?now + 1.15 * nominal (action_prog a)))"
      using advance_budget [OF run' _ locked_once] by (auto simp: now_clock nominal_checked)
    show ?thesis
    proof (cases "st = Ended")
      case True
      then have "ct_status (cl_tasks ?R ! i) = Ended \<and> cl_lock ?R = [] \<and> mk_now (cl_mock ?R) \<le> ?now + 1.15 * nominal (action_prog a)"
        using R b nominal_nonneg [of "action_prog a"] by (simp add: now_clock)
      then show ?thesis by (intro exI [of _ "[?now]"]) simp
    next
      case False
      then obtain w where w: "st = Sleeping w" "?now \<le> w" "w + 1.15 * nominal prog' \<le> ?now + 1.15 * nominal (action_prog a)"
        using b by auto
      have "\<exists>ts. (let L' = fold (resume i) ts ?R in
           ct_status (cl_tasks L' ! i) = Ended \<and> cl_lock L' = [] \<and>
           mk_now (cl_mock L') \<le> w + 1.15 * nominal (ct_prog (cl_tasks ?R ! i)))"
        using R w took b assms(3) by (intro holder_ends) (auto simp: fair_clock now_clock Let_def)
      then obtain ts where "(let L' = fold (resume i) ts ?R in
           ct_status (cl_tasks L' ! i) = Ended \<and> cl_lock L' = [] \<and> mk_now (cl_mock L') \<le> w + 1.15 * nominal prog')"
        using R(1) by auto
      then show ?thesis using w(3) by (intro exI [of _ "?now # ts"]) (auto simp: Let_def)
    qed
  qed
qed

theorem action_terminates_witness:
  "\<exists>ts. (let L' = fold (resume 0) ts (spawn (action_prog ExpireJwt)
            \<lparr>cl_mock = demo_cluster, cl_tasks = [], cl_lock = []\<rparr>) in
     ct_status (cl_tasks L' ! 0) = Ended \<and> cl_lock L' = [] \<and> mk_now (cl_mock L') \<le> 4.025)"
proof -
  have n: "nominal (action_prog ExpireJwt) = 3.5" by (simp add: action_defs)
  have f: "fair_jitter demo_cluster" "\<not> mk_scenario_mode demo_cluster" "mk_now demo_cluster = 0"
    by (simp_all add: fair_jitter_def demo_cluster_def)
  show ?thesis
    using action_terminates [of "\<lparr>cl_mock = demo_cluster, cl_tasks = [], cl_lock = []\<rparr>" 0 ExpireJwt] f
    by (simp del: action_prog.simps add: n)
qed

end
