(* ===== verification/Explainers.thy ===== *)
theory Explainers
  imports ChaosMain "HOL-Library.Multiset"
begin

text \<open>
  The texts of the chaos controller (\<^verbatim>\<open>EXPLAINERS\<close> in \<^verbatim>\<open>explainers.py\<close>, arrows and dashes in ASCII) with
  the endpoint that serves them, and the routes of the action endpoints with their request bodies.
\<close>

section \<open>Explainers\<close>

record explainer =
  ex_title :: string
  ex_summary :: string
  ex_what_happens :: "string list"
  ex_primitives :: "(string \<times> string) list"
  ex_learn_more :: "(string \<times> string) list"
  ex_takeaway :: string

definition explain_kill_pod :: explainer where
  "explain_kill_pod = \<lparr>ex_title = ''A pod was killed'',
     ex_summary =
       ''One running pod was deleted. The system replaced it within seconds, with no '' @
       ''customer-visible outage.'',
     ex_what_happens =
       [''Pod is marked Terminating. The kubelet sends SIGTERM to its containers.'',
        ''The readiness probe stops returning success -- usually within a second or two.'',
        ''The Service'' @ [CHR 0x27] @
        ''s EndpointSlice removes that pod. Traffic to the service routes only to surviving pods.'',
        ''The ReplicaSet controller notices replicas < desired and creates a replacement.'',
        ''The scheduler places the new pod. Image is pulled (cached, fast). Container starts.'',
        ''The readiness probe begins passing again. The EndpointSlice adds the new pod. Traffic '' @
        ''resumes.''],
     ex_primitives =
       [(''Liveness Probe'',
         ''Restarts a container that has stopped responding.''),
        (''Readiness Probe'',
         ''Gates traffic -- only Ready pods receive requests.''),
        (''Service / EndpointSlice'',
         ''Decouples client traffic from individual pod IPs.''),
        (''ReplicaSet'',
         ''Keeps the desired number of pods running.''),
        (''Rolling update strategy'',
         ''Ensures replacements happen one-at-a-time.'')],
     ex_learn_more =
       [(''Probes (Kubernetes docs)'',
         ''https://kubernetes.io/docs/concepts/configuration/liveness-readiness-startup-probes/''),
        (''Services & Endpoints'',
         ''https://kubernetes.io/docs/concepts/services-networking/service/'')],
     ex_takeaway =
       ''Pods are cattle, not pets. Kubernetes treats every pod as replaceable -- that'' @
       [CHR 0x27] @ ''s the whole point.''\<rparr>"

definition explain_cpu_pressure :: explainer where
  "explain_cpu_pressure = \<lparr>ex_title = ''CPU load spiked'',
     ex_summary =
       ''A service hit high CPU usage. The Horizontal Pod Autoscaler responded by adding '' @
       ''replicas, and latency recovered without anyone paging.'',
     ex_what_happens =
       [''CPU usage on the service climbs past its target (typically 70%).'',
        ''Latency p95 begins to climb as requests queue.'',
        ''The HorizontalPodAutoscaler reads the metric every 15-30s and decides to scale.'',
        ''New pods are created. The scheduler places them on nodes with headroom.'',
        ''Load balances across the bigger fleet. Latency returns to baseline.'',
        ''Once load drops, HPA'' @ [CHR 0x27] @
        ''s stabilization window prevents flapping -- it waits before scaling back down.''],
     ex_primitives =
       [(''HorizontalPodAutoscaler'',
         ''Scales replica count based on metrics like CPU or custom signals.''),
        (''Cluster Autoscaler'',
         ''Adds nodes when pods can'' @ [CHR 0x27] @ ''t be scheduled due to resource constraints.''),
        (''Resource Requests/Limits'',
         ''Tells the scheduler how much each pod needs.''),
        (''Pod Affinity / Spread'',
         ''Distributes new pods across nodes for better fault tolerance.'')],
     ex_learn_more =
       [(''HPA (Kubernetes docs)'',
         ''https://kubernetes.io/docs/tasks/run-application/horizontal-pod-autoscale/''),
        (''Cluster Autoscaler'',
         ''https://github.com/kubernetes/autoscaler'')],
     ex_takeaway =
       ''Autoscaling beats over-provisioning. Pay for what you use, scale up only when load '' @
       ''demands it.''\<rparr>"

definition explain_network_partition :: explainer where
  "explain_network_partition = \<lparr>ex_title = ''Network traffic was cut to a service'',
     ex_summary =
       ''Traffic to a downstream service was blocked. The circuit breaker tripped and '' @
       ''fast-failed requests until the partition healed.'',
     ex_what_happens =
       [''Requests start timing out -- initially they hang waiting for replies that never come.'',
        ''After a small number of consecutive failures, the circuit breaker enters OPEN state.'',
        ''All subsequent requests fail fast (no timeout wait) until the half-open trial.'',
        ''The system periodically sends a single test request to see if the downstream has '' @
        ''recovered.'',
        ''Once a test request succeeds, the breaker moves to HALF-OPEN, then to CLOSED.'',
        ''Normal traffic resumes.''],
     ex_primitives =
       [(''Circuit Breaker'',
         ''Prevents cascading failure by failing fast when a downstream is dead.''),
        (''Retry with backoff'',
         ''Handles transient failures without piling on a struggling service.''),
        (''Bulkhead pattern'',
         ''Isolates resources so one slow service doesn'' @ [CHR 0x27] @ ''t exhaust your thread pool.''),
        (''NetworkPolicy'',
         ''Defines which pods can talk to which -- your enforcement layer.'')],
     ex_learn_more =
       [(''Circuit Breaker pattern'',
         ''https://martinfowler.com/bliki/CircuitBreaker.html''),
        (''NetworkPolicy'',
         ''https://kubernetes.io/docs/concepts/services-networking/network-policies/'')],
     ex_takeaway =
       ''Fail fast instead of hanging. A circuit breaker turns a 30-second timeout into a '' @
       ''30-millisecond rejection.''\<rparr>"

definition explain_expire_jwt :: explainer where
  "explain_expire_jwt = \<lparr>ex_title = ''JWT signing keys were rotated'',
     ex_summary =
       ''The active JWT signing key was rotated. Clients re-authenticated through the '' @
       ''refresh-token flow without any user-visible logout.'',
     ex_what_happens =
       [''The user-service is configured with a key ring: multiple (kid, secret) pairs. It signs '' @
        ''new JWTs with the current kid.'',
        ''Operators add a new key to the ring (k2) and roll user-service. New tokens are now '' @
        ''signed with k2.'',
        ''The api-gateway still trusts the old kid (k1) until the rotation is complete.'',
        ''After the JWT expiry window (e.g. 60 min), all k1 tokens have naturally expired. '' @
        ''Clients have refreshed to k2.'',
        ''Operators remove k1 from the trust list. k1 secret is no longer valid.'',
        ''If a leak ever occurred, the blast radius is now bounded by the expiry window plus the '' @
        ''time to detect.''],
     ex_primitives =
       [(''JWT keyring (kid header)'',
         ''The token'' @ [CHR 0x27] @ ''s JOSE header includes the key id that signed it.''),
        (''Refresh tokens'',
         ''Long-lived opaque tokens that mint new JWTs without re-authenticating.''),
        (''Key rotation choreography'',
         ''Add new key -> switch signer -> wait -> remove old key.'')],
     ex_learn_more =
       [(''RFC 7515 (JOSE Header)'',
         ''https://datatracker.ietf.org/doc/html/rfc7515#section-4.1.4''),
        (''OAuth 2.0 Token Refresh'',
         ''https://datatracker.ietf.org/doc/html/rfc6749#section-6'')],
     ex_takeaway =
       ''Single secrets age forever. Keyrings let you rotate without mass-logout -- and limit '' @
       ''blast radius after a leak.''\<rparr>"

definition explain_region_outage :: explainer where
  "explain_region_outage = \<lparr>ex_title = ''An availability zone went down'',
     ex_summary =
       ''Half the cluster nodes were marked NotReady. Traffic shifted to the surviving AZ within '' @
       ''seconds, and the autoscaler provisioned replacement capacity.'',
     ex_what_happens =
       [''Nodes in the failed zone are marked NotReady. Their pods become unreachable.'',
        ''EndpointSlices update to exclude pods on those nodes. Traffic shifts to surviving zones.'',
        ''Replica counts on each Deployment drop below desired.'',
        ''The ReplicaSet controller tries to schedule replacements. If existing nodes have '' @
        ''capacity, pods come up fast.'',
        ''If not, the Cluster Autoscaler provisions new nodes in the surviving AZ.'',
        ''Topology spread constraints ensure new pods don'' @ [CHR 0x27] @
        ''t all land on the same node.''],
     ex_primitives =
       [(''Multi-AZ replication'',
         ''Run replicas across multiple zones so one zone outage isn'' @ [CHR 0x27] @ ''t catastrophic.''),
        (''Topology Spread Constraints'',
         ''Ensure pods are distributed across failure domains.''),
        (''Pod Anti-Affinity'',
         ''Prevent multiple replicas of the same service from co-locating.''),
        (''Cluster Autoscaler'',
         ''Adds replacement nodes when capacity is short.''),
        (''Pod Disruption Budget'',
         ''Prevents voluntary disruptions from compounding the outage.'')],
     ex_learn_more =
       [(''Topology Spread Constraints'',
         ''https://kubernetes.io/docs/concepts/scheduling-eviction/topology-spread-constraints/''),
        (''Multi-zone clusters'',
         ''https://kubernetes.io/docs/setup/best-practices/multiple-zones/'')],
     ex_takeaway =
       ''A single AZ is a single point of failure. Spread your workload across zones -- or '' @
       ''expect downtime when one goes down.''\<rparr>"

definition explain_bad_deploy :: explainer where
  "explain_bad_deploy = \<lparr>ex_title = ''A broken deployment was rolled out'',
     ex_summary =
       ''A new image failed its readiness probe. The rolling update halted automatically and the '' @
       ''rollout was reverted to the last known-good version.'',
     ex_what_happens =
       [''A new ReplicaSet is created for the new image version.'',
        ''The first new pod tries to start. Image pulls succeed but readiness probe fails (e.g. '' @
        ''/health/ready returns 500).'',
        ''Rolling update strategy has maxUnavailable=0, so the rollout pauses rather than '' @
        ''removing healthy old pods.'',
        ''After progressDeadlineSeconds (default 600s), the Deployment is marked as failed.'',
        ''Either an operator runs `kubectl rollout undo` or a controller (Argo Rollouts, Flagger) '' @
        ''auto-rolls back.'',
        ''The new ReplicaSet is scaled to zero. The old one is unchanged. Service stays up the '' @
        ''whole time.''],
     ex_primitives =
       [(''Readiness Probe'',
         ''The gate that determines if a new version is ready for traffic.''),
        (''Rolling Update strategy'',
         ''maxSurge / maxUnavailable controls how aggressively to replace old pods.''),
        (''progressDeadlineSeconds'',
         ''How long to wait before declaring a rollout failed.''),
        (''Canary deployment'',
         ''Roll out to a small subset of traffic first -- catch bad deploys with low blast radius.''),
        (''Argo Rollouts / Flagger'',
         ''Progressive delivery controllers with auto-rollback on metrics.'')],
     ex_learn_more =
       [(''Deployments (Kubernetes docs)'',
         ''https://kubernetes.io/docs/concepts/workloads/controllers/deployment/''),
        (''Argo Rollouts'',
         ''https://argoproj.github.io/argo-rollouts/'')],
     ex_takeaway =
       ''Readiness probes catch bad deploys before they hit users. Rolling updates with '' @
       ''maxUnavailable=0 mean a broken deploy is loud, not silent.''\<rparr>"

definition explain_redis_failure :: explainer where
  "explain_redis_failure = \<lparr>ex_title = ''Redis became unavailable'',
     ex_summary =
       ''The Redis cache failed. Rate limiting fell back to in-memory mode, and downstream calls '' @
       ''bypassed the cache layer.'',
     ex_what_happens =
       [''The api-gateway'' @ [CHR 0x27] @ ''s rate limiter detects Redis is unreachable.'',
        ''It falls back to an in-memory bucket -- losing cross-replica coordination but staying '' @
        ''available.'',
        ''Cache-dependent endpoints see slower response times because they hit the database '' @
        ''directly.'',
        ''Sessions stored in Redis are unavailable. If the system uses cache-aside, reads fall '' @
        ''through to the DB.'',
        ''Once Redis recovers, the rate limiter switches back to distributed mode.'',
        ''Cold cache is rebuilt naturally as traffic flows through.''],
     ex_primitives =
       [(''Cache fallback'',
         ''Always have a path to the source of truth -- the cache is an optimization, not a '' @
         ''dependency.''),
        (''Rate limiter with in-memory fallback'',
         ''Better to overcount than to drop traffic completely.''),
        (''Cache-aside pattern'',
         ''App reads cache -> falls through to DB on miss -> writes back.''),
        (''Connection pool with retries'',
         ''Reduces the impact of brief outages.'')],
     ex_learn_more =
       [(''Redis Sentinel/Cluster (HA)'',
         ''https://redis.io/docs/management/sentinel/''),
        (''Cache patterns (AWS)'',
         ''https://aws.amazon.com/caching/best-practices/'')],
     ex_takeaway =
       ''Treat the cache as optional. The day your cache dies should not be the day your system '' @
       ''dies.''\<rparr>"

definition explain_db_failure :: explainer where
  "explain_db_failure = \<lparr>ex_title = ''The database became unreachable'',
     ex_summary =
       ''The primary database connection failed. Reads degraded to read-replicas; writes failed '' @
       ''fast with 503s. The pool reconnected when the primary came back.'',
     ex_what_happens =
       [''Write requests start failing as connections drop.'',
        ''The connection pool retries with exponential backoff. If the DB is truly down, retries '' @
        ''waste latency.'',
        ''503 Service Unavailable surfaces to clients with a Retry-After header.'',
        ''If a read replica exists, the read path stays partially available -- degraded but not '' @
        ''fully down.'',
        ''When the primary recovers, the pool re-establishes connections. Traffic resumes.'',
        ''If this happens often, you'' @ [CHR 0x27] @
        ''d add a circuit breaker around DB calls to fail faster.''],
     ex_primitives =
       [(''Connection pooling'',
         ''Reuses connections -- and re-establishes them when they drop.''),
        (''Read replicas'',
         ''Read-heavy workloads survive primary outages.''),
        (''Retry with backoff'',
         ''Handles transient failures without thundering herd on recovery.''),
        (''Circuit breaker on DB'',
         ''Prevents request queue blow-up during sustained outage.''),
        (''503 + Retry-After'',
         ''Tells well-behaved clients exactly when to come back.'')],
     ex_learn_more =
       [(''PgBouncer (connection pooling)'',
         ''https://www.pgbouncer.org/''),
        (''503 Retry-After (MDN)'',
         ''https://developer.mozilla.org/en-US/docs/Web/HTTP/Status/503'')],
     ex_takeaway =
       ''Your database WILL go down. Plan for it: read replicas, connection pools, retries, and '' @
       ''honest 503s.''\<rparr>"

definition explain_slow_network :: explainer where
  "explain_slow_network = \<lparr>ex_title = ''Network latency was injected'',
     ex_summary =
       ''Every inter-service call gained 500ms of latency. Timeouts and queues built up. The '' @
       ''system would need circuit breakers and bulkheads to survive sustained latency.'',
     ex_what_happens =
       [''p95 latency climbs proportionally to the injected delay.'',
        ''Connection pools fill up -- every connection takes longer to free.'',
        ''Without bulkheads, one slow downstream can starve threads that other endpoints need.'',
        ''Timeouts trigger if they'' @ [CHR 0x27] @
        ''re set tighter than the added latency. 504 Gateway Timeout responses begin appearing.'',
        ''Retries amplify the problem -- the same slow request now happens N times instead of '' @
        ''once.'',
        ''Once latency returns to normal, queues drain. Watch for thundering-herd as queued '' @
        ''requests all fire at once.''],
     ex_primitives =
       [(''Bulkhead pattern'',
         ''Isolate connection pools per-downstream so one slow service can'' @ [CHR 0x27] @
         ''t take down others.''),
        (''Timeouts everywhere'',
         ''Every network call must have a timeout. No exceptions.''),
        (''Adaptive concurrency limits'',
         ''Shed load when latency climbs, before timeouts cascade.''),
        (''Request hedging'',
         ''Send the same request to two replicas; take the first response.'')],
     ex_learn_more =
       [(''Bulkhead pattern'',
         ''https://learn.microsoft.com/en-us/azure/architecture/patterns/bulkhead''),
        (''Adaptive concurrency (Netflix)'',
         ''https://github.com/Netflix/concurrency-limits'')],
     ex_takeaway =
       ''Slow is the new down. A service that takes 30 seconds to respond is worse than one that '' @
       ''returns 500 in 30ms.''\<rparr>"

definition explain_memory_leak :: explainer where
  "explain_memory_leak = \<lparr>ex_title = ''A pod is leaking memory'',
     ex_summary =
       ''A pod'' @ [CHR 0x27] @
       ''s memory usage climbed steadily until it hit its limit. The kubelet OOM-killed the '' @
       ''container, the readiness probe failed, traffic moved to other replicas, and the pod '' @
       ''restarted.'',
     ex_what_happens =
       [''Memory usage climbs over time, well above normal.'',
        ''It crosses the resource limit. The kubelet receives an OOM kill signal from the kernel.'',
        ''The container exits. The pod enters CrashLoopBackOff if it keeps happening.'',
        ''Readiness probe fails. EndpointSlice removes the pod from service.'',
        ''ReplicaSet replaces it (or restart policy restarts the container).'',
        ''If this keeps happening, the operator sees the CrashLoop pattern in alerts. They roll '' @
        ''back or fix the leak.''],
     ex_primitives =
       [(''Resource Limits (memory)'',
         ''Caps how much memory a pod can use -- kernel enforces.''),
        (''Quality of Service classes'',
         ''Guaranteed pods are killed last; Best-Effort first.''),
        (''OOMKill detection'',
         ''Distinguishes process exit from kernel OOM.''),
        (''Vertical Pod Autoscaler'',
         ''Auto-tunes resource requests based on actual usage.''),
        (''Memory profiling in prod'',
         ''pprof, parca, py-spy -- find the leak before it kills you.'')],
     ex_learn_more =
       [(''QoS Classes'',
         ''https://kubernetes.io/docs/concepts/workloads/pods/pod-qos/''),
        (''VPA (Vertical Pod Autoscaler)'',
         ''https://github.com/kubernetes/autoscaler/tree/master/vertical-pod-autoscaler'')],
     ex_takeaway =
       ''Set memory limits. The OOM killer is your friend -- it bounds the blast radius of a '' @
       ''leaking pod to that pod.''\<rparr>"

definition explain_cert_expiry :: explainer where
  "explain_cert_expiry = \<lparr>ex_title = ''A TLS certificate expired'',
     ex_summary =
       ''The TLS cert for an internal service expired. New connections failed with x509 errors. '' @
       ''cert-manager noticed and rotated to a fresh cert within the renewal window.'',
     ex_what_happens =
       [''The cert'' @ [CHR 0x27] @
        ''s notAfter date passes. New TLS handshakes fail with x509 certificate expired errors.'',
        ''Existing connections (already in TCP keep-alive) may continue working briefly.'',
        ''All cross-service calls start returning TLS errors.'',
        ''If cert-manager (or similar) is running, it should have renewed at notAfter - 30 days. '' @
        ''If it didn'' @ [CHR 0x27] @ ''t, alerts fire.'',
        ''Operator forces renewal. New cert distributes to all replicas (Secret update + reload).'',
        ''Connections succeed again. Lesson: monitor cert age, not just whether the service is up.''],
     ex_primitives =
       [(''cert-manager'',
         ''Kubernetes-native cert lifecycle: issue, renew, distribute.''),
        (''Mutual TLS (mTLS)'',
         ''Service-to-service identity via certificates.''),
        (''Service Mesh'',
         ''Istio/Linkerd handle cert rotation for you transparently.''),
        (''Cert monitoring (Prometheus)'',
         ''Alert when a cert is within N days of expiry.'')],
     ex_learn_more =
       [(''cert-manager'',
         ''https://cert-manager.io/''),
        (''Let'' @ [CHR 0x27] @ ''s Encrypt'',
         ''https://letsencrypt.org/'')],
     ex_takeaway =
       ''Certs always expire. Don'' @ [CHR 0x27] @
       ''t get caught by surprise -- automate renewal, alert on age, test rotation.''\<rparr>"

definition explain_cascading_failure :: explainer where
  "explain_cascading_failure = \<lparr>ex_title = ''A failure cascaded across services'',
     ex_summary =
       ''A failure in one service caused dependent services to fail too. Without bulkheads and '' @
       ''circuit breakers, the outage would have spread further.'',
     ex_what_happens =
       [''Service A goes down (any reason -- OOM, crash, network).'',
        ''Service B depends on A. Its requests to A time out. B'' @ [CHR 0x27] @
        ''s connection pool fills with hung requests.'',
        ''B'' @ [CHR 0x27] @ ''s response times climb. B'' @ [CHR 0x27] @
        ''s own clients start timing out.'',
        ''Service C depends on B. The blast radius is now three services wide.'',
        ''Circuit breakers in B and C trip, isolating the failure to A. B and C degrade '' @
        ''gracefully.'',
        ''When A recovers, the breakers transition through HALF-OPEN to CLOSED.''],
     ex_primitives =
       [(''Circuit Breakers (everywhere)'',
         ''Per downstream, per pool. Fail fast instead of queueing.''),
        (''Bulkheads'',
         ''Separate connection pools per downstream so one bad pool can'' @ [CHR 0x27] @
         ''t starve others.''),
        (''Graceful degradation'',
         ''Return a degraded but useful response when a non-critical dep is down.''),
        (''Backpressure'',
         ''Slow yourself down when downstream is slow -- don'' @ [CHR 0x27] @ ''t pile on.''),
        (''Chaos engineering'',
         ''Find the cascade paths in staging before production does.'')],
     ex_learn_more =
       [(''Release It! (Michael Nygard)'',
         ''https://pragprog.com/titles/mnee2/release-it-second-edition/''),
        (''Resilience Engineering (SRE Book)'',
         ''https://sre.google/sre-book/handling-overload/'')],
     ex_takeaway =
       ''Failures don'' @ [CHR 0x27] @
       ''t stop on their own. Without circuit breakers, every dependency is a cascade waiting to '' @
       ''happen.''\<rparr>"

definition explain_dns_failure :: explainer where
  "explain_dns_failure = \<lparr>ex_title = ''DNS resolution failed'',
     ex_summary =
       ''DNS lookups for in-cluster service names began failing. Connections couldn'' @ [CHR 0x27] @
       ''t be established. CoreDNS recovered (or the cached entries kept working) and traffic '' @
       ''resumed.'',
     ex_what_happens =
       [''CoreDNS pods become unresponsive (overloaded, crashed, or partitioned).'',
        ''New DNS lookups in pods return SERVFAIL. New connections can'' @ [CHR 0x27] @
        ''t resolve service names.'',
        ''Existing connections continue (they were resolved before the failure).'',
        ''Apps with DNS caching (e.g. Java'' @ [CHR 0x27] @
        ''s default forever-cache) might keep working briefly.'',
        ''Apps without caching see immediate errors. Liveness probes that use hostnames may start '' @
        ''failing.'',
        ''CoreDNS pods are replaced. DNS resolution recovers.''],
     ex_primitives =
       [(''CoreDNS HA'',
         ''Always run multiple CoreDNS replicas across nodes.''),
        (''NodeLocal DNSCache'',
         ''Per-node DNS caching dramatically reduces load on CoreDNS.''),
        (''DNS caching in apps'',
         ''Cache positive results for a few seconds. Don'' @ [CHR 0x27] @ ''t cache forever (Java).''),
        (''Use IPs in critical paths'',
         ''For ultra-critical inter-service calls, consider resolving once and caching IP.'')],
     ex_learn_more =
       [(''CoreDNS'',
         ''https://coredns.io/''),
        (''NodeLocal DNSCache'',
         ''https://kubernetes.io/docs/tasks/administer-cluster/nodelocaldns/'')],
     ex_takeaway =
       ''DNS is a dependency. Cache it, replicate it, and don'' @ [CHR 0x27] @
       ''t forget about it -- it'' @ [CHR 0x27] @ ''s invisible until it breaks.''\<rparr>"

definition explain_disk_full :: explainer where
  "explain_disk_full = \<lparr>ex_title = ''A pod'' @ [CHR 0x27] @ ''s disk filled up'',
     ex_summary =
       ''A pod'' @ [CHR 0x27] @
       ''s ephemeral storage (or attached PV) filled up. Writes failed. The kubelet evicted the '' @
       ''pod once it crossed the eviction threshold.'',
     ex_what_happens =
       [''Application logs verbosely (or temp files accumulate). Disk usage climbs.'',
        ''Writes start failing with ENOSPC. The app starts returning 500s for write paths.'',
        ''kubelet sees the node'' @ [CHR 0x27] @
        ''s ephemeral storage usage cross the soft eviction threshold.'',
        ''kubelet picks pods to evict -- Best-Effort QoS first, then Burstable.'',
        ''Pod is evicted with reason '' @ [CHR 0x27] @ ''DiskPressure'' @ [CHR 0x27] @
        ''. ReplicaSet creates a replacement.'',
        ''On a fresh disk, writes succeed again. Underlying cause (logging, temp files) still '' @
        ''needs fixing.''],
     ex_primitives =
       [(''Ephemeral Storage Limits'',
         ''Cap a pod'' @ [CHR 0x27] @ ''s local disk use. Kubelet enforces.''),
        (''Volume Quotas'',
         ''PV-level limits, not just node-level.''),
        (''Log Rotation'',
         ''logrotate / sidecar -- bounded log files.''),
        (''Eviction Thresholds'',
         ''Node-level kubelet config: soft + hard thresholds for memory, disk, inodes.''),
        (''QoS Classes'',
         ''Guaranteed evicted last, Best-Effort first.'')],
     ex_learn_more =
       [(''Node-pressure Eviction'',
         ''https://kubernetes.io/docs/concepts/scheduling-eviction/node-pressure-eviction/''),
        (''Ephemeral storage'',
         '''' @
         ''https://kubernetes.io/docs/concepts/configuration/manage-resources-containers/#local-ephemeral-storage'')],
     ex_takeaway =
       ''Set ephemeral-storage limits and rotate your logs. The node'' @ [CHR 0x27] @
       ''s disk is a shared resource -- fill it and the kubelet evicts everyone.''\<rparr>"

definition explain_gc_pause :: explainer where
  "explain_gc_pause = \<lparr>ex_title = ''Garbage collection paused a service'',
     ex_summary =
       ''A long GC pause (~600ms) on a single replica caused latency spikes. Load balancer '' @
       ''noticed and routed around the slow pod.'',
     ex_what_happens =
       [''Memory usage climbs past the heap threshold. JVM (or Go, .NET, etc.) triggers a major '' @
        ''GC cycle.'',
        ''GC pauses the application threads for hundreds of milliseconds.'',
        ''All in-flight requests on that pod stall. p99 latency spikes sharply.'',
        ''Outlier-based load balancing (Envoy, Istio) detects the slow pod and downweights it '' @
        ''temporarily.'',
        ''Once GC completes, latency returns to baseline. The pod is gradually re-added to the '' @
        ''rotation.'',
        ''Long-term fix: tune heap, switch GC algorithm (G1 -> ZGC), or migrate to a lower-pause '' @
        ''runtime.''],
     ex_primitives =
       [(''Outlier Detection'',
         ''Envoy/Istio remove slow upstreams from the pool temporarily.''),
        (''Request Hedging'',
         ''Send the same request to multiple replicas; take the first response.''),
        (''p99 latency monitoring'',
         ''Track tail latency, not just average -- averages hide GC pauses.''),
        (''JVM tuning'',
         ''Heap sizing, GC algorithm, GC pause SLOs.'')],
     ex_learn_more =
       [(''Envoy Outlier Detection'',
         ''https://www.envoyproxy.io/docs/envoy/latest/intro/arch_overview/upstream/outlier''),
        (''ZGC (Z Garbage Collector)'',
         ''https://wiki.openjdk.org/display/zgc/Main'')],
     ex_takeaway =
       ''Watch p99, not p50. The 1% slow tail is where users feel pain -- and GC is the classic '' @
       ''cause.''\<rparr>"

definition explain_thundering_herd :: explainer where
  "explain_thundering_herd = \<lparr>ex_title = ''A thundering herd hit the system'',
     ex_summary =
       ''When a brief upstream outage recovered, thousands of queued retries fired at once. '' @
       ''Without backoff jitter, the recovery itself caused a second outage.'',
     ex_what_happens =
       [''Service A is briefly unavailable. Clients queue retries with simple exponential backoff '' @
        ''(no jitter).'',
        ''Service A comes back. All retries fire at the same instant.'',
        ''Service A is immediately overwhelmed -- load far exceeds steady-state capacity.'',
        ''Service A throttles or crashes again under the herd.'',
        ''Cycle repeats unless clients add jitter to backoff, or the service uses adaptive '' @
        ''concurrency limiting.'',
        ''Long-term fix: full jitter (random delay 0 to backoff_max), token bucket rate limiter, '' @
        ''or queue with priorities.''],
     ex_primitives =
       [(''Backoff with full jitter'',
         ''Random delay in [0, backoff_max] -- spreads retries over time.''),
        (''Adaptive concurrency limits'',
         ''Slow yourself down when latency climbs -- Netflix'' @ [CHR 0x27] @ ''s concurrency-limits.''),
        (''Request coalescing'',
         ''Multiple identical requests dedupe into one upstream call.''),
        (''Rate limiter (token bucket)'',
         ''Bounds requests per second regardless of bursts.'')],
     ex_learn_more =
       [(''AWS -- Exponential Backoff and Jitter'',
         ''https://aws.amazon.com/blogs/architecture/exponential-backoff-and-jitter/'')],
     ex_takeaway =
       ''Retries are not free. Without jitter, every retry storm becomes the next outage.''\<rparr>"

definition explain_noisy_neighbor :: explainer where
  "explain_noisy_neighbor = \<lparr>ex_title = ''A noisy neighbor stole resources'',
     ex_summary =
       ''One pod on a node consumed disproportionate CPU/memory and degraded its co-tenants. The '' @
       ''scheduler ultimately moved it to a less crowded node.'',
     ex_what_happens =
       [''Pod X has no resource limits (or limits much larger than typical use).'',
        ''Under load, X consumes most of the node'' @ [CHR 0x27] @
        ''s CPU. Co-tenant pods get throttled.'',
        ''Co-tenant pods see latency spikes despite their own CPU usage being modest.'',
        ''Operators notice: a service is slow only on certain nodes.'',
        ''Setting resource limits on X caps its impact. Alternately, mark co-tenants '' @ [CHR 0x27] @
        ''Guaranteed'' @ [CHR 0x27] @ '' QoS so they'' @ [CHR 0x27] @ ''re not throttled.'',
        ''Long-term: dedicate node pools for noisy workloads, or use vertical pod autoscaling to '' @
        ''right-size.''],
     ex_primitives =
       [(''Resource Limits'',
         ''Caps a pod'' @ [CHR 0x27] @ ''s CPU/memory at the kernel level.''),
        (''QoS Classes'',
         ''Guaranteed pods (requests == limits) are protected from co-tenant pressure.''),
        (''Node Pools / Taints'',
         ''Isolate noisy workloads on dedicated nodes.''),
        (''Vertical Pod Autoscaler'',
         ''Auto-tunes requests based on actual usage.''),
        (''CPU pinning / cpu-manager-policy=static'',
         ''Reserve specific cores for latency-sensitive pods.'')],
     ex_learn_more =
       [(''QoS Classes'',
         ''https://kubernetes.io/docs/concepts/workloads/pods/pod-qos/''),
        (''VPA'',
         ''https://github.com/kubernetes/autoscaler/tree/master/vertical-pod-autoscaler'')],
     ex_takeaway =
       ''Always set resource limits. Without them, your noisy workloads silently steal from your '' @
       ''good ones.''\<rparr>"

definition explain_spot_reclaim :: explainer where
  "explain_spot_reclaim = \<lparr>ex_title = ''A spot instance was reclaimed'',
     ex_summary =
       ''The cloud provider reclaimed a spot node with 30 seconds notice. Pods were drained, '' @
       ''replacements scheduled on on-demand capacity, no customer impact.'',
     ex_what_happens =
       [''Cloud provider sends a 30-second interrupt notice to the node (AWS spot, GCP '' @
        ''preemptible).'',
        ''Node-termination-handler (or similar) receives the notice and cordons the node.'',
        ''kubectl drain runs: pods evicted gracefully, respecting PDBs.'',
        ''Pods reschedule on remaining capacity. If insufficient, cluster autoscaler provisions '' @
        ''new nodes.'',
        ''Stateless services replace seamlessly. Stateful ones rely on PV reattachment.'',
        ''Total user impact: a single pod restart per affected service.''],
     ex_primitives =
       [(''Pod Disruption Budget'',
         ''Caps how many pods can be evicted simultaneously.''),
        (''Node Termination Handler'',
         ''AWS node-termination-handler / GCP equivalent -- translates cloud signals into kubectl '' @
         ''drains.''),
        (''Graceful Shutdown (terminationGracePeriodSeconds)'',
         ''Time given to finish in-flight work.''),
        (''preStop Hooks'',
         ''Run cleanup logic before SIGTERM.''),
        (''Spot + On-demand mix'',
         ''Run critical workloads on on-demand, scale-out on spot.'')],
     ex_learn_more =
       [(''AWS Node Termination Handler'',
         ''https://github.com/aws/aws-node-termination-handler''),
        (''Spot Best Practices'',
         ''https://docs.aws.amazon.com/AWSEC2/latest/UserGuide/spot-best-practices.html'')],
     ex_takeaway =
       ''Spot capacity is 60-90% cheaper but disappears with 30s notice. Design for it: PDBs, '' @
       ''graceful shutdown, mixed node pools.''\<rparr>"

definition explain_autoscaler_stuck :: explainer where
  "explain_autoscaler_stuck = \<lparr>ex_title = ''The cluster autoscaler couldn'' @ [CHR 0x27] @ ''t add capacity'',
     ex_summary =
       ''Pods were Pending because no nodes had room. The cluster autoscaler tried to provision '' @
       ''new nodes but the cloud-side capacity was exhausted in the target instance family.'',
     ex_what_happens =
       [''Load increases. HPA scales replicas. Pods can'' @ [CHR 0x27] @
        ''t be scheduled -- cluster is at capacity.'',
        ''Cluster autoscaler sees Pending pods and requests new nodes.'',
        ''Cloud provider returns InsufficientInstanceCapacity -- the requested instance family '' @
        ''has no capacity in the zone.'',
        ''Autoscaler keeps retrying. Pods stay Pending.'',
        ''Mitigation: configure multiple instance types in the node pool, or fall back to a '' @
        ''different zone.'',
        ''Long-term: don'' @ [CHR 0x27] @ ''t depend on a single instance type. Use mixed pools.''],
     ex_primitives =
       [(''Cluster Autoscaler with priority expander'',
         ''Tries multiple node groups in priority order.''),
        (''Mixed instance pools'',
         ''Don'' @ [CHR 0x27] @ ''t put all eggs in one m5.xlarge basket.''),
        (''Multi-AZ node groups'',
         ''Spread capacity across zones.''),
        (''Karpenter'',
         ''AWS-native, smarter consolidation, faster provisioning.''),
        (''Headroom pods'',
         ''Always-pending low-priority pods that keep extra capacity warm.'')],
     ex_learn_more =
       [(''Cluster Autoscaler FAQ'',
         ''https://github.com/kubernetes/autoscaler/blob/master/cluster-autoscaler/FAQ.md''),
        (''Karpenter'',
         ''https://karpenter.sh/'')],
     ex_takeaway =
       ''Cloud capacity is finite. Diversify your instance types and zones, or one bad day in '' @
       ''us-east-1a takes you down.''\<rparr>"

definition explain_api_throttle :: explainer where
  "explain_api_throttle = \<lparr>ex_title = ''The Kubernetes API server was overloaded'',
     ex_summary =
       ''Too many concurrent kubectl/controller requests overwhelmed the API server. Priority '' @
       ''and Fairness shed low-priority requests so critical reconciliation kept happening.'',
     ex_what_happens =
       [''A misbehaving controller (or a tight retry loop in CI) hammers the API server with LIST '' @
        ''requests.'',
        ''API server queue depth climbs. Some requests get rejected with 429 Too Many Requests.'',
        ''API Priority and Fairness (APF) categorizes requests: system-critical '' @
        ''(kube-controller-manager, scheduler) are preserved.'',
        ''Low-priority requests (cluster-admin kubectl from a developer'' @ [CHR 0x27] @
        ''s terminal) get queued or rejected.'',
        ''Workload pods are unaffected -- they don'' @ [CHR 0x27] @
        ''t talk to the API server. Reconciliation happens, just slower.'',
        ''Mitigation: identify and rate-limit the offending controller; scale API server replicas.''],
     ex_primitives =
       [(''API Priority and Fairness'',
         ''Workload-aware request prioritization on the API server.''),
        (''kubectl with --request-timeout'',
         ''Avoid hammering API server with unbounded retries.''),
        (''Watch (not poll)'',
         ''Use watch streams instead of repeated list calls.''),
        (''etcd performance tuning'',
         ''Compaction, defragmentation, IOPS budget.'')],
     ex_learn_more =
       [(''API Priority and Fairness'',
         ''https://kubernetes.io/docs/concepts/cluster-administration/flow-control/'')],
     ex_takeaway =
       ''The control plane is also a system to be protected. APF is your circuit breaker for the '' @
       ''API server.''\<rparr>"

definition explain_secret_leak :: explainer where
  "explain_secret_leak = \<lparr>ex_title = ''A secret was leaked and needs rotation'',
     ex_summary =
       ''A database password was committed to a public Git repo. Operators rotated the secret '' @
       ''across services. Old connections drained; new ones authenticated with the new secret.'',
     ex_what_happens =
       [''Secret-scanning bot detects the leaked credential. Alerts fire to security on-call.'',
        ''Operator generates a new secret value. Updates the Kubernetes Secret object.'',
        ''Pods using projected secret volumes see the file update in seconds (no restart needed).'',
        ''Pods using env-var secrets need a rolling restart to pick up the new value.'',
        ''Database accepts both old and new credentials briefly during the cutover window.'',
        ''Old credential is revoked. Existing connections drain on natural reconnection.'',
        ''Postmortem: add pre-commit hooks, secret-scanning in CI, External Secrets Operator with '' @
        ''a vault.''],
     ex_primitives =
       [(''Projected secret volumes'',
         ''Auto-update without restart.''),
        (''External Secrets Operator'',
         ''Sync from Vault / AWS SM / GCP SM into K8s Secrets.''),
        (''Sealed Secrets'',
         ''Encrypt secrets at rest in Git, decrypt only in-cluster.''),
        (''Secret rotation choreography'',
         ''Add new -> switch consumers -> revoke old.''),
        (''Pre-commit hooks'',
         ''gitleaks / trufflehog catch leaks before push.'')],
     ex_learn_more =
       [(''External Secrets Operator'',
         ''https://external-secrets.io/''),
        (''Sealed Secrets'',
         ''https://github.com/bitnami-labs/sealed-secrets'')],
     ex_takeaway =
       ''Secrets in Git are not '' @ [CHR 0x27] @ ''if'' @ [CHR 0x27] @ '', they'' @ [CHR 0x27] @
       ''re '' @ [CHR 0x27] @ ''when'' @ [CHR 0x27] @ ''. Make rotation routine -- don'' @
       [CHR 0x27] @ ''t make it heroic.''\<rparr>"

definition explain_service_mesh_crash :: explainer where
  "explain_service_mesh_crash = \<lparr>ex_title = ''A service mesh sidecar crashed'',
     ex_summary =
       ''An Envoy sidecar OOMed on one pod. The application kept running but no traffic could '' @
       ''reach it. The sidecar restarted and traffic resumed within 5 seconds.'',
     ex_what_happens =
       [''Envoy sidecar exceeds its memory limit (often during a config reload with large config).'',
        ''kubelet OOMKills the sidecar container. Application container keeps running.'',
        ''Service mesh sees the sidecar as down -- removes the pod from the load-balancing pool.'',
        ''Traffic routes only to surviving pods.'',
        ''Sidecar restarts (restartPolicy: Always). xDS config syncs from the control plane.'',
        ''Sidecar becomes ready. Traffic resumes. Total impact: a single pod'' @ [CHR 0x27] @
        ''s worth of capacity for ~5s.'',
        ''Mitigation: size sidecar limits appropriately, monitor sidecar memory separately, use '' @
        ''ambient-mesh approaches.''],
     ex_primitives =
       [(''Sidecar pattern (Istio/Linkerd)'',
         ''Envoy proxy alongside every pod.''),
        (''xDS API'',
         ''How Envoy receives config from the mesh control plane.''),
        (''Ambient mesh (Istio)'',
         ''Mesh without per-pod sidecars -- different trade-offs.''),
        (''Resource limits on sidecars'',
         ''Size sidecars based on connection count, not request count.''),
        (''Mesh control plane HA'',
         ''Always run multiple replicas of istiod / linkerd-destination.'')],
     ex_learn_more =
       [(''Istio Sidecar'',
         ''https://istio.io/latest/docs/reference/config/networking/sidecar/''),
        (''Linkerd Architecture'',
         ''https://linkerd.io/2/reference/architecture/'')],
     ex_takeaway =
       ''The sidecar is part of your blast radius. Plan for it to die -- same as any other '' @
       ''container.''\<rparr>"

definition explain_third_party_outage :: explainer where
  "explain_third_party_outage = \<lparr>ex_title = ''A third-party SaaS dependency went down'',
     ex_summary =
       ''Payment provider became unreachable. Checkout fell back to queueing orders for later '' @
       ''processing. Customer-facing degradation, not outage.'',
     ex_what_happens =
       [''Calls to Stripe/Twilio/SendGrid/Auth0 start timing out.'',
        ''Circuit breaker around the third-party trips after consecutive failures.'',
        ''Requests that depend on the third-party return a degraded response: '' @ [CHR 0x27] @
        ''Payment will be processed shortly.'' @ [CHR 0x27],
        ''Successful order data is queued for replay when the third-party recovers.'',
        ''Status page for the third-party confirms the outage. Customers are informed.'',
        ''Third-party recovers. Queued operations replay in order, with deduplication keys to '' @
        ''prevent doubles.'',
        ''Mitigation strategy: idempotency keys, queue-and-retry pattern, redundancy across '' @
        ''vendors (multi-payment-provider).''],
     ex_primitives =
       [(''Circuit Breaker (on external calls)'',
         ''Same pattern, different blast radius.''),
        (''Idempotency Keys'',
         ''Same op done twice doesn'' @ [CHR 0x27] @ ''t double-charge.''),
        (''Queue-and-Replay'',
         ''Persist work that depends on degraded third-party, replay on recovery.''),
        (''Vendor Redundancy'',
         ''Multi-provider for payment, email, SMS -- expensive but resilient.''),
        (''Graceful Degradation'',
         ''Show users the system is degraded, not broken.'')],
     ex_learn_more =
       [(''Stripe -- Designing for Reliability'',
         ''https://stripe.com/blog/designing-for-reliability''),
        (''Idempotent APIs (Stripe)'',
         ''https://stripe.com/docs/api/idempotent_requests'')],
     ex_takeaway =
       ''Every external dependency is an outage waiting to happen. Design checkout to survive '' @
       ''Stripe going down -- your business depends on it.''\<rparr>"

definition EXPLAINERS :: "(string \<times> explainer) list" where
  "EXPLAINERS =
     [(''kill_pod'', explain_kill_pod),
      (''cpu_pressure'', explain_cpu_pressure),
      (''network_partition'', explain_network_partition),
      (''expire_jwt'', explain_expire_jwt),
      (''region_outage'', explain_region_outage),
      (''bad_deploy'', explain_bad_deploy),
      (''redis_failure'', explain_redis_failure),
      (''db_failure'', explain_db_failure),
      (''slow_network'', explain_slow_network),
      (''memory_leak'', explain_memory_leak),
      (''cert_expiry'', explain_cert_expiry),
      (''cascading_failure'', explain_cascading_failure),
      (''dns_failure'', explain_dns_failure),
      (''disk_full'', explain_disk_full),
      (''gc_pause'', explain_gc_pause),
      (''thundering_herd'', explain_thundering_herd),
      (''noisy_neighbor'', explain_noisy_neighbor),
      (''spot_reclaim'', explain_spot_reclaim),
      (''autoscaler_stuck'', explain_autoscaler_stuck),
      (''api_throttle'', explain_api_throttle),
      (''secret_leak'', explain_secret_leak),
      (''service_mesh_crash'', explain_service_mesh_crash),
      (''third_party_outage'', explain_third_party_outage)]"

text \<open>Pairs are sent as arrays. The icons are emoji, beyond the characters of the model: an argument.\<close>

definition explainer_json :: "explainer \<Rightarrow> json" where
  "explainer_json e =
     (let pairs = (\<lambda>xs. JArr (map (\<lambda>(a, b). JArr [JStr a, JStr b]) xs)) in JObj
       [(''title'', JStr (ex_title e)), (''summary'', JStr (ex_summary e)),
        (''what_happens'', JArr (map JStr (ex_what_happens e))), (''primitives'', pairs (ex_primitives e)),
        (''learn_more'', pairs (ex_learn_more e)), (''takeaway'', JStr (ex_takeaway e))])"

definition step_json :: "scenario_step \<Rightarrow> json" where
  "step_json st = JObj ([(''at'', JFloat (st_at st)), (''action'', JStr (st_action st))] @
     (case st_service st of Some s \<Rightarrow> [(''service'', JStr s)] | None \<Rightarrow> []) @
     (case st_duration st of Some d \<Rightarrow> [(''duration'', JFloat d)] | None \<Rightarrow> []))"

definition scenario_json :: "string \<Rightarrow> scenario \<Rightarrow> json" where
  "scenario_json icon sc = JObj
     [(''name'', JStr (sc_name sc)), (''icon'', JStr icon), (''duration_sec'', JFloat (sc_duration_sec sc)),
      (''description'', JStr (sc_description sc)), (''steps'', JArr (map step_json (sc_steps sc))),
      (''takeaway'', JStr (sc_takeaway sc))]"

definition get_explainers :: "(string \<Rightarrow> string) \<Rightarrow> json" where
  "get_explainers icon = JObj
     [(''actions'', JObj (map (\<lambda>(n, e). (n, explainer_json e)) EXPLAINERS)),
      (''scenarios'', JObj (map (\<lambda>(n, sc). (n, scenario_json (icon n) sc)) SCENARIOS))]"

section \<open>Request bodies\<close>

text \<open>
  \<open>to_float\<close> is how the validation library reads a number; a body that is missing where one is needed,
  or does not fit, is answered 422 before the endpoint runs. A body that may be missing may also be null.
\<close>

definition body_member :: "string \<Rightarrow> json \<Rightarrow> json option" where
  "body_member k j = (case j of JObj kvs \<Rightarrow> map_of (rev kvs) k | _ \<Rightarrow> None)"

definition is_object :: "json \<Rightarrow> bool" where
  "is_object j = (case j of JObj _ \<Rightarrow> True | _ \<Rightarrow> False)"

text \<open>An absent number is \<^const>\<open>None\<close>, which the endpoints replace by the default of the body.\<close>

definition float_member :: "(json \<Rightarrow> pyfloat option) \<Rightarrow> string \<Rightarrow> json \<Rightarrow> pyfloat option option" where
  "float_member to_float k j =
     (case body_member k j of None \<Rightarrow> Some None | Some v \<Rightarrow> map_option Some (to_float v))"

definition bad_body :: endpoint where
  "bad_body c = (Inl (HTTPException 422 ''Unprocessable Entity'' []), c)"

type_synonym chaos_route = "json option \<Rightarrow> endpoint"

definition no_body :: "endpoint \<Rightarrow> chaos_route" where
  "no_body f body = f"

definition with_service :: "(string \<Rightarrow> endpoint) \<Rightarrow> chaos_route" where
  "with_service f body =
     (case body of
        Some j \<Rightarrow> (case body_member ''service'' j of Some (JStr s) \<Rightarrow> f s | _ \<Rightarrow> bad_body)
      | None \<Rightarrow> bad_body)"

definition with_service_duration ::
  "(json \<Rightarrow> pyfloat option) \<Rightarrow> (string \<Rightarrow> pyfloat option \<Rightarrow> endpoint) \<Rightarrow> chaos_route" where
  "with_service_duration to_float f body =
     (case body of
        Some j \<Rightarrow>
          (case (body_member ''service'' j, float_member to_float ''duration'' j) of
             (Some (JStr s), Some d) \<Rightarrow> f s d
           | _ \<Rightarrow> bad_body)
      | None \<Rightarrow> bad_body)"

definition with_duration ::
  "(json \<Rightarrow> pyfloat option) \<Rightarrow> (pyfloat option option \<Rightarrow> endpoint) \<Rightarrow> chaos_route" where
  "with_duration to_float f body =
     (case body of
        None \<Rightarrow> f None
      | Some JNull \<Rightarrow> f None
      | Some j \<Rightarrow>
          if \<not> is_object j then bad_body
          else (case float_member to_float ''duration'' j of Some d \<Rightarrow> f (Some d) | None \<Rightarrow> bad_body))"

section \<open>Routes\<close>

definition ACTION_ROUTES :: "(json \<Rightarrow> pyfloat option) \<Rightarrow> (string \<times> chaos_route) list" where
  "ACTION_ROUTES to_float =
     [(''/chaos/kill-pod'', with_service post_kill_pod),
      (''/chaos/cpu-pressure'', with_service_duration to_float post_cpu_pressure),
      (''/chaos/network-partition'', with_service_duration to_float post_network_partition),
      (''/chaos/expire-jwt'', no_body post_expire_jwt),
      (''/chaos/region-outage'', with_duration to_float post_region_outage),
      (''/chaos/bad-deploy'', with_service post_bad_deploy),
      (''/chaos/redis-failure'', with_duration to_float post_redis_failure),
      (''/chaos/db-failure'', with_duration to_float post_db_failure),
      (''/chaos/slow-network'', with_duration to_float post_slow_network),
      (''/chaos/memory-leak'', with_service post_memory_leak),
      (''/chaos/cert-expiry'', no_body post_cert_expiry),
      (''/chaos/dns-failure'', with_duration to_float post_dns_failure),
      (''/chaos/cascading-failure'', no_body post_cascading_failure),
      (''/chaos/disk-full'', with_service post_disk_full),
      (''/chaos/gc-pause'', with_service post_gc_pause),
      (''/chaos/thundering-herd'', with_duration to_float post_thundering_herd),
      (''/chaos/noisy-neighbor'', with_duration to_float post_noisy_neighbor),
      (''/chaos/spot-reclaim'', no_body post_spot_reclaim),
      (''/chaos/autoscaler-stuck'', with_duration to_float post_autoscaler_stuck),
      (''/chaos/api-throttle'', with_duration to_float post_api_throttle),
      (''/chaos/secret-leak'', with_duration to_float post_secret_leak),
      (''/chaos/service-mesh-crash'', with_service post_service_mesh_crash),
      (''/chaos/third-party-outage'', with_duration to_float post_third_party_outage)]"

text \<open>The action a path stands for: its last part with underscores.\<close>

definition action_of_path :: "string \<Rightarrow> string" where
  "action_of_path p = map (\<lambda>c. if c = CHR ''-'' then CHR ''_'' else c) (drop 7 p)"

definition queued :: "string \<Rightarrow> (http_error + json) \<Rightarrow> bool" where
  "queued n x \<longleftrightarrow> (\<exists>echoed. x = Inr (JObj ((''queued'', JStr n) # echoed)))"

lemma queued_trigger [simp]: "queued n (fst (trigger a n echoed (Some c)))"
  by (simp add: queued_def trigger_def ensure_cluster_def)

lemmas post_defs = post_kill_pod_def post_cpu_pressure_def post_network_partition_def post_expire_jwt_def post_region_outage_def post_bad_deploy_def post_redis_failure_def post_db_failure_def post_slow_network_def post_memory_leak_def post_cert_expiry_def post_dns_failure_def post_cascading_failure_def post_disk_full_def post_gc_pause_def post_thundering_herd_def post_noisy_neighbor_def post_spot_reclaim_def post_autoscaler_stuck_def post_api_throttle_def post_secret_leak_def post_service_mesh_crash_def post_third_party_outage_def

definition accepted :: "string \<Rightarrow> chaos_route \<Rightarrow> bool" where
  "accepted n r \<longleftrightarrow> (\<forall>body c. r body = bad_body \<or> queued n (fst (r body (Some c))))"

lemma accepted_routes:
  "(\<And>c. queued n (fst (e (Some c)))) \<Longrightarrow> accepted n (no_body e)"
  "(\<And>s c. queued n (fst (f s (Some c)))) \<Longrightarrow> accepted n (with_service f)"
  "(\<And>s d c. queued n (fst (g s d (Some c)))) \<Longrightarrow> accepted n (with_service_duration to_float g)"
  "(\<And>b c. queued n (fst (h b (Some c)))) \<Longrightarrow> accepted n (with_duration to_float h)"
  by (auto simp: accepted_def no_body_def with_service_def with_service_duration_def with_duration_def
      split: option.split json.split)

lemma explained_actions:
  "map fst EXPLAINERS =
     [''kill_pod'', ''cpu_pressure'', ''network_partition'', ''expire_jwt'', ''region_outage'', ''bad_deploy'',
      ''redis_failure'', ''db_failure'', ''slow_network'', ''memory_leak'', ''cert_expiry'', ''cascading_failure'',
      ''dns_failure'', ''disk_full'', ''gc_pause'', ''thundering_herd'', ''noisy_neighbor'', ''spot_reclaim'',
      ''autoscaler_stuck'', ''api_throttle'', ''secret_leak'', ''service_mesh_crash'', ''third_party_outage'']"
  by (simp add: EXPLAINERS_def)

lemma routed_actions:
  "map (\<lambda>(p, _). action_of_path p) (ACTION_ROUTES to_float) =
     [''kill_pod'', ''cpu_pressure'', ''network_partition'', ''expire_jwt'', ''region_outage'', ''bad_deploy'',
      ''redis_failure'', ''db_failure'', ''slow_network'', ''memory_leak'', ''cert_expiry'', ''dns_failure'',
      ''cascading_failure'', ''disk_full'', ''gc_pause'', ''thundering_herd'', ''noisy_neighbor'', ''spot_reclaim'',
      ''autoscaler_stuck'', ''api_throttle'', ''secret_leak'', ''service_mesh_crash'', ''third_party_outage'']"
  by (simp add: ACTION_ROUTES_def action_of_path_def)

lemma routes_accepted: "list_all (\<lambda>(p, r). accepted (action_of_path p) r) (ACTION_ROUTES to_float)"
  by (simp add: ACTION_ROUTES_def action_of_path_def accepted_routes post_defs Let_def)

lemma dispatched_actions:
  "scenario_action \<lparr>st_at = t, st_action = a, st_service = Some s, st_duration = d\<rparr> \<noteq> None \<longleftrightarrow>
     a \<in> set (map fst EXPLAINERS)"
  unfolding explained_actions by (simp add: scenario_action_def Let_def)

text \<open>
  The catalogue of chaos actions is closed. The 23 explained actions are exactly those that have a
  route, each once, and exactly those a scenario step can name; every route refuses a body that does not
  fit, and otherwise queues the action its path stands for and says so; and every step of every scenario
  names an explained action.
\<close>
theorem chaos_catalogue:
  "distinct (map fst EXPLAINERS) \<and>
   mset (map (\<lambda>(p, _). action_of_path p) (ACTION_ROUTES to_float)) = mset (map fst EXPLAINERS) \<and>
   list_all (\<lambda>(p, r). accepted (action_of_path p) r) (ACTION_ROUTES to_float) \<and>
   (scenario_action \<lparr>st_at = t, st_action = a, st_service = Some s, st_duration = d\<rparr> \<noteq> None) =
     (a \<in> set (map fst EXPLAINERS)) \<and>
   list_all (\<lambda>(_, sc). list_all (\<lambda>st. st_action st \<in> set (map fst EXPLAINERS)) (sc_steps sc)) SCENARIOS"
proof (intro conjI)
  show "distinct (map fst EXPLAINERS)" unfolding explained_actions by simp
  show "mset (map (\<lambda>(p, _). action_of_path p) (ACTION_ROUTES to_float)) = mset (map fst EXPLAINERS)"
    unfolding explained_actions routed_actions by simp
  show "list_all (\<lambda>(_, sc). list_all (\<lambda>st. st_action st \<in> set (map fst EXPLAINERS)) (sc_steps sc)) SCENARIOS"
    unfolding explained_actions
    by (simp add: SCENARIOS_def black_friday_def region_disaster_def bad_deploy_day_def security_incident_def
        cache_cascade_def friday_evening_def christmas_eve_def the_audit_def active_breach_def upgrade_gone_wrong_def)
qed (rule routes_accepted dispatched_actions)+

end
