(* ===== verification/Mailer.thy ===== *)
theory Mailer
  imports Configuration "HOL-Library.Sublist"
begin

text \<open>
  The e-mail senders of the user service (\<^verbatim>\<open>email.py\<close>): the choice of the sender, the development sender
  that writes mails to the log, and the SMTP sender with its session. The SMTP server is the argument
  \<open>srv\<close>, which accepts a command or makes the client library raise. The routes use the senders through
  the list of mails handed over (\<^verbatim>\<open>uw_mails\<close>); this theory follows one of those mails.
\<close>

record mime =
  mm_subject :: string
  mm_from :: string
  mm_to :: string
  mm_text :: string

datatype smtp_cmd =
    Connect string int
  | StartTls
  | Login string string
  | SendMessage mime
  | Quit

type_synonym 's smtp_server = "smtp_cmd \<Rightarrow> 's \<Rightarrow> bool \<times> 's"

datatype email_sender = LogEmailSender | SmtpEmailSender

datatype mail_log =
    SenderInitialised string
  | DevEmail string string string
  | MailSent string string
  | MailFailed string string

record 's mailer =
  ml_sender :: "email_sender option"
  ml_log :: "mail_log list"
  ml_server :: 's

definition log_mail :: "mail_log \<Rightarrow> 's mailer \<Rightarrow> 's mailer" where
  "log_mail e m = m\<lparr>ml_log := ml_log m @ [e]\<rparr>"

definition get_email_sender :: "smtp_settings \<Rightarrow> 's mailer \<Rightarrow> email_sender \<times> 's mailer" where
  "get_email_sender cfg m =
     (case ml_sender m of
        Some s \<Rightarrow> (s, m)
      | None \<Rightarrow>
          (let s = (if sm_email_sender cfg = ''smtp'' then SmtpEmailSender else LogEmailSender)
           in (s, log_mail (SenderInitialised (sm_email_sender cfg)) (m\<lparr>ml_sender := Some s\<rparr>))))"

text \<open>The body of the \<^verbatim>\<open>with\<close>: commands until one raises.\<close>

fun smtp_commands :: "'s smtp_server \<Rightarrow> smtp_cmd list \<Rightarrow> 's \<Rightarrow> bool \<times> 's" where
  "smtp_commands srv [] s = (True, s)"
| "smtp_commands srv (c # cs) s =
     (case srv c s of (True, s') \<Rightarrow> smtp_commands srv cs s' | (False, s') \<Rightarrow> (False, s'))"

definition smtp_session :: "smtp_settings \<Rightarrow> mime \<Rightarrow> smtp_cmd list" where
  "smtp_session cfg msg =
     StartTls # (if sm_username cfg \<noteq> [] then [Login (sm_username cfg) (sm_password cfg)] else []) @
     [SendMessage msg]"

text \<open>
  Leaving the \<^verbatim>\<open>with\<close> quits, whether or not its body raised; the surrounding \<^verbatim>\<open>try\<close> catches everything.
\<close>

definition smtp_send ::
  "'s smtp_server \<Rightarrow> smtp_settings \<Rightarrow> string \<Rightarrow> string \<Rightarrow> string \<Rightarrow> 's mailer \<Rightarrow> 's mailer" where
  "smtp_send srv cfg recipient subject body m =
     (let msg = \<lparr>mm_subject = subject, mm_from = sm_from_address cfg, mm_to = recipient, mm_text = body\<rparr> in
      case srv (Connect (sm_host cfg) (sm_port cfg)) (ml_server m) of
        (False, s1) \<Rightarrow> log_mail (MailFailed recipient subject) (m\<lparr>ml_server := s1\<rparr>)
      | (True, s1) \<Rightarrow>
          (case smtp_commands srv (smtp_session cfg msg) s1 of
             (ok, s2) \<Rightarrow>
               (case srv Quit s2 of
                  (quit_ok, s3) \<Rightarrow>
                    log_mail (if ok \<and> quit_ok then MailSent recipient subject else MailFailed recipient subject)
                      (m\<lparr>ml_server := s3\<rparr>))))"

definition log_send :: "string \<Rightarrow> string \<Rightarrow> string \<Rightarrow> 's mailer \<Rightarrow> 's mailer" where
  "log_send recipient subject body = log_mail (DevEmail recipient subject body)"

definition deliver_mail :: "'s smtp_server \<Rightarrow> smtp_settings \<Rightarrow> mail \<Rightarrow> 's mailer \<Rightarrow> 's mailer" where
  "deliver_mail srv cfg ma m =
     (case get_email_sender cfg m of
        (SmtpEmailSender, m1) \<Rightarrow> smtp_send srv cfg (ma_to ma) (ma_subject ma) (ma_body ma) m1
      | (LogEmailSender, m1) \<Rightarrow> log_send (ma_to ma) (ma_subject ma) (ma_body ma) m1)"

section \<open>What goes over the wire\<close>

text \<open>A server that keeps the commands it was sent; \<open>ok\<close> decides, from all of them, what it accepts.\<close>

definition recording :: "(smtp_cmd list \<Rightarrow> bool) \<Rightarrow> smtp_cmd list smtp_server" where
  "recording ok c tr = (ok (tr @ [c]), tr @ [c])"

lemma recording_Cons:
  "smtp_commands (recording ok) (c # cs) tr =
     (if ok (tr @ [c]) then smtp_commands (recording ok) cs (tr @ [c]) else (False, tr @ [c]))"
  by (simp add: recording_def)

lemma smtp_commands_recording:
  "\<exists>ps. prefix ps cs \<and> (cs \<noteq> [] \<longrightarrow> ps \<noteq> []) \<and>
     smtp_commands (recording ok) cs tr = (ps = cs \<and> (\<forall>i<length cs. ok (tr @ take (Suc i) cs)), tr @ ps) \<and>
     (\<forall>i. Suc i < length ps \<longrightarrow> ok (tr @ take (Suc i) ps))"
proof (induction cs arbitrary: tr)
  case (Cons c cs)
  show ?case
  proof (cases "ok (tr @ [c])")
    case True
    obtain ps where ps: "prefix ps cs" "cs \<noteq> [] \<longrightarrow> ps \<noteq> []"
      "smtp_commands (recording ok) cs (tr @ [c]) =
         (ps = cs \<and> (\<forall>i<length cs. ok ((tr @ [c]) @ take (Suc i) cs)), (tr @ [c]) @ ps)"
      "\<forall>i. Suc i < length ps \<longrightarrow> ok ((tr @ [c]) @ take (Suc i) ps)"
      using Cons.IH [of "tr @ [c]"] by blast
    have "(\<forall>i<length (c # cs). ok (tr @ take (Suc i) (c # cs))) \<longleftrightarrow>
        (\<forall>i<length cs. ok ((tr @ [c]) @ take (Suc i) cs))"
      using True by (simp add: All_less_Suc2)
    moreover have "\<forall>i. Suc i < length (c # ps) \<longrightarrow> ok (tr @ take (Suc i) (c # ps))"
    proof (intro allI impI)
      fix i assume "Suc i < length (c # ps)"
      then show "ok (tr @ take (Suc i) (c # ps))"
        using ps(4) True by (cases i) auto
    qed
    ultimately show ?thesis
      using ps(1,3) True by (intro exI [of _ "c # ps"]) (simp add: recording_Cons del: smtp_commands.simps)
  next
    case False
    then show ?thesis
      by (intro exI [of _ "[c]"]) (auto simp: recording_Cons simp del: smtp_commands.simps)
  qed
qed simp

text \<open>
  What the production sender says to the mail server, whichever of its commands the server refuses.
  It connects and, if that succeeds, sends a beginning of the session STARTTLS, login (with a user name
  configured), message, and quits. The credentials and the mail are never sent before the server has
  accepted STARTTLS. Sending never raises; exactly one entry is logged, \<^const>\<open>MailSent\<close> only after the whole
  session was accepted, and never the text of the mail.
\<close>
theorem mail_after_tls:
  assumes "ml_sender m = Some SmtpEmailSender"
  shows "\<exists>cs e. let m' = deliver_mail (recording ok) cfg ma m;
      tr = ml_server m @ [Connect (sm_host cfg) (sm_port cfg)];
      session = smtp_session cfg \<lparr>mm_subject = ma_subject ma, mm_from = sm_from_address cfg,
                                  mm_to = ma_to ma, mm_text = ma_body ma\<rparr> in
    m' = m\<lparr>ml_server := tr @ cs, ml_log := ml_log m @ [e]\<rparr> \<and>
    (cs = [] \<and> \<not> ok tr \<or> ok tr \<and> (\<exists>ps. ps \<noteq> [] \<and> prefix ps session \<and> cs = ps @ [Quit])) \<and>
    (e = MailSent (ma_to ma) (ma_subject ma) \<and> cs = session @ [Quit] \<or> e = MailFailed (ma_to ma) (ma_subject ma)) \<and>
    (\<forall>i<length cs. cs ! i \<noteq> StartTls \<and> cs ! i \<noteq> Quit \<longrightarrow> 0 < i \<and> cs ! 0 = StartTls \<and> ok (tr @ [StartTls]))"
proof -
  let ?c = "Connect (sm_host cfg) (sm_port cfg)"
  let ?tr = "ml_server m @ [?c]"
  let ?msg = "\<lparr>mm_subject = ma_subject ma, mm_from = sm_from_address cfg, mm_to = ma_to ma, mm_text = ma_body ma\<rparr>"
  let ?s = "smtp_session cfg ?msg"
  let ?m' = "deliver_mail (recording ok) cfg ma m"
  have d: "?m' = smtp_send (recording ok) cfg (ma_to ma) (ma_subject ma) (ma_body ma) m"
    using assms by (simp add: deliver_mail_def get_email_sender_def)
  show ?thesis
  proof (cases "ok ?tr")
    case False
    then have "?m' = m\<lparr>ml_server := ?tr @ [], ml_log := ml_log m @ [MailFailed (ma_to ma) (ma_subject ma)]\<rparr>"
      by (simp add: d smtp_send_def recording_def log_mail_def)
    with False show ?thesis unfolding Let_def
      by (intro exI [of _ "[]"] exI [of _ "MailFailed (ma_to ma) (ma_subject ma)"]) simp
  next
    case True
    obtain ps where ps: "prefix ps ?s" "ps \<noteq> []"
      "smtp_commands (recording ok) ?s ?tr = (ps = ?s \<and> (\<forall>i<length ?s. ok (?tr @ take (Suc i) ?s)), ?tr @ ps)"
      "\<forall>i. Suc i < length ps \<longrightarrow> ok (?tr @ take (Suc i) ps)"
      using smtp_commands_recording [of ?s ok ?tr] by (auto simp: smtp_session_def)
    define e where "e = (if (ps = ?s \<and> (\<forall>i<length ?s. ok (?tr @ take (Suc i) ?s))) \<and> ok (?tr @ ps @ [Quit])
      then MailSent (ma_to ma) (ma_subject ma) else MailFailed (ma_to ma) (ma_subject ma))"
    have m': "?m' = m\<lparr>ml_server := ?tr @ ps @ [Quit], ml_log := ml_log m @ [e]\<rparr>"
      using True ps(3) by (simp add: d smtp_send_def recording_def log_mail_def e_def)
    obtain qs where qs: "ps = StartTls # qs" "prefix qs (tl ?s)"
      using ps(1,2) by (cases ps) (auto simp: smtp_session_def)
    have acc: "0 < i \<and> (ps @ [Quit]) ! 0 = StartTls \<and> ok (?tr @ [StartTls])"
      if i: "i < length (ps @ [Quit])" "(ps @ [Quit]) ! i \<noteq> StartTls" "(ps @ [Quit]) ! i \<noteq> Quit" for i
    proof -
      from i qs(1) have "0 < i" "i < length ps" by (auto simp: nth_append less_Suc_eq intro: Nat.gr0I)
      then have "ok (?tr @ take (Suc 0) ps)" using ps(4) by auto
      with \<open>0 < i\<close> qs(1) show ?thesis by simp
    qed
    have e: "e = MailSent (ma_to ma) (ma_subject ma) \<and> ps @ [Quit] = ?s @ [Quit] \<or> e = MailFailed (ma_to ma) (ma_subject ma)"
      by (auto simp: e_def)
    show ?thesis unfolding Let_def
      by (rule exI [of _ "ps @ [Quit]"], rule exI [of _ e]) (use m' e True ps(1,2) acc in blast)
  qed
qed

definition demo_smtp :: smtp_settings where
  "demo_smtp = \<lparr>sm_email_sender = ''smtp'', sm_host = ''mx'', sm_port = 587, sm_username = ''svc'',
     sm_password = ''pw'', sm_from_address = ''no-reply@x''\<rparr>"

theorem mail_after_tls_witness:
  "\<exists>cs e. deliver_mail (recording (\<lambda>tr. last tr \<noteq> StartTls)) demo_smtp \<lparr>ma_to = ''a@x'', ma_subject = ''s'', ma_body = ''b''\<rparr>
       \<lparr>ml_sender = Some SmtpEmailSender, ml_log = [], ml_server = []\<rparr>
     = \<lparr>ml_sender = Some SmtpEmailSender, ml_log = [e], ml_server = Connect ''mx'' 587 # cs\<rparr>"
  using mail_after_tls [where m = "\<lparr>ml_sender = Some SmtpEmailSender, ml_log = [], ml_server = []\<rparr>" and cfg = demo_smtp
      and ok = "\<lambda>tr. last tr \<noteq> StartTls" and ma = "\<lparr>ma_to = ''a@x'', ma_subject = ''s'', ma_body = ''b''\<rparr>"]
  by (auto simp: Let_def demo_smtp_def)

end
