(* ===== verification/Interleaving.thy ===== *)
theory Interleaving
  imports Prelude
begin

text \<open>
  Requests that overlap. A handler is an \<^verbatim>\<open>async\<close> function: between two of its \<^verbatim>\<open>await\<close>s it runs
  alone, at every \<^verbatim>\<open>await\<close> other requests may run and time may pass. Such a request is a resumption: it
  is done, or it waits to do its next atomic step on the shared state at whatever time it gets its turn.
\<close>

datatype ('w, 'a) proc =
    Done 'a
  | Await "pyfloat \<Rightarrow> 'w \<Rightarrow> ('w, 'a) proc \<times> 'w"

text \<open>A request that nothing interrupts.\<close>

primrec alone :: "pyfloat \<Rightarrow> ('w, 'a) proc \<Rightarrow> 'w \<Rightarrow> 'a \<times> 'w" where
  "alone t (Done a) = (\<lambda>w. (a, w))"
| "alone t (Await f) = (\<lambda>w. case map_prod (alone t) id (f t w) of (g, w') \<Rightarrow> g w')"

lemma alone_Await [simp]: "alone t (Await f) w = (case f t w of (p, w') \<Rightarrow> alone t p w')"
  by (simp split: prod.split)

declare alone.simps(2) [simp del]

text \<open>The requests in flight: one of them makes its step, or time passes.\<close>

type_synonym ('w, 'a) system = "pyfloat \<times> ('w, 'a) proc list \<times> 'w"

inductive sys_step :: "('w, 'a) system \<Rightarrow> ('w, 'a) system \<Rightarrow> bool" where
  turn: "i < length ps \<Longrightarrow> ps ! i = Await f \<Longrightarrow> f t w = (p, w') \<Longrightarrow> sys_step (t, ps, w) (t, ps[i := p], w')"
| tick: "t \<le> t' \<Longrightarrow> sys_step (t, ps, w) (t', ps, w)"

text \<open>A run by explicit turns.\<close>

lemma sys_turn:
  "ps ! i = Await f \<Longrightarrow> f t w = (p, w') \<Longrightarrow> i < length ps \<Longrightarrow> ps[i := p] = ps' \<Longrightarrow>
   sys_step (t, ps, w) (t, ps', w')"
  by (elim subst [where P = "\<lambda>x. sys_step (t, ps, w) (t, x, w')"]) (rule turn)

lemma sys_steps_Cons: "sys_step s u \<Longrightarrow> sys_step\<^sup>*\<^sup>* u v \<Longrightarrow> sys_step\<^sup>*\<^sup>* s v"
  by (rule converse_rtranclp_into_rtranclp)

text \<open>Steps that keep a condition on time and state, and requests that can only end in one way.\<close>

inductive keeps_cond :: "(pyfloat \<Rightarrow> 'w \<Rightarrow> bool) \<Rightarrow> ('w, 'a) proc \<Rightarrow> bool" for I where
  kc_Done [simp, intro]: "keeps_cond I (Done a)"
| kc_Await: "(\<And>t w. keeps_cond I (fst (f t w))) \<Longrightarrow> (\<And>t w. I t w \<Longrightarrow> I t (snd (f t w))) \<Longrightarrow>
     keeps_cond I (Await f)"

inductive_simps keeps_Await [simp]: "keeps_cond I (Await f)"

inductive ends_in :: "('a \<Rightarrow> bool) \<Rightarrow> ('w, 'a) proc \<Rightarrow> bool" for P where
  ei_Done: "P a \<Longrightarrow> ends_in P (Done a)"
| ei_Await: "(\<And>t w. ends_in P (fst (f t w))) \<Longrightarrow> ends_in P (Await f)"

inductive_simps ends_in_simps [simp]: "ends_in P (Done a)" "ends_in P (Await f)"

text \<open>A condition that every request keeps and that time cannot break is kept by the system.\<close>

locale shared_condition =
  fixes I :: "pyfloat \<Rightarrow> 'w \<Rightarrow> bool"
  assumes later: "I t w \<Longrightarrow> t \<le> t' \<Longrightarrow> I t' w"
begin

lemma turn_keeps:
  assumes "sys_step (t, ps, w) (t', ps', w')" "\<forall>p\<in>set ps. keeps_cond I p"
  shows "\<forall>p\<in>set ps'. keeps_cond I p" "I t w \<Longrightarrow> I t' w'"
proof -
  have "(\<forall>p\<in>set ps'. keeps_cond I p) \<and> (I t w \<longrightarrow> I t' w')"
    using assms(1)
  proof (cases rule: sys_step.cases)
    case (turn i f p)
    have "keeps_cond I (Await f)" using turn assms(2) nth_mem by metis
    then have "keeps_cond I (fst (f t w))" "I t w \<longrightarrow> I t (snd (f t w))" by simp_all
    then show ?thesis using turn assms(2) by (auto dest: set_update_subset_insert [THEN subsetD])
  next
    case tick
    then show ?thesis using assms(2) later by blast
  qed
  then show "\<forall>p\<in>set ps'. keeps_cond I p" "I t w \<Longrightarrow> I t' w'" by blast+
qed

lemma runs_keep:
  assumes "sys_step\<^sup>*\<^sup>* s s'" "\<forall>p\<in>set (fst (snd s)). keeps_cond I p"
  shows "\<forall>p\<in>set (fst (snd s')). keeps_cond I p" "I (fst s) (snd (snd s)) \<Longrightarrow> I (fst s') (snd (snd s'))"
proof -
  have "(\<forall>p\<in>set (fst (snd s')). keeps_cond I p) \<and>
      (I (fst s) (snd (snd s)) \<longrightarrow> I (fst s') (snd (snd s')))"
    using assms
  proof (induction rule: rtranclp_induct)
    case (step u v)
    obtain t ps w t' ps' w' where uv: "u = (t, ps, w)" "v = (t', ps', w')" by (cases u, cases v)
    have k: "\<forall>p\<in>set ps. keeps_cond I p" using step uv by simp
    show ?case using step uv turn_keeps [OF step(2) [unfolded uv] k] by auto
  qed simp
  then show "\<forall>p\<in>set (fst (snd s')). keeps_cond I p"
    "I (fst s) (snd (snd s)) \<Longrightarrow> I (fst s') (snd (snd s'))" by blast+
qed

end

section \<open>A prize that only one request can win\<close>

text \<open>
  The shape of a one-time token: \<open>fresh p\<close> are the requests that have not taken it yet, \<open>lost p\<close> those
  that can no longer succeed, \<open>taken t w\<close> says that it is gone. A step of a fresh request leaves it fresh
  or lost, or takes the prize, which was not gone then and is from then on.
\<close>

locale one_winner = shared_condition taken
  for taken :: "pyfloat \<Rightarrow> 'w \<Rightarrow> bool" +
  fixes fresh :: "('w, 'a) proc \<Rightarrow> bool" and wins :: "'a \<Rightarrow> bool"
  assumes not_done: "\<not> fresh (Done a)"
    and take_step: "fresh (Await f) \<Longrightarrow> f t w = (p, w') \<Longrightarrow>
      fresh p \<or> ends_in (\<lambda>a. \<not> wins a) p \<or> (\<not> taken t w \<and> taken t w')"
begin

definition idle :: "('w, 'a) proc \<Rightarrow> bool" where
  "idle p \<longleftrightarrow> fresh p \<or> ends_in (\<lambda>a. \<not> wins a) p"

definition contest :: "nat set \<Rightarrow> ('w, 'a) system \<Rightarrow> bool" where
  "contest C s = (case s of (t, ps, w) \<Rightarrow>
     (\<forall>i\<in>C. i < length ps) \<and> (\<forall>p\<in>set ps. keeps_cond taken p) \<and>
     ((\<forall>i\<in>C. idle (ps ! i)) \<or> taken t w \<and> (\<exists>j. \<forall>i\<in>C. i \<noteq> j \<longrightarrow> idle (ps ! i))))"

lemma idle_step:
  assumes "idle (Await f)" "f t w = (p, w')"
  shows "idle p \<or> (\<not> taken t w \<and> taken t w')"
proof -
  have "ends_in (\<lambda>a. \<not> wins a) p" if "ends_in (\<lambda>a. \<not> wins a) (Await f)"
  proof -
    have "ends_in (\<lambda>a. \<not> wins a) (fst (f t w))" using that by simp
    then show ?thesis using assms(2) by simp
  qed
  then show ?thesis using assms(1) take_step [of f t w p w'] assms(2) unfolding idle_def by blast
qed

lemma contest_step:
  assumes "sys_step s s'" "contest C s"
  shows "contest C s'"
proof -
  obtain t ps w t' ps' w' where s: "s = (t, ps, w)" "s' = (t', ps', w')" by (cases s, cases s')
  have k: "\<forall>p\<in>set ps. keeps_cond taken p" and n: "\<forall>i\<in>C. i < length ps"
    and c: "(\<forall>i\<in>C. idle (ps ! i)) \<or> taken t w \<and> (\<exists>j. \<forall>i\<in>C. i \<noteq> j \<longrightarrow> idle (ps ! i))"
    using assms(2) s by (auto simp: contest_def)
  note st = assms(1) [unfolded s]
  have k': "\<forall>p\<in>set ps'. keeps_cond taken p" and tk: "taken t w \<Longrightarrow> taken t' w'"
    using turn_keeps [OF st k] by blast+
  from st have "(\<forall>i\<in>C. i < length ps') \<and>
      ((\<forall>i\<in>C. idle (ps' ! i)) \<or> taken t' w' \<and> (\<exists>j. \<forall>i\<in>C. i \<noteq> j \<longrightarrow> idle (ps' ! i)))"
  proof (cases rule: sys_step.cases)
    case (turn i f p)
    have other: "ps' ! j = ps ! j" if "j \<noteq> i" for j using turn that by simp
    have own: "ps' ! i = p" using turn by simp
    have prog: "idle p \<or> (\<not> taken t w \<and> taken t w')" if "idle (ps ! i)"
      using idle_step [of f t w p w'] that turn by simp
    have len: "\<forall>j\<in>C. j < length ps'" using n turn by simp
    show ?thesis
    proof (cases "\<forall>j\<in>C. idle (ps ! j)")
      case True
      have "idle (ps' ! j)" if "j \<in> C" "idle p" for j
        using True that own other by (cases "j = i") auto
      moreover have "idle (ps' ! j)" if "j \<in> C" "j \<noteq> i" for j
        using True that other by auto
      moreover have "idle p \<or> taken t' w'" if "i \<in> C"
        using prog True that turn by blast
      ultimately show ?thesis using len by (cases "i \<in> C") blast+
    next
      case False
      then obtain j where "taken t w" "\<forall>l\<in>C. l \<noteq> j \<longrightarrow> idle (ps ! l)" using c by blast
      moreover have "idle (ps' ! l)" if "l \<in> C" "l \<noteq> j" for l
        using calculation that prog own other by (cases "l = i") auto
      ultimately show ?thesis using len tk by blast
    qed
  next
    case tick
    then show ?thesis using c n tk by metis
  qed
  then show ?thesis using k' s by (simp add: contest_def)
qed

lemma at_most_one:
  assumes "sys_step\<^sup>*\<^sup>* (t0, ps0, w0) (t, ps, w)"
    and "\<forall>p\<in>set ps0. keeps_cond taken p" and "\<forall>i\<in>C. i < length ps0 \<and> fresh (ps0 ! i)"
  shows "\<exists>j. \<forall>i\<in>C. (\<exists>a. ps ! i = Done a \<and> wins a) \<longrightarrow> i = j"
proof -
  have "contest C (t0, ps0, w0)" using assms(2,3) by (auto simp: contest_def idle_def)
  with assms(1) have "contest C (t, ps, w)"
    by (induction rule: rtranclp_induct) (auto intro: contest_step)
  then have "\<exists>j. \<forall>i\<in>C. i \<noteq> j \<longrightarrow> idle (ps ! i)" by (auto simp: contest_def)
  then show ?thesis using not_done by (force simp: idle_def)
qed

end

end
