(* ===== verification/Races.thy ===== *)
theory Races
  imports Sessions Interleaving
begin

text \<open>
  Overlapping requests on the tokens of the user service. \<^verbatim>\<open>refresh_token\<close> and \<^verbatim>\<open>logout\<close> as the atomic
  steps between their \<^verbatim>\<open>await\<close>s: connecting to Redis, the Redis command, the query, and connecting and
  storing the new token. Run alone they are the handlers of \<^verbatim>\<open>routes/auth.py\<close>; the theorem is about any
  number of them in any interleaving.
\<close>

section \<open>The handlers in steps\<close>

datatype session_answer = Tokens token_response | LoggedOut

type_synonym 'r session_proc = "('r user_world, http_error + session_answer) proc"

definition await_redis ::
  "(pyfloat \<Rightarrow> 'r redis_client \<Rightarrow> 'x \<times> 'r redis_client) \<Rightarrow> ('x \<Rightarrow> 'r session_proc) \<Rightarrow> 'r session_proc" where
  "await_redis f k = Await (\<lambda>t w. case on_redis (f t) w of (x, w') \<Rightarrow> (k x, w'))"

definition setex_step ::
  "'r redis \<Rightarrow> string \<Rightarrow> int \<Rightarrow> string \<Rightarrow> pyfloat \<Rightarrow> ('r, bool) redis_call" where
  "setex_step rd key ttl user_id t c =
     (case rd_setex rd t key ttl user_id (rc_server c) of
        (ok, r) \<Rightarrow> (if ok then Inr True else Inl ''RedisError'', c\<lparr>rc_server := r\<rparr>))"

definition getdel_step :: "'r redis \<Rightarrow> string \<Rightarrow> pyfloat \<Rightarrow> ('r, string option) redis_call" where
  "getdel_step rd key t c =
     (case rd_getdel rd t key (rc_server c) of
        (x, r) \<Rightarrow> (case x of Some v \<Rightarrow> Inr v | None \<Rightarrow> Inl ''RedisError'', c\<lparr>rc_server := r\<rparr>))"

definition delete_step :: "'r redis \<Rightarrow> string \<Rightarrow> pyfloat \<Rightarrow> ('r, unit) redis_call" where
  "delete_step rd key t c =
     (case rd_delete rd t key (rc_server c) of
        (ok, r) \<Rightarrow> (if ok then Inr () else Inl ''RedisError'', c\<lparr>rc_server := r\<rparr>))"

text \<open>What a refresh does once the stored value is known.\<close>

definition issue_proc :: "'r user_env \<Rightarrow> user_settings \<Rightarrow> pyfloat \<Rightarrow> user \<Rightarrow> 'r session_proc" where
  "issue_proc en cfg t u =
     (case create_access_jwt (en\<lparr>ue_now := t\<rparr>) cfg u of
        Inl e \<Rightarrow> Done (Inl e)
      | Inr (access_token, expires_in) \<Rightarrow>
          (let refresh_token = uuid_str (ue_uuid4 en);
               reply = (\<lambda>x. Done (case x of
                   Inl e \<Rightarrow> Inl (ServerError e)
                 | Inr stored \<Rightarrow> Inr (Tokens
                     \<lparr>tr_access_token = access_token, tr_token_type = ''bearer'',
                      tr_expires_in = expires_in, tr_user = UserResponse u,
                      tr_refresh_token = (if stored then Some refresh_token else None)\<rparr>)))
           in await_redis (get_redis (ue_redis en)) (\<lambda>ok.
                if ok then await_redis (setex_step (ue_redis en) (REFRESH_KEY_PREFIX @ refresh_token)
                             REFRESH_TOKEN_TTL (uuid_str (u_id u))) reply
                else reply (Inr False))))"

definition account_proc ::
  "'r user_env \<Rightarrow> user_settings \<Rightarrow> string + string option \<Rightarrow> 'r session_proc" where
  "account_proc en cfg found =
     (case found of
        Inl e \<Rightarrow> Done (Inl (ServerError e))
      | Inr x \<Rightarrow>
          (let user_id = (case x of Some s \<Rightarrow> s | None \<Rightarrow> []) in
           if user_id = [] then
             Done (Inl (HTTPException 401 ''Refresh token is invalid, expired, or already used'' []))
           else
             (case uuid_parse user_id of
                None \<Rightarrow> Done (Inl (ServerError ''ValueError''))
              | Some uid \<Rightarrow> Await (\<lambda>t w.
                  case fetch_one (users_by_id uid) w of
                    (Inl e, w2) \<Rightarrow> (Done (Inl e), w2)
                  | (Inr None, w2) \<Rightarrow> (Done (Inl (HTTPException 401 ''User account is unavailable'' [])), w2)
                  | (Inr (Some u), w2) \<Rightarrow>
                      (if \<not> u_is_active u then Done (Inl (HTTPException 401 ''User account is unavailable'' []))
                       else issue_proc en cfg t u, w2)))))"

definition take_proc :: "'r user_env \<Rightarrow> user_settings \<Rightarrow> string \<Rightarrow> 'r session_proc" where
  "take_proc en cfg presented =
     await_redis (getdel_step (ue_redis en) (REFRESH_KEY_PREFIX @ presented)) (account_proc en cfg)"

definition refresh_proc :: "'r user_env \<Rightarrow> user_settings \<Rightarrow> string \<Rightarrow> 'r session_proc" where
  "refresh_proc en cfg presented =
     await_redis (get_redis (ue_redis en))
       (\<lambda>ok. if ok then take_proc en cfg presented else account_proc en cfg (Inr None))"

definition logout_proc :: "'r user_env \<Rightarrow> string \<Rightarrow> 'r session_proc" where
  "logout_proc en presented =
     (let reply = (\<lambda>x. Done (case x of Inl e \<Rightarrow> Inl (ServerError e) | Inr _ \<Rightarrow> Inr LoggedOut))
      in await_redis (get_redis (ue_redis en)) (\<lambda>ok.
           if ok then await_redis (delete_step (ue_redis en) (REFRESH_KEY_PREFIX @ presented)) reply
           else reply (Inr ())))"

section \<open>Uninterrupted, they are the routes\<close>

lemma alone_await_redis [simp]:
  "alone t (await_redis f k) w = (case on_redis (f t) w of (x, w') \<Rightarrow> alone t (k x) w')"
  by (simp add: await_redis_def split: prod.split)

lemma issue_alone:
  "alone (ue_now en) (issue_proc en cfg (ue_now en) u) w =
     (case issue_token_response en cfg u w of
        (Inl e, w') \<Rightarrow> (Inl e, w') | (Inr tr, w') \<Rightarrow> (Inr (Tokens tr), w'))"
proof -
  have "en\<lparr>ue_now := ue_now en\<rparr> = en" by simp
  then show ?thesis
    by (cases "get_redis (ue_redis en) (ue_now en) (uw_redis w)")
       (simp add: issue_proc_def issue_token_response_def Let_def on_redis_def store_refresh_token_def
         setex_token_def setex_step_def split: sum.split prod.split bool.split)
qed

lemma account_alone:
  "alone (ue_now en) (account_proc en cfg found) w =
     (case (case found of
          Inl e \<Rightarrow> (Inl (ServerError e), w)
        | Inr x \<Rightarrow>
            (let user_id = (case x of Some s \<Rightarrow> s | None \<Rightarrow> []) in
             if user_id = [] then
               (Inl (HTTPException 401 ''Refresh token is invalid, expired, or already used'' []), w)
             else
               (case uuid_parse user_id of
                  None \<Rightarrow> (Inl (ServerError ''ValueError''), w)
                | Some uid \<Rightarrow>
                    (case fetch_one (users_by_id uid) w of
                       (Inl e, w2) \<Rightarrow> (Inl e, w2)
                     | (Inr None, w2) \<Rightarrow> (Inl (HTTPException 401 ''User account is unavailable'' []), w2)
                     | (Inr (Some u), w2) \<Rightarrow>
                         if \<not> u_is_active u then (Inl (HTTPException 401 ''User account is unavailable'' []), w2)
                         else issue_token_response en cfg u w2)))) of
        (Inl e, w') \<Rightarrow> (Inl e, w') | (Inr tr, w') \<Rightarrow> (Inr (Tokens tr), w'))"
  by (simp add: account_proc_def Let_def issue_alone split: sum.split option.split prod.split)

lemma refresh_alone:
  "alone (ue_now en) (refresh_proc en cfg presented) w =
     (case refresh_token en cfg presented w of
        (Inl e, w') \<Rightarrow> (Inl e, w') | (Inr tr, w') \<Rightarrow> (Inr (Tokens tr), w'))"
proof -
  obtain ok c where g: "get_redis (ue_redis en) (ue_now en) (uw_redis w) = (ok, c)" by fastforce
  show ?thesis
    unfolding refresh_token_def refresh_proc_def take_proc_def
    by (cases ok) (simp_all add: g on_redis_def consume_refresh_token_def getdel_token_def getdel_step_def
        account_alone Let_def split: prod.split option.split sum.split)
qed

lemma logout_alone:
  "alone (ue_now en) (logout_proc en presented) w =
     (case logout en presented w of (Inl e, w') \<Rightarrow> (Inl e, w') | (Inr _, w') \<Rightarrow> (Inr LoggedOut, w'))"
proof -
  obtain ok c where g: "get_redis (ue_redis en) (ue_now en) (uw_redis w) = (ok, c)" by fastforce
  show ?thesis
    by (cases ok) (simp_all add: g logout_def logout_proc_def Let_def on_redis_def revoke_refresh_token_def
        delete_step_def split: prod.split)
qed

section \<open>Steps keep a dead token dead\<close>

lemma gone_setex_step:
  assumes "redis_laws rd live" "gone t k live (rc_server c)" "k \<noteq> key" "0 < ttl"
  shows "gone t k live (rc_server (snd (setex_step rd key ttl v t c)))"
proof -
  have "\<forall>now k ttl v r. 0 < ttl \<longrightarrow> same_but now {k} live r (snd (rd_setex rd now k ttl v r)) \<and>
      (fst (rd_setex rd now k ttl v r) \<longrightarrow>
         (\<forall>t\<ge>now. live t (snd (rd_setex rd now k ttl v r)) k = (if t < now + of_int ttl then Some v else None)))"
    using assms(1) unfolding redis_laws_def by (elim conjE) assumption
  from this [rule_format, OF assms(4)] have "same_but t {key} live (rc_server c) (snd (rd_setex rd t key ttl v (rc_server c)))"
    by blast
  from gone_same [OF assms(2) this] assms(3) show ?thesis by (simp add: setex_step_def case_prod_beta)
qed

lemma gone_getdel_step:
  assumes "redis_laws rd live" "gone t k live (rc_server c)"
  shows "gone t k live (rc_server (snd (getdel_step rd key t c)))"
  using gone_removes [OF assms(2) redis_removes(1) [OF assms(1)], of key]
  by (simp add: getdel_step_def case_prod_beta)

lemma gone_delete_step:
  assumes "redis_laws rd live" "gone t k live (rc_server c)"
  shows "gone t k live (rc_server (snd (delete_step rd key t c)))"
  using gone_removes [OF assms(2) redis_removes(2) [OF assms(1)], of key]
  by (simp add: delete_step_def case_prod_beta)

lemma keeps_await_redis:
  assumes "\<And>x. keeps_cond (\<lambda>t w. dead t key live w) (k x)"
    and "\<And>t c. gone t key live (rc_server c) \<Longrightarrow> gone t key live (rc_server (snd (f t c)))"
  shows "keeps_cond (\<lambda>t w. dead t key live w) (await_redis f k)"
  unfolding await_redis_def
proof (rule kc_Await)
  fix t w
  show "keeps_cond (\<lambda>t w. dead t key live w) (fst (case on_redis (f t) w of (x, w') \<Rightarrow> (k x, w')))"
    using assms(1) by (simp add: case_prod_beta)
  assume "dead t key live w"
  from dead_on_redis [of t key live "f t", OF assms(2) this]
  show "dead t key live (snd (case on_redis (f t) w of (x, w') \<Rightarrow> (k x, w')))"
    by (simp add: case_prod_beta)
qed

lemma keeps_issue:
  assumes "redis_laws (ue_redis en) live" "tok \<noteq> uuid_str (ue_uuid4 en)"
  shows "keeps_cond (\<lambda>t w. dead t (REFRESH_KEY_PREFIX @ tok) live w) (issue_proc en cfg t u)"
proof -
  have "0 < REFRESH_TOKEN_TTL" by (simp add: REFRESH_TOKEN_TTL_def)
  then show ?thesis using assms
    by (auto simp: issue_proc_def Let_def split: sum.split
        intro!: keeps_await_redis gone_setex_step intro: gone_get_redis [OF assms(1) _ surjective_pairing])
qed

lemma keeps_account:
  assumes "redis_laws (ue_redis en) live" "tok \<noteq> uuid_str (ue_uuid4 en)"
  shows "keeps_cond (\<lambda>t w. dead t (REFRESH_KEY_PREFIX @ tok) live w) (account_proc en cfg found)"
proof -
  have f: "snd (fetch_one q w) = w" for q and w :: "'a user_world" by (simp add: fetch_one_def split: sum.split)
  show ?thesis
    using keeps_issue [OF assms]
    by (auto simp: account_proc_def Let_def split: sum.split option.split prod.split intro!: kc_Await)
      (metis f snd_conv)+
qed

lemma keeps_session:
  assumes "redis_laws (ue_redis en) live" "tok \<noteq> uuid_str (ue_uuid4 en)"
  shows "keeps_cond (\<lambda>t w. dead t (REFRESH_KEY_PREFIX @ tok) live w) (refresh_proc en cfg presented)"
    and "keeps_cond (\<lambda>t w. dead t (REFRESH_KEY_PREFIX @ tok) live w) (logout_proc en presented)"
  using keeps_account [OF assms]
  by (auto simp: refresh_proc_def take_proc_def logout_proc_def Let_def
      intro!: keeps_await_redis gone_getdel_step [OF assms(1)] gone_delete_step [OF assms(1)]
      intro: gone_get_redis [OF assms(1) _ surjective_pairing])

section \<open>One of many\<close>

definition contender :: "'r redis \<Rightarrow> 'r live \<Rightarrow> string \<Rightarrow> 'r session_proc \<Rightarrow> bool" where
  "contender rd live tok p \<longleftrightarrow> redis_laws rd live \<and>
     (\<exists>en cfg. ue_redis en = rd \<and> (p = refresh_proc en cfg tok \<or> p = take_proc en cfg tok))"

definition gets_tokens :: "http_error + session_answer \<Rightarrow> bool" where
  "gets_tokens a \<longleftrightarrow> (\<exists>tr. a = Inr (Tokens tr))"

lemma take_verdict:
  assumes "redis_laws rd live" "getdel_step rd key t c = (x, c')"
  shows "(\<exists>s. x = Inr (Some s)) \<Longrightarrow> \<not> gone t key live (rc_server c) \<and> gone t key live (rc_server c')"
proof -
  assume "\<exists>s. x = Inr (Some s)"
  then obtain s where x: "x = Inr (Some s)" by blast
  have "\<forall>now k r. same_but now {k} live r (snd (rd_getdel rd now k r)) \<and>
      only_removes now live r (snd (rd_getdel rd now k r)) \<and>
      (\<forall>x. fst (rd_getdel rd now k r) = Some x \<longrightarrow>
         x = live now r k \<and> gone now k live (snd (rd_getdel rd now k r)))"
    using assms(1) unfolding redis_laws_def by (elim conjE) assumption
  then have "fst (rd_getdel rd t key (rc_server c)) = Some (Some s) \<Longrightarrow>
      live t (rc_server c) key = Some s \<and> gone t key live (snd (rd_getdel rd t key (rc_server c)))"
    by metis
  then show ?thesis using assms(2) x
    by (auto simp: getdel_step_def gone_def split: prod.splits option.splits)
qed

lemma no_value_fails:
  "\<nexists>s. x = Inr (Some s) \<Longrightarrow> ends_in (\<lambda>a. \<not> gets_tokens a) (account_proc en cfg x)"
  by (auto simp: account_proc_def Let_def gets_tokens_def split: sum.split option.split)

lemma await_redis_step:
  assumes "Await f = await_redis g k" "f t w = (p, w')"
  obtains x c where "g t (uw_redis w) = (x, c)" "p = k x" "w' = w\<lparr>uw_redis := c\<rparr>"
proof -
  have "f = (\<lambda>t w. case on_redis (g t) w of (x, w') \<Rightarrow> (k x, w'))" using assms(1) by (simp add: await_redis_def)
  then show thesis using assms(2) that by (cases "g t (uw_redis w)") (simp add: on_redis_def)
qed

lemma contender_step:
  assumes "contender rd live tok (Await f)" "f t w = (p, w')"
  shows "contender rd live tok p \<or> ends_in (\<lambda>a. \<not> gets_tokens a) p \<or>
    \<not> dead t (REFRESH_KEY_PREFIX @ tok) live w \<and> dead t (REFRESH_KEY_PREFIX @ tok) live w'"
proof -
  have laws: "redis_laws rd live" using assms(1) by (simp add: contender_def)
  obtain en cfg where rd: "ue_redis en = rd"
    and p: "Await f = refresh_proc en cfg tok \<or> Await f = take_proc en cfg tok"
    using assms(1) unfolding contender_def by blast
  from p show ?thesis
  proof
    assume "Await f = refresh_proc en cfg tok"
    then obtain ok where "p = (if ok then take_proc en cfg tok else account_proc en cfg (Inr None))"
      unfolding refresh_proc_def by (elim await_redis_step [where f = f and t = t and w = w and p = p and w' = w', OF _ assms(2)]) simp
    moreover have "contender rd live tok (take_proc en cfg tok)" using laws rd unfolding contender_def by blast
    ultimately show ?thesis using no_value_fails [of "Inr None" en cfg] by (cases ok) simp_all
  next
    assume "Await f = take_proc en cfg tok"
    from this [unfolded take_proc_def] obtain x c
      where x: "getdel_step rd (REFRESH_KEY_PREFIX @ tok) t (uw_redis w) = (x, c)"
        "p = account_proc en cfg x" "w' = w\<lparr>uw_redis := c\<rparr>"
      by (elim await_redis_step [where f = f and t = t and w = w and p = p and w' = w', OF _ assms(2)]) (simp add: rd)
    show ?thesis
    proof (cases "\<exists>s. x = Inr (Some s)")
      case True
      from take_verdict [OF laws x(1) True] x(3) show ?thesis by (simp add: dead_def)
    next
      case False
      from no_value_fails [OF this, of en cfg] x(2) show ?thesis by simp
    qed
  qed
qed

interpretation refresh_race: one_winner "\<lambda>t w. dead t (REFRESH_KEY_PREFIX @ tok) live w" "contender rd live tok" gets_tokens
  for tok live rd
proof unfold_locales
  show "dead t' (REFRESH_KEY_PREFIX @ tok) live w"
    if "dead t (REFRESH_KEY_PREFIX @ tok) live w" "t \<le> t'" for t t' :: pyfloat and w
    using that by (auto simp: dead_def intro: gone_later)
  show "\<not> contender rd live tok (Done a)" for a
    by (simp add: contender_def refresh_proc_def take_proc_def await_redis_def)
qed (rule contender_step)

text \<open>The requests that overlap: refreshes of any tokens and logouts, none of which draws \<open>tok\<close> as its new token.\<close>

definition session_request :: "'r redis \<Rightarrow> string \<Rightarrow> 'r session_proc \<Rightarrow> bool" where
  "session_request rd tok p \<longleftrightarrow> (\<exists>en cfg presented. ue_redis en = rd \<and> uuid_str (ue_uuid4 en) \<noteq> tok \<and>
     (p = refresh_proc en cfg presented \<or> p = logout_proc en presented))"

text \<open>
  C22: A refresh token is worth one session, even under concurrency. Let any number of refreshes and
  logouts be in flight, interleaved in any way at their \<^verbatim>\<open>await\<close>s while time passes, on a Redis that
  keeps its laws. Of all the refreshes that present the same token, at most one is ever answered with
  tokens: the code relies on GETDEL being one command. (Each request, run without interruption, is the
  route of the model.)
\<close>
theorem one_refresh_wins:
  assumes "redis_laws rd live" and "sys_step\<^sup>*\<^sup>* (t0, ps0, w0) (t, ps, w)"
    and "\<forall>p\<in>set ps0. session_request rd tok p"
    and "\<forall>i\<in>C. i < length ps0 \<and> (\<exists>en cfg. ue_redis en = rd \<and> ps0 ! i = refresh_proc en cfg tok)"
  shows "(\<exists>j. \<forall>i\<in>C. (\<exists>tr. ps ! i = Done (Inr (Tokens tr))) \<longrightarrow> i = j) \<and>
    (\<forall>en cfg v. alone (ue_now en) (refresh_proc en cfg tok) v =
       (case refresh_token en cfg tok v of (Inl e, v') \<Rightarrow> (Inl e, v') | (Inr tr, v') \<Rightarrow> (Inr (Tokens tr), v')))"
proof
  have k: "\<forall>p\<in>set ps0. keeps_cond (\<lambda>t w. dead t (REFRESH_KEY_PREFIX @ tok) live w) p"
    using assms(1,3) keeps_session by (fastforce simp: session_request_def)
  have "\<forall>i\<in>C. i < length ps0 \<and> contender rd live tok (ps0 ! i)"
    using assms(1,4) unfolding contender_def by blast
  from refresh_race.at_most_one [OF assms(2) k this]
  show "\<exists>j. \<forall>i\<in>C. (\<exists>tr. ps ! i = Done (Inr (Tokens tr))) \<longrightarrow> i = j"
    by (auto simp: gets_tokens_def)
qed (simp only: refresh_alone, simp)

lemma await_turn:
  assumes "i < length ps" "ps ! i = await_redis g k" "g t (uw_redis w) = (x, c)"
  shows "sys_step (t, ps, w) (t, ps[i := k x], w\<lparr>uw_redis := c\<rparr>)"
  by (rule turn [OF assms(1) assms(2) [unfolded await_redis_def]]) (simp add: on_redis_def assms(3))

definition demo_race :: "mem_redis session_proc" where
  "demo_race = refresh_proc (demo_user_env 5) demo_cfg ''tok''"

definition demo_client_of :: "mem_redis \<Rightarrow> mem_redis redis_client" where
  "demo_client_of m = \<lparr>rc_connected = True, rc_server = m\<rparr>"

lemma demo_race_run:
  "sys_step\<^sup>*\<^sup>* (5, [demo_race, demo_race], demo_session)
     (5, [account_proc (demo_user_env 5) demo_cfg (Inr (Some (uuid_str 1))),
          account_proc (demo_user_env 5) demo_cfg (Inr None)],
      demo_session\<lparr>uw_redis := demo_client_of []\<rparr>)"
proof -
  let ?m = "[(''refresh:tok'', (uuid_str 1, 100))]"
  let ?T = "take_proc (demo_user_env 5) demo_cfg ''tok''"
  let ?A = "account_proc (demo_user_env 5) demo_cfg"
  let ?w = "\<lambda>m. demo_session\<lparr>uw_redis := demo_client_of m\<rparr>"
  let ?K = "\<lambda>ok. if ok then ?T else ?A (Inr None)"
  have e: "ue_redis (demo_user_env 5) = mem_ops" by (simp add: demo_user_env_def)
  have r: "demo_race = await_redis (get_redis mem_ops) (\<lambda>ok. if ok then ?T else ?A (Inr None))"
    by (simp add: demo_race_def refresh_proc_def e)
  have tk: "?T = await_redis (getdel_step mem_ops ''refresh:tok'') ?A"
    by (simp add: take_proc_def e REFRESH_KEY_PREFIX_def)
  have g: "get_redis mem_ops 5 (demo_client_of m) = (True, demo_client_of m)" for m
    by (simp add: get_redis_def demo_client_of_def)
  have d: "getdel_step mem_ops ''refresh:tok'' 5 (demo_client_of ?m) = (Inr (Some (uuid_str 1)), demo_client_of [])"
    "getdel_step mem_ops ''refresh:tok'' 5 (demo_client_of []) = (Inr None, demo_client_of [])"
    by (simp_all add: getdel_step_def demo_client_of_def mem_ops_def mem_live_def)
  have w: "?w ?m = demo_session" by (simp add: demo_session_def demo_client_of_def)
  have 1: "sys_step (5, [demo_race, demo_race], ?w ?m) (5, [?T, demo_race], ?w ?m)"
    using g await_turn [where i = 0 and ps = "[demo_race, demo_race]" and g = "get_redis mem_ops" and k = "?K" and t = 5 and
        w = "?w ?m" and x = "True" and c = "demo_client_of ?m"] r by simp
  have 2: "sys_step (5, [?T, demo_race], ?w ?m) (5, [?T, ?T], ?w ?m)"
    using g await_turn [where i = 1 and ps = "[?T, demo_race]" and g = "get_redis mem_ops" and k = "?K" and t = 5 and
        w = "?w ?m" and x = "True" and c = "demo_client_of ?m"] r by simp
  have 3: "sys_step (5, [?T, ?T], ?w ?m) (5, [?A (Inr (Some (uuid_str 1))), ?T], ?w [])"
    using d(1) await_turn [where i = 0 and ps = "[?T, ?T]" and g = "getdel_step mem_ops ''refresh:tok''" and k = "?A" and t = 5 and
        w = "?w ?m" and x = "Inr (Some (uuid_str 1))" and c = "demo_client_of []"] tk by simp
  have 4: "sys_step (5, [?A (Inr (Some (uuid_str 1))), ?T], ?w [])
      (5, [?A (Inr (Some (uuid_str 1))), ?A (Inr None)], ?w [])"
    using d(2) await_turn [where i = 1 and ps = "[?A (Inr (Some (uuid_str 1))), ?T]" and g = "getdel_step mem_ops ''refresh:tok''" and k = "?A" and t = 5 and
        w = "?w []" and x = "Inr None" and c = "demo_client_of []"] tk by simp
  have "sys_step\<^sup>*\<^sup>* (5, [demo_race, demo_race], ?w ?m)
      (5, [?A (Inr (Some (uuid_str 1))), ?A (Inr None)], ?w [])"
    by (rule sys_steps_Cons, rule 1, rule sys_steps_Cons, rule 2, rule sys_steps_Cons, rule 3,
        rule sys_steps_Cons, rule 4, rule rtranclp.rtrancl_refl)
  then show ?thesis by (simp only: w)
qed

theorem one_refresh_wins_witness:
  "\<exists>ps w. sys_step\<^sup>*\<^sup>* (5, [demo_race, demo_race], demo_session) (5, ps, w) \<and>
     ps ! 1 = Done (Inl (HTTPException 401 ''Refresh token is invalid, expired, or already used'' [])) \<and>
     (\<exists>j. \<forall>i\<in>{0, 1}. (\<exists>tr. ps ! i = Done (Inr (Tokens tr))) \<longrightarrow> i = j)"
proof -
  have s: "session_request mem_ops ''tok'' demo_race"
    unfolding session_request_def demo_race_def
    by (rule exI [of _ "demo_user_env 5"]) (use demo_tok_fresh in \<open>auto simp: demo_user_env_def\<close>)
  have c: "\<exists>en cfg. ue_redis en = mem_ops \<and> demo_race = refresh_proc en cfg ''tok''"
    unfolding demo_race_def by (rule exI [of _ "demo_user_env 5"]) (auto simp: demo_user_env_def)
  let ?ps = "[account_proc (demo_user_env 5) demo_cfg (Inr (Some (uuid_str 1))),
          account_proc (demo_user_env 5) demo_cfg (Inr None)]"
  have "?ps ! 1 = Done (Inl (HTTPException 401 ''Refresh token is invalid, expired, or already used'' []))"
    by (simp add: account_proc_def)
  moreover have "\<exists>j. \<forall>i\<in>{0, 1}. (\<exists>tr. ?ps ! i = Done (Inr (Tokens tr))) \<longrightarrow> i = j"
    by (rule conjunct1 [OF one_refresh_wins [OF mem_redis_laws demo_race_run, where C = "{0, 1}"]])
      (use s c in auto)
  ultimately show ?thesis using demo_race_run by blast
qed

end
