(* ===== verification/TaskRaces.thy ===== *)
theory TaskRaces
  imports TaskReplay Interleaving
begin

text \<open>
  Overlapping creations with one idempotency key. \<^verbatim>\<open>create_task\<close> in two steps: the look-up of the
  key, and everything after it (the insertion, the commit, and the background jobs, the last of which
  stores the answer). The handler has more \<^verbatim>\<open>await\<close>s; the theorem is that an interleaving exists, for
  which the coarser steps suffice.
\<close>

definition rest_proc ::
  "'r task_env \<Rightarrow> uuid \<Rightarrow> task_create \<Rightarrow> string \<Rightarrow> ('r task_world, http_error + response) proc" where
  "rest_proc en caller_id p idempotency_key =
     Await (\<lambda>t w. case task_respond (en\<lparr>te_now := t\<rparr>)
                         (normal_creation (en\<lparr>te_now := t\<rparr>) caller_id p idempotency_key) w of
                    (x, w') \<Rightarrow> (Done x, w'))"

definition create_proc ::
  "'r task_env \<Rightarrow> request \<Rightarrow> task_create \<Rightarrow> ('r task_world, http_error + response) proc" where
  "create_proc en r payload =
     (case parse_caller_id r of
        Inl e \<Rightarrow> Done (Inl e)
      | Inr caller_id \<Rightarrow>
          (case TaskCreate payload of
             Inl e \<Rightarrow> Done (Inl e)
           | Inr p \<Rightarrow>
               (let idempotency_key = hget_or (req_headers r) ''Idempotency-Key'' [] in
                if idempotency_key = [] then rest_proc en caller_id p []
                else Await (\<lambda>t w.
                  case get_cached_response (te_redis en) t caller_id idempotency_key (tw_redis w) of
                    (Some cached, c) \<Rightarrow> (Done (replayed cached), w\<lparr>tw_redis := c\<rparr>)
                  | (None, c) \<Rightarrow> (rest_proc en caller_id p idempotency_key, w\<lparr>tw_redis := c\<rparr>)))))"

lemma rest_alone:
  "alone (te_now en) (rest_proc en c p k) w = task_respond en (normal_creation en c p k) w"
  by (simp add: rest_proc_def case_prod_beta)

lemma create_alone:
  assumes "tw_jobs w = []"
  shows "alone (te_now en) (create_proc en r p) w = task_respond en (create_task en r p) w"
proof -
  have w: "w\<lparr>tw_jobs := []\<rparr> = w" using assms by simp
  have s: "task_respond en (\<lambda>w. (x, w\<lparr>tw_redis := c\<rparr>)) w = (x, w\<lparr>tw_redis := c\<rparr>)" for x :: "http_error + response" and c
    by (cases x) (use assms in \<open>simp_all add: task_respond_def\<close>)
  have n: "task_respond en (\<lambda>w. normal_creation en c q k (w\<lparr>tw_redis := cl\<rparr>)) w =
      task_respond en (normal_creation en c q k) (w\<lparr>tw_redis := cl\<rparr>)" for c q k cl
  proof -
    have "w\<lparr>tw_redis := cl, tw_jobs := []\<rparr> = w\<lparr>tw_redis := cl\<rparr>" using assms by (cases w) simp
    moreover have "tw_projects (w\<lparr>tw_redis := cl\<rparr>) = tw_projects w" "tw_tasks (w\<lparr>tw_redis := cl\<rparr>) = tw_tasks w"
      by simp_all
    ultimately show ?thesis by (simp only: task_respond_def w)
  qed
  show ?thesis
  proof (cases "parse_caller_id r")
    case (Inl e)
    then show ?thesis using w by (simp add: create_proc_def create_task_def as_caller_def task_respond_def assms)
  next
    case c: (Inr c)
    show ?thesis
    proof (cases "TaskCreate p")
      case (Inl e)
      with c show ?thesis using w by (simp add: create_proc_def create_task_def as_caller_def task_respond_def assms)
    next
      case q: (Inr q)
      show ?thesis
      proof (cases "idem_key r = []")
        case True
        have "create_task en r p = normal_creation en c q []"
          using c q True by (auto simp: create_task_def as_caller_def idem_key_def)
        then show ?thesis using c q True by (simp add: create_proc_def idem_key_def rest_alone)
      next
        case False
        obtain found cl where g: "get_cached_response (te_redis en) (te_now en) c (idem_key r) (tw_redis w) = (found, cl)"
          by fastforce
        have "task_respond en (create_task en r p) w =
            (case found of Some cached \<Rightarrow> (replayed cached, w\<lparr>tw_redis := cl\<rparr>)
             | None \<Rightarrow> task_respond en (normal_creation en c q (idem_key r)) (w\<lparr>tw_redis := cl\<rparr>))"
          using create_cases [OF c q False, of en w] g s n
          by (cases found) (simp_all add: task_respond_def w split: prod.split sum.split)
        then show ?thesis
          using c q False g by (cases found) (simp_all add: create_proc_def Let_def idem_key_def [symmetric] rest_alone)
      qed
    qed
  qed
qed

section \<open>The race\<close>

lemma lookup_miss:
  assumes "redis_laws rd live" "get_cached_response rd t c k cl = (x, cl')"
    and "live t (rc_server cl) (make_key c k) = None"
  shows "x = None" "same_but t {} live (rc_server cl) (rc_server cl')"
proof -
  have e: "idempotency_client rd t cl = get_redis rd t cl"
    by (simp add: idempotency_client_def get_redis_def)
  obtain ok c1 where g: "get_redis rd t cl = (ok, c1)" by fastforce
  have s: "same_but t {} live (rc_server cl) (rc_server c1)" by (rule get_redis_same [OF assms(1) g])
  obtain y r where r: "rd_get rd t (make_key c k) (rc_server c1) = (y, r)" by fastforce
  have y: "same_but t {} live (rc_server c1) r \<and> (\<forall>z. y = Some z \<longrightarrow> z = live t (rc_server c1) (make_key c k))"
    by (rule redis_get [OF assms(1) r])
  have "live t (rc_server c1) (make_key c k) = None" using s assms(3) by (simp add: same_but_def)
  then show "x = None"
    using assms(2) g r y by (cases ok; cases y) (auto simp: get_cached_response_def e)
  show "same_but t {} live (rc_server cl) (rc_server cl')"
    using assms(2) g r y s by (cases ok) (auto simp: get_cached_response_def e same_but_def)
qed

lemma owned_exists:
  assumes "get_owned_project i c w = Inr pr"
  shows "list_ex (\<lambda>p. p_id p = i) (tw_projects w)"
proof -
  have "filter (\<lambda>p. p_id p = i) (tw_projects w) \<noteq> []"
    using assms by (auto simp: get_owned_project_def scalar_one_or_none_def)
  then show ?thesis by (auto simp: list_ex_iff filter_empty_conv)
qed

lemma creation_succeeds:
  assumes "get_owned_project (tc_project_id q) c w = Inr pr" "te_row_id en \<notin> t_id ` set (tw_tasks w)"
  obtains w' where "task_respond en (normal_creation en c q k) w =
      (Inr (JSONResponse 201 (TaskResponse (te_js_time en) (new_task en c q)) []), w')"
    "tw_tasks w' = tw_tasks w @ [new_task en c q]" "tw_projects w' = tw_projects w"
proof -
  have o: "get_owned_project (tc_project_id q) c (w\<lparr>tw_jobs := []\<rparr>) = Inr pr"
    using assms(1) by (simp add: get_owned_project_def)
  have i: "insert_task (new_task en c q) (w\<lparr>tw_jobs := []\<rparr>) =
      Inr (w\<lparr>tw_jobs := [], tw_tasks := tw_tasks w @ [new_task en c q]\<rparr>)"
    using assms(2) owned_exists [OF assms(1)] by (simp add: insert_task_def new_task_def list_ex_iff image_iff) metis
  have "\<exists>w'. task_respond en (normal_creation en c q k) w =
      (Inr (JSONResponse 201 (TaskResponse (te_js_time en) (new_task en c q)) []), w') \<and>
    tw_tasks w' = tw_tasks w @ [new_task en c q] \<and> tw_projects w' = tw_projects w"
    by (simp add: task_respond_def normal_creation_def o i Let_def add_job_def)
  then show thesis using that by blast
qed

text \<open>
  C29: What an idempotency key does not protect against. Let two creations of one caller with the same
  key overlap, as a retry after a timeout does: nothing is cached yet, and the second looks the key up
  before the first has stored its answer. Then both create a task, each answered 201 with a task of its
  own and without the replay header, although the route promises that a retry with the same key creates
  no second task. (The steps, run without interruption, are the route of the model.)
\<close>
theorem overlapping_creations_duplicate:
  assumes "redis_laws rd live" and "te_redis ea = rd" and "te_redis eb = rd"
    and "parse_caller_id ra = Inr c" and "parse_caller_id rb = Inr c"
    and "idem_key ra \<noteq> []" and "idem_key rb \<noteq> []" and "make_key c (idem_key rb) = make_key c (idem_key ra)"
    and "TaskCreate pa = Inr qa" and "TaskCreate pb = Inr qb"
    and "live t (rc_server (tw_redis w)) (make_key c (idem_key ra)) = None"
    and "get_owned_project (tc_project_id qa) c w = Inr pra" and "get_owned_project (tc_project_id qb) c w = Inr prb"
    and "te_row_id ea \<noteq> te_row_id eb" and "{te_row_id ea, te_row_id eb} \<inter> t_id ` set (tw_tasks w) = {}"
  shows "\<exists>w'. let ta = new_task (ea\<lparr>te_now := t\<rparr>) c qa; tb = new_task (eb\<lparr>te_now := t\<rparr>) c qb in
    sys_step\<^sup>*\<^sup>* (t, [create_proc ea ra pa, create_proc eb rb pb], w)
      (t, [Done (Inr (JSONResponse 201 (TaskResponse (te_js_time ea) ta) [])),
           Done (Inr (JSONResponse 201 (TaskResponse (te_js_time eb) tb) []))], w') \<and>
    tw_tasks w' = tw_tasks w @ [ta, tb]"
proof -
  let ?ea = "ea\<lparr>te_now := t\<rparr>" and ?eb = "eb\<lparr>te_now := t\<rparr>"
  let ?ka = "idem_key ra" and ?kb = "idem_key rb"
  let ?Ra = "rest_proc ea c qa ?ka" and ?Rb = "rest_proc eb c qb ?kb"
  obtain xa cla where ga: "get_cached_response rd t c ?ka (tw_redis w) = (xa, cla)" by fastforce
  have a: "xa = None" "same_but t {} live (rc_server (tw_redis w)) (rc_server cla)"
    using lookup_miss [OF assms(1) ga assms(11)] by simp_all
  let ?w1 = "w\<lparr>tw_redis := cla\<rparr>"
  obtain xb clb where gb: "get_cached_response rd t c ?kb cla = (xb, clb)" by fastforce
  have b: "xb = None"
    by (rule lookup_miss(1) [OF assms(1) gb]) (use a(2) assms(8,11) in \<open>simp add: same_but_def\<close>)
  let ?w2 = "w\<lparr>tw_redis := clb\<rparr>"
  have fa: "create_proc ea ra pa = Await (\<lambda>t w. case get_cached_response rd t c ?ka (tw_redis w) of
      (Some cached, c) \<Rightarrow> (Done (replayed cached), w\<lparr>tw_redis := c\<rparr>) | (None, cl) \<Rightarrow> (?Ra, w\<lparr>tw_redis := cl\<rparr>))"
    using assms(2,4,6,9) by (simp add: create_proc_def idem_key_def [symmetric] Let_def)
  have fb: "create_proc eb rb pb = Await (\<lambda>t w. case get_cached_response rd t c ?kb (tw_redis w) of
      (Some cached, c) \<Rightarrow> (Done (replayed cached), w\<lparr>tw_redis := c\<rparr>) | (None, cl) \<Rightarrow> (?Rb, w\<lparr>tw_redis := cl\<rparr>))"
    using assms(3,5,7,10) by (simp add: create_proc_def idem_key_def [symmetric] Let_def)
  have "get_owned_project (tc_project_id qa) c ?w2 = Inr pra" "te_row_id ?ea \<notin> t_id ` set (tw_tasks ?w2)"
    using assms(12,15) by (auto simp: get_owned_project_def)
  from creation_succeeds [OF this, of ?ka] obtain w3 where 3: "task_respond ?ea (normal_creation ?ea c qa ?ka) ?w2 =
      (Inr (JSONResponse 201 (TaskResponse (te_js_time ?ea) (new_task ?ea c qa)) []), w3)"
    "tw_tasks w3 = tw_tasks w @ [new_task ?ea c qa]" "tw_projects w3 = tw_projects w"
    by (metis task_world.select_convs(1,2) task_world.surjective task_world.update_convs(3))
  have "get_owned_project (tc_project_id qb) c w3 = Inr prb" "te_row_id ?eb \<notin> t_id ` set (tw_tasks w3)"
    using assms(13-15) 3(2,3) by (auto simp: get_owned_project_def new_task_def)
  from creation_succeeds [OF this, of ?kb] obtain w4 where 4: "task_respond ?eb (normal_creation ?eb c qb ?kb) w3 =
      (Inr (JSONResponse 201 (TaskResponse (te_js_time ?eb) (new_task ?eb c qb)) []), w4)"
    "tw_tasks w4 = tw_tasks w3 @ [new_task ?eb c qb]"
    by metis
  let ?A = "Done (Inr (JSONResponse 201 (TaskResponse (te_js_time ea) (new_task ?ea c qa)) []))"
  let ?B = "Done (Inr (JSONResponse 201 (TaskResponse (te_js_time eb) (new_task ?eb c qb)) []))"
  have s1: "sys_step (t, [create_proc ea ra pa, create_proc eb rb pb], w) (t, [?Ra, create_proc eb rb pb], ?w1)"
    by (rule sys_turn [where i = 0]) (use fa in simp, use ga a(1) in simp, simp_all)
  have s2: "sys_step (t, [?Ra, create_proc eb rb pb], ?w1) (t, [?Ra, ?Rb], ?w2)"
    by (rule sys_turn [where i = 1]) (use fb in simp, use gb b in simp, simp_all)
  have s3: "sys_step (t, [?Ra, ?Rb], ?w2) (t, [?A, ?Rb], w3)"
    by (rule sys_turn [where i = 0]) (simp add: rest_proc_def, use 3 in simp, simp_all)
  have s4: "sys_step (t, [?A, ?Rb], w3) (t, [?A, ?B], w4)"
    by (rule sys_turn [where i = 1]) (simp add: rest_proc_def, use 4 in simp, simp_all)
  have "sys_step\<^sup>*\<^sup>* (t, [create_proc ea ra pa, create_proc eb rb pb], w) (t, [?A, ?B], w4)"
    by (rule sys_steps_Cons, rule s1, rule sys_steps_Cons, rule s2, rule sys_steps_Cons, rule s3,
        rule sys_steps_Cons, rule s4, rule rtranclp.rtrancl_refl)
  then show ?thesis unfolding Let_def using 3(2) 4(2) by (intro exI [of _ w4]) simp
qed

theorem overlapping_creations_duplicate_witness:
  "\<exists>ps w'. sys_step\<^sup>*\<^sup>* (1, [create_proc (demo_task_env 1 7) demo_task_request demo_payload,
                          create_proc (demo_task_env 1 8) demo_task_request demo_payload], demo_task_world) (1, ps, w') \<and>
     length (tw_tasks w') = 2"
proof -
  have p: "get_owned_project (tc_project_id demo_payload) 5 demo_task_world = Inr demo_project"
    by (simp add: get_owned_project_def demo_payload_def demo_task_world_def demo_project_def scalar_one_or_none_def)
  have n: "mem_live 1 (rc_server (tw_redis demo_task_world)) (make_key 5 (idem_key demo_task_request)) = None"
    by (simp add: demo_task_world_def mem_live_def)
  have "\<exists>w'. let ta = new_task ((demo_task_env 1 7)\<lparr>te_now := 1\<rparr>) 5 demo_payload;
        tb = new_task ((demo_task_env 1 8)\<lparr>te_now := 1\<rparr>) 5 demo_payload in
    sys_step\<^sup>*\<^sup>* (1, [create_proc (demo_task_env 1 7) demo_task_request demo_payload,
                  create_proc (demo_task_env 1 8) demo_task_request demo_payload], demo_task_world)
      (1, [Done (Inr (JSONResponse 201 (TaskResponse (te_js_time (demo_task_env 1 7)) ta) [])),
           Done (Inr (JSONResponse 201 (TaskResponse (te_js_time (demo_task_env 1 8)) tb) []))], w') \<and>
    tw_tasks w' = tw_tasks demo_task_world @ [ta, tb]"
    by (rule overlapping_creations_duplicate [OF mem_redis_laws _ _ demo_task_caller(1) demo_task_caller(1) _ _ refl
          demo_payload_ok demo_payload_ok n p p])
       (simp_all add: demo_task_env_def demo_task_caller(2), simp add: demo_task_world_def)
  moreover have "tw_tasks demo_task_world = []" by (simp add: demo_task_world_def)
  ultimately show ?thesis unfolding Let_def by (metis append_Nil length_Cons list.size(3) numeral_2_eq_2)
qed

end
