(* ===== verification/Migrations.thy ===== *)
theory Migrations
  imports PyText
begin

text \<open>
  The database schemas: the Alembic revisions of the user and the task service
  (\<^verbatim>\<open>alembic/versions\<close>) as scripts of schema operations, the tables the ORM classes declare
  (\<^verbatim>\<open>models.py\<close>), and the \<^verbatim>\<open>create_all\<close> that both services run at their start.
\<close>

section \<open>Schemas\<close>

datatype sql_type = UUID | VarChar nat | Text | Boolean | DateTimeTz | EnumT string

text \<open>\<open>dbc_references\<close> names the table whose \<^verbatim>\<open>id\<close> the column refers to, deleting with it.\<close>

record sql_column =
  dbc_name :: string
  dbc_type :: sql_type
  dbc_nullable :: bool
  dbc_primary :: bool
  dbc_unique :: bool
  dbc_index :: bool
  dbc_default :: "string option"
  dbc_references :: "string option"

definition Column :: "string \<Rightarrow> sql_type \<Rightarrow> sql_column" where
  "Column name ty = \<lparr>dbc_name = name, dbc_type = ty, dbc_nullable = False, dbc_primary = False, dbc_unique = False,
     dbc_index = False, dbc_default = None, dbc_references = None\<rparr>"

record schema =
  db_tables :: "(string \<times> sql_column list) list"
  db_indexes :: "(string \<times> string \<times> string list) list"
  db_enums :: "(string \<times> string list) list"

definition empty_schema :: schema where
  "empty_schema = \<lparr>db_tables = [], db_indexes = [], db_enums = []\<rparr>"

definition has_table :: "string \<Rightarrow> schema \<Rightarrow> bool" where
  "has_table t s \<longleftrightarrow> t \<in> fst ` set (db_tables s)"

definition has_column :: "string \<Rightarrow> string \<Rightarrow> schema \<Rightarrow> bool" where
  "has_column t c s \<longleftrightarrow> (\<exists>(k, cs)\<in>set (db_tables s). k = t \<and> c \<in> dbc_name ` set cs)"

definition has_enum :: "string \<Rightarrow> schema \<Rightarrow> bool" where
  "has_enum n s \<longleftrightarrow> n \<in> fst ` set (db_enums s)"

definition columns_of :: "schema \<Rightarrow> sql_column list" where
  "columns_of s = concat (map snd (db_tables s))"

text \<open>A column needs its enum type and the table it refers to.\<close>

definition column_fits :: "schema \<Rightarrow> sql_column \<Rightarrow> bool" where
  "column_fits s c \<longleftrightarrow>
     (case dbc_type c of EnumT n \<Rightarrow> has_enum n s | _ \<Rightarrow> True) \<and>
     (case dbc_references c of Some t \<Rightarrow> has_table t s | None \<Rightarrow> True)"

section \<open>Operations\<close>

text \<open>
  The operations of the scripts. \<open>CreateEnum\<close> and \<open>DropEnum\<close> are the calls with \<^verbatim>\<open>checkfirst\<close>; the
  other operations fail, as \<^const>\<open>None\<close>, when what they name is there already, missing, or in use.
\<close>

datatype ddl =
    CreateEnum string "string list"
  | CreateTable string "sql_column list"
  | AddColumn string sql_column
  | CreateIndex string string "string list"
  | DropIndex string string
  | DropColumn string string
  | DropTable string
  | DropEnum string

fun apply_ddl :: "ddl \<Rightarrow> schema \<Rightarrow> schema option" where
  "apply_ddl (CreateEnum n labels) s =
     Some (if has_enum n s then s else s\<lparr>db_enums := db_enums s @ [(n, labels)]\<rparr>)"
| "apply_ddl (DropEnum n) s =
     (if \<not> has_enum n s then Some s
      else if EnumT n \<in> dbc_type ` set (columns_of s) then None
      else Some (s\<lparr>db_enums := filter (\<lambda>(k, _). k \<noteq> n) (db_enums s)\<rparr>))"
| "apply_ddl (CreateTable t cols) s =
     (if has_table t s \<or> \<not> list_all (column_fits s) cols then None
      else Some (s\<lparr>db_tables := db_tables s @ [(t, cols)]\<rparr>))"
| "apply_ddl (DropTable t) s =
     (if \<not> has_table t s \<or>
         Some t \<in> dbc_references ` set (concat (map snd (filter (\<lambda>(k, _). k \<noteq> t) (db_tables s)))) then None
      else Some (s\<lparr>db_tables := filter (\<lambda>(k, _). k \<noteq> t) (db_tables s),
                   db_indexes := filter (\<lambda>(_, k, _). k \<noteq> t) (db_indexes s)\<rparr>))"
| "apply_ddl (AddColumn t c) s =
     (if \<not> has_table t s \<or> has_column t (dbc_name c) s \<or> \<not> column_fits s c then None
      else Some (s\<lparr>db_tables := map (\<lambda>(k, cs). (k, if k = t then cs @ [c] else cs)) (db_tables s)\<rparr>))"
| "apply_ddl (DropColumn t n) s =
     (if \<not> has_column t n s then None
      else Some (s\<lparr>db_tables := map (\<lambda>(k, cs). (k, if k = t then filter (\<lambda>c. dbc_name c \<noteq> n) cs else cs)) (db_tables s),
                   db_indexes := filter (\<lambda>(_, k, cs). k \<noteq> t \<or> n \<notin> set cs) (db_indexes s)\<rparr>))"
| "apply_ddl (CreateIndex i t cols) s =
     (if i \<in> fst ` set (db_indexes s) \<or> \<not> has_table t s \<or> \<not> list_all (\<lambda>c. has_column t c s) cols then None
      else Some (s\<lparr>db_indexes := db_indexes s @ [(i, t, cols)]\<rparr>))"
| "apply_ddl (DropIndex i t) s =
     (if (i, t) \<notin> (\<lambda>(k, u, _). (k, u)) ` set (db_indexes s) then None
      else Some (s\<lparr>db_indexes := filter (\<lambda>(k, _). k \<noteq> i) (db_indexes s)\<rparr>))"

fun run_ddl :: "ddl list \<Rightarrow> schema \<Rightarrow> schema option" where
  "run_ddl [] s = Some s"
| "run_ddl (x # xs) s = (case apply_ddl x s of None \<Rightarrow> None | Some s' \<Rightarrow> run_ddl xs s')"

record migration =
  mg_revision :: string
  mg_down_revision :: "string option"
  mg_upgrade :: "ddl list"
  mg_downgrade :: "ddl list"

text \<open>\<^verbatim>\<open>alembic upgrade head\<close>: each script runs on the revision it names as its predecessor.\<close>

fun upgrade_head :: "string option \<Rightarrow> migration list \<Rightarrow> schema \<Rightarrow> schema option" where
  "upgrade_head current [] s = Some s"
| "upgrade_head current (m # ms) s =
     (if mg_down_revision m \<noteq> current then None
      else case run_ddl (mg_upgrade m) s of
             None \<Rightarrow> None | Some s' \<Rightarrow> upgrade_head (Some (mg_revision m)) ms s')"

section \<open>The revisions of the user service\<close>

definition timestamp :: "string \<Rightarrow> sql_column" where
  "timestamp name = (Column name DateTimeTz)\<lparr>dbc_default := Some ''now()''\<rparr>"

definition users_initial :: migration where
  "users_initial =
     \<lparr>mg_revision = ''001_initial'', mg_down_revision = None,
      mg_upgrade =
        [CreateTable ''users''
           [(Column ''id'' UUID)\<lparr>dbc_primary := True\<rparr>,
            (Column ''email'' (VarChar 255))\<lparr>dbc_unique := True, dbc_index := True\<rparr>,
            (Column ''username'' (VarChar 100))\<lparr>dbc_unique := True, dbc_index := True\<rparr>,
            Column ''hashed_password'' (VarChar 255),
            (Column ''full_name'' (VarChar 255))\<lparr>dbc_nullable := True\<rparr>,
            (Column ''is_active'' Boolean)\<lparr>dbc_default := Some ''true''\<rparr>,
            (Column ''is_admin'' Boolean)\<lparr>dbc_default := Some ''false''\<rparr>,
            timestamp ''created_at'',
            timestamp ''updated_at'',
            (Column ''last_login_at'' DateTimeTz)\<lparr>dbc_nullable := True\<rparr>]],
      mg_downgrade = [DropTable ''users'']\<rparr>"

definition users_email_verification :: migration where
  "users_email_verification =
     \<lparr>mg_revision = ''002_email_verification'', mg_down_revision = Some ''001_initial'',
      mg_upgrade =
        [AddColumn ''users'' ((Column ''email_verified'' Boolean)\<lparr>dbc_default := Some ''false''\<rparr>),
         AddColumn ''users'' ((Column ''email_verified_at'' DateTimeTz)\<lparr>dbc_nullable := True\<rparr>)],
      mg_downgrade = [DropColumn ''users'' ''email_verified_at'', DropColumn ''users'' ''email_verified'']\<rparr>"

definition user_migrations :: "migration list" where
  "user_migrations = [users_initial, users_email_verification]"

section \<open>The revisions of the task service\<close>

definition tasks_initial :: migration where
  "tasks_initial =
     \<lparr>mg_revision = ''001_initial'', mg_down_revision = None,
      mg_upgrade =
        [CreateEnum ''taskstatus'' [''todo'', ''in_progress'', ''in_review'', ''done'', ''cancelled''],
         CreateEnum ''taskpriority'' [''low'', ''medium'', ''high'', ''critical''],
         CreateTable ''projects''
           [(Column ''id'' UUID)\<lparr>dbc_primary := True\<rparr>,
            Column ''name'' (VarChar 255),
            (Column ''description'' Text)\<lparr>dbc_nullable := True\<rparr>,
            (Column ''owner_id'' UUID)\<lparr>dbc_index := True\<rparr>,
            (Column ''is_active'' Boolean)\<lparr>dbc_default := Some ''true''\<rparr>,
            timestamp ''created_at'',
            timestamp ''updated_at''],
         CreateTable ''tasks''
           [(Column ''id'' UUID)\<lparr>dbc_primary := True\<rparr>,
            Column ''title'' (VarChar 500),
            (Column ''description'' Text)\<lparr>dbc_nullable := True\<rparr>,
            (Column ''status'' (EnumT ''taskstatus''))\<lparr>dbc_default := Some ''todo''\<rparr>,
            (Column ''priority'' (EnumT ''taskpriority''))\<lparr>dbc_default := Some ''medium''\<rparr>,
            (Column ''project_id'' UUID)\<lparr>dbc_references := Some ''projects'', dbc_index := True\<rparr>,
            (Column ''creator_id'' UUID)\<lparr>dbc_index := True\<rparr>,
            (Column ''assignee_id'' UUID)\<lparr>dbc_nullable := True, dbc_index := True\<rparr>,
            (Column ''due_date'' DateTimeTz)\<lparr>dbc_nullable := True\<rparr>,
            timestamp ''created_at'',
            timestamp ''updated_at'']],
      mg_downgrade = [DropTable ''tasks'', DropTable ''projects'', DropEnum ''taskpriority'', DropEnum ''taskstatus'']\<rparr>"

definition tasks_compound_indexes :: migration where
  "tasks_compound_indexes =
     \<lparr>mg_revision = ''002_compound_indexes'', mg_down_revision = Some ''001_initial'',
      mg_upgrade =
        [CreateIndex ''ix_projects_owner_active_cursor'' ''projects'' [''owner_id'', ''is_active'', ''created_at'', ''id''],
         CreateIndex ''ix_tasks_creator_cursor'' ''tasks'' [''creator_id'', ''created_at'', ''id''],
         CreateIndex ''ix_tasks_assignee_cursor'' ''tasks'' [''assignee_id'', ''created_at'', ''id'']],
      mg_downgrade =
        [DropIndex ''ix_tasks_assignee_cursor'' ''tasks'', DropIndex ''ix_tasks_creator_cursor'' ''tasks'',
         DropIndex ''ix_projects_owner_active_cursor'' ''projects'']\<rparr>"

definition task_migrations :: "migration list" where
  "task_migrations = [tasks_initial, tasks_compound_indexes]"

section \<open>The tables of the ORM\<close>

text \<open>
  \<open>sa_enum\<close> is what the ORM makes of an enum class, given the class name and its members with their
  values: the name of the database type and the label it writes for each member.
\<close>

type_synonym sa_enum = "string \<Rightarrow> (string \<times> string) list \<Rightarrow> string \<times> string list"

definition TaskStatus_members :: "(string \<times> string) list" where
  "TaskStatus_members = [(''TODO'', ''todo''), (''IN_PROGRESS'', ''in_progress''), (''IN_REVIEW'', ''in_review''),
     (''DONE'', ''done''), (''CANCELLED'', ''cancelled'')]"

definition TaskPriority_members :: "(string \<times> string) list" where
  "TaskPriority_members = [(''LOW'', ''low''), (''MEDIUM'', ''medium''), (''HIGH'', ''high''), (''CRITICAL'', ''critical'')]"

definition User_table :: "string \<times> sql_column list" where
  "User_table = (''users'',
     [(Column ''id'' UUID)\<lparr>dbc_primary := True\<rparr>,
      (Column ''email'' (VarChar 255))\<lparr>dbc_unique := True, dbc_index := True\<rparr>,
      (Column ''username'' (VarChar 100))\<lparr>dbc_unique := True, dbc_index := True\<rparr>,
      Column ''hashed_password'' (VarChar 255),
      (Column ''full_name'' (VarChar 255))\<lparr>dbc_nullable := True\<rparr>,
      Column ''is_active'' Boolean,
      Column ''is_admin'' Boolean,
      timestamp ''created_at'',
      timestamp ''updated_at'',
      (Column ''last_login_at'' DateTimeTz)\<lparr>dbc_nullable := True\<rparr>,
      Column ''email_verified'' Boolean,
      (Column ''email_verified_at'' DateTimeTz)\<lparr>dbc_nullable := True\<rparr>])"

definition Project_table :: "string \<times> sql_column list" where
  "Project_table = (''projects'',
     [(Column ''id'' UUID)\<lparr>dbc_primary := True\<rparr>,
      Column ''name'' (VarChar 255),
      (Column ''description'' Text)\<lparr>dbc_nullable := True\<rparr>,
      (Column ''owner_id'' UUID)\<lparr>dbc_index := True\<rparr>,
      Column ''is_active'' Boolean,
      timestamp ''created_at'',
      timestamp ''updated_at''])"

definition Project_indexes :: "(string \<times> string \<times> string list) list" where
  "Project_indexes =
     [(''ix_projects_owner_active_cursor'', ''projects'', [''owner_id'', ''is_active'', ''created_at'', ''id''])]"

definition Task_table :: "sa_enum \<Rightarrow> string \<times> sql_column list" where
  "Task_table sa_enum = (''tasks'',
     [(Column ''id'' UUID)\<lparr>dbc_primary := True\<rparr>,
      Column ''title'' (VarChar 500),
      (Column ''description'' Text)\<lparr>dbc_nullable := True\<rparr>,
      Column ''status'' (EnumT (fst (sa_enum ''TaskStatus'' TaskStatus_members))),
      Column ''priority'' (EnumT (fst (sa_enum ''TaskPriority'' TaskPriority_members))),
      (Column ''project_id'' UUID)\<lparr>dbc_references := Some ''projects'', dbc_index := True\<rparr>,
      (Column ''creator_id'' UUID)\<lparr>dbc_index := True\<rparr>,
      (Column ''assignee_id'' UUID)\<lparr>dbc_nullable := True, dbc_index := True\<rparr>,
      (Column ''due_date'' DateTimeTz)\<lparr>dbc_nullable := True\<rparr>,
      timestamp ''created_at'',
      timestamp ''updated_at''])"

definition Task_indexes :: "(string \<times> string \<times> string list) list" where
  "Task_indexes =
     [(''ix_tasks_creator_cursor'', ''tasks'', [''creator_id'', ''created_at'', ''id'']),
      (''ix_tasks_assignee_cursor'', ''tasks'', [''assignee_id'', ''created_at'', ''id''])]"

text \<open>\<^verbatim>\<open>create_all\<close> of the task service's metadata: a table that is there is left as it is, with its indexes.\<close>

definition create_missing ::
  "string \<times> sql_column list \<Rightarrow> (string \<times> string \<times> string list) list \<Rightarrow> (string \<times> string list) list \<Rightarrow> schema \<Rightarrow> schema"
where
  "create_missing t ixs enums s =
     (if has_table (fst t) s then s
      else s\<lparr>db_tables := db_tables s @ [t], db_indexes := db_indexes s @ ixs,
             db_enums := db_enums s @ filter (\<lambda>(n, _). \<not> has_enum n s) enums\<rparr>)"

definition create_all_tasks :: "sa_enum \<Rightarrow> schema \<Rightarrow> schema" where
  "create_all_tasks sa_enum s =
     create_missing (Task_table sa_enum) Task_indexes
       [sa_enum ''TaskStatus'' TaskStatus_members, sa_enum ''TaskPriority'' TaskPriority_members]
       (create_missing Project_table Project_indexes [] s)"

definition create_all_users :: "schema \<Rightarrow> schema" where
  "create_all_users = create_missing User_table [] []"

section \<open>Migrations against models\<close>

text \<open>Everything of a column but the default the database fills in.\<close>

definition column_shape :: "sql_column \<Rightarrow> sql_column" where
  "column_shape c = c\<lparr>dbc_default := None\<rparr>"

definition shape :: "string \<times> sql_column list \<Rightarrow> string \<times> sql_column list" where
  "shape t = (fst t, map column_shape (snd t))"

lemma has_table_simps [simp]:
  "has_table t (s\<lparr>db_tables := ts\<rparr>) \<longleftrightarrow> t \<in> fst ` set ts" "has_table t (s\<lparr>db_indexes := is\<rparr>) = has_table t s"
  "has_table t (s\<lparr>db_enums := es\<rparr>) = has_table t s"
  by (simp_all add: has_table_def)

lemma has_enum_simps [simp]:
  "has_enum n (s\<lparr>db_enums := es\<rparr>) \<longleftrightarrow> n \<in> fst ` set es" "has_enum n (s\<lparr>db_tables := ts\<rparr>) = has_enum n s"
  "has_enum n (s\<lparr>db_indexes := is\<rparr>) = has_enum n s"
  by (simp_all add: has_enum_def)

lemma has_column_simps [simp]:
  "has_column t c (s\<lparr>db_indexes := is\<rparr>) = has_column t c s" "has_column t c (s\<lparr>db_enums := es\<rparr>) = has_column t c s"
  by (simp_all add: has_column_def)

definition user_schema :: schema where
  "user_schema = the (upgrade_head None user_migrations empty_schema)"

lemma users_head:
  "upgrade_head None user_migrations empty_schema = Some user_schema"
  "map shape (db_tables user_schema) = [shape User_table]" "db_indexes user_schema = []"
  "create_all_users user_schema = user_schema"
  by code_simp+

definition task_schema :: schema where
  "task_schema = the (upgrade_head None task_migrations empty_schema)"

lemma tasks_head:
  "upgrade_head None task_migrations empty_schema = Some task_schema"
  "map shape (db_tables task_schema) = [shape Project_table, shape (Task_table (\<lambda>c ms. (py_lower c, map fst ms)))]"
  "db_indexes task_schema = Project_indexes @ Task_indexes"
  "create_all_tasks sa task_schema = task_schema"
  "db_enums task_schema = [(''taskstatus'', map snd TaskStatus_members), (''taskpriority'', map snd TaskPriority_members)]"
  by code_simp+

text \<open>
  C38: The migrations and the ORM agree on the schema, but not on the labels of the enums. From an empty
  database, \<^verbatim>\<open>upgrade head\<close> runs to its end in both services and gives the tables, columns, keys and
  indexes the ORM classes declare, up to database-side defaults, and the \<^verbatim>\<open>create_all\<close> of the start-up
  then changes nothing. The enum types hold the members' values, though, while the ORM, as documented for
  an enum class without \<^verbatim>\<open>values_callable\<close>, writes the members' names: no status and no priority it
  writes is a label of its type.
\<close>
theorem migrations_match_models:
  assumes "\<And>cls members. sa_enum cls members = (py_lower cls, map fst members)"
  shows "\<exists>u t. upgrade_head None user_migrations empty_schema = Some u \<and>
      map shape (db_tables u) = [shape User_table] \<and> db_indexes u = [] \<and> create_all_users u = u \<and>
    upgrade_head None task_migrations empty_schema = Some t \<and>
      map shape (db_tables t) = [shape Project_table, shape (Task_table sa_enum)] \<and>
      db_indexes t = Project_indexes @ Task_indexes \<and> create_all_tasks sa_enum t = t \<and>
    map fst (db_enums t) =
      [fst (sa_enum ''TaskStatus'' TaskStatus_members), fst (sa_enum ''TaskPriority'' TaskPriority_members)] \<and>
    map snd (db_enums t) = [map snd TaskStatus_members, map snd TaskPriority_members] \<and>
    (\<forall>members\<in>{TaskStatus_members, TaskPriority_members}.
       set (snd (sa_enum cls members)) \<inter> set (map snd members) = {})"
proof -
  have e: "sa_enum = (\<lambda>c ms. (py_lower c, map fst ms))" using assms by (intro ext) simp
  have "py_lower ''TaskStatus'' = ''taskstatus''" "py_lower ''TaskPriority'' = ''taskpriority''" by code_simp+
  then show ?thesis
    using users_head tasks_head(1-3,5) tasks_head(4) [of sa_enum]
    by (intro exI [of _ user_schema] exI [of _ task_schema])
       (auto simp: e TaskStatus_members_def TaskPriority_members_def)
qed

theorem migrations_match_models_witness:
  "upgrade_head None task_migrations empty_schema \<noteq> None \<and>
   set (snd ((\<lambda>c ms. (py_lower c, map fst ms)) ''TaskStatus'' TaskStatus_members)) \<inter> set (map snd TaskStatus_members) = {}"
  using migrations_match_models [of "\<lambda>c ms. (py_lower c, map fst ms)" "''TaskStatus''"] by auto

section \<open>Downgrades\<close>

text \<open>
  A schema is well formed when its columns have their types and tables, and its indexes their columns.
\<close>

definition wf_schema :: "schema \<Rightarrow> bool" where
  "wf_schema s \<longleftrightarrow>
     (\<forall>c\<in>set (columns_of s). column_fits s c) \<and>
     (\<forall>(i, t, cs)\<in>set (db_indexes s). has_table t s \<and> (\<forall>c\<in>set cs. has_column t c s))"

fun undo :: "ddl \<Rightarrow> ddl" where
  "undo (CreateEnum n labels) = DropEnum n"
| "undo (CreateTable t cols) = DropTable t"
| "undo (AddColumn t c) = DropColumn t (dbc_name c)"
| "undo (CreateIndex i t cols) = DropIndex i t"
| "undo x = x"

fun creates :: "ddl \<Rightarrow> bool" where
  "creates (CreateEnum n labels) = True"
| "creates (CreateTable t cols) = True"
| "creates (AddColumn t c) = True"
| "creates (CreateIndex i t cols) = True"
| "creates x = False"

fun new_enums :: "ddl list \<Rightarrow> string list" where
  "new_enums [] = []"
| "new_enums (CreateEnum n labels # xs) = n # new_enums xs"
| "new_enums (x # xs) = new_enums xs"

lemma filter_fresh: "k \<notin> fst ` set d \<Longrightarrow> filter (\<lambda>(k', _). k' \<noteq> k) d = d"
  by (induction d) auto

lemma column_fits_mono:
  assumes "column_fits s c" "\<And>n. has_enum n s \<Longrightarrow> has_enum n s'" "\<And>t. has_table t s \<Longrightarrow> has_table t s'"
  shows "column_fits s' c"
  using assms by (auto simp: column_fits_def split: sql_type.splits option.splits)

lemma wf_extend:
  assumes "wf_schema s" "\<And>n. has_enum n s \<Longrightarrow> has_enum n s'" "\<And>t. has_table t s \<Longrightarrow> has_table t s'"
    and "\<And>t c. has_column t c s \<Longrightarrow> has_column t c s'"
    and "\<And>c. c \<in> set (columns_of s') \<Longrightarrow> c \<in> set (columns_of s) \<or> column_fits s c"
    and "\<And>i t cs. (i, t, cs) \<in> set (db_indexes s') \<Longrightarrow>
      (i, t, cs) \<in> set (db_indexes s) \<or> has_table t s \<and> (\<forall>c\<in>set cs. has_column t c s)"
  shows "wf_schema s'"
proof -
  have "column_fits s' c" if "c \<in> set (columns_of s')" for c
    using assms(1) assms(5) [OF that] by (auto simp: wf_schema_def intro: column_fits_mono assms(2,3))
  moreover have "has_table t s' \<and> (\<forall>c\<in>set cs. has_column t c s')" if "(i, t, cs) \<in> set (db_indexes s')" for i t cs
    using assms(1) assms(6) [OF that] assms(3,4) by (fastforce simp: wf_schema_def)
  ultimately show ?thesis by (auto simp: wf_schema_def)
qed

lemma undo_enum:
  assumes "wf_schema s" "\<not> has_enum n s" "apply_ddl (CreateEnum n labels) s = Some s'"
  shows "apply_ddl (DropEnum n) s' = Some s \<and> wf_schema s'"
proof -
  have s': "s' = s\<lparr>db_enums := db_enums s @ [(n, labels)]\<rparr>" using assms by simp
  have "EnumT n \<notin> dbc_type ` set (columns_of s)"
    using assms(1,2) by (force simp: wf_schema_def column_fits_def split: sql_type.splits)
  moreover have "filter (\<lambda>(k, _). k \<noteq> n) (db_enums s) = db_enums s"
    using assms(2) by (intro filter_fresh) (simp add: has_enum_def)
  moreover have "wf_schema s'"
    by (rule wf_extend [OF assms(1)]) (auto simp: s' columns_of_def has_enum_def)
  ultimately show ?thesis by (simp add: s' columns_of_def)
qed

lemma undo_table:
  assumes "wf_schema s" "apply_ddl (CreateTable t cols) s = Some s'"
  shows "apply_ddl (DropTable t) s' = Some s \<and> wf_schema s'"
proof -
  have s': "s' = s\<lparr>db_tables := db_tables s @ [(t, cols)]\<rparr>" and t: "t \<notin> fst ` set (db_tables s)"
    and fits: "\<forall>c\<in>set cols. column_fits s c"
    using assms(2) by (auto simp: has_table_def list_all_iff split: if_splits)
  have "Some t \<notin> dbc_references ` set (columns_of s)"
    using assms(1) t by (force simp: wf_schema_def column_fits_def has_table_def split: option.splits)
  moreover have "filter (\<lambda>(_, k, _). k \<noteq> t) (db_indexes s) = db_indexes s"
    using assms(1) t by (intro filter_True) (auto simp: wf_schema_def has_table_def)
  moreover have "wf_schema s'"
    by (rule wf_extend [OF assms(1)]) (use fits in \<open>auto simp: s' columns_of_def has_table_def has_column_def\<close>)
  ultimately show ?thesis using filter_fresh [OF t] by (simp add: s' columns_of_def)
qed

lemma undo_column:
  assumes "wf_schema s" "apply_ddl (AddColumn t c) s = Some s'"
  shows "apply_ddl (DropColumn t (dbc_name c)) s' = Some s \<and> wf_schema s'"
proof -
  have s': "s' = s\<lparr>db_tables := map (\<lambda>(k, cs). (k, if k = t then cs @ [c] else cs)) (db_tables s)\<rparr>"
    and t: "has_table t s" "\<not> has_column t (dbc_name c) s" and fits: "column_fits s c"
    using assms(2) by (auto split: if_splits)
  have fresh: "dbc_name c \<notin> dbc_name ` set cs" if "(t, cs) \<in> set (db_tables s)" for cs
    using that t(2) by (auto simp: has_column_def)
  have "map (\<lambda>(k, cs). (k, if k = t then filter (\<lambda>x. dbc_name x \<noteq> dbc_name c) cs else cs)) (db_tables s') = db_tables s"
  proof -
    have "filter (\<lambda>x. dbc_name x \<noteq> dbc_name c) cs = cs" if "(t, cs) \<in> set (db_tables s)" for cs
      using fresh [OF that] by (intro filter_True) (metis image_eqI)
    then show ?thesis unfolding s' by (auto simp: case_prod_beta intro!: map_idI)
  qed
  moreover have "filter (\<lambda>(_, k, cs). k \<noteq> t \<or> dbc_name c \<notin> set cs) (db_indexes s') = db_indexes s"
    using assms(1) t(2) by (auto simp: s' wf_schema_def intro!: filter_True)
  moreover have "has_column t (dbc_name c) s'"
    using t(1) by (force simp: s' has_column_def has_table_def)
  moreover have "wf_schema s'"
    by (rule wf_extend [OF assms(1)])
       (use fits in \<open>auto simp: s' columns_of_def has_table_def has_column_def image_iff split: if_splits\<close>; force)+
  ultimately show ?thesis by (simp add: s')
qed

lemma undo_index:
  assumes "wf_schema s" "apply_ddl (CreateIndex i t cols) s = Some s'"
  shows "apply_ddl (DropIndex i t) s' = Some s \<and> wf_schema s'"
proof -
  have s': "s' = s\<lparr>db_indexes := db_indexes s @ [(i, t, cols)]\<rparr>" and i: "i \<notin> fst ` set (db_indexes s)"
    and ok: "has_table t s" "\<forall>c\<in>set cols. has_column t c s"
    using assms(2) by (auto simp: list_all_iff split: if_splits)
  have "wf_schema s'"
    by (rule wf_extend [OF assms(1)]) (use ok in \<open>auto simp: s' columns_of_def\<close>)
  then show ?thesis using filter_fresh [OF i] by (simp add: s')
qed

lemma undo_apply:
  assumes "wf_schema s" "creates x" "\<forall>n\<in>set (new_enums [x]). \<not> has_enum n s" "apply_ddl x s = Some s'"
  shows "apply_ddl (undo x) s' = Some s \<and> wf_schema s'"
proof (cases x)
  case (CreateEnum n labels)
  then show ?thesis using undo_enum [of s n labels s'] assms by simp
next
  case (CreateTable t cols)
  then show ?thesis using undo_table [of s t cols s'] assms by simp
next
  case (AddColumn t c)
  then show ?thesis using undo_column [of s t c s'] assms by simp
next
  case (CreateIndex i t cols)
  then show ?thesis using undo_index [of s i t cols s'] assms by simp
qed (use assms(2) in simp_all)

lemma run_ddl_append:
  "run_ddl (xs @ ys) s = (case run_ddl xs s of None \<Rightarrow> None | Some s' \<Rightarrow> run_ddl ys s')"
  by (induction xs arbitrary: s) (auto split: option.splits)

lemma apply_enums:
  "creates x \<Longrightarrow> apply_ddl x s = Some s' \<Longrightarrow> has_enum n s' \<Longrightarrow> has_enum n s \<or> n \<in> set (new_enums [x])"
  by (cases x) (auto simp: has_enum_def split: if_splits)

lemma new_enums_Cons: "new_enums (x # xs) = new_enums [x] @ new_enums xs"
  by (cases x) simp_all

lemma undo_run:
  assumes "wf_schema s" "list_all creates xs" "distinct (new_enums xs)" "\<forall>n\<in>set (new_enums xs). \<not> has_enum n s"
    and "run_ddl xs s = Some s'"
  shows "run_ddl (map undo (rev xs)) s' = Some s \<and> wf_schema s'"
  using assms
proof (induction xs arbitrary: s)
  case (Cons x xs)
  obtain s1 where s1: "apply_ddl x s = Some s1" "run_ddl xs s1 = Some s'"
    using Cons.prems(5) by (auto split: option.splits)
  have n: "distinct (new_enums xs)" "\<forall>n\<in>set (new_enums [x]). \<not> has_enum n s"
    "\<forall>n\<in>set (new_enums xs). \<not> has_enum n s \<and> n \<notin> set (new_enums [x])"
    using Cons.prems(3,4) new_enums_Cons [of x xs] by auto
  have u: "apply_ddl (undo x) s1 = Some s" "wf_schema s1"
    using undo_apply [OF Cons.prems(1) _ n(2) s1(1)] Cons.prems(2) by auto
  have "\<forall>n\<in>set (new_enums xs). \<not> has_enum n s1"
    using n(3) apply_enums [OF _ s1(1)] Cons.prems(2) by auto
  with Cons.IH [OF u(2) _ n(1) _ s1(2)] Cons.prems(2) u(1) show ?case
    by (simp add: run_ddl_append)
qed simp

text \<open>
  Every revision can be taken back. On any well-formed database that does not have the enum types
  the revision creates, if the revision's upgrade runs to its end then its downgrade does too, and
  leaves exactly the schema there was before.
\<close>
theorem downgrade_inverts_upgrade:
  assumes "m \<in> set (user_migrations @ task_migrations)" and "wf_schema s"
    and "\<forall>n\<in>set (new_enums (mg_upgrade m)). \<not> has_enum n s" and "run_ddl (mg_upgrade m) s = Some s'"
  shows "run_ddl (mg_downgrade m) s' = Some s \<and> wf_schema s'"
proof -
  have "list_all (\<lambda>m. list_all creates (mg_upgrade m) \<and> distinct (new_enums (mg_upgrade m)) \<and>
      mg_downgrade m = map undo (rev (mg_upgrade m))) (user_migrations @ task_migrations)"
    by code_simp
  with assms(1) have "list_all creates (mg_upgrade m)" "distinct (new_enums (mg_upgrade m))"
    "mg_downgrade m = map undo (rev (mg_upgrade m))"
    by (auto simp: list_all_iff)
  with undo_run [OF assms(2) _ _ assms(3,4)] show ?thesis by simp
qed

theorem downgrade_inverts_upgrade_witness:
  "run_ddl (mg_downgrade tasks_initial) (the (run_ddl (mg_upgrade tasks_initial) empty_schema)) = Some empty_schema"
proof -
  have "\<exists>s'. run_ddl (mg_upgrade tasks_initial) empty_schema = Some s'" by (intro exI) code_simp
  then obtain s' where s': "run_ddl (mg_upgrade tasks_initial) empty_schema = Some s'" ..
  then show ?thesis
    using downgrade_inverts_upgrade [of tasks_initial empty_schema s']
    by (simp add: task_migrations_def wf_schema_def columns_of_def has_enum_def empty_schema_def)
qed

end
