(* ===== verification/Lifespans.thy ===== *)
theory Lifespans
  imports UserProps TaskProps TaskPrivacy Migrations Notify ChaosMain Gateway
begin

text \<open>
  The lifespans of the five applications (\<^verbatim>\<open>lifespan\<close> of each \<^verbatim>\<open>main.py\<close>): what is opened before the first
  request and closed after the last one. A part of a lifespan returns the exception that leaves it, if
  one does, and the state it leaves behind; a step that raises keeps the later ones from running. Which
  calls of a library raise is an argument. The set-up of telemetry is the theory
  \<open>Telemetry\<close>; the log lines are left out.

  The locale \<open>lifespan\<close> is the contract that start, requests and stop share: none of them hurts what the
  service keeps in its database, and a stop that ends well has released everything. The user and the
  task service are its instances.
\<close>

type_synonym 'w phase = "'w \<Rightarrow> string option \<times> 'w"

definition and_then :: "'w phase \<Rightarrow> 'w phase \<Rightarrow> 'w phase" where
  "and_then f g w = (case f w of (Some e, w') \<Rightarrow> (Some e, w') | (None, w') \<Rightarrow> g w')"

text \<open>A step of the library that either raises and changes nothing or does its work.\<close>

definition attempt :: "string option \<Rightarrow> ('w \<Rightarrow> 'w) \<Rightarrow> 'w phase" where
  "attempt failure f w = (case failure of Some e \<Rightarrow> (Some e, w) | None \<Rightarrow> (None, f w))"

definition only_if :: "('w \<Rightarrow> bool) \<Rightarrow> 'w phase \<Rightarrow> 'w phase" where
  "only_if c f w = (if c w then f w else (None, w))"

lemmas phase_defs = and_then_def attempt_def only_if_def

section \<open>The contract\<close>

datatype ('e, 'o, 'd) life_event = Start 'e | Serve 'o | Stop 'd

fun life_step ::
  "('e \<Rightarrow> 'w phase) \<Rightarrow> ('o \<Rightarrow> 'w \<Rightarrow> 'w) \<Rightarrow> ('d \<Rightarrow> 'w phase) \<Rightarrow> ('e, 'o, 'd) life_event \<Rightarrow> 'w \<Rightarrow> 'w"
where
  "life_step up serve down (Start e) w = snd (up e w)"
| "life_step up serve down (Serve x) w = serve x w"
| "life_step up serve down (Stop d) w = snd (down d w)"

locale lifespan =
  fixes up :: "'e \<Rightarrow> 'w phase" and serve :: "'o \<Rightarrow> 'w \<Rightarrow> 'w" and down :: "'d \<Rightarrow> 'w phase"
    and sound :: "'w \<Rightarrow> bool" and released :: "'w \<Rightarrow> bool"
  assumes up_sound: "sound w \<Longrightarrow> sound (snd (up e w))"
    and serve_sound: "sound w \<Longrightarrow> sound (serve x w)"
    and down_sound: "sound w \<Longrightarrow> sound (snd (down d w))"
    and down_releases: "fst (down d w) = None \<Longrightarrow> released (snd (down d w))"
    and down_released: "released w \<Longrightarrow> down d w = (None, w)"
begin

lemma life_sound: "sound w \<Longrightarrow> sound (fold (life_step up serve down) evs w)"
proof (induction evs arbitrary: w)
  case (Cons ev evs)
  have "sound (life_step up serve down ev w)"
    using Cons.prems by (cases ev) (simp_all add: up_sound serve_sound down_sound)
  from Cons.IH [OF this] show ?case by simp
qed simp

text \<open>Once a stop has ended well, further ones find nothing to close.\<close>

lemma stop_twice: "fst (down d w) = None \<Longrightarrow> down d' (snd (down d w)) = (None, snd (down d w))"
  by (intro down_released down_releases)

end

section \<open>API gateway\<close>

text \<open>The module's client pool. It is not set back to \<^verbatim>\<open>None\<close> when it is closed.\<close>

datatype http_pool = NoPool | OpenPool | ClosedPool

definition start_gateway :: "http_pool phase" where
  "start_gateway p = (None, OpenPool)"

definition stop_gateway :: "string option \<Rightarrow> http_pool phase" where
  "stop_gateway aclose = attempt aclose (\<lambda>_. ClosedPool)"

section \<open>User service\<close>

record 'r user_process =
  up_schema :: schema
  up_world :: "'r user_world"
  up_engine :: bool

text \<open>
  \<open>database\<close> is the exception of a database that cannot be reached: it stops the start, for \<^verbatim>\<open>create_all\<close>
  comes first. The bootstrap and Redis cannot.
\<close>

definition start_user :: "user_settings \<Rightarrow> 'r user_env \<times> string option \<Rightarrow> 'r user_process phase" where
  "start_user cfg = (\<lambda>(en, database).
     attempt database (\<lambda>p. p\<lparr>
       up_schema := create_all_users (up_schema p),
       up_world := (up_world p)\<lparr>
         uw_users := bootstrap_initial_admin (ue_now en) cfg (uw_users (up_world p)),
         uw_redis := snd (get_redis (ue_redis en) (ue_now en) (uw_redis (up_world p)))\<rparr>,
       up_engine := True\<rparr>))"

definition serve_user :: "user_settings \<Rightarrow> 'r user_env \<times> user_op \<Rightarrow> 'r user_process \<Rightarrow> 'r user_process" where
  "serve_user cfg x p = p\<lparr>up_world := user_step cfg x (up_world p)\<rparr>"

definition stop_user :: "string option \<Rightarrow> 'r user_process phase" where
  "stop_user aclose =
     and_then
       (only_if (\<lambda>p. rc_connected (uw_redis (up_world p)))
         (attempt aclose (\<lambda>p. p\<lparr>up_world := (up_world p)\<lparr>uw_redis := close_redis (uw_redis (up_world p))\<rparr>\<rparr>)))
       (attempt None (\<lambda>p. p\<lparr>up_engine := False\<rparr>))"

definition user_released :: "'r user_process \<Rightarrow> bool" where
  "user_released p \<longleftrightarrow> \<not> rc_connected (uw_redis (up_world p)) \<and> \<not> up_engine p"

interpretation user_life: lifespan "start_user cfg" "serve_user cfg" stop_user
    "\<lambda>p. wf_users (uw_users (up_world p))" user_released for cfg
proof unfold_locales
  fix w :: "'r user_process" and e :: "'r user_env \<times> string option"
  assume "wf_users (uw_users (up_world w))"
  then show "wf_users (uw_users (up_world (snd (start_user cfg e w))))"
    by (auto simp: start_user_def attempt_def wf_bootstrap split: option.splits prod.splits)
next
  fix w :: "'r user_process" and x :: "'r user_env \<times> user_op"
  assume "wf_users (uw_users (up_world w))"
  then show "wf_users (uw_users (up_world (serve_user cfg x w)))"
    by (cases x) (simp add: serve_user_def wf_user_step)
next
  fix w :: "'r user_process" and d
  show "user_released w \<Longrightarrow> stop_user d w = (None, w)"
    by (simp add: user_released_def stop_user_def phase_defs)
qed (auto simp: stop_user_def user_released_def phase_defs close_redis_def split: option.splits if_splits)

section \<open>Task service\<close>

record 'r task_process =
  tp_schema :: schema
  tp_world :: "'r task_world"
  tp_engine :: bool

definition start_task :: "sa_enum \<times> string option \<Rightarrow> 'r task_process phase" where
  "start_task = (\<lambda>(sa, database).
     attempt database (\<lambda>p. p\<lparr>tp_schema := create_all_tasks sa (tp_schema p), tp_engine := True\<rparr>))"

definition serve_task :: "'r task_env \<times> task_op \<Rightarrow> 'r task_process \<Rightarrow> 'r task_process" where
  "serve_task x p = p\<lparr>tp_world := task_step x (tp_world p)\<rparr>"

text \<open>What the three clients raise when they are closed.\<close>

record close_errors =
  ce_sender :: "string option"
  ce_client :: "string option"
  ce_redis :: "string option"

definition on_bus :: "(bus \<Rightarrow> bus) \<Rightarrow> 'r task_process \<Rightarrow> 'r task_process" where
  "on_bus f p = p\<lparr>tp_world := (tp_world p)\<lparr>tw_bus := f (tw_bus (tp_world p))\<rparr>\<rparr>"

definition close_bus :: "close_errors \<Rightarrow> 'r task_process phase" where
  "close_bus ce =
     and_then
       (only_if (\<lambda>p. sb_sender (tw_bus (tp_world p))) (attempt (ce_sender ce) (on_bus (sb_sender_update (\<lambda>_. False)))))
       (only_if (\<lambda>p. sb_client (tw_bus (tp_world p))) (attempt (ce_client ce) (on_bus (sb_client_update (\<lambda>_. False)))))"

definition stop_task :: "close_errors \<Rightarrow> 'r task_process phase" where
  "stop_task ce =
     and_then (close_bus ce)
       (and_then
         (only_if (\<lambda>p. rc_connected (tw_redis (tp_world p)))
           (attempt (ce_redis ce) (\<lambda>p. p\<lparr>tp_world := (tp_world p)\<lparr>tw_redis := close_redis (tw_redis (tp_world p))\<rparr>\<rparr>)))
         (attempt None (\<lambda>p. p\<lparr>tp_engine := False\<rparr>)))"

text \<open>When nothing raises, \<open>close_bus\<close> is the plain \<^const>\<open>close_sender\<close> of the data model.\<close>

lemma close_bus_clean:
  "ce_sender ce = None \<Longrightarrow> ce_client ce = None \<Longrightarrow> close_bus ce p = (None, on_bus close_sender p)"
  by (cases p, cases "tp_world p", cases "tw_bus (tp_world p)")
    (simp add: close_bus_def phase_defs on_bus_def close_sender_def)

definition task_released :: "'r task_process \<Rightarrow> bool" where
  "task_released p \<longleftrightarrow>
     \<not> sb_sender (tw_bus (tp_world p)) \<and> \<not> sb_client (tw_bus (tp_world p)) \<and>
     \<not> rc_connected (tw_redis (tp_world p)) \<and> \<not> tp_engine p"

lemma wf_tasks_same_rows:
  "tw_tasks w' = tw_tasks w \<Longrightarrow> tw_projects w' = tw_projects w \<Longrightarrow> wf_tasks w' = wf_tasks w"
  by (simp add: wf_tasks_def)

lemma stop_task_rows:
  "tw_tasks (tp_world (snd (stop_task ce p))) = tw_tasks (tp_world p) \<and>
   tw_projects (tp_world (snd (stop_task ce p))) = tw_projects (tp_world p)"
  by (simp add: stop_task_def close_bus_def phase_defs on_bus_def split: option.split prod.split)

interpretation task_life: lifespan start_task serve_task stop_task "\<lambda>p. wf_tasks (tp_world p)" task_released
proof unfold_locales
  fix w :: "'r task_process" and e
  assume "wf_tasks (tp_world w)"
  then show "wf_tasks (tp_world (snd (start_task e w)))"
    by (auto simp: start_task_def attempt_def split: option.splits prod.splits)
next
  fix w :: "'r task_process" and x :: "'r task_env \<times> task_op"
  assume "wf_tasks (tp_world w)"
  then show "wf_tasks (tp_world (serve_task x w))" by (cases x) (simp add: serve_task_def wf_step)
next
  fix w :: "'r task_process" and d
  assume "wf_tasks (tp_world w)"
  then show "wf_tasks (tp_world (snd (stop_task d w)))"
    using wf_tasks_same_rows [OF conjunct1 conjunct2, OF stop_task_rows stop_task_rows] by blast
next
  fix w :: "'r task_process" and d
  show "task_released w \<Longrightarrow> stop_task d w = (None, w)"
    by (simp add: task_released_def stop_task_def close_bus_def phase_defs)
next
  fix w :: "'r task_process" and d
  show "fst (stop_task d w) = None \<Longrightarrow> task_released (snd (stop_task d w))"
    by (auto simp: stop_task_def close_bus_def task_released_def phase_defs on_bus_def close_redis_def
        split: option.splits if_splits)
qed

section \<open>Notification service\<close>

text \<open>
  Start creates the consumer task if a connection string is set. Stop cancels the task and waits for it;
  \<open>rounds\<close> is how the rounds of \<^verbatim>\<open>run\<close> end from then on. The first component of the result is
  whether the wait ends.
\<close>

definition start_notification :: "string \<Rightarrow> task_state \<Rightarrow> task_state" where
  "start_notification servicebus_connection_string t =
     (if servicebus_connection_string \<noteq> [] then Running else t)"

definition stop_notification :: "round_end list \<Rightarrow> task_state \<Rightarrow> bool \<times> task_state" where
  "stop_notification rounds t =
     (case t of
        Running \<Rightarrow> (case snd (consumer_run rounds) of Running \<Rightarrow> (False, Running) | t' \<Rightarrow> (True, t'))
      | _ \<Rightarrow> (True, t))"

lemma consumer_run_state: "snd (consumer_run rs) = (if RoundCancelled \<in> set rs then Cancelled else Running)"
  by (induction rs rule: consumer_run.induct) (auto split: prod.split)

text \<open>
  The wait ends if a round after the cancellation is left by it. A clean-up of the Service Bus client that
  raises in its place is caught by \<^verbatim>\<open>run\<close>, and the stop waits for a task that goes on.
\<close>

lemma notification_stops:
  "stop_notification rounds Running =
     (if RoundCancelled \<in> set rounds then (True, Cancelled) else (False, Running))"
  by (simp add: stop_notification_def consumer_run_state)

lemma notification_stopped:
  assumes "stop_notification rounds (start_notification c NotCreated) = (True, t)"
  shows "consumer_readiness t = Inr (JObj (if c = []
           then [(''status'', JStr ''starting''), (''consumer'', JStr ''not_yet_created'')]
           else [(''status'', JStr ''stopping''), (''consumer'', JStr ''cancelled'')]))"
  using assms
  by (auto simp: start_notification_def stop_notification_def consumer_run_state consumer_readiness_def
      split: if_splits)

section \<open>Chaos controller\<close>

text \<open>
  The ambient task of the simulation, created by \<^verbatim>\<open>start\<close> and cancelled by \<^verbatim>\<open>stop\<close>; the global cluster
  stays, and so do the tasks of actions that are under way.
\<close>

datatype ambient = NoAmbient | Drifting | AmbientEnded

record chaos_process =
  ch_cluster :: "cluster option"
  ch_ambient :: ambient

definition start_chaos ::
  "string \<Rightarrow> string option \<Rightarrow> (nat \<Rightarrow> nat) \<Rightarrow> (nat \<Rightarrow> pyfloat) \<Rightarrow> pyfloat \<Rightarrow> hub \<Rightarrow> chaos_process \<Rightarrow> chaos_process"
where
  "start_chaos chaos_mode setup_error choice uniform now h p =
     (let c = start_controller chaos_mode setup_error choice uniform now h
      in p\<lparr>ch_cluster := Some c, ch_ambient := (case c of Mock _ \<Rightarrow> Drifting | Live _ _ \<Rightarrow> ch_ambient p)\<rparr>)"

definition ambient_turn :: "pyfloat \<Rightarrow> (string \<Rightarrow> nat \<Rightarrow> pyfloat) \<Rightarrow> chaos_process \<Rightarrow> chaos_process" where
  "ambient_turn now gauss p =
     (case ch_ambient p of
        Drifting \<Rightarrow> p\<lparr>ch_cluster := map_option (\<lambda>c. case c of
            Mock L \<Rightarrow> Mock (on_mock (ambient_round now gauss) L) | Live _ _ \<Rightarrow> c) (ch_cluster p)\<rparr>
      | _ \<Rightarrow> p)"

definition stop_chaos :: "chaos_process \<Rightarrow> chaos_process" where
  "stop_chaos p =
     (case ch_cluster p of
        Some (Mock _) \<Rightarrow> (if ch_ambient p = Drifting then p\<lparr>ch_ambient := AmbientEnded\<rparr> else p)
      | _ \<Rightarrow> p)"

text \<open>No metric is published once a started controller has been stopped, and the snapshot is still served.\<close>

lemma chaos_stopped:
  assumes "p = stop_chaos (start_chaos mode err choice uniform now h \<lparr>ch_cluster = None, ch_ambient = NoAmbient\<rparr>)"
  shows "ambient_turn now' gauss p = p" "stop_chaos p = p" "\<exists>j. fst (get_snapshot (ch_cluster p)) = Inr j"
  using assms
  by (auto simp: stop_chaos_def start_chaos_def ambient_turn_def get_snapshot_def Let_def
      split: cluster.splits)

text \<open>Before the start, the endpoints that need the cluster answer 503.\<close>

lemma chaos_not_started:
  "trigger a n echoed None = (Inl (HTTPException 503 ''cluster not initialised'' []), None)"
  "get_snapshot None = (Inl (HTTPException 503 ''cluster not ready'' []), None)"
  by (simp_all add: trigger_def ensure_cluster_def get_snapshot_def)

section \<open>What a life of a service comes to\<close>

lemma close_idle: "\<not> rc_connected c \<Longrightarrow> close_redis c = c"
  by (cases c) (simp add: close_redis_def)

text \<open>
  A stop and a start of the user service, with the database up and Redis closing well, are the step
  \<^const>\<open>Restart\<close> of its histories: the statements about histories cover restarts of the process.
\<close>

lemma restart_step:
  assumes "stop_user None p = (x, p1)" "start_user cfg (en, None) p1 = (y, p2)"
  shows "x = None \<and> y = None \<and> up_world p2 = user_step cfg (en, Restart) (up_world p)"
  using assms by (auto simp: stop_user_def start_user_def phase_defs close_idle split: if_splits)

text \<open>
  Stops of the task service. A stop in which no client raises releases the Service Bus sender and
  client, the Redis client and the connections of the database; it changes no row. The first client that
  raises ends it: when the sender is open and does, everything stays open. Whatever starts, requests and stops a
  process goes through, failed ones included, its rows stay well-formed, and the migrated schema stays as
  it is.
\<close>

theorem task_lifespan:
  assumes "wf_tasks (tp_world p)" "tp_schema p = task_schema"
    and q: "q = fold (life_step start_task serve_task stop_task) evs p"
  shows "wf_tasks (tp_world q) \<and> tp_schema q = task_schema \<and>
    (ce_sender ce = None \<and> ce_client ce = None \<and> ce_redis ce = None \<longrightarrow>
       fst (stop_task ce q) = None \<and> task_released (snd (stop_task ce q))) \<and>
    (sb_sender (tw_bus (tp_world q)) \<and> ce_sender ce = Some e \<longrightarrow> stop_task ce q = (Some e, q)) \<and>
    tw_tasks (tp_world (snd (stop_task ce q))) = tw_tasks (tp_world q)"
proof -
  have s: "tp_schema q = task_schema"
    unfolding q using assms(2)
  proof (induction evs arbitrary: p)
    case (Cons ev evs)
    have "tp_schema (life_step start_task serve_task stop_task ev p) = task_schema"
      using Cons.prems
      by (cases ev) (auto simp: start_task_def serve_task_def stop_task_def close_bus_def on_bus_def phase_defs
          tasks_head split: option.splits prod.splits)
    from Cons.IH [OF this] show ?case by simp
  qed simp
  have w: "wf_tasks (tp_world q)"
    unfolding q by (rule task_life.life_sound [OF assms(1)])
  have ok: "fst (stop_task ce q) = None" if "ce_sender ce = None" "ce_client ce = None" "ce_redis ce = None"
    using that by (simp add: stop_task_def close_bus_def phase_defs split: prod.splits)
  have fails: "stop_task ce q = (Some e, q)" if "sb_sender (tw_bus (tp_world q))" "ce_sender ce = Some e"
    using that by (simp add: stop_task_def close_bus_def phase_defs)
  show ?thesis
    using s w ok task_life.down_releases [OF ok] fails stop_task_rows by blast
qed

theorem task_lifespan_witness:
  "\<exists>q. q = fold (life_step start_task serve_task stop_task)
       [Start (\<lambda>c ms. (py_lower c, map fst ms), None),
        Serve (demo_task_env 4 8, DeleteTask demo_other_request 21)]
       \<lparr>tp_schema = task_schema, tp_world = demo_tasks, tp_engine = False\<rparr> \<and>
     wf_tasks (tp_world q) \<and>
     task_released (snd (stop_task \<lparr>ce_sender = None, ce_client = None, ce_redis = None\<rparr> q))"
  using task_lifespan [OF _ _ refl, of "\<lparr>tp_schema = task_schema, tp_world = demo_tasks, tp_engine = False\<rparr>"
      "[Start (\<lambda>c ms. (py_lower c, map fst ms), None),
        Serve (demo_task_env 4 8, DeleteTask demo_other_request 21)]"
      "\<lparr>ce_sender = None, ce_client = None, ce_redis = None\<rparr>"] demo_tasks_wf(1)
  by (simp del: fold.simps)

end
