(* ===== verification/Deployment.thy ===== *)
theory Deployment
  imports Backends Migrations
begin

text \<open>
  The start of a backend's container: \<^verbatim>\<open>entrypoint.sh\<close> runs the migrations through Alembic and its
  environment (\<^verbatim>\<open>alembic/env.py\<close>, the same in both services), then the server, whose \<^verbatim>\<open>database.py\<close>
  makes the engine. Alembic reads the address of the database through the \<^verbatim>\<open>configparser\<close> of the
  standard library, whose interpolation is written out. Which URL schemes name an asynchronous driver
  that is installed is the argument \<open>async_driver\<close> of SQLAlchemy.
\<close>

section \<open>Options of the configuration file\<close>

text \<open>\<^verbatim>\<open>BasicInterpolation.before_set\<close>: without \<^verbatim>\<open>%%\<close> and \<^verbatim>\<open>%(name)s\<close>, no percent sign may be left.\<close>

text \<open>The name of a reference that starts here, as \<^verbatim>\<open>%\(([^)]+)\)s\<close> matches it, and what follows it.\<close>

definition reference :: "string \<Rightarrow> (string \<times> string) option" where
  "reference cs =
     (if starts_with ''%('' cs then
        (let name = takeWhile (\<lambda>c. c \<noteq> CHR '')'') (drop 2 cs);
             rest = drop (2 + length name) cs
         in if name \<noteq> [] \<and> starts_with '')s'' rest then Some (name, drop 2 rest) else None)
      else None)"

lemma reference_shorter: "reference cs = Some (n, rest) \<Longrightarrow> length rest < length cs"
  by (cases cs) (auto simp: reference_def Let_def starts_with_def split: if_splits)

function drop_references :: "string \<Rightarrow> string" where
  "drop_references [] = []"
| "drop_references (c # cs) =
     (case reference (c # cs) of Some (n, rest) \<Rightarrow> drop_references rest | None \<Rightarrow> c # drop_references cs)"
  by pat_completeness auto
termination by (relation "measure length") (auto dest: reference_shorter)

definition before_set :: "string \<Rightarrow> string + string" where
  "before_set v =
     (if CHR ''%'' \<in> set (drop_references (py_replace ''%%'' [] v)) then Inl ''ValueError'' else Inr v)"

text \<open>\<^verbatim>\<open>BasicInterpolation.before_get\<close>; \<open>options\<close> is what the names of the section stand for.\<close>

function before_get :: "(string \<Rightarrow> string option) \<Rightarrow> string \<Rightarrow> string + string" where
  "before_get options [] = Inr []"
| "before_get options (c # cs) =
     (if c \<noteq> CHR ''%'' then map_sum id (Cons c) (before_get options cs)
      else if starts_with ''%'' cs then map_sum id (Cons c) (before_get options (tl cs))
      else (case reference (c # cs) of
              None \<Rightarrow> Inl ''InterpolationSyntaxError''
            | Some (n, rest) \<Rightarrow>
                (case options (py_lower n) of
                   None \<Rightarrow> Inl ''InterpolationMissingOptionError''
                 | Some v \<Rightarrow> map_sum id (append v) (before_get options rest))))"
  by pat_completeness auto
termination by (relation "measure (length \<circ> snd)") (auto dest: reference_shorter)

section \<open>The environment of Alembic\<close>

definition url_scheme :: "string \<Rightarrow> string" where
  "url_scheme url = takeWhile (\<lambda>c. c \<noteq> CHR '':'') url"

text \<open>
  The revisions that are left to run after the current one, or the failure to find it. They run in one
  transaction, which a failing operation rolls back.
\<close>

definition pending :: "string option \<Rightarrow> migration list \<Rightarrow> migration list option" where
  "pending current ms =
     (case current of
        None \<Rightarrow> Some ms
      | Some r \<Rightarrow> (case dropWhile (\<lambda>m. mg_revision m \<noteq> r) ms of [] \<Rightarrow> None | _ # rest \<Rightarrow> Some rest))"

record database =
  dba_revision :: "string option"
  dba_schema :: schema

definition do_run_migrations :: "migration list \<Rightarrow> database \<Rightarrow> string option \<times> database" where
  "do_run_migrations ms db =
     (case pending (dba_revision db) ms of
        None \<Rightarrow> (Some ''CommandError'', db)
      | Some todo \<Rightarrow>
          (case upgrade_head (dba_revision db) todo (dba_schema db) of
             None \<Rightarrow> (Some ''ProgrammingError'', db)
           | Some s \<Rightarrow>
               (None, \<lparr>dba_revision = (if todo = [] then dba_revision db else Some (mg_revision (last todo))),
                       dba_schema = s\<rparr>)))"

text \<open>
  What the environment gets: the drivers, the other options of \<^verbatim>\<open>alembic.ini\<close>, and whether the database can be
  reached.
\<close>

record alembic_env =
  ae_async_driver :: "string \<Rightarrow> bool"
  ae_options :: "string \<Rightarrow> string option"
  ae_connects :: bool

definition run_migrations_online :: "alembic_env \<Rightarrow> migration list \<Rightarrow> string \<Rightarrow> database \<Rightarrow> string option \<times> database" where
  "run_migrations_online en ms stored db =
     (case before_get (ae_options en) stored of
        Inl e \<Rightarrow> (Some e, db)
      | Inr url \<Rightarrow>
          if \<not> ae_async_driver en (url_scheme url) then (Some ''InvalidRequestError'', db)
          else if \<not> ae_connects en then (Some ''ConnectionError'', db)
          else do_run_migrations ms db)"

text \<open>The offline mode prints the scripts, from the first revision on.\<close>

definition run_migrations_offline :: "alembic_env \<Rightarrow> migration list \<Rightarrow> string \<Rightarrow> string + ddl list" where
  "run_migrations_offline en ms stored =
     (case before_get (ae_options en) stored of
        Inl e \<Rightarrow> Inl e
      | Inr url \<Rightarrow> Inr (concat (map mg_upgrade ms)))"

definition alembic_upgrade :: "alembic_env \<Rightarrow> migration list \<Rightarrow> string \<Rightarrow> database \<Rightarrow> string option \<times> database" where
  "alembic_upgrade en ms database_url db =
     (case before_set database_url of
        Inl e \<Rightarrow> (Some e, db)
      | Inr stored \<Rightarrow> run_migrations_online en ms stored db)"

section \<open>The container\<close>

definition engine_made :: "alembic_env \<Rightarrow> string \<Rightarrow> bool" where
  "engine_made en database_url = ae_async_driver en (url_scheme (async_url database_url))"

text \<open>\<^verbatim>\<open>set -e\<close>: the server is started only if the migrations end well.\<close>

definition container_start :: "alembic_env \<Rightarrow> migration list \<Rightarrow> string \<Rightarrow> database \<Rightarrow> bool \<times> database" where
  "container_start en ms database_url db =
     (case alembic_upgrade en ms database_url db of
        (Some e, db') \<Rightarrow> (False, db')
      | (None, db') \<Rightarrow> (engine_made en database_url, db'))"

section \<open>Addresses\<close>

lemma reference_plain: "c \<noteq> CHR ''%'' \<Longrightarrow> reference (c # cs) = None"
  by (simp add: reference_def starts_with_def)

lemma drop_references_app: "CHR ''%'' \<notin> set u \<Longrightarrow> drop_references (u @ v) = u @ drop_references v"
  by (induction u) (auto simp: reference_plain)

lemma drop_references_plain: "CHR ''%'' \<notin> set v \<Longrightarrow> drop_references v = v"
  using drop_references_app [of v "[]"] by simp

lemma before_set_plain: "CHR ''%'' \<notin> set v \<Longrightarrow> before_set v = Inr v"
  by (simp add: before_set_def py_replace_absent drop_references_plain)

lemma before_get_plain: "CHR ''%'' \<notin> set v \<Longrightarrow> before_get options v = Inr v"
  by (induction v) auto

lemma no_pairs:
  assumes "CHR ''%'' \<notin> set u" "CHR ''%'' \<notin> set v"
  shows "py_replace ''%%'' [] (u @ CHR ''%'' # v) = u @ CHR ''%'' # v"
  using assms(1)
proof (induction u)
  case Nil
  have "\<not> starts_with ''%%'' (CHR ''%'' # v)" using assms(2) by (cases v) (auto simp: starts_with_def)
  then show ?case using assms(2) by (simp add: py_replace.simps [of _ _ "CHR ''%'' # v"] py_replace_absent)
next
  case (Cons c u)
  then have "\<not> starts_with ''%%'' (c # u @ CHR ''%'' # v)" by (auto simp: starts_with_def)
  with Cons show ?case by (simp add: py_replace.simps [of _ _ "c # u @ CHR ''%'' # v"])
qed

text \<open>A percent sign of an escape such as \<^verbatim>\<open>%40\<close> is refused.\<close>

lemma before_set_escape:
  assumes "CHR ''%'' \<notin> set u" "CHR ''%'' \<notin> set v" "v = [] \<or> hd v \<noteq> CHR ''(''"
  shows "before_set (u @ CHR ''%'' # v) = Inl ''ValueError''"
proof -
  have "reference (CHR ''%'' # v) = None" using assms(3) by (cases v) (simp_all add: reference_def starts_with_def)
  then show ?thesis by (simp add: before_set_def no_pairs assms drop_references_app)
qed

lemma schemes:
  "url_scheme (''postgresql://'' @ rest) = ''postgresql''"
  "url_scheme (''postgresql+asyncpg://'' @ rest) = ''postgresql+asyncpg''"
  by (simp_all add: url_scheme_def)

lemma async_url_plain: "async_url (''postgresql://'' @ rest) = ''postgresql+asyncpg://'' @ rest"
  by (simp add: async_url_def starts_with_def)

lemma engine_asyncpg:
  "url_scheme (async_url (''postgresql+asyncpg://'' @ rest)) = ''postgresql+asyncpg''"
  by (simp add: async_url_def starts_with_def url_scheme_def)

lemma upgrade_plain:
  assumes "CHR ''%'' \<notin> set url"
  shows "alembic_upgrade en ms url db =
    (if \<not> ae_async_driver en (url_scheme url) then (Some ''InvalidRequestError'', db)
     else if \<not> ae_connects en then (Some ''ConnectionError'', db)
     else do_run_migrations ms db)"
  by (simp add: alembic_upgrade_def run_migrations_online_def before_set_plain before_get_plain assms)

lemma migrated_runs:
  "do_run_migrations user_migrations \<lparr>dba_revision = None, dba_schema = empty_schema\<rparr> =
     (None, \<lparr>dba_revision = Some ''002_email_verification'', dba_schema = user_schema\<rparr>)"
  "do_run_migrations task_migrations \<lparr>dba_revision = None, dba_schema = empty_schema\<rparr> =
     (None, \<lparr>dba_revision = Some ''002_compound_indexes'', dba_schema = task_schema\<rparr>)"
  "do_run_migrations user_migrations \<lparr>dba_revision = Some ''002_email_verification'', dba_schema = s\<rparr> =
     (None, \<lparr>dba_revision = Some ''002_email_verification'', dba_schema = s\<rparr>)"
  "do_run_migrations task_migrations \<lparr>dba_revision = Some ''002_compound_indexes'', dba_schema = s\<rparr> =
     (None, \<lparr>dba_revision = Some ''002_compound_indexes'', dba_schema = s\<rparr>)"
  using users_head(1) tasks_head(1)
  by (simp_all add: do_run_migrations_def pending_def user_migrations_def task_migrations_def users_initial_def
      users_email_verification_def tasks_initial_def tasks_compound_indexes_def del: upgrade_head.simps(2))


definition demo_alembic :: alembic_env where
  "demo_alembic = \<lparr>ae_async_driver = (\<lambda>d. d = ''postgresql+asyncpg''), ae_options = (\<lambda>_. None), ae_connects = True\<rparr>"


end
