(* ===== verification/Telemetry.thy ===== *)
theory Telemetry
  imports PyText
begin

text \<open>
  The set-up of tracing (\<^verbatim>\<open>telemetry.py\<close>), which differs between the services in what it instruments: as
  the list of the calls it makes in order, each of which may raise. \<open>raises\<close> is that behaviour of the
  OpenTelemetry packages, an \<open>ImportError\<close> for one that is not installed included.
\<close>

datatype telemetry_error = ImportError string | OtherError string

datatype telemetry_call =
    ImportSdk
  | SetTracerProvider string string
  | InstrumentApp
  | ImportSqlalchemy
  | InstrumentEngine
  | ImportHttpx
  | InstrumentHttpx

text \<open>What is set up, and what the last line of the log says.\<close>

datatype telemetry_report = TracingOff | Exporting string | PackagesMissing string | InitFailed string

record tracing =
  tr_provider :: "(string \<times> string) option"
  tr_instrumented :: "string list"
  tr_report :: "telemetry_report option"

definition no_tracing :: tracing where
  "no_tracing = \<lparr>tr_provider = None, tr_instrumented = [], tr_report = None\<rparr>"

definition tr_say :: "telemetry_report \<Rightarrow> tracing \<Rightarrow> tracing" where
  "tr_say what t = t\<lparr>tr_report := Some what\<rparr>"

definition instrument :: "string \<Rightarrow> tracing \<Rightarrow> tracing" where
  "instrument what t = t\<lparr>tr_instrumented := tr_instrumented t @ [what]\<rparr>"

fun telemetry_effect :: "telemetry_call \<Rightarrow> tracing \<Rightarrow> tracing" where
  "telemetry_effect (SetTracerProvider service endpoint) t = t\<lparr>tr_provider := Some (service, endpoint)\<rparr>"
| "telemetry_effect InstrumentApp t = instrument ''fastapi'' t"
| "telemetry_effect InstrumentEngine t = instrument ''sqlalchemy'' t"
| "telemetry_effect InstrumentHttpx t = instrument ''httpx'' t"
| "telemetry_effect _ t = t"

fun telemetry_calls ::
  "(telemetry_call \<Rightarrow> telemetry_error option) \<Rightarrow> telemetry_call list \<Rightarrow> tracing \<Rightarrow> telemetry_error option \<times> tracing"
where
  "telemetry_calls raises [] t = (None, t)"
| "telemetry_calls raises (c # cs) t =
     (case raises c of
        Some e \<Rightarrow> (Some e, t)
      | None \<Rightarrow> telemetry_calls raises cs (telemetry_effect c t))"

text \<open>\<open>endpoint\<close> is the variable \<^verbatim>\<open>OTEL_EXPORTER_OTLP_ENDPOINT\<close>, empty if it is not set.\<close>

definition telemetry_off :: "string \<Rightarrow> bool" where
  "telemetry_off endpoint \<longleftrightarrow> endpoint = [] \<or> py_lower endpoint = ''disabled''"

text \<open>The \<^verbatim>\<open>try\<close> block and its two handlers; neither lets an exception out.\<close>

definition guarded_calls ::
  "(telemetry_call \<Rightarrow> telemetry_error option) \<Rightarrow> telemetry_call list \<Rightarrow> string \<Rightarrow> tracing \<Rightarrow> tracing"
where
  "guarded_calls raises calls endpoint t =
     (case telemetry_calls raises calls t of
        (None, t') \<Rightarrow> tr_say (Exporting endpoint) t'
      | (Some (ImportError e), t') \<Rightarrow> tr_say (PackagesMissing e) t'
      | (Some (OtherError e), t') \<Rightarrow> tr_say (InitFailed e) t')"

definition base_calls :: "string \<Rightarrow> string \<Rightarrow> telemetry_call list" where
  "base_calls service endpoint = [ImportSdk, SetTracerProvider service endpoint, InstrumentApp]"

definition init_telemetry ::
  "(telemetry_call \<Rightarrow> telemetry_error option) \<Rightarrow> string \<Rightarrow> string \<Rightarrow> bool \<Rightarrow> bool \<Rightarrow> tracing \<Rightarrow> tracing"
where
  "init_telemetry raises endpoint service db_engine instrument_httpx t =
     (if telemetry_off endpoint then tr_say TracingOff t
      else guarded_calls raises
             (base_calls service endpoint @
              (if db_engine then [ImportSqlalchemy, InstrumentEngine] else []) @
              (if instrument_httpx then [ImportHttpx, InstrumentHttpx] else []))
             endpoint t)"

text \<open>The user and the task service never instrument \<^verbatim>\<open>httpx\<close>, the notification service nothing but itself.\<close>

definition init_telemetry_db ::
  "(telemetry_call \<Rightarrow> telemetry_error option) \<Rightarrow> string \<Rightarrow> string \<Rightarrow> bool \<Rightarrow> tracing \<Rightarrow> tracing"
where
  "init_telemetry_db raises endpoint service db_engine t =
     (if telemetry_off endpoint then tr_say TracingOff t
      else guarded_calls raises
             (base_calls service endpoint @ (if db_engine then [ImportSqlalchemy, InstrumentEngine] else []))
             endpoint t)"

definition init_telemetry_plain ::
  "(telemetry_call \<Rightarrow> telemetry_error option) \<Rightarrow> string \<Rightarrow> string \<Rightarrow> tracing \<Rightarrow> tracing"
where
  "init_telemetry_plain raises endpoint service t =
     (if telemetry_off endpoint then tr_say TracingOff t
      else guarded_calls raises (base_calls service endpoint) endpoint t)"

lemma init_telemetry_variants:
  "init_telemetry_db raises endpoint service d = init_telemetry raises endpoint service d False"
  "init_telemetry_plain raises endpoint service = init_telemetry raises endpoint service False False"
  by (simp_all add: init_telemetry_db_def init_telemetry_plain_def init_telemetry_def fun_eq_iff)

text \<open>The calls up to the first one that raises are made, and nothing takes them back.\<close>

lemma telemetry_calls_done:
  "telemetry_calls raises cs t =
     ((case dropWhile (\<lambda>c. raises c = None) cs of [] \<Rightarrow> None | c # _ \<Rightarrow> raises c),
      fold telemetry_effect (takeWhile (\<lambda>c. raises c = None) cs) t)"
  by (induction cs arbitrary: t) (auto split: option.split)

text \<open>
  The report of a call that raises is that tracing is disabled. It is not, if the call is one of the
  later ones: with the package for the engine missing, the provider stays set and the application
  instrumented.
\<close>

lemma telemetry_partly_on:
  assumes "\<not> telemetry_off endpoint" "raises ImportSqlalchemy = Some (ImportError e)"
    and "\<And>c. c \<noteq> ImportSqlalchemy \<Longrightarrow> raises c = None"
  shows "init_telemetry_db raises endpoint service True no_tracing =
    \<lparr>tr_provider = Some (service, endpoint), tr_instrumented = [''fastapi''], tr_report = Some (PackagesMissing e)\<rparr>"
  using assms
  by (simp add: init_telemetry_db_def guarded_calls_def base_calls_def no_tracing_def instrument_def tr_say_def)

text \<open>A set-up in which nothing raises instruments what its service has.\<close>

lemma telemetry_complete:
  assumes "\<not> telemetry_off endpoint" "\<And>c. raises c = None"
  shows "init_telemetry raises endpoint service db_engine httpx no_tracing =
    \<lparr>tr_provider = Some (service, endpoint),
     tr_instrumented = ''fastapi'' # (if db_engine then [''sqlalchemy''] else []) @ (if httpx then [''httpx''] else []),
     tr_report = Some (Exporting endpoint)\<rparr>"
  using assms
  by (simp add: init_telemetry_def guarded_calls_def base_calls_def no_tracing_def instrument_def tr_say_def)

end
