(* ===== verification/Spec2Isabelle.thy ===== *)
theory Spec2Isabelle
  imports Platform Topics ChaosTime Explainers Mailer Races TaskRaces Lifespans Deployment Telemetry
begin

text \<open>
  A verification library of a task-management platform of Python microservices under
  \<^verbatim>\<open>src/services\<close>.

  \<^bold>\<open>The program.\<close> Clients talk to the API gateway (\<^verbatim>\<open>api-gateway\<close>). It limits bodies and request rates, checks
  the JWT, signs the identity it found into headers with a shared HMAC secret, and forwards the request
  to one of three backends behind a circuit breaker per backend. The user service (\<^verbatim>\<open>user-service\<close>)
  keeps the accounts in a database and refresh, verification and reset tokens in Redis, and issues the
  JWTs. The task service (\<^verbatim>\<open>task-service\<close>) keeps tasks and projects, replays creations by idempotency
  key, and publishes an event for each change to a Service Bus topic. The notification service
  (\<^verbatim>\<open>notification-service\<close>) consumes the events and streams each to the users it concerns. Every
  backend checks the signature of the identity headers before it believes them. Apart from these, the
  chaos controller (\<^verbatim>\<open>chaos-controller\<close>) simulates a cluster under 23 kinds of failure and streams what
  happens to browsers.

  Files that the repository holds in several identical copies (\<^verbatim>\<open>identity_signing.py\<close>,
  \<^verbatim>\<open>jwt_keyring.py\<close>, \<^verbatim>\<open>security_headers.py\<close> of the backends) are modelled once.

  \<^bold>\<open>Ground.\<close>
    \<^item> \<open>Prelude\<close>: JSON values, responses, dicts, errors of a handler, lemmas on association lists.
    \<^item> \<open>PyText\<close>, \<open>PyCodec\<close>, \<open>PyJson\<close>: the parts of the Python standard library the services use:
      strings, UUIDs, UTF-8, base64, \<^verbatim>\<open>json.dumps\<close> and \<^verbatim>\<open>json.loads\<close>, with their round trips.
    \<^item> \<open>Queues\<close>: bounded queues, and the locale of their first-in first-out law, interpreted for every
      bound; the streams of the notification service and of the chaos controller rest on it.
    \<^item> \<open>Http\<close>: requests, header look-up, handlers \<^verbatim>\<open>request -> world -> response or exception, world\<close>.
    \<^item> \<open>Interleaving\<close>: handlers cut at their awaits (\<open>Done\<close>, \<open>Await\<close>), systems of them in which
      any may take the next turn, and two locales: a condition every turn of every handler keeps, and a
      race that at most one contender wins.

  \<^bold>\<open>API gateway.\<close>
    \<^item> \<open>Keyring\<close> (\<^verbatim>\<open>jwt_keyring.py\<close>): the parser of \<^verbatim>\<open>JWT_KEYS\<close>, the choice of the signing and the
      verification key, and rotation of keys.
    \<^item> \<open>Identity\<close> (\<^verbatim>\<open>identity_signing.py\<close>): canonical envelope, signer, verifier, middleware.
    \<^item> \<open>CircuitBreaker\<close> (\<^verbatim>\<open>circuit_breaker.py\<close>): the breaker with its registry, and the three-state
      machine it implements.
    \<^item> \<open>RateLimiter\<close> (\<^verbatim>\<open>middleware/rate_limiter.py\<close>): both stores, the dispatch, and the reference
      definition of a sliding window.
    \<^item> \<open>BodySize\<close>, \<open>GatewayAuth\<close> (\<^verbatim>\<open>middleware/body_size.py\<close>, \<^verbatim>\<open>middleware/auth.py\<close>).
    \<^item> \<open>Proxy\<close> (\<^verbatim>\<open>routes/proxy.py\<close>): routing, the forwarded headers, retries, streamed and relayed
      responses.
    \<^item> \<open>Gateway\<close> (\<^verbatim>\<open>main.py\<close> and the other middlewares): the application in the order its layers run.
    \<^item> \<open>Configuration\<close>: the settings of all five services (each \<^verbatim>\<open>config.py\<close>).

  \<^bold>\<open>User service.\<close>
    \<^item> \<open>TokenStore\<close> (\<^verbatim>\<open>redis_client.py\<close>) with the laws of Redis, \<open>UserModel\<close> (\<^verbatim>\<open>models.py\<close>,
      \<^verbatim>\<open>schemas.py\<close>, \<^verbatim>\<open>audit.py\<close>, \<^verbatim>\<open>database.py\<close>), \<open>Auth\<close> and \<open>Users\<close> (\<^verbatim>\<open>routes/\<close>, \<^verbatim>\<open>dependencies.py\<close>),
      \<open>Mailer\<close> (\<^verbatim>\<open>email.py\<close>).
    \<^item> \<open>UserProps\<close>, \<open>Sessions\<close>, \<open>Accounts\<close>: the invariant of the table under any history of requests
      and restarts, outcomes of registration and login, the lockout, what refresh and reset do to
      sessions, the administration rules, and what must not be disclosed.
    \<^item> \<open>Routes\<close>: the routers of the user and of the task service (the decorators of \<^verbatim>\<open>routes/\<close> with the
      prefixes of \<^verbatim>\<open>main.py\<close>) as tables: which function a request reaches, how path, query and body become
      its arguments, and the document it is answered with.
    \<^item> \<open>Races\<close>: refreshes and logouts that overlap, at the granularity of their awaits.

  \<^bold>\<open>Task service.\<close>
    \<^item> \<open>TaskModel\<close> (\<^verbatim>\<open>models.py\<close>, \<^verbatim>\<open>schemas.py\<close>, \<^verbatim>\<open>idempotency.py\<close>, the Service Bus sender),
      \<open>Pagination\<close> (\<^verbatim>\<open>pagination.py\<close>), \<open>Tasks\<close> (\<^verbatim>\<open>routes/\<close>).
      Its router is in \<open>Routes\<close>.
    \<^item> \<open>TaskProps\<close>, \<open>TaskPrivacy\<close>, \<open>TaskReplay\<close>: ownership, confidentiality as non-interference,
      clean texts, pages against the plain listing, failed requests, replay of a creation.
    \<^item> \<open>TaskRaces\<close>: creations that overlap, in the two steps up to and from the look-up of the key.

  \<^bold>\<open>Notification service.\<close>
    \<^item> \<open>Broadcaster\<close> (\<^verbatim>\<open>broadcaster.py\<close>), \<open>Consumer\<close> (\<^verbatim>\<open>consumer.py\<close>, \<^verbatim>\<open>routes/stream.py\<close>, \<^verbatim>\<open>main.py\<close>),
      \<open>Topics\<close> (one round over all topics, one step per message), and \<open>Notify\<close> with the properties:
      settlement of messages and which streams hear of a task.

  \<^bold>\<open>All backends.\<close>
    \<^item> \<open>Backends\<close>: security headers, probes, layers. \<open>Migrations\<close>: the Alembic revisions as scripts on
      a schema, against the tables of the ORM. \<open>Lifespans\<close>: start and stop of the five applications,
      with the locale of the contract start, requests and stop share. \<open>Deployment\<close>: the environment of
      Alembic (\<^verbatim>\<open>alembic/env.py\<close>) with the interpolation of its configuration, and the entry point of the
      containers. \<open>Telemetry\<close> (\<^verbatim>\<open>telemetry.py\<close>): the set-up of tracing. \<open>EndToEnd\<close>: a request through
      the gateway into a backend, and a token from the login to its use. \<open>Platform\<close>: gateway and user service
      as one program, from the client's request to the profile it is answered with.

  \<^bold>\<open>Chaos controller.\<close>
    \<^item> \<open>EventHub\<close> (\<^verbatim>\<open>events.py\<close>, \<^verbatim>\<open>config.py\<close>), \<open>Cluster\<close>, \<open>ChaosActions\<close>, \<open>ChaosLoop\<close>
      (\<^verbatim>\<open>cluster.py\<close>): the actions as lists of instructions, run by tasks that sleep and queue for the
      lock; \<open>ChaosMain\<close>, \<open>Explainers\<close> (\<^verbatim>\<open>main.py\<close>, \<^verbatim>\<open>explainers.py\<close>).
    \<^item> \<open>ChaosProps\<close>, \<open>ChaosManual\<close>, \<open>ChaosTime\<close>: manual triggers put the charts back in any
      interleaving, and every action ends within a bound.

  \<^bold>\<open>Conventions.\<close> Tables are lists of rows in the order of insertion; the session around a route rolls
  back on an exception. Exceptions are values: \<^const>\<open>HTTPException\<close> is answered by the framework,
  \<^const>\<open>ServerError\<close> is a 500. Floats are exact rationals and the clocks are readings an operation gets.
  A character is a code point below 256; texts of the chaos controller with other characters are written in
  ASCII, and its emoji icons are an argument.

  \<^bold>\<open>Libraries as arguments.\<close> The JWT library, HMAC, bcrypt, the HTTP client, the Service Bus, SMTP, Redis,
  the CORS layer and the exporter of metrics, the naming of enums by SQLAlchemy, the reading of settings
  by pydantic, dates in ISO form, random draws, and what the framework reads of a request (the record
  \<^typ>\<open>framework\<close>: the decoded body, query parameters, the reading of numbers and UUIDs). What is assumed of one stands as a named hypothesis in
  the theorem that needs it: \<^const>\<open>redis_laws\<close> for Redis, discharged by an implementation in memory
  (\<^const>\<open>mem_ops\<close>), that two JWT calls are inverse, \<^const>\<open>delivers\<close> for the HTTP client, or
  \<^const>\<open>cors_transparent\<close> for the CORS layer. Claims about authenticity have the form that what
  is accepted was signed with the secret; that HMAC cannot be forged is not stated.

  \<^bold>\<open>Bounds.\<close> There is no fuel that could run out. Loops of the source are recursion on the list they walk:
  the attempts of the proxy on its schedule of waits, at most three; the messages of a
  receiver; the instructions of a chaos action. Queues hold 100 (streams of users) and 1000 events (chaos
  streams), the limiter keeps 10000 addresses, an account is locked after 10 failures in 900 seconds.
  Loops that never end in the source (\<^verbatim>\<open>run\<close> of the consumer, the ambient drift) are one step
  per round, and the statements hold of any number of rounds.

  \<^bold>\<open>Overlap.\<close> Requests run one after the other in the histories (\<^const>\<open>user_step\<close>, \<^const>\<open>task_step\<close>);
  \<open>Races\<close>, \<open>TaskRaces\<close>, \<open>Topics\<close> and the chaos theories let them overlap, at the grain their texts name.

  \<^bold>\<open>Deviations shown.\<close> Several theorems state what the code does against its comments or its intent: a
  listing followed page by page loses a task at each full page, the enum labels the ORM writes are not
  those the migrations create, a password reset leaves the sessions alive, overlapping creations with
  one key both create, two accounts matching one registration end in a 500, a container with the default address of the database
  does not come up, and the refusals of the
  outer layers of the gateway are neither limited nor hardened.

  \<^bold>\<open>Not modelled.\<close> The set-up of logging; the live cluster beyond its set-up, whose actions are
  empty in the source; the documentation pages of the framework; log lines other than audit events and
  mails; tests and the load generator; the front end and the infrastructure files, which are not Python.
\<close>

end
